(* ===== verification/Prelude.thy ===== *)
theory Prelude
  imports
    Main
    "HOL-Library.AList"
    "HOL-Library.Multiset"
    "HOL-Library.Sublist"
    "HOL-Library.List_Lexorder"
    "HOL-Library.Char_ord"
    "HOL-Library.Product_Lexorder"
begin

text \<open>
  What every component of the notification service shares: the collections of simplification
  rules, the reading of Go's time, integers and strings, a state-and-error monad for operations
  that may fail after having changed the state, and tables (Go maps from ids to rows) as
  association lists with their algebra.
\<close>

named_theorems op_simps \<open>unfolding of the state-and-error combinators\<close>
named_theorems table_simps \<open>lookups in updated tables\<close>
named_theorems frame_simps \<open>what an operation leaves unchanged\<close>

section \<open>Operations: state passing with Go's error returns\<close>

text \<open>
  A Go method with receiver state \<open>'s\<close> and results \<open>('a, error)\<close> is a function from the
  state to the outcome (\<open>Inl\<close> the error) and the state it leaves behind. A method that returns an
  error keeps the changes it has made so far, so the state is returned in both cases.
\<close>

type_synonym ('s, 'e, 'a) op = "'s \<Rightarrow> ('e + 'a) \<times> 's"

definition returnE :: "'a \<Rightarrow> ('s, 'e, 'a) op" where
  [op_simps]: "returnE x s = (Inr x, s)"

definition failE :: "'e \<Rightarrow> ('s, 'e, 'a) op" where
  [op_simps]: "failE e s = (Inl e, s)"

definition bindE :: "('s, 'e, 'a) op \<Rightarrow> ('a \<Rightarrow> ('s, 'e, 'b) op) \<Rightarrow> ('s, 'e, 'b) op" where
  "bindE f g s = (case f s of (Inl e, s') \<Rightarrow> (Inl e, s') | (Inr x, s') \<Rightarrow> g x s')"

text \<open>\<open>if cond { return err }\<close> followed by the rest of the body.\<close>

definition refuseE :: "bool \<Rightarrow> 'e \<Rightarrow> ('s, 'e, unit) op" where
  "refuseE c e s = (if c then (Inl e, s) else (Inr (), s))"

text \<open>Reading a value computed from the state, changing the state, and mapping an error.\<close>

definition getE :: "('s \<Rightarrow> 'a) \<Rightarrow> ('s, 'e, 'a) op" where
  [op_simps]: "getE f s = (Inr (f s), s)"

definition modifyE :: "('s \<Rightarrow> 's) \<Rightarrow> ('s, 'e, unit) op" where
  [op_simps]: "modifyE f s = (Inr (), f s)"

definition mapErrE :: "('e \<Rightarrow> 'e) \<Rightarrow> ('s, 'e, 'a) op \<Rightarrow> ('s, 'e, 'a) op" where
  "mapErrE h f s = (case f s of (Inl e, s') \<Rightarrow> (Inl (h e), s') | (Inr x, s') \<Rightarrow> (Inr x, s'))"

lemma bindE_returnE [op_simps]: "bindE (returnE x) g = g x"
  by (rule ext) (simp add: bindE_def returnE_def)

lemma bindE_failE [op_simps]: "bindE (failE e) g = failE e"
  by (rule ext) (simp add: bindE_def failE_def)

lemma bindE_getE [op_simps]: "bindE (getE f) g s = g (f s) s"
  by (simp add: bindE_def getE_def)

lemma bindE_modifyE [op_simps]: "bindE (modifyE f) g s = g () (f s)"
  by (simp add: bindE_def modifyE_def)

lemma bindE_assoc: "bindE (bindE f g) h = bindE f (\<lambda>x. bindE (g x) h)"
  by (rule ext) (auto simp: bindE_def split: prod.splits sum.splits)

lemma bindE_refuseE [op_simps]:
  "bindE (refuseE c e) g s = (if c then (Inl e, s) else g () s)"
  by (simp add: bindE_def refuseE_def)

lemma bindE_Inr_iff:
  "bindE f g s = (Inr y, s') \<longleftrightarrow> (\<exists>x s1. f s = (Inr x, s1) \<and> g x s1 = (Inr y, s'))"
  by (auto simp: bindE_def split: prod.splits sum.splits)

lemma bindE_InrE:
  assumes "bindE f g s = (Inr y, s')"
  obtains x s1 where "f s = (Inr x, s1)" and "g x s1 = (Inr y, s')"
  using assms by (auto simp: bindE_Inr_iff)

lemma bindE_Inl_iff:
  "bindE f g s = (Inl e, s') \<longleftrightarrow>
     f s = (Inl e, s') \<or> (\<exists>x s1. f s = (Inr x, s1) \<and> g x s1 = (Inl e, s'))"
  by (auto simp: bindE_def split: prod.splits sum.splits)

lemma bindE_InrI: "f s = (Inr x, s1) \<Longrightarrow> bindE f g s = g x s1"
  by (simp add: bindE_def)

lemma bindE_InlI: "f s = (Inl e, s1) \<Longrightarrow> bindE f g s = (Inl e, s1)"
  by (simp add: bindE_def)

text \<open>An operation keeps a predicate (or a relation to the start) when its parts do.\<close>

definition keeps :: "('s \<Rightarrow> bool) \<Rightarrow> ('s, 'e, 'a) op \<Rightarrow> bool" where
  "keeps P f \<longleftrightarrow> (\<forall>s. P s \<longrightarrow> P (snd (f s)))"

lemma keepsI: "(\<And>s. P s \<Longrightarrow> P (snd (f s))) \<Longrightarrow> keeps P f"
  by (simp add: keeps_def)

lemma keepsD: "keeps P f \<Longrightarrow> P s \<Longrightarrow> f s = (r, s') \<Longrightarrow> P s'"
  by (metis keeps_def snd_conv)

lemma keeps_returnE [intro]: "keeps P (returnE x)"
  by (simp add: keeps_def returnE_def)

lemma keeps_failE [intro]: "keeps P (failE e)"
  by (simp add: keeps_def failE_def)

lemma keeps_refuseE [intro]: "keeps P (refuseE c e)"
  by (simp add: keeps_def refuseE_def)

lemma keeps_getE [intro]: "keeps P (getE f)"
  by (simp add: keeps_def getE_def)

lemma keeps_modifyE [intro]: "(\<And>s. P s \<Longrightarrow> P (f s)) \<Longrightarrow> keeps P (modifyE f)"
  by (simp add: keeps_def modifyE_def)

lemma keeps_bindE [intro]: "keeps P f \<Longrightarrow> (\<And>x. keeps P (g x)) \<Longrightarrow> keeps P (bindE f g)"
  unfolding keeps_def bindE_def by (fastforce split: prod.splits sum.splits)

lemma keeps_mapErrE [intro]: "keeps P f \<Longrightarrow> keeps P (mapErrE h f)"
  unfolding keeps_def mapErrE_def by (fastforce split: prod.splits sum.splits)

lemma keeps_if [intro]: "(c \<Longrightarrow> keeps P f) \<Longrightarrow> (\<not> c \<Longrightarrow> keeps P g) \<Longrightarrow> keeps P (if c then f else g)"
  by simp

section \<open>Time\<close>

text \<open>
  \<open>time.Time\<close> is the number of nanoseconds since Go's zero time (January 1, year 1, UTC), so
  \<open>time.Time{}\<close> is 0 and \<open>IsZero\<close> tests for 0; \<open>Before\<close>, \<open>After\<close>, \<open>Equal\<close> and
  \<open>Add\<close> are the order, equality and addition of integers. A \<open>*time.Time\<close> is an option.
\<close>

type_synonym time = int
type_synonym duration = int

definition Second :: duration where "Second = 1000000000"
definition Minute :: duration where "Minute = 60 * Second"
definition Hour :: duration where "Hour = 60 * Minute"

text \<open>Seconds between Go's zero time and the Unix epoch.\<close>

definition unix_epoch :: time where "unix_epoch = 62135596800 * Second"

definition IsZero :: "time \<Rightarrow> bool" where "IsZero t \<longleftrightarrow> t = 0"

definition UnixMilli :: "time \<Rightarrow> int" where "UnixMilli t = (t - unix_epoch) div 1000000"

definition Unix :: "time \<Rightarrow> int" where "Unix t = (t - unix_epoch) div Second"

text \<open>Go's integer division truncates towards zero.\<close>

definition go_div :: "int \<Rightarrow> int \<Rightarrow> int" where
  "go_div a b = sgn a * sgn b * (\<bar>a\<bar> div \<bar>b\<bar>)"

lemma go_div_nonneg: "0 \<le> a \<Longrightarrow> 0 < b \<Longrightarrow> go_div a b = a div b"
  by (cases "a = 0") (auto simp: go_div_def)

definition MaxInt64 :: int where "MaxInt64 = 2 ^ 63 - 1"
definition MinInt64 :: int where "MinInt64 = - (2 ^ 63)"

text \<open>\<open>Time.Sub\<close> saturates at the bounds of a 64-bit duration.\<close>

definition time_Sub :: "time \<Rightarrow> time \<Rightarrow> duration" where
  "time_Sub t u = max MinInt64 (min MaxInt64 (t - u))"

section \<open>Strings\<close>

text \<open>
  A Go string is a sequence of bytes, here a list of 8-bit characters; \<open>len\<close> counts bytes and
  \<open><\<close> compares bytewise. \<open>strings.ToLower\<close> is modelled on ASCII letters: bytes outside
  \<open>A..Z\<close> are kept, so names with other scripts compare by their bytes.
\<close>

definition lower_char :: "char \<Rightarrow> char" where
  "lower_char c = (if 65 \<le> (of_char c :: nat) \<and> (of_char c :: nat) \<le> 90
                   then char_of ((of_char c :: nat) + 32) else c)"

definition ToLower :: "string \<Rightarrow> string" where
  "ToLower s = map lower_char s"

fun Contains :: "string \<Rightarrow> string \<Rightarrow> bool" where
  "Contains [] p \<longleftrightarrow> p = []"
| "Contains (c # s) p \<longleftrightarrow> prefix p (c # s) \<or> Contains s p"

lemma Contains_sublist: "Contains s p \<longleftrightarrow> sublist p s"
  by (induction s) (auto simp: sublist_Cons_right)

definition ContainsAny :: "string \<Rightarrow> string \<Rightarrow> bool" where
  "ContainsAny s cs \<longleftrightarrow> list_ex (\<lambda>c. c \<in> set cs) s"

text \<open>\<open>strings.Cut\<close> at a single byte, and \<open>strings.CutPrefix\<close>.\<close>

fun Cut :: "char \<Rightarrow> string \<Rightarrow> string \<times> string \<times> bool" where
  "Cut d [] = ([], [], False)"
| "Cut d (c # s) = (if c = d then ([], s, True)
                    else (let (a, b, ok) = Cut d s in (c # a, b, ok)))"

definition CutPrefix :: "string \<Rightarrow> string \<Rightarrow> string \<times> bool" where
  "CutPrefix s p = (if prefix p s then (drop (length p) s, True) else (s, False))"

lemma Cut_notin: "d \<notin> set s \<Longrightarrow> Cut d s = (s, [], False)"
  by (induction s) auto

lemma Cut_append: "d \<notin> set a \<Longrightarrow> Cut d (a @ d # b) = (a, b, True)"
  by (induction a) auto

lemma Cut_True: "Cut d s = (a, b, True) \<Longrightarrow> s = a @ d # b \<and> d \<notin> set a"
  by (induction s arbitrary: a) (auto split: prod.splits if_splits)

text \<open>\<open>strings.Split\<close> and \<open>strings.Join\<close> at a single byte.\<close>

fun Split :: "char \<Rightarrow> string \<Rightarrow> string list" where
  "Split d [] = [[]]"
| "Split d (c # s) = (if c = d then [] # Split d s
                      else (case Split d s of [] \<Rightarrow> [[c]] | w # ws \<Rightarrow> (c # w) # ws))"

fun Join :: "string list \<Rightarrow> char \<Rightarrow> string" where
  "Join [] d = []"
| "Join [w] d = w"
| "Join (w # ws) d = w @ d # Join ws d"

lemma Split_not_Nil [simp]: "Split d s \<noteq> []"
  by (cases s) (auto split: list.splits)

lemma Split_notin: "d \<notin> set w \<Longrightarrow> Split d w = [w]"
  by (induction w) auto

lemma Split_append: "d \<notin> set w \<Longrightarrow> Split d (w @ d # s) = w # Split d s"
  by (induction w) auto

lemma Split_Join:
  assumes "ws \<noteq> []" and "\<And>w. w \<in> set ws \<Longrightarrow> d \<notin> set w"
  shows "Split d (Join ws d) = ws"
  using assms
proof (induction ws d rule: Join.induct)
  case (3 w v vs d)
  then have "Split d (Join (v # vs) d) = v # vs" by simp
  with 3 show ?case by (simp add: Split_append)
qed (auto simp: Split_notin)

text \<open>\<open>strings.ReplaceAll\<close> for a non-empty pattern: leftmost matches, left to right.\<close>

function ReplaceAll :: "string \<Rightarrow> string \<Rightarrow> string \<Rightarrow> string" where
  "ReplaceAll s old new =
     (if old = [] then new @ concat (map (\<lambda>c. c # new) s)
      else case s of
        [] \<Rightarrow> []
      | c # t \<Rightarrow> if prefix old s then new @ ReplaceAll (drop (length old) s) old new
                else c # ReplaceAll t old new)"
  by pat_completeness auto
termination
  by (relation "measure (\<lambda>(s, old, new). length s)") (auto simp: diff_less_Suc)

declare ReplaceAll.simps [simp del]

lemma ReplaceAll_Nil: "old \<noteq> [] \<Longrightarrow> ReplaceAll [] old new = []"
  by (subst ReplaceAll.simps) simp

lemma ReplaceAll_match:
  "old \<noteq> [] \<Longrightarrow> prefix old s \<Longrightarrow>
     ReplaceAll s old new = new @ ReplaceAll (drop (length old) s) old new"
  by (subst ReplaceAll.simps) (auto split: list.splits)

lemma ReplaceAll_skip:
  "old \<noteq> [] \<Longrightarrow> \<not> prefix old (c # t) \<Longrightarrow> ReplaceAll (c # t) old new = c # ReplaceAll t old new"
  by (subst ReplaceAll.simps) simp

text \<open>\<open>*string\<close> read with "" for nil.\<close>

definition strp :: "string option \<Rightarrow> string" where
  "strp p = (case p of None \<Rightarrow> '''' | Some s \<Rightarrow> s)"

lemma strp_simps [simp]: "strp None = ''''" "strp (Some s) = s"
  by (simp_all add: strp_def)

section \<open>Tables\<close>

text \<open>
  A Go \<open>map[string]Row\<close> is an association list with distinct keys; its order is the order in
  which \<open>range\<close> visits the entries, about which nothing is assumed.
\<close>

type_synonym 'r table = "(string \<times> 'r) list"

definition rows :: "'r table \<Rightarrow> 'r list" where
  "rows t = map snd t"

text \<open>\<open>for id, r := range m { if p(r) { m[id] = f(r) } }\<close>\<close>

definition map_rows :: "(string \<Rightarrow> 'r \<Rightarrow> 'r) \<Rightarrow> 'r table \<Rightarrow> 'r table" where
  "map_rows f t = map (\<lambda>(k, r). (k, f k r)) t"

text \<open>\<open>for id, r := range m { if p(id, r) { delete(m, id) } }\<close>\<close>

definition drop_rows :: "(string \<Rightarrow> 'r \<Rightarrow> bool) \<Rightarrow> 'r table \<Rightarrow> 'r table" where
  "drop_rows p t = filter (\<lambda>(k, r). \<not> p k r) t"

text \<open>A table is well formed when its keys are distinct and every row sits under its own id.\<close>

definition wf_table :: "('r \<Rightarrow> string) \<Rightarrow> 'r table \<Rightarrow> bool" where
  "wf_table idf t \<longleftrightarrow> distinct (map fst t) \<and> list_all (\<lambda>(k, r). idf r = k) t"

lemma wf_table_Nil [simp]: "wf_table idf []"
  by (simp add: wf_table_def)

lemma wf_table_lookup: "wf_table idf t \<Longrightarrow> map_of t k = Some r \<Longrightarrow> idf r = k"
  by (auto simp: wf_table_def list_all_iff dest: map_of_SomeD)

lemma wf_table_mem:
  "wf_table idf t \<Longrightarrow> r \<in> set (rows t) \<longleftrightarrow> map_of t (idf r) = Some r"
  by (force simp: wf_table_def rows_def list_all_iff)

lemma wf_table_update:
  assumes "wf_table idf t" and "idf r = k"
  shows "wf_table idf (AList.update k r t)"
proof -
  have "set (AList.update k r t) \<subseteq> insert (k, r) (set t)"
    by (induction t) auto
  with assms show ?thesis
    by (auto simp: wf_table_def list_all_iff distinct_update)
qed

lemma wf_table_delete: "wf_table idf t \<Longrightarrow> wf_table idf (AList.delete k t)"
  by (auto simp: wf_table_def list_all_iff AList.delete_eq distinct_map_filter)

lemma wf_table_drop_rows: "wf_table idf t \<Longrightarrow> wf_table idf (drop_rows p t)"
  by (auto simp: wf_table_def list_all_iff drop_rows_def distinct_map_filter)

lemma wf_table_map_rows:
  "wf_table idf t \<Longrightarrow> (\<And>k r. idf (f k r) = idf r) \<Longrightarrow> wf_table idf (map_rows f t)"
  by (auto simp: wf_table_def map_rows_def list_all_iff comp_def case_prod_beta)

lemma map_of_map_rows [table_simps]:
  "map_of (map_rows f t) k = map_option (f k) (map_of t k)"
  by (induction t) (auto simp: map_rows_def)

lemma map_of_drop_rows [table_simps]:
  assumes "distinct (map fst t)"
  shows "map_of (drop_rows p t) k =
    (case map_of t k of None \<Rightarrow> None | Some r \<Rightarrow> if p k r then None else Some r)"
  using assms
proof (induction t)
  case (Cons kr t)
  then have "map_of t (fst kr) = None"
    by (simp add: map_of_eq_None_iff)
  with Cons show ?case
    by (auto simp: drop_rows_def split: option.splits)
qed (simp add: drop_rows_def)

lemma distinct_map_rows [simp]: "distinct (map fst (map_rows f t)) = distinct (map fst t)"
  by (simp add: map_rows_def comp_def case_prod_beta)

lemma rows_map_rows: "rows (map_rows f t) = map (\<lambda>(k, r). f k r) t"
  by (simp add: rows_def map_rows_def comp_def case_prod_beta)

lemma rows_drop_rows: "rows (drop_rows p t) = map snd (filter (\<lambda>(k, r). \<not> p k r) t)"
  by (simp add: rows_def drop_rows_def)

lemma rows_update_fresh: "map_of t k = None \<Longrightarrow> rows (AList.update k r t) = rows t @ [r]"
  by (induction t) (auto simp: rows_def split: if_splits)

lemma map_of_update [table_simps]:
  "map_of (AList.update k r t) k' = (if k' = k then Some r else map_of t k')"
  by (simp add: update_conv')

lemma map_of_delete' [table_simps]:
  "map_of (AList.delete k t) k' = (if k' = k then None else map_of t k')"
  by (simp add: delete_conv')

lemma mem_rows_iff: "r \<in> set (rows t) \<longleftrightarrow> (\<exists>k. (k, r) \<in> set t)"
  by (force simp: rows_def)

text \<open>Replacing a row keeps the rows of the other keys.\<close>

lemma set_update_distinct:
  "distinct (map fst t) \<Longrightarrow> set (AList.update k r t) = insert (k, r) {(l, y) \<in> set t. l \<noteq> k}"
  by (induction t) (auto simp: image_iff)

lemma rows_update_set:
  "distinct (map fst t) \<Longrightarrow> set (rows (AList.update k r t)) = insert r {y. \<exists>l. (l, y) \<in> set t \<and> l \<noteq> k}"
  by (auto simp: rows_def set_update_distinct image_iff)

lemma list_ex_pair: "list_ex (\<lambda>(k, x). P k x) t \<longleftrightarrow> (\<exists>k x. (k, x) \<in> set t \<and> P k x)"
  by (force simp: list_ex_iff)

lemma list_ex_rows: "list_ex P (rows t) \<longleftrightarrow> (\<exists>k x. (k, x) \<in> set t \<and> P x)"
  by (force simp: list_ex_iff rows_def)

end
