(* ===== verification/Models.thy ===== *)
theory Models
  imports Prelude
begin

text \<open>
  The rows of \<open>internal/store/models.go\<close> as records, the values of \<open>map[string]any\<close>, and the
  error values the packages return. A \<open>*string\<close> or \<open>*time.Time\<close> is an option. The JSON column
  \<open>Message.Recipients\<close> holds the value it encodes (\<open>None\<close> for no bytes); the other byte
  columns are byte strings.
\<close>

section \<open>Values of map[string]any\<close>

datatype any =
    VNil
  | VStr string
  | VInt int
  | VBool bool
  | VList "any list"
  | VMap "(string \<times> any) list"

section \<open>Errors\<close>

text \<open>
  Sentinel errors and error structs, one constructor each, named after their package. Errors that
  come from outside the service (the database, the directory, the event stream) are
  \<open>Outside_Err\<close> with their text.
\<close>

datatype goerr =
    Store_ErrNotFound
  | Store_ErrConflict
  | Outside_Err string
  | Authz_ErrForbidden
  | Authz_ErrNotFound
  | Authz_ErrInput
  | Authz_ErrAboveGranter
  | Messages_ErrState
  | Messages_ErrInUse
  | Messages_Validation string string
  | Inbox_ErrInput
  | Audit_Err string
  | Stream_ErrTooMany
  | Stream_ErrType
  | Stream_ErrPayload
  | Stream_ErrTargets
  | Stream_ErrReserved
  | Stream_HubClosed
  | Sealed_ErrKEK
  | Sealed_ErrTampered
  | Sealed_ErrTooLarge
  | List_ErrSpan
  | List_Error string
  | Audit_ErrFilter
  | Channel_ErrType
  | Channel_ErrNoProvider
  | Channel_ErrRecipient
  | Notify_ErrChannelDisabled
  | Notify_ErrRateLimited
  | Notify_ErrTypeMismatch
  | Notify_ErrKeyNamespace
  | Notify_ErrUnknownKey
  | Notify_ErrEmailNotConfigured
  | Notify_ErrManagedChannel
  | Notify_ErrSystemTemplate
  | Notify_ErrNotSystemTemplate
  | Notify_ErrSystemTemplateField
  | Notify_MissingRequired string
  | Notify_InUse string nat
  | Notify_Validation string "(string \<times> any) list"
  | Transfer_ErrTooLarge
  | Transfer_ErrInvalid string
  | Transfer_ErrMode
  | Config_Err string

text \<open>\<open>errors.Is(err, target)\<close>: \<open>ErrAboveGranter\<close> wraps \<open>ErrForbidden\<close>.\<close>

definition errors_Is :: "goerr \<Rightarrow> goerr \<Rightarrow> bool" where
  "errors_Is e target \<longleftrightarrow>
     e = target \<or> (e = Authz_ErrAboveGranter \<and> target = Authz_ErrForbidden)"

section \<open>Rows\<close>

record channel =
  ch_ID :: string
  ch_TenantID :: string
  ch_Name :: string
  ch_Type :: string
  ch_SettingsSealed :: string
  ch_SettingsPublic :: "string option"
  ch_Enabled :: bool
  ch_IsDefault :: bool
  ch_Managed :: bool
  ch_CreatedBy :: "string option"
  ch_UpdatedBy :: "string option"
  ch_CreatedAt :: time
  ch_UpdatedAt :: time
  ch_TemplateCount :: nat

record template =
  tp_ID :: string
  tp_TenantID :: string
  tp_Name :: string
  tp_ChannelID :: "string option"
  tp_ChannelType :: string
  tp_Subject :: string
  tp_Body :: string
  tp_Variables :: "string list"
  tp_IsDefault :: bool
  tp_CreatedBy :: "string option"
  tp_UpdatedBy :: "string option"
  tp_CreatedAt :: time
  tp_UpdatedAt :: time
  tp_ChannelName :: string
  tp_SystemKey :: "string option"
  tp_BuiltinSubject :: string
  tp_BuiltinBody :: string
  tp_RequiredVariables :: "string list"
  tp_SecretVariables :: "string list"

record log_row =
  lg_ID :: string
  lg_TenantID :: string
  lg_CreatedAt :: time
  lg_ChannelID :: string
  lg_ChannelType :: string
  lg_TemplateID :: "string option"
  lg_TemplateKey :: "string option"
  lg_Recipient :: string
  lg_RenderedSubject :: string
  lg_RenderedBody :: string
  lg_Status :: string
  lg_Error :: string
  lg_SenderKind :: string
  lg_SenderID :: string
  lg_Test :: bool
  lg_SentAt :: "time option"

record log_filter =
  lf_ChannelID :: string
  lf_TemplateID :: string
  lf_Recipient :: string
  lf_Status :: string
  lf_SenderID :: string
  lf_From :: time
  lf_To :: time
  lf_CursorTS :: time
  lf_CursorID :: string
  lf_Limit :: int

record grant =
  gr_ID :: string
  gr_TenantID :: string
  gr_ResourceType :: string
  gr_ResourceID :: string
  gr_SubjectType :: string
  gr_SubjectID :: string
  gr_Relation :: string
  gr_GrantedBy :: "string option"
  gr_GrantedAt :: time
  gr_ExpiresAt :: "time option"

record category =
  ca_ID :: string
  ca_TenantID :: string
  ca_Name :: string
  ca_Description :: string
  ca_Sort :: int
  ca_CreatedBy :: "string option"
  ca_UpdatedBy :: "string option"
  ca_CreatedAt :: time
  ca_UpdatedAt :: time
  ca_MessageCount :: nat

text \<open>\<open>messages.Recipients\<close>: the value the JSON column of a message holds.\<close>

record recipients =
  rc_All :: bool
  rc_Users :: "string list"

record message =
  ms_ID :: string
  ms_TenantID :: string
  ms_Title :: string
  ms_Content :: string
  ms_Type :: string
  ms_Status :: string
  ms_CategoryID :: "string option"
  ms_SenderID :: "string option"
  ms_SenderService :: string
  ms_Recipients :: "recipients option"
  ms_ScheduledAt :: "time option"
  ms_LeaseUntil :: "time option"
  ms_PublishedAt :: "time option"
  ms_CreatedBy :: "string option"
  ms_UpdatedBy :: "string option"
  ms_CreatedAt :: time
  ms_UpdatedAt :: time
  ms_CategoryName :: string
  ms_RecipientCount :: nat
  ms_ReadCount :: nat

record message_filter =
  mf_Status :: string
  mf_CategoryID :: string
  mf_Q :: string
  mf_SenderID :: string
  mf_CursorTS :: time
  mf_CursorID :: string
  mf_Limit :: int

record inbox_row =
  ib_ID :: string
  ib_TenantID :: string
  ib_MessageID :: string
  ib_RecipientID :: string
  ib_Status :: string
  ib_ReadAt :: "time option"
  ib_CreatedAt :: time
  ib_UpdatedAt :: time
  ib_Message :: "message option"

record audit_row =
  au_TS :: time
  au_TenantID :: string
  au_EventType :: string
  au_ActorKind :: string
  au_ActorID :: string
  au_SubjectKind :: string
  au_SubjectID :: string
  au_Outcome :: string
  au_Reason :: string
  au_CorrelationID :: string
  au_Details :: "(string \<times> any) list"
  au_SubjectName :: string

record stats =
  st_Channels :: int
  st_Templates :: int
  st_Notifications :: "(string \<times> int) list"
  st_Messages :: "(string \<times> int) list"
  st_Operations24h :: int

section \<open>List helpers of \<open>internal/store/lists.go\<close>\<close>

definition LogWindow :: duration where "LogWindow = 7 * 24 * Hour"
definition MaxSpan :: duration where "MaxSpan = 90 * 24 * Hour"

definition Window :: "time \<Rightarrow> time \<Rightarrow> time \<Rightarrow> goerr + (time \<times> time)" where
  "Window from till now =
     (let endt = (if IsZero till then now else till) in
      if \<not> IsZero from \<and> time_Sub endt from > MaxSpan then Inl List_ErrSpan
      else
        let to' = (if IsZero till then now + Minute else till);
            from' = (if IsZero from then to' - LogWindow else from)
        in Inr (from', to'))"

record visible =
  vis_All :: bool
  vis_IDs :: "string list"

definition Allows :: "visible \<Rightarrow> string \<Rightarrow> bool" where
  "Allows v i \<longleftrightarrow> vis_All v \<or> list_ex (\<lambda>x. x = i) (vis_IDs v)"

lemma Allows_iff: "Allows v i \<longleftrightarrow> vis_All v \<or> i \<in> set (vis_IDs v)"
  by (auto simp: Allows_def list_ex_iff)

text \<open>
  A window is never wider than \<open>MaxSpan\<close> plus the minute of clock slack, and an explicit bound is
  kept as given.
\<close>

lemma Window_bounds:
  assumes "Window from till now = Inr (f, t)"
  shows "t - f \<le> MaxSpan + Minute" and "\<not> IsZero from \<Longrightarrow> f = from" and "\<not> IsZero till \<Longrightarrow> t = till"
  using assms
  by (auto simp: Window_def Let_def time_Sub_def MaxSpan_def LogWindow_def Hour_def Minute_def
      Second_def MaxInt64_def MinInt64_def split: if_splits)

end
