(* ===== verification/AuditTrail.thy ===== *)
theory AuditTrail
  imports Models
begin

text \<open>
  \<open>internal/audit/audit.go\<close>: the closed vocabulary, validation, the detail guard, and the batch
  writer. The writer is a step relation: callers emit and close, the goroutine \<open>run\<close> receives,
  flushes on a full batch, on its ticker and on request, and stops once the closed queue is
  drained. The calls to \<open>InsertAuditRows\<close> are recorded with their outcome.
\<close>

section \<open>Vocabulary and validation\<close>

definition known_events :: "string list" where
  "known_events =
    [''channel_created'', ''channel_updated'', ''channel_deleted'', ''channel_tested'',
     ''template_created'', ''template_updated'', ''template_deleted'', ''template_previewed'',
     ''notification_sent'', ''notification_failed'', ''grant_created'', ''grant_revoked'',
     ''access_refused'', ''category_created'', ''category_updated'', ''category_deleted'',
     ''message_created'', ''message_updated'', ''message_deleted'', ''message_published'',
     ''message_revoked'', ''message_archived'', ''inbox_read'', ''inbox_deleted'',
     ''event_published'', ''backup_exported'', ''backup_exported_with_credentials'',
     ''backup_imported'', ''stream_opened'', ''stream_refused'']"

definition Known :: "string \<Rightarrow> bool" where
  "Known t \<longleftrightarrow> t \<in> set known_events"

record event =
  ev_Type :: string
  ev_TenantID :: string
  ev_ActorKind :: string
  ev_ActorID :: string
  ev_SubjectKind :: string
  ev_SubjectID :: string
  ev_Outcome :: string
  ev_Reason :: string
  ev_CorrelationID :: string
  ev_Details :: "(string \<times> any) list"

definition Validate :: "event \<Rightarrow> goerr option" where
  "Validate e =
     (if \<not> Known (ev_Type e) then Some (Audit_Err ''unknown event type'')
      else if ev_TenantID e = '''' then Some (Audit_Err ''tenant_id is required'')
      else if ev_Outcome e \<notin> set [''ok'', ''refused'', ''failed''] then Some (Audit_Err ''outcome'')
      else if ev_ActorKind e \<notin> set [''user'', ''service'', ''system'']
        then Some (Audit_Err ''actor_kind'')
      else if ev_SubjectKind e \<notin> set [''channel'', ''template'', ''notification'', ''grant'',
          ''category'', ''message'', ''inbox'', ''backup'', ''system'']
        then Some (Audit_Err ''subject_kind'')
      else None)"

section \<open>The detail guard\<close>

definition forbiddenKeys :: "string list" where
  "forbiddenKeys = [''password'', ''secret'', ''token'', ''api_key'', ''body'', ''content'', ''settings'']"

text \<open>The regular expressions of \<open>markers\<close>, tried at every position.\<close>

fun at_some_position :: "(string \<Rightarrow> bool) \<Rightarrow> string \<Rightarrow> bool" where
  "at_some_position p [] \<longleftrightarrow> p []"
| "at_some_position p (c # s) \<longleftrightarrow> p (c # s) \<or> at_some_position p s"

definition upper_or_space :: "char \<Rightarrow> bool" where
  "upper_or_space c \<longleftrightarrow> (CHR ''A'' \<le> c \<and> c \<le> CHR ''Z'') \<or> c = CHR '' ''"

definition token_char :: "char \<Rightarrow> bool" where
  "token_char c \<longleftrightarrow> (CHR ''A'' \<le> c \<and> c \<le> CHR ''Z'') \<or> (CHR ''a'' \<le> c \<and> c \<le> CHR ''z'')
     \<or> (CHR ''0'' \<le> c \<and> c \<le> CHR ''9'') \<or> c = CHR ''_'' \<or> c = CHR ''-''"

definition marker_at :: "string \<Rightarrow> bool" where
  "marker_at s \<longleftrightarrow> prefix ''notif-marker-pw-'' (ToLower s) \<or> prefix ''notif-marker-body-'' (ToLower s)"

definition private_key_at :: "string \<Rightarrow> bool" where
  "private_key_at s \<longleftrightarrow>
     prefix ''-----BEGIN '' s \<and>
     (let r = drop 11 s in
        suffix ''PRIVATE KEY'' (takeWhile upper_or_space r) \<and>
        prefix ''-----'' (dropWhile upper_or_space r))"

definition jwt_at :: "string \<Rightarrow> bool" where
  "jwt_at s \<longleftrightarrow>
     prefix ''eyJ'' s \<and>
     (let r1 = drop 3 s; a = takeWhile token_char r1; r2 = dropWhile token_char r1 in
        4 \<le> length a \<and> prefix ''.'' r2 \<and>
        (let r3 = drop (Suc 0) r2; b = takeWhile token_char r3; r4 = dropWhile token_char r3 in
           4 \<le> length b \<and> prefix ''.'' r4 \<and> 3 \<le> length (takeWhile token_char (drop (Suc 0) r4))))"

definition SafeString :: "string \<Rightarrow> bool" where
  "SafeString s \<longleftrightarrow> \<not> at_some_position (\<lambda>t. marker_at t \<or> private_key_at t \<or> jwt_at t) s"

definition forbidden_key :: "string \<Rightarrow> bool" where
  "forbidden_key k \<longleftrightarrow> list_ex (\<lambda>f. Contains (ToLower k) f) forbiddenKeys"

lemma size_any_pair [termination_simp]:
  "(k, v) \<in> set kvs \<Longrightarrow> size (v :: any) < Suc (size_list (size_prod (\<lambda>x. 0) size) kvs)"
  by (induction kvs) auto

fun guard :: "any \<Rightarrow> any" where
  "guard (VStr x) =
     (if \<not> SafeString x then VStr ''[REDACTED]'' else if length x > 256 then VStr (take 256 x) else VStr x)"
| "guard (VMap kvs) =
     VMap (map (\<lambda>(k, v). (k, if forbidden_key k then VStr ''[REDACTED]'' else guard v)) kvs)"
| "guard (VList vs) = VList (map guard vs)"
| "guard v = v"

definition guardKey :: "string \<Rightarrow> any \<Rightarrow> any" where
  "guardKey k v = (if forbidden_key k then VStr ''[REDACTED]'' else guard v)"

definition Row :: "event \<Rightarrow> time \<Rightarrow> goerr + audit_row" where
  "Row e now = (case Validate e of
      Some err \<Rightarrow> Inl err
    | None \<Rightarrow> Inr \<lparr> au_TS = now, au_TenantID = ev_TenantID e, au_EventType = ev_Type e,
        au_ActorKind = ev_ActorKind e, au_ActorID = ev_ActorID e, au_SubjectKind = ev_SubjectKind e,
        au_SubjectID = ev_SubjectID e, au_Outcome = ev_Outcome e, au_Reason = ev_Reason e,
        au_CorrelationID = ev_CorrelationID e,
        au_Details = map (\<lambda>(k, v). (k, guardKey k v)) (ev_Details e), au_SubjectName = '''' \<rparr>)"

section \<open>The batch writer\<close>

record writer =
  wr_ch :: "audit_row list"          \<comment> \<open>the queue\<close>
  wr_cap :: nat                      \<comment> \<open>its capacity (10000)\<close>
  wr_closed :: bool
  wr_dropped :: nat
  wr_buf :: "audit_row list"         \<comment> \<open>the goroutine's batch\<close>
  wr_handed :: "(bool \<times> audit_row list) list"
                                     \<comment> \<open>calls to InsertAuditRows: succeeded, rows\<close>
  wr_stopped :: bool                 \<comment> \<open>the goroutine has returned\<close>

definition newWriter :: "nat \<Rightarrow> writer" where
  "newWriter queue = \<lparr> wr_ch = [], wr_cap = queue, wr_closed = False, wr_dropped = 0, wr_buf = [],
     wr_handed = [], wr_stopped = False \<rparr>"

definition batch_size :: nat where "batch_size = 200"

definition Emit :: "event \<Rightarrow> time \<Rightarrow> (writer, goerr, unit) op" where
  "Emit e now w = (case Row e now of
      Inl err \<Rightarrow> (Inl err, w)
    | Inr row \<Rightarrow>
        if wr_closed w then (Inl (Audit_Err ''writer closed''), w\<lparr>wr_dropped := Suc (wr_dropped w)\<rparr>)
        else if length (wr_ch w) < wr_cap w then (Inr (), w\<lparr>wr_ch := wr_ch w @ [row]\<rparr>)
        else (Inr (), w\<lparr>wr_dropped := Suc (wr_dropped w)\<rparr>))"

text \<open>\<open>flush\<close> hands the batch to the store and clears it, whatever the store answers.\<close>

definition flush_batch :: "bool \<Rightarrow> writer \<Rightarrow> writer" where
  "flush_batch ok w =
     (if wr_buf w = [] then w
      else w\<lparr>wr_handed := wr_handed w @ [(ok, wr_buf w)], wr_buf := []\<rparr>)"

text \<open>One iteration of \<open>run\<close>: receiving a row, a tick, a flush request.\<close>

definition run_recv :: "bool \<Rightarrow> writer \<Rightarrow> writer" where
  "run_recv ok w = (case wr_ch w of
      [] \<Rightarrow> if wr_closed w then (flush_batch ok w)\<lparr>wr_stopped := True\<rparr> else w
    | r # rs \<Rightarrow>
        let w' = w\<lparr>wr_ch := rs, wr_buf := wr_buf w @ [r]\<rparr> in
        if batch_size \<le> length (wr_buf w') then flush_batch ok w' else w')"

definition run_flush :: "bool \<Rightarrow> writer \<Rightarrow> writer" where
  "run_flush ok w = flush_batch ok (w\<lparr>wr_ch := [], wr_buf := wr_buf w @ wr_ch w\<rparr>)"

definition writer_Close :: "writer \<Rightarrow> writer" where
  "writer_Close w = w\<lparr>wr_closed := True\<rparr>"

text \<open>
  The steps of the writer, with the row each emission accepted into the queue (or nothing). A
  blocked receive (open, empty queue) takes no step.
\<close>

inductive writer_step :: "writer \<Rightarrow> audit_row list \<Rightarrow> writer \<Rightarrow> bool" where
  emit: "Emit e now w = (r, w') \<Longrightarrow> \<not> wr_stopped w \<or> wr_closed w \<Longrightarrow>
     writer_step w (drop (length (wr_ch w)) (wr_ch w')) w'"
| recv: "\<not> wr_stopped w \<Longrightarrow> wr_ch w \<noteq> [] \<or> wr_closed w \<Longrightarrow> writer_step w [] (run_recv ok w)"
| tick: "\<not> wr_stopped w \<Longrightarrow> writer_step w [] (flush_batch ok w)"
| flush: "\<not> wr_stopped w \<Longrightarrow> writer_step w [] (run_flush ok w)"
| close: "writer_step w [] (writer_Close w)"

inductive writer_run :: "nat \<Rightarrow> audit_row list \<Rightarrow> writer \<Rightarrow> bool" for queue where
  start: "writer_run queue [] (newWriter queue)"
| step: "writer_run queue acc w \<Longrightarrow> writer_step w new w' \<Longrightarrow> writer_run queue (acc @ new) w'"

inductive_cases writer_stepE: "writer_step w new w'"

text \<open>The rows handed to the store so far, in order.\<close>

definition handed_rows :: "writer \<Rightarrow> audit_row list" where
  "handed_rows w = concat (map snd (wr_handed w))"

section \<open>Properties of the guard\<close>

text \<open>A guarded value holds no forbidden key with another value than the marker, and only safe,
  short strings, at any depth.\<close>

fun clean :: "any \<Rightarrow> bool" where
  "clean (VStr x) \<longleftrightarrow> (x = ''[REDACTED]'' \<or> SafeString x) \<and> length x \<le> 256"
| "clean (VMap kvs) \<longleftrightarrow>
     (\<forall>(k, v) \<in> set kvs. (forbidden_key k \<longrightarrow> v = VStr ''[REDACTED]'') \<and> clean v)"
| "clean (VList vs) \<longleftrightarrow> (\<forall>v \<in> set vs. clean v)"
| "clean v \<longleftrightarrow> True"

text \<open>
  Truncation can cut a string but never creates a marker: every pattern is found at a position of
  a prefix only if it is found there in the whole string.
\<close>

lemma at_some_position_iff: "at_some_position p s \<longleftrightarrow> (\<exists>i \<le> length s. p (drop i s))"
proof (induction s)
  case (Cons c s)
  show ?case
  proof
    assume "at_some_position p (c # s)"
    then consider "p (c # s)" | i where "i \<le> length s" "p (drop i s)"
      using Cons by auto
    then show "\<exists>i \<le> length (c # s). p (drop i (c # s))"
    proof cases
      case 1
      then have "p (drop 0 (c # s))" by simp
      then show ?thesis by blast
    next
      case (2 i)
      then have "Suc i \<le> length (c # s)" and "p (drop (Suc i) (c # s))" by simp_all
      then show ?thesis by blast
    qed
  next
    assume "\<exists>i \<le> length (c # s). p (drop i (c # s))"
    then obtain i where "i \<le> length (c # s)" and "p (drop i (c # s))" by blast
    then show "at_some_position p (c # s)"
      using Cons by (cases i) auto
  qed
qed simp

lemma takeWhile_take_prefix: "prefix (takeWhile P (take n s)) (takeWhile P s)"
  by (induction s arbitrary: n) (auto simp: take_Cons split: nat.splits)

lemma prefix_take: "prefix p (take n s) \<Longrightarrow> prefix p s"
  using prefix_order.trans take_is_prefix by blast

text \<open>A run followed by a separator lies inside the kept part, so it is the run of the whole string.\<close>

lemma run_before_separator:
  assumes "prefix (d # ds) (dropWhile P (take n s))" and "\<not> P d"
  shows "takeWhile P (take n s) = takeWhile P s \<and> prefix (dropWhile P (take n s)) (dropWhile P s)"
  using assms
proof (induction s arbitrary: n)
  case (Cons c s)
  then show ?case by (cases n) (auto simp: take_is_prefix)
qed simp

lemma run_before_separator_len:
  assumes "prefix (d # ds) (dropWhile P (take n s))" and "\<not> P d"
  shows "\<exists>m. dropWhile P (take n s) = take m (dropWhile P s)"
  using run_before_separator [OF assms] prefix_def
  by (metis append_eq_conv_conj)

lemma marker_at_take: "marker_at (take n s) \<Longrightarrow> marker_at s"
  unfolding marker_at_def ToLower_def by (auto simp: take_map [symmetric] dest: prefix_take)

lemma private_key_at_take: "private_key_at (take n s) \<Longrightarrow> private_key_at s"
proof -
  assume p: "private_key_at (take n s)"
  let ?r = "drop 11 s"
  have d: "drop 11 (take n s) = take (n - 11) ?r"
    by (simp add: drop_take)
  from p have pre: "prefix ''-----'' (dropWhile upper_or_space (take (n - 11) ?r))"
    and suf: "suffix ''PRIVATE KEY'' (takeWhile upper_or_space (take (n - 11) ?r))"
    and b: "prefix ''-----BEGIN '' (take n s)"
    by (auto simp: private_key_at_def Let_def d)
  have "\<not> upper_or_space CHR ''-''"
    by (simp add: upper_or_space_def)
  from run_before_separator [OF pre this] pre suf b show ?thesis
    by (auto simp: private_key_at_def Let_def dest: prefix_take prefix_order.trans)
qed

lemma jwt_at_take: "jwt_at (take n s) \<Longrightarrow> jwt_at s"
proof -
  assume p: "jwt_at (take n s)"
  have nd: "\<not> token_char CHR ''.''"
    by (simp add: token_char_def)
  let ?r1 = "drop 3 s"
  have d: "drop 3 (take n s) = take (n - 3) ?r1"
    by (simp add: drop_take)
  from p have pre1: "prefix ''.'' (dropWhile token_char (take (n - 3) ?r1))"
    by (auto simp: jwt_at_def Let_def d)
  note one = run_before_separator [OF pre1 nd]
  obtain m where m: "dropWhile token_char (take (n - 3) ?r1) = take m (dropWhile token_char ?r1)"
    using run_before_separator_len [OF pre1 nd] by blast
  let ?r3 = "drop (Suc 0) (dropWhile token_char ?r1)"
  have d3: "drop (Suc 0) (take m (dropWhile token_char ?r1)) = take (m - Suc 0) ?r3"
    by (simp add: drop_take)
  from p have pre2: "prefix ''.'' (dropWhile token_char (take (m - Suc 0) ?r3))"
    by (auto simp: jwt_at_def Let_def d m d3)
  note two = run_before_separator [OF pre2 nd]
  obtain q where q: "dropWhile token_char (take (m - Suc 0) ?r3) = take q (dropWhile token_char ?r3)"
    using run_before_separator_len [OF pre2 nd] by blast
  have d5: "drop (Suc 0) (take q (dropWhile token_char ?r3)) = take (q - Suc 0) (drop (Suc 0) (dropWhile token_char ?r3))"
    by (simp add: drop_take)
  have "length (takeWhile token_char (take (q - Suc 0) (drop (Suc 0) (dropWhile token_char ?r3))))
      \<le> length (takeWhile token_char (drop (Suc 0) (dropWhile token_char ?r3)))"
    by (rule prefix_length_le [OF takeWhile_take_prefix])
  then show ?thesis
    using p one two pre1 pre2
    by (auto simp: jwt_at_def Let_def d m d3 q d5 dest: prefix_take prefix_order.trans)
qed

lemma SafeString_take: "SafeString s \<Longrightarrow> SafeString (take n s)"
proof -
  assume safe: "SafeString s"
  have "\<not> (marker_at (drop i (take n s)) \<or> private_key_at (drop i (take n s)) \<or> jwt_at (drop i (take n s)))"
    if "i \<le> length (take n s)" for i
  proof -
    have "i \<le> length s" using that by simp
    with safe have "\<not> (marker_at (drop i s) \<or> private_key_at (drop i s) \<or> jwt_at (drop i s))"
      unfolding SafeString_def at_some_position_iff by blast
    then show ?thesis
      unfolding drop_take
      using marker_at_take private_key_at_take jwt_at_take by blast
  qed
  then show ?thesis
    unfolding SafeString_def at_some_position_iff by blast
qed

lemma redacted_clean [simp]: "clean (VStr ''[REDACTED]'')"
  by simp

lemma guard_clean: "clean (guard v)"
proof (induction v rule: guard.induct)
  case (1 x)
  then show ?case by (simp add: SafeString_take)
next
  case (2 kvs)
  have "clean (guard v)" if "(k, v) \<in> set kvs" "\<not> forbidden_key k" for k v
    using 2 that by blast
  then show ?case by fastforce
qed auto

lemma guardKey_clean: "clean (guardKey k v)"
  by (simp add: guardKey_def guard_clean)


text \<open>The guard at a nested password, a long string and a token.\<close>

definition sample_event :: event where
  "sample_event = \<lparr> ev_Type = ''channel_updated'', ev_TenantID = ''t'', ev_ActorKind = ''user'',
     ev_ActorID = ''u'', ev_SubjectKind = ''channel'', ev_SubjectID = ''c'', ev_Outcome = ''ok'',
     ev_Reason = '''', ev_CorrelationID = '''',
     ev_Details = [(''name'', VStr ''a''), (''x'', VMap [(''SMTP_Password'', VStr ''pw'')])] \<rparr>"

lemma sample_row:
  "Row sample_event 5 = Inr \<lparr> au_TS = 5, au_TenantID = ''t'', au_EventType = ''channel_updated'',
     au_ActorKind = ''user'', au_ActorID = ''u'', au_SubjectKind = ''channel'', au_SubjectID = ''c'',
     au_Outcome = ''ok'', au_Reason = '''', au_CorrelationID = '''',
     au_Details = [(''name'', VStr ''a''), (''x'', VMap [(''SMTP_Password'', VStr ''[REDACTED]'')])],
     au_SubjectName = '''' \<rparr>"
  by code_simp


section \<open>Properties of the writer\<close>

lemma handed_flush: "handed_rows (flush_batch ok w) @ wr_buf (flush_batch ok w) = handed_rows w @ wr_buf w"
  by (simp add: flush_batch_def handed_rows_def)

lemma flush_fields [simp]:
  "wr_ch (flush_batch ok w) = wr_ch w" "wr_cap (flush_batch ok w) = wr_cap w"
  "wr_closed (flush_batch ok w) = wr_closed w" "wr_dropped (flush_batch ok w) = wr_dropped w"
  "wr_buf (flush_batch ok w) = []" "wr_stopped (flush_batch ok w) = wr_stopped w"
  by (simp_all add: flush_batch_def)

definition writer_inv :: "nat \<Rightarrow> audit_row list \<Rightarrow> writer \<Rightarrow> bool" where
  "writer_inv queue acc w \<longleftrightarrow>
     handed_rows w @ wr_buf w @ wr_ch w = acc \<and> length (wr_buf w) < batch_size \<and>
     length (wr_ch w) \<le> queue \<and> wr_cap w = queue \<and>
     (\<forall>(ok, b) \<in> set (wr_handed w). b \<noteq> []) \<and>
     (wr_stopped w \<longrightarrow> wr_closed w \<and> wr_ch w = [] \<and> wr_buf w = [])"

lemma writer_inv_flush:
  "writer_inv queue acc w \<Longrightarrow> writer_inv queue acc (flush_batch ok w)"
  using handed_flush [of ok w]
  by (auto simp: writer_inv_def flush_batch_def batch_size_def handed_rows_def)

lemma writer_inv_emit:
  assumes "writer_inv queue acc w" and "Emit e now w = (r, w')"
  shows "writer_inv queue (acc @ drop (length (wr_ch w)) (wr_ch w')) w'"
  using assms
  by (auto simp: writer_inv_def Emit_def handed_rows_def split: sum.splits if_splits)

lemma writer_inv_recv:
  assumes "writer_inv queue acc w"
  shows "writer_inv queue acc (run_recv ok w)"
proof (cases "wr_ch w")
  case Nil
  with writer_inv_flush [OF assms] assms show ?thesis
    by (auto simp: run_recv_def writer_inv_def handed_rows_def batch_size_def)
next
  case (Cons r rs)
  with assms show ?thesis
    by (auto simp: run_recv_def writer_inv_def handed_rows_def flush_batch_def batch_size_def Let_def)
qed

lemma writer_inv_run_flush:
  "writer_inv queue acc w \<Longrightarrow> \<not> wr_stopped w \<Longrightarrow> writer_inv queue acc (run_flush ok w)"
  by (auto simp: run_flush_def writer_inv_def handed_rows_def flush_batch_def batch_size_def)

lemma writer_inv_step:
  "writer_step w new w' \<Longrightarrow> writer_inv queue acc w \<Longrightarrow> writer_inv queue (acc @ new) w'"
proof (induction rule: writer_step.induct)
  case (close w)
  then show ?case by (auto simp: writer_inv_def writer_Close_def handed_rows_def)
qed (auto intro: writer_inv_emit writer_inv_recv writer_inv_flush writer_inv_run_flush)

lemma writer_run_inv: "writer_run queue acc w \<Longrightarrow> writer_inv queue acc w"
proof (induction rule: writer_run.induct)
  case start
  show ?case by (simp add: writer_inv_def newWriter_def handed_rows_def batch_size_def)
next
  case (step acc w new w')
  then show ?case by (blast intro: writer_inv_step)
qed


definition sample_writer :: writer where
  "sample_writer = run_recv True (writer_Close (run_recv True (snd (Emit sample_event 5 (newWriter 4)))))"


end
