(* ===== verification/Memstore.thy ===== *)
theory Memstore
  imports AuditTrail
begin

text \<open>
  \<open>internal/memstore/memstore.go\<close>, first part: the store record, failure injection and
  transactions, and the channel, template, log and grant tables. The store implements
  \<open>repo.Store\<close>, the persistence every service depends on. One operation holds the store's mutex
  from its first read to its last write, so it is one atomic function of the store.
\<close>

record memstore =
  Channels :: "channel table"
  Templates :: "template table"
  Logs :: "log_row table"
  Grants :: "grant table"
  Categories :: "category table"
  Messages :: "message table"
  Inbox :: "inbox_row table"
  AuditLog :: "audit_row list"
  Fail :: "string \<Rightarrow> goerr option"    \<comment> \<open>operation name to injected error\<close>
  Now :: time                          \<comment> \<open>the reading of the clock\<close>

type_synonym 'a store_op = "(memstore, goerr, 'a) op"

definition empty_store :: memstore where
  "empty_store = \<lparr> Channels = [], Templates = [], Logs = [], Grants = [], Categories = [],
     Messages = [], Inbox = [], AuditLog = [], Fail = (\<lambda>_. None), Now = 0 \<rparr>"

definition FailOn :: "string \<Rightarrow> goerr option \<Rightarrow> memstore \<Rightarrow> memstore" where
  "FailOn opn err m = m\<lparr>Fail := (Fail m)(opn := err)\<rparr>"

text \<open>\<open>if err := m.fail(op); err != nil { return err }\<close> before the body.\<close>

definition with_fail :: "string \<Rightarrow> 'a store_op \<Rightarrow> 'a store_op" where
  "with_fail opn body m = (case Fail m opn of Some e \<Rightarrow> (Inl e, m) | None \<Rightarrow> body m)"

text \<open>\<open>Atomic\<close> restores every table when the function fails.\<close>

definition restore_tables :: "memstore \<Rightarrow> memstore \<Rightarrow> memstore" where
  "restore_tables snap m = m\<lparr> Channels := Channels snap, Templates := Templates snap,
     Logs := Logs snap, Grants := Grants snap, Categories := Categories snap,
     Messages := Messages snap, Inbox := Inbox snap, AuditLog := AuditLog snap \<rparr>"

definition Atomic :: "'a store_op \<Rightarrow> 'a store_op" where
  "Atomic fn = with_fail ''Atomic'' (\<lambda>m. case fn m of
      (Inl e, m') \<Rightarrow> (Inl e, restore_tables m m')
    | (Inr x, m') \<Rightarrow> (Inr x, m'))"

section \<open>Channels\<close>

definition templateCount :: "memstore \<Rightarrow> string \<Rightarrow> nat" where
  "templateCount m i = length (filter (\<lambda>t. strp (tp_ChannelID t) = i) (rows (Templates m)))"

definition InsertChannel :: "channel \<Rightarrow> unit store_op" where
  "InsertChannel c = with_fail ''InsertChannel'' (\<lambda>m.
     if list_ex (\<lambda>x. ch_TenantID x = ch_TenantID c \<and>
          (ToLower (ch_Name x) = ToLower (ch_Name c)
           \<or> (ch_IsDefault c \<and> ch_IsDefault x \<and> ch_Type x = ch_Type c)
           \<or> (ch_Managed c \<and> ch_Managed x))) (rows (Channels m))
     then (Inl Store_ErrConflict, m)
     else
       let c' = c\<lparr> ch_CreatedAt := Now m, ch_UpdatedAt := Now m,
              ch_SettingsPublic := (case ch_SettingsPublic c of None \<Rightarrow> Some ''{}'' | Some b \<Rightarrow> Some b) \<rparr>
       in (Inr (), m\<lparr>Channels := AList.update (ch_ID c) c' (Channels m)\<rparr>))"

definition GetChannel :: "string \<Rightarrow> string \<Rightarrow> channel store_op" where
  "GetChannel tid i = with_fail ''GetChannel'' (\<lambda>m. case map_of (Channels m) i of
      None \<Rightarrow> (Inl Store_ErrNotFound, m)
    | Some c \<Rightarrow> if ch_TenantID c \<noteq> tid then (Inl Store_ErrNotFound, m)
        else (Inr (c\<lparr>ch_TemplateCount := templateCount m i\<rparr>), m))"

definition ListChannels :: "string \<Rightarrow> string \<Rightarrow> string \<Rightarrow> nat \<Rightarrow> channel list store_op" where
  "ListChannels tid typ after limit = with_fail ''ListChannels'' (\<lambda>m.
     let out = map (\<lambda>c. c\<lparr>ch_TemplateCount := templateCount m (ch_ID c)\<rparr>)
           (filter (\<lambda>c. ch_TenantID c = tid \<and> (typ = '''' \<or> ch_Type c = typ)
              \<and> ToLower (ch_Name c) > ToLower after) (rows (Channels m)))
     in (Inr (take limit (sort_key (\<lambda>c. (ToLower (ch_Name c), ch_ID c)) out)), m))"

definition UpdateChannel :: "channel \<Rightarrow> unit store_op" where
  "UpdateChannel c = with_fail ''UpdateChannel'' (\<lambda>m. case map_of (Channels m) (ch_ID c) of
      None \<Rightarrow> (Inl Store_ErrNotFound, m)
    | Some old \<Rightarrow>
        if ch_TenantID old \<noteq> ch_TenantID c then (Inl Store_ErrNotFound, m)
        else if list_ex (\<lambda>(k, x). k \<noteq> ch_ID c \<and> ch_TenantID x = ch_TenantID c \<and>
               (ToLower (ch_Name x) = ToLower (ch_Name c)
                \<or> (ch_IsDefault c \<and> ch_IsDefault x \<and> ch_Type x = ch_Type old))) (Channels m)
        then (Inl Store_ErrConflict, m)
        else
          let old' = old\<lparr> ch_Name := ch_Name c, ch_SettingsSealed := ch_SettingsSealed c,
                ch_SettingsPublic := ch_SettingsPublic c, ch_Enabled := ch_Enabled c,
                ch_IsDefault := ch_IsDefault c, ch_UpdatedBy := ch_UpdatedBy c, ch_UpdatedAt := Now m \<rparr>
          in (Inr (), m\<lparr>Channels := AList.update (ch_ID c) old' (Channels m)\<rparr>))"

definition ClearDefaultChannel :: "string \<Rightarrow> string \<Rightarrow> string \<Rightarrow> unit store_op" where
  "ClearDefaultChannel tid typ except = with_fail ''ClearDefaultChannel'' (\<lambda>m.
     (Inr (), m\<lparr>Channels := map_rows (\<lambda>k c.
        if ch_TenantID c = tid \<and> ch_Type c = typ \<and> ch_IsDefault c \<and> k \<noteq> except
        then c\<lparr>ch_IsDefault := False\<rparr> else c) (Channels m)\<rparr>))"

definition ManagedChannel :: "string \<Rightarrow> channel store_op" where
  "ManagedChannel tid = with_fail ''ManagedChannel'' (\<lambda>m.
     case find (\<lambda>c. ch_TenantID c = tid \<and> ch_Managed c) (rows (Channels m)) of
       None \<Rightarrow> (Inl Store_ErrNotFound, m)
     | Some c \<Rightarrow> (Inr (c\<lparr>ch_TemplateCount := templateCount m (ch_ID c)\<rparr>), m))"

definition DefaultEmailChannel :: "string \<Rightarrow> channel store_op" where
  "DefaultEmailChannel tid = with_fail ''DefaultEmailChannel'' (\<lambda>m.
     case find (\<lambda>c. ch_TenantID c = tid \<and> ch_Type c = ''email'' \<and> ch_IsDefault c) (rows (Channels m)) of
       None \<Rightarrow> (Inl Store_ErrNotFound, m)
     | Some c \<Rightarrow> (Inr (c\<lparr>ch_TemplateCount := templateCount m (ch_ID c)\<rparr>), m))"

definition DeleteChannel :: "string \<Rightarrow> string \<Rightarrow> unit store_op" where
  "DeleteChannel tid i = with_fail ''DeleteChannel'' (\<lambda>m. case map_of (Channels m) i of
      None \<Rightarrow> (Inl Store_ErrNotFound, m)
    | Some c \<Rightarrow>
        if ch_TenantID c \<noteq> tid then (Inl Store_ErrNotFound, m)
        else if templateCount m i > 0 then (Inl Store_ErrConflict, m)
        else (Inr (), m\<lparr>Channels := AList.delete i (Channels m)\<rparr>))"

section \<open>Templates\<close>

text \<open>A nil slice and an empty one are the same list here, so \<open>decorate\<close> only joins the channel's
  name.\<close>

definition decorate :: "memstore \<Rightarrow> template \<Rightarrow> template" where
  "decorate m t = (case tp_ChannelID t of
      None \<Rightarrow> t
    | Some cid \<Rightarrow> (case map_of (Channels m) cid of
          None \<Rightarrow> t
        | Some c \<Rightarrow> t\<lparr>tp_ChannelName := ch_Name c\<rparr>))"

definition InsertTemplate :: "template \<Rightarrow> unit store_op" where
  "InsertTemplate t = with_fail ''InsertTemplate'' (\<lambda>m.
     if (case tp_ChannelID t of None \<Rightarrow> False
         | Some cid \<Rightarrow> (case map_of (Channels m) cid of None \<Rightarrow> True
             | Some c \<Rightarrow> ch_TenantID c \<noteq> tp_TenantID t))
     then (Inl Store_ErrConflict, m)
     else if list_ex (\<lambda>x. tp_TenantID x = tp_TenantID t \<and>
          (ToLower (tp_Name x) = ToLower (tp_Name t)
           \<or> (tp_IsDefault t \<and> tp_IsDefault x \<and> tp_ChannelID t \<noteq> None
              \<and> strp (tp_ChannelID x) = strp (tp_ChannelID t))
           \<or> (tp_SystemKey t \<noteq> None \<and> tp_SystemKey x \<noteq> None \<and> tp_SystemKey t = tp_SystemKey x)))
          (rows (Templates m))
     then (Inl Store_ErrConflict, m)
     else (Inr (), m\<lparr>Templates := AList.update (tp_ID t)
            (t\<lparr>tp_CreatedAt := Now m, tp_UpdatedAt := Now m\<rparr>) (Templates m)\<rparr>))"

definition GetTemplate :: "string \<Rightarrow> string \<Rightarrow> template store_op" where
  "GetTemplate tid i = with_fail ''GetTemplate'' (\<lambda>m. case map_of (Templates m) i of
      None \<Rightarrow> (Inl Store_ErrNotFound, m)
    | Some t \<Rightarrow> if tp_TenantID t \<noteq> tid then (Inl Store_ErrNotFound, m) else (Inr (decorate m t), m))"

definition sortTemplates :: "template list \<Rightarrow> template list" where
  "sortTemplates out = sort_key (\<lambda>t. (ToLower (tp_Name t), tp_ID t)) out"

definition ListTemplates ::
  "string \<Rightarrow> string option \<Rightarrow> string \<Rightarrow> string \<Rightarrow> nat \<Rightarrow> template list store_op" where
  "ListTemplates tid ch q after limit = with_fail ''ListTemplates'' (\<lambda>m.
     let out = map (decorate m) (filter (\<lambda>t. \<not> (tp_TenantID t \<noteq> tid
           \<or> (ch \<noteq> None \<and> strp (tp_ChannelID t) \<noteq> strp ch)
           \<or> (q \<noteq> '''' \<and> \<not> Contains (ToLower (tp_Name t)) (ToLower q))
           \<or> ToLower (tp_Name t) \<le> ToLower after)) (rows (Templates m)))
     in (Inr (take limit (sortTemplates out)), m))"

definition TemplatesByIDs :: "string \<Rightarrow> string list \<Rightarrow> template list store_op" where
  "TemplatesByIDs tid ids = with_fail ''TemplatesByIDs'' (\<lambda>m.
     (Inr (sortTemplates (List.map_filter (\<lambda>i. case map_of (Templates m) i of
         None \<Rightarrow> None
       | Some t \<Rightarrow> if tp_TenantID t = tid then Some (decorate m t) else None) ids)), m))"

definition AllTemplates :: "string \<Rightarrow> nat \<Rightarrow> template list store_op" where
  "AllTemplates tid limit = with_fail ''AllTemplates'' (\<lambda>m.
     (Inr (take limit (sortTemplates (map (decorate m)
        (filter (\<lambda>t. tp_TenantID t = tid) (rows (Templates m)))))), m))"

definition UpdateTemplate :: "template \<Rightarrow> unit store_op" where
  "UpdateTemplate t = with_fail ''UpdateTemplate'' (\<lambda>m. case map_of (Templates m) (tp_ID t) of
      None \<Rightarrow> (Inl Store_ErrNotFound, m)
    | Some old \<Rightarrow>
        if tp_TenantID old \<noteq> tp_TenantID t then (Inl Store_ErrNotFound, m)
        else if list_ex (\<lambda>(k, x). k \<noteq> tp_ID t \<and> tp_TenantID x = tp_TenantID t \<and>
               (ToLower (tp_Name x) = ToLower (tp_Name t)
                \<or> (tp_IsDefault t \<and> tp_IsDefault x \<and> tp_ChannelID t \<noteq> None
                   \<and> strp (tp_ChannelID x) = strp (tp_ChannelID t)))) (Templates m)
        then (Inl Store_ErrConflict, m)
        else
          let old' = old\<lparr> tp_Name := tp_Name t, tp_ChannelID := tp_ChannelID t,
                tp_ChannelType := tp_ChannelType t, tp_Subject := tp_Subject t, tp_Body := tp_Body t,
                tp_Variables := tp_Variables t, tp_IsDefault := tp_IsDefault t,
                tp_UpdatedBy := tp_UpdatedBy t, tp_UpdatedAt := Now m \<rparr>
          in (Inr (), m\<lparr>Templates := AList.update (tp_ID t) old' (Templates m)\<rparr>))"

definition TemplateByKey :: "string \<Rightarrow> string \<Rightarrow> template store_op" where
  "TemplateByKey tid key = with_fail ''TemplateByKey'' (\<lambda>m.
     case find (\<lambda>t. tp_TenantID t = tid \<and> tp_SystemKey t = Some key) (rows (Templates m)) of
       None \<Rightarrow> (Inl Store_ErrNotFound, m)
     | Some t \<Rightarrow> (Inr (decorate m t), m))"

definition SetTemplateBuiltin :: "template \<Rightarrow> unit store_op" where
  "SetTemplateBuiltin t = with_fail ''SetTemplateBuiltin'' (\<lambda>m. case map_of (Templates m) (tp_ID t) of
      None \<Rightarrow> (Inl Store_ErrNotFound, m)
    | Some old \<Rightarrow>
        if tp_TenantID old \<noteq> tp_TenantID t \<or> tp_SystemKey old = None then (Inl Store_ErrNotFound, m)
        else
          let old' = old\<lparr> tp_BuiltinSubject := tp_BuiltinSubject t, tp_BuiltinBody := tp_BuiltinBody t,
                tp_Variables := tp_Variables t, tp_RequiredVariables := tp_RequiredVariables t,
                tp_SecretVariables := tp_SecretVariables t, tp_UpdatedAt := Now m \<rparr>
          in (Inr (), m\<lparr>Templates := AList.update (tp_ID t) old' (Templates m)\<rparr>))"

definition ClearDefaultTemplate :: "string \<Rightarrow> string \<Rightarrow> string \<Rightarrow> unit store_op" where
  "ClearDefaultTemplate tid ch except = with_fail ''ClearDefaultTemplate'' (\<lambda>m.
     (Inr (), m\<lparr>Templates := map_rows (\<lambda>k t.
        if tp_TenantID t = tid \<and> strp (tp_ChannelID t) = ch \<and> tp_IsDefault t \<and> k \<noteq> except
        then t\<lparr>tp_IsDefault := False\<rparr> else t) (Templates m)\<rparr>))"

definition DeleteTemplate :: "string \<Rightarrow> string \<Rightarrow> unit store_op" where
  "DeleteTemplate tid i = with_fail ''DeleteTemplate'' (\<lambda>m. case map_of (Templates m) i of
      None \<Rightarrow> (Inl Store_ErrNotFound, m)
    | Some t \<Rightarrow> if tp_TenantID t \<noteq> tid then (Inl Store_ErrNotFound, m)
        else (Inr (), m\<lparr>Templates := AList.delete i (Templates m)\<rparr>))"

section \<open>The notification log\<close>

definition InsertLog :: "log_row \<Rightarrow> unit store_op" where
  "InsertLog l = with_fail ''InsertLog'' (\<lambda>m.
     let l' = (if IsZero (lg_CreatedAt l) then l\<lparr>lg_CreatedAt := Now m\<rparr> else l)
     in (Inr (), m\<lparr>Logs := AList.update (lg_ID l) l' (Logs m)\<rparr>))"

definition SetLogOutcome ::
  "string \<Rightarrow> string \<Rightarrow> string \<Rightarrow> string \<Rightarrow> string \<Rightarrow> string \<Rightarrow> time option \<Rightarrow> unit store_op" where
  "SetLogOutcome tid i status errText subj bod sentAt = with_fail ''SetLogOutcome'' (\<lambda>m.
     case map_of (Logs m) i of
       None \<Rightarrow> (Inl Store_ErrNotFound, m)
     | Some l \<Rightarrow>
         if lg_TenantID l \<noteq> tid \<or> lg_Status l \<noteq> ''pending'' then (Inl Store_ErrNotFound, m)
         else (Inr (), m\<lparr>Logs := AList.update i (l\<lparr> lg_Status := status, lg_Error := errText,
            lg_RenderedSubject := subj, lg_RenderedBody := bod, lg_SentAt := sentAt \<rparr>) (Logs m)\<rparr>))"

definition GetLog :: "string \<Rightarrow> string \<Rightarrow> log_row store_op" where
  "GetLog tid i = with_fail ''GetLog'' (\<lambda>m. case map_of (Logs m) i of
      None \<Rightarrow> (Inl Store_ErrNotFound, m)
    | Some l \<Rightarrow> if lg_TenantID l \<noteq> tid then (Inl Store_ErrNotFound, m) else (Inr l, m))"

text \<open>\<open>!cursor.IsZero() && !(ts.Before(cursorTS) || (ts.Equal(cursorTS) && id < cursorID))\<close> skips.\<close>

definition before_cursor :: "time \<Rightarrow> string \<Rightarrow> time \<Rightarrow> string \<Rightarrow> bool" where
  "before_cursor cts cid ts i \<longleftrightarrow> IsZero cts \<or> ts < cts \<or> (ts = cts \<and> i < cid)"

text \<open>Newest first, ties by descending id; a positive limit truncates.\<close>

definition newest_first :: "('r \<Rightarrow> time \<times> string) \<Rightarrow> int \<Rightarrow> 'r list \<Rightarrow> 'r list" where
  "newest_first key limit out =
     (let s = rev (sort_key key out) in if 0 < limit then take (nat limit) s else s)"

definition log_matches :: "string \<Rightarrow> log_filter \<Rightarrow> time \<Rightarrow> log_row \<Rightarrow> bool" where
  "log_matches tid f till l \<longleftrightarrow> \<not> (lg_TenantID l \<noteq> tid
     \<or> (lf_ChannelID f \<noteq> '''' \<and> lg_ChannelID l \<noteq> lf_ChannelID f)
     \<or> (lf_TemplateID f \<noteq> '''' \<and> strp (lg_TemplateID l) \<noteq> lf_TemplateID f)
     \<or> (lf_Recipient f \<noteq> '''' \<and> \<not> Contains (ToLower (lg_Recipient l)) (ToLower (lf_Recipient f)))
     \<or> (lf_Status f \<noteq> '''' \<and> lg_Status l \<noteq> lf_Status f)
     \<or> (lf_SenderID f \<noteq> '''' \<and> lg_SenderID l \<noteq> lf_SenderID f)
     \<or> lg_CreatedAt l < lf_From f \<or> lg_CreatedAt l > till)"

definition LogPage :: "string \<Rightarrow> log_filter \<Rightarrow> log_row list store_op" where
  "LogPage tid f = with_fail ''LogPage'' (\<lambda>m.
     let till = (if IsZero (lf_To f) then Now m + Minute else lf_To f);
         out = map (\<lambda>l. l\<lparr>lg_RenderedBody := ''''\<rparr>)
           (filter (\<lambda>l. log_matches tid f till l
              \<and> before_cursor (lf_CursorTS f) (lf_CursorID f) (lg_CreatedAt l) (lg_ID l)) (rows (Logs m)))
     in (Inr (newest_first (\<lambda>l. (lg_CreatedAt l, lg_ID l)) (lf_Limit f) out), m))"

definition ExpirePendingLogs :: "time \<Rightarrow> int store_op" where
  "ExpirePendingLogs olderThan = with_fail ''ExpirePendingLogs'' (\<lambda>m.
     let stale = (\<lambda>l. lg_Status l = ''pending'' \<and> lg_CreatedAt l < olderThan) in
     (Inr (int (length (filter stale (rows (Logs m))))),
      m\<lparr>Logs := map_rows (\<lambda>k l. if stale l
          then l\<lparr>lg_Status := ''failed'', lg_Error := ''interrupted''\<rparr> else l) (Logs m)\<rparr>))"

section \<open>Grants\<close>

definition same_tuple :: "grant \<Rightarrow> grant \<Rightarrow> bool" where
  "same_tuple x g \<longleftrightarrow> gr_TenantID x = gr_TenantID g \<and> gr_ResourceType x = gr_ResourceType g
     \<and> gr_ResourceID x = gr_ResourceID g \<and> gr_SubjectType x = gr_SubjectType g
     \<and> gr_SubjectID x = gr_SubjectID g"

definition UpsertGrant :: "grant \<Rightarrow> grant store_op" where
  "UpsertGrant g = with_fail ''UpsertGrant'' (\<lambda>m.
     case find (\<lambda>(k, x). same_tuple x g) (Grants m) of
       Some (k, x) \<Rightarrow>
         let x' = x\<lparr> gr_Relation := gr_Relation g, gr_GrantedBy := gr_GrantedBy g,
                gr_GrantedAt := Now m, gr_ExpiresAt := gr_ExpiresAt g \<rparr>
         in (Inr x', m\<lparr>Grants := AList.update k x' (Grants m)\<rparr>)
     | None \<Rightarrow>
         let g' = g\<lparr>gr_GrantedAt := Now m\<rparr>
         in (Inr g', m\<lparr>Grants := AList.update (gr_ID g) g' (Grants m)\<rparr>))"

definition GetGrant :: "string \<Rightarrow> string \<Rightarrow> grant store_op" where
  "GetGrant tid i = with_fail ''GetGrant'' (\<lambda>m. case map_of (Grants m) i of
      None \<Rightarrow> (Inl Store_ErrNotFound, m)
    | Some g \<Rightarrow> if gr_TenantID g \<noteq> tid then (Inl Store_ErrNotFound, m) else (Inr g, m))"

definition DeleteGrant :: "string \<Rightarrow> string \<Rightarrow> unit store_op" where
  "DeleteGrant tid i = with_fail ''DeleteGrant'' (\<lambda>m. case map_of (Grants m) i of
      None \<Rightarrow> (Inl Store_ErrNotFound, m)
    | Some g \<Rightarrow> if gr_TenantID g \<noteq> tid then (Inl Store_ErrNotFound, m)
        else (Inr (), m\<lparr>Grants := AList.delete i (Grants m)\<rparr>))"

definition sortGrants :: "grant list \<Rightarrow> grant list" where
  "sortGrants out = sort_key (\<lambda>g. (gr_GrantedAt g, gr_ID g)) out"

definition GrantsOnResource :: "string \<Rightarrow> string \<Rightarrow> string \<Rightarrow> grant list store_op" where
  "GrantsOnResource tid rt rid = with_fail ''GrantsOnResource'' (\<lambda>m.
     (Inr (sortGrants (filter (\<lambda>g. gr_TenantID g = tid \<and> gr_ResourceType g = rt \<and> gr_ResourceID g = rid)
        (rows (Grants m)))), m))"

text \<open>\<open>g.ExpiresAt != nil && !g.ExpiresAt.After(now)\<close>\<close>

definition expired_at :: "time option \<Rightarrow> time \<Rightarrow> bool" where
  "expired_at x now = (case x of None \<Rightarrow> False | Some e \<Rightarrow> \<not> e > now)"

definition GrantsForSubjects :: "string \<Rightarrow> string \<Rightarrow> string list \<Rightarrow> time \<Rightarrow> grant list store_op" where
  "GrantsForSubjects tid uid roles now = with_fail ''GrantsForSubjects'' (\<lambda>m.
     (Inr (sortGrants (filter (\<lambda>g.
        \<not> (gr_TenantID g \<noteq> tid \<or> expired_at (gr_ExpiresAt g) now) \<and>
        (if gr_SubjectType g = ''user'' then \<not> (uid = '''' \<or> gr_SubjectID g \<noteq> uid)
         else if gr_SubjectType g = ''role'' then list_ex (\<lambda>r. r = gr_SubjectID g) roles
         else True)) (rows (Grants m)))), m))"

definition DeleteGrantsOfResource :: "string \<Rightarrow> string \<Rightarrow> string \<Rightarrow> unit store_op" where
  "DeleteGrantsOfResource tid rt rid = with_fail ''DeleteGrantsOfResource'' (\<lambda>m.
     (Inr (), m\<lparr>Grants := drop_rows (\<lambda>k g. gr_TenantID g = tid \<and> gr_ResourceType g = rt
        \<and> gr_ResourceID g = rid) (Grants m)\<rparr>))"

definition DeleteGrantsOfSubject ::
  "string \<Rightarrow> string \<Rightarrow> string \<Rightarrow> string \<Rightarrow> string \<Rightarrow> unit store_op" where
  "DeleteGrantsOfSubject tid rt rid st sid = with_fail ''DeleteGrantsOfSubject'' (\<lambda>m.
     (Inr (), m\<lparr>Grants := drop_rows (\<lambda>k g. gr_TenantID g = tid \<and> gr_ResourceType g = rt
        \<and> gr_ResourceID g = rid \<and> gr_SubjectType g = st \<and> gr_SubjectID g = sid) (Grants m)\<rparr>))"

section \<open>Shared facts\<close>

lemma with_fail_None: "Fail m opn = None \<Longrightarrow> with_fail opn body m = body m"
  by (simp add: with_fail_def)

lemma with_fail_Inr: "with_fail opn body m = (Inr x, m') \<longleftrightarrow> Fail m opn = None \<and> body m = (Inr x, m')"
  by (simp add: with_fail_def split: option.splits)

text \<open>No operation of the store is made to fail.\<close>

definition healthy :: "memstore \<Rightarrow> bool" where
  "healthy m \<longleftrightarrow> (\<forall>opn. Fail m opn = None)"

lemma healthyD [simp]: "healthy m \<Longrightarrow> Fail m opn = None"
  by (simp add: healthy_def)

lemma healthy_with_fail [simp]: "healthy m \<Longrightarrow> with_fail opn body m = body m"
  by (simp add: with_fail_None)

lemma keeps_with_fail [intro]: "keeps P body \<Longrightarrow> keeps P (with_fail opn body)"
  by (simp add: keeps_def with_fail_def split: option.splits)

lemma restore_same: "Fail m' = Fail m \<Longrightarrow> Now m' = Now m \<Longrightarrow> restore_tables m m' = m"
  by (simp add: restore_tables_def)

lemmas read_defs = GetChannel_def ListChannels_def ManagedChannel_def DefaultEmailChannel_def
  GetTemplate_def ListTemplates_def TemplatesByIDs_def AllTemplates_def TemplateByKey_def
  GetLog_def LogPage_def GetGrant_def GrantsOnResource_def GrantsForSubjects_def

text \<open>Reads leave the store as it was.\<close>

lemma reads_frame [frame_simps]:
  "snd (GetChannel tid i m) = m" "snd (ListChannels tid typ after lim m) = m"
  "snd (ManagedChannel tid m) = m" "snd (DefaultEmailChannel tid m) = m"
  "snd (GetTemplate tid i m) = m" "snd (ListTemplates tid ch q after lim m) = m"
  "snd (TemplatesByIDs tid ids m) = m" "snd (AllTemplates tid lim m) = m"
  "snd (TemplateByKey tid key m) = m" "snd (GetLog tid i m) = m" "snd (LogPage tid f m) = m"
  "snd (GetGrant tid i m) = m" "snd (GrantsOnResource tid rt rid m) = m"
  "snd (GrantsForSubjects tid uid roles now m) = m"
  by (auto simp: read_defs with_fail_def Let_def split: option.splits)

lemma GetChannel_Inr:
  "GetChannel tid i m = (Inr c, m') \<longleftrightarrow> m' = m \<and> Fail m ''GetChannel'' = None \<and>
     (\<exists>r. map_of (Channels m) i = Some r \<and> ch_TenantID r = tid \<and> c = r\<lparr>ch_TemplateCount := templateCount m i\<rparr>)"
  by (auto simp: GetChannel_def with_fail_def split: option.splits if_splits)

lemma GetTemplate_Inr:
  "GetTemplate tid i m = (Inr t, m') \<longleftrightarrow> m' = m \<and> Fail m ''GetTemplate'' = None \<and>
     (\<exists>r. map_of (Templates m) i = Some r \<and> tp_TenantID r = tid \<and> t = decorate m r)"
  by (auto simp: GetTemplate_def with_fail_def split: option.splits if_splits)

lemma GetGrant_Inr:
  "GetGrant tid i m = (Inr g, m') \<longleftrightarrow> m' = m \<and> Fail m ''GetGrant'' = None \<and>
     map_of (Grants m) i = Some g \<and> gr_TenantID g = tid"
  by (auto simp: GetGrant_def with_fail_def split: option.splits if_splits)

end
