(* ===== verification/MemMessages.thy ===== *)
theory MemMessages
  imports Memstore
begin

text \<open>
  \<open>internal/memstore/memstore.go\<close>, second part: categories, internal messages with the claim of due
  ones, inbox entries, the audit table and the tenant statistics.
\<close>

section \<open>Categories\<close>

definition messageCount :: "memstore \<Rightarrow> string \<Rightarrow> nat" where
  "messageCount m cid = length (filter (\<lambda>x. strp (ms_CategoryID x) = cid) (rows (Messages m)))"

definition InsertCategory :: "category \<Rightarrow> unit store_op" where
  "InsertCategory c = with_fail ''InsertCategory'' (\<lambda>m.
     if list_ex (\<lambda>x. ca_TenantID x = ca_TenantID c \<and> ToLower (ca_Name x) = ToLower (ca_Name c))
          (rows (Categories m))
     then (Inl Store_ErrConflict, m)
     else (Inr (), m\<lparr>Categories := AList.update (ca_ID c)
            (c\<lparr>ca_CreatedAt := Now m, ca_UpdatedAt := Now m\<rparr>) (Categories m)\<rparr>))"

definition GetCategory :: "string \<Rightarrow> string \<Rightarrow> category store_op" where
  "GetCategory tid i = with_fail ''GetCategory'' (\<lambda>m. case map_of (Categories m) i of
      None \<Rightarrow> (Inl Store_ErrNotFound, m)
    | Some c \<Rightarrow> if ca_TenantID c \<noteq> tid then (Inl Store_ErrNotFound, m)
        else (Inr (c\<lparr>ca_MessageCount := messageCount m i\<rparr>), m))"

definition ListCategories :: "string \<Rightarrow> category list store_op" where
  "ListCategories tid = with_fail ''ListCategories'' (\<lambda>m.
     (Inr (sort_key (\<lambda>c. (ca_Sort c, ToLower (ca_Name c), ca_ID c))
        (map (\<lambda>c. c\<lparr>ca_MessageCount := messageCount m (ca_ID c)\<rparr>)
          (filter (\<lambda>c. ca_TenantID c = tid) (rows (Categories m))))), m))"

definition UpdateCategory :: "category \<Rightarrow> unit store_op" where
  "UpdateCategory c = with_fail ''UpdateCategory'' (\<lambda>m. case map_of (Categories m) (ca_ID c) of
      None \<Rightarrow> (Inl Store_ErrNotFound, m)
    | Some old \<Rightarrow>
        if ca_TenantID old \<noteq> ca_TenantID c then (Inl Store_ErrNotFound, m)
        else if list_ex (\<lambda>(k, x). k \<noteq> ca_ID c \<and> ca_TenantID x = ca_TenantID c \<and>
               ToLower (ca_Name x) = ToLower (ca_Name c)) (Categories m)
        then (Inl Store_ErrConflict, m)
        else
          let old' = old\<lparr> ca_Name := ca_Name c, ca_Description := ca_Description c,
                ca_Sort := ca_Sort c, ca_UpdatedBy := ca_UpdatedBy c, ca_UpdatedAt := Now m \<rparr>
          in (Inr (), m\<lparr>Categories := AList.update (ca_ID c) old' (Categories m)\<rparr>))"

definition DeleteCategory :: "string \<Rightarrow> string \<Rightarrow> unit store_op" where
  "DeleteCategory tid i = with_fail ''DeleteCategory'' (\<lambda>m. case map_of (Categories m) i of
      None \<Rightarrow> (Inl Store_ErrNotFound, m)
    | Some c \<Rightarrow>
        if ca_TenantID c \<noteq> tid then (Inl Store_ErrNotFound, m)
        else if messageCount m i > 0 then (Inl Store_ErrConflict, m)
        else (Inr (), m\<lparr>Categories := AList.delete i (Categories m)\<rparr>))"

section \<open>Messages\<close>

text \<open>\<open>Recipients\<close> left empty reads back as the JSON object without members.\<close>

definition decorateMessage :: "memstore \<Rightarrow> message \<Rightarrow> message" where
  "decorateMessage m msg =
     (let named = (case ms_CategoryID msg of
            None \<Rightarrow> msg
          | Some cid \<Rightarrow> (case map_of (Categories m) cid of
              None \<Rightarrow> msg
            | Some c \<Rightarrow> msg\<lparr>ms_CategoryName := ca_Name c\<rparr>));
          mine = filter (\<lambda>i. ib_MessageID i = ms_ID msg) (rows (Inbox m))
      in named\<lparr> ms_RecipientCount := length mine,
                ms_ReadCount := length (filter (\<lambda>i. ib_ReadAt i \<noteq> None) mine),
                ms_Recipients := (case ms_Recipients msg of
                    None \<Rightarrow> Some \<lparr>rc_All = False, rc_Users = []\<rparr>
                  | Some r \<Rightarrow> Some r) \<rparr>)"

text \<open>The reference to a category of the same tenant, checked on insert and update.\<close>

definition bad_category :: "memstore \<Rightarrow> message \<Rightarrow> bool" where
  "bad_category m msg = (case ms_CategoryID msg of
      None \<Rightarrow> False
    | Some cid \<Rightarrow> (case map_of (Categories m) cid of
          None \<Rightarrow> True
        | Some c \<Rightarrow> ca_TenantID c \<noteq> ms_TenantID msg))"

definition InsertMessage :: "message \<Rightarrow> unit store_op" where
  "InsertMessage msg = with_fail ''InsertMessage'' (\<lambda>m.
     if bad_category m msg then (Inl Store_ErrConflict, m)
     else (Inr (), m\<lparr>Messages := AList.update (ms_ID msg)
            (msg\<lparr>ms_CreatedAt := Now m, ms_UpdatedAt := Now m\<rparr>) (Messages m)\<rparr>))"

definition GetMessage :: "string \<Rightarrow> string \<Rightarrow> message store_op" where
  "GetMessage tid i = with_fail ''GetMessage'' (\<lambda>m. case map_of (Messages m) i of
      None \<Rightarrow> (Inl Store_ErrNotFound, m)
    | Some msg \<Rightarrow> if ms_TenantID msg \<noteq> tid then (Inl Store_ErrNotFound, m)
        else (Inr (decorateMessage m msg), m))"

definition message_matches :: "string \<Rightarrow> message_filter \<Rightarrow> message \<Rightarrow> bool" where
  "message_matches tid f msg \<longleftrightarrow> \<not> (ms_TenantID msg \<noteq> tid
     \<or> (mf_Status f \<noteq> '''' \<and> ms_Status msg \<noteq> mf_Status f)
     \<or> (mf_CategoryID f \<noteq> '''' \<and> strp (ms_CategoryID msg) \<noteq> mf_CategoryID f)
     \<or> (mf_Q f \<noteq> '''' \<and> \<not> Contains (ToLower (ms_Title msg)) (ToLower (mf_Q f)))
     \<or> (mf_SenderID f \<noteq> '''' \<and> strp (ms_SenderID msg) \<noteq> mf_SenderID f))"

definition ListMessages :: "string \<Rightarrow> message_filter \<Rightarrow> message list store_op" where
  "ListMessages tid f = with_fail ''ListMessages'' (\<lambda>m.
     let out = map (decorateMessage m) (filter (\<lambda>msg. message_matches tid f msg
           \<and> before_cursor (mf_CursorTS f) (mf_CursorID f) (ms_CreatedAt msg) (ms_ID msg))
           (rows (Messages m)))
     in (Inr (newest_first (\<lambda>x. (ms_CreatedAt x, ms_ID x)) (mf_Limit f) out), m))"

definition UpdateMessage :: "message \<Rightarrow> unit store_op" where
  "UpdateMessage msg = with_fail ''UpdateMessage'' (\<lambda>m. case map_of (Messages m) (ms_ID msg) of
      None \<Rightarrow> (Inl Store_ErrNotFound, m)
    | Some old \<Rightarrow>
        if ms_TenantID old \<noteq> ms_TenantID msg then (Inl Store_ErrNotFound, m)
        else if bad_category m msg then (Inl Store_ErrConflict, m)
        else
          let old' = old\<lparr> ms_Title := ms_Title msg, ms_Content := ms_Content msg, ms_Type := ms_Type msg,
                ms_CategoryID := ms_CategoryID msg, ms_Recipients := ms_Recipients msg,
                ms_ScheduledAt := ms_ScheduledAt msg, ms_Status := ms_Status msg,
                ms_UpdatedBy := ms_UpdatedBy msg, ms_UpdatedAt := Now m \<rparr>
          in (Inr (), m\<lparr>Messages := AList.update (ms_ID msg) old' (Messages m)\<rparr>))"

definition SetMessageStatus :: "string \<Rightarrow> string \<Rightarrow> string \<Rightarrow> time option \<Rightarrow> unit store_op" where
  "SetMessageStatus tid i status at = with_fail ''SetMessageStatus'' (\<lambda>m. case map_of (Messages m) i of
      None \<Rightarrow> (Inl Store_ErrNotFound, m)
    | Some msg \<Rightarrow>
        if ms_TenantID msg \<noteq> tid then (Inl Store_ErrNotFound, m)
        else
          let msg' = msg\<lparr> ms_Status := status, ms_LeaseUntil := None, ms_UpdatedAt := Now m,
                ms_PublishedAt := (if at \<noteq> None then at else ms_PublishedAt msg) \<rparr>
          in (Inr (), m\<lparr>Messages := AList.update i msg' (Messages m)\<rparr>))"

definition DeleteMessage :: "string \<Rightarrow> string \<Rightarrow> unit store_op" where
  "DeleteMessage tid i = with_fail ''DeleteMessage'' (\<lambda>m. case map_of (Messages m) i of
      None \<Rightarrow> (Inl Store_ErrNotFound, m)
    | Some msg \<Rightarrow>
        if ms_TenantID msg \<noteq> tid then (Inl Store_ErrNotFound, m)
        else (Inr (), m\<lparr> Messages := AList.delete i (Messages m),
               Inbox := drop_rows (\<lambda>k x. ib_MessageID x = i) (Inbox m) \<rparr>))"

text \<open>A message is due for publication when its time has come and no live lease covers it.\<close>

definition claimable :: "time \<Rightarrow> message \<Rightarrow> bool" where
  "claimable now msg \<longleftrightarrow> (ms_Status msg = ''scheduled'' \<or> ms_Status msg = ''publishing'')
     \<and> (case ms_ScheduledAt msg of None \<Rightarrow> False | Some t \<Rightarrow> \<not> t > now)
     \<and> (case ms_LeaseUntil msg of None \<Rightarrow> True | Some u \<Rightarrow> u < now)"

definition claimed :: "time \<Rightarrow> duration \<Rightarrow> message \<Rightarrow> message" where
  "claimed now lease msg = msg\<lparr>ms_Status := ''publishing'', ms_LeaseUntil := Some (now + lease)\<rparr>"

text \<open>The literal \<open>store.Message{ID: .., TenantID: ..}\<close>: every other field is zero.\<close>

definition zero_message :: message where
  "zero_message = \<lparr> ms_ID = '''', ms_TenantID = '''', ms_Title = '''', ms_Content = '''', ms_Type = '''',
     ms_Status = '''', ms_CategoryID = None, ms_SenderID = None, ms_SenderService = '''',
     ms_Recipients = None, ms_ScheduledAt = None, ms_LeaseUntil = None, ms_PublishedAt = None,
     ms_CreatedBy = None, ms_UpdatedBy = None, ms_CreatedAt = 0, ms_UpdatedAt = 0,
     ms_CategoryName = '''', ms_RecipientCount = 0, ms_ReadCount = 0 \<rparr>"

text \<open>
  The loop over the table, with the number of messages taken so far: it stops right after the
  message that makes the count equal to the limit (a limit of 0 is therefore no limit).
\<close>

fun claim_loop ::
  "time \<Rightarrow> duration \<Rightarrow> int \<Rightarrow> int \<Rightarrow> message table \<Rightarrow> message table \<times> message list" where
  "claim_loop now lease limit n [] = ([], [])"
| "claim_loop now lease limit n ((k, msg) # t) =
     (if claimable now msg then
        let o1 = zero_message\<lparr>ms_ID := ms_ID msg, ms_TenantID := ms_TenantID msg\<rparr> in
        if n + 1 = limit then ((k, claimed now lease msg) # t, [o1])
        else (let (t', os) = claim_loop now lease limit (n + 1) t
              in ((k, claimed now lease msg) # t', o1 # os))
      else (let (t', os) = claim_loop now lease limit n t in ((k, msg) # t', os)))"

definition ClaimDueMessages :: "time \<Rightarrow> duration \<Rightarrow> int \<Rightarrow> message list store_op" where
  "ClaimDueMessages now lease limit = with_fail ''ClaimDueMessages'' (\<lambda>m.
     let (t, out) = claim_loop now lease limit 0 (Messages m)
     in (Inr (sort_key ms_ID out), m\<lparr>Messages := t\<rparr>))"

section \<open>The inbox\<close>

definition inbox_dup :: "inbox_row table \<Rightarrow> inbox_row \<Rightarrow> bool" where
  "inbox_dup t r \<longleftrightarrow> list_ex (\<lambda>x. ib_MessageID x = ib_MessageID r \<and> ib_RecipientID x = ib_RecipientID r) (rows t)"

fun insert_inbox_loop :: "time \<Rightarrow> inbox_row list \<Rightarrow> inbox_row table \<Rightarrow> inbox_row table \<times> int" where
  "insert_inbox_loop now [] t = (t, 0)"
| "insert_inbox_loop now (r # rs) t =
     (if inbox_dup t r then insert_inbox_loop now rs t
      else let r' = r\<lparr>ib_CreatedAt := now, ib_UpdatedAt := now\<rparr>;
               (t', n) = insert_inbox_loop now rs (AList.update (ib_ID r) r' t)
           in (t', n + 1))"

definition InsertInboxBatch :: "inbox_row list \<Rightarrow> int store_op" where
  "InsertInboxBatch rs = with_fail ''InsertInboxBatch'' (\<lambda>m.
     let (t, n) = insert_inbox_loop (Now m) rs (Inbox m) in (Inr n, m\<lparr>Inbox := t\<rparr>))"

definition visible_entry :: "inbox_row \<Rightarrow> bool" where
  "visible_entry i \<longleftrightarrow> ib_Status i \<noteq> ''deleted'' \<and> (ib_Status i \<noteq> ''revoked'' \<or> ib_ReadAt i \<noteq> None)"

definition withMessage :: "memstore \<Rightarrow> inbox_row \<Rightarrow> inbox_row" where
  "withMessage m i = (case map_of (Messages m) (ib_MessageID i) of
      None \<Rightarrow> i
    | Some msg \<Rightarrow> i\<lparr>ib_Message := Some (decorateMessage m msg)\<rparr>)"

definition inbox_matches :: "string \<Rightarrow> string \<Rightarrow> string \<Rightarrow> inbox_row \<Rightarrow> bool" where
  "inbox_matches tid rid status i \<longleftrightarrow>
     \<not> (ib_TenantID i \<noteq> tid \<or> ib_RecipientID i \<noteq> rid \<or> \<not> visible_entry i)
     \<and> \<not> ((status = ''unread'' \<and> ib_Status i \<noteq> ''sent'' \<and> ib_Status i \<noteq> ''received'')
         \<or> (status = ''read'' \<and> ib_Status i \<noteq> ''read''))"

definition InboxPage ::
  "string \<Rightarrow> string \<Rightarrow> string \<Rightarrow> time \<Rightarrow> string \<Rightarrow> int \<Rightarrow> inbox_row list store_op" where
  "InboxPage tid rid status cts cid limit = with_fail ''InboxPage'' (\<lambda>m.
     let out = map (withMessage m) (filter (\<lambda>i. inbox_matches tid rid status i
           \<and> before_cursor cts cid (ib_CreatedAt i) (ib_ID i)) (rows (Inbox m)))
     in (Inr (newest_first (\<lambda>i. (ib_CreatedAt i, ib_ID i)) limit out), m))"

definition GetInboxEntry :: "string \<Rightarrow> string \<Rightarrow> string \<Rightarrow> inbox_row store_op" where
  "GetInboxEntry tid rid i = with_fail ''GetInboxEntry'' (\<lambda>m. case map_of (Inbox m) i of
      None \<Rightarrow> (Inl Store_ErrNotFound, m)
    | Some x \<Rightarrow>
        if ib_TenantID x \<noteq> tid \<or> ib_RecipientID x \<noteq> rid \<or> \<not> visible_entry x
        then (Inl Store_ErrNotFound, m) else (Inr (withMessage m x), m))"

definition unread_of :: "string \<Rightarrow> string \<Rightarrow> inbox_row \<Rightarrow> bool" where
  "unread_of tid rid i \<longleftrightarrow> ib_TenantID i = tid \<and> ib_RecipientID i = rid
     \<and> (ib_Status i = ''sent'' \<or> ib_Status i = ''received'')"

definition InboxUnread :: "string \<Rightarrow> string \<Rightarrow> int store_op" where
  "InboxUnread tid rid = with_fail ''InboxUnread'' (\<lambda>m.
     (Inr (int (length (filter (unread_of tid rid) (rows (Inbox m))))), m))"

text \<open>
  The transition of one entry: an unknown status is a conflict, \<open>None\<close> in the sum is a
  \<open>continue\<close>, otherwise the entry with its new status.
\<close>

definition active_entry :: "inbox_row \<Rightarrow> bool" where
  "active_entry i \<longleftrightarrow> ib_Status i = ''sent'' \<or> ib_Status i = ''received'' \<or> ib_Status i = ''read''"

definition inbox_transition :: "time \<Rightarrow> string \<Rightarrow> inbox_row \<Rightarrow> goerr + inbox_row option" where
  "inbox_transition now status i =
     (if status = ''read'' then
        (if \<not> active_entry i then Inr None
         else Inr (Some (i\<lparr> ib_Status := ''read'',
                ib_ReadAt := (case ib_ReadAt i of None \<Rightarrow> Some now | Some t \<Rightarrow> Some t) \<rparr>)))
      else if status = ''unread'' then
        (if \<not> active_entry i then Inr None
         else Inr (Some (i\<lparr>ib_Status := ''sent'', ib_ReadAt := None\<rparr>)))
      else if status = ''received'' then
        (if ib_Status i \<noteq> ''sent'' then Inr None else Inr (Some (i\<lparr>ib_Status := ''received''\<rparr>)))
      else if status = ''deleted'' then
        (if ib_Status i = ''deleted'' then Inr None else Inr (Some (i\<lparr>ib_Status := ''deleted''\<rparr>)))
      else Inl Store_ErrConflict)"

fun set_inbox_loop ::
  "time \<Rightarrow> string \<Rightarrow> string \<Rightarrow> string \<Rightarrow> string list \<Rightarrow> inbox_row table \<Rightarrow> int
     \<Rightarrow> (goerr + int) \<times> inbox_row table" where
  "set_inbox_loop now tid rid status [] t n = (Inr n, t)"
| "set_inbox_loop now tid rid status (k # ks) t n =
     (case map_of t k of
        None \<Rightarrow> set_inbox_loop now tid rid status ks t n
      | Some i \<Rightarrow>
          if ib_TenantID i \<noteq> tid \<or> ib_RecipientID i \<noteq> rid
          then set_inbox_loop now tid rid status ks t n
          else (case inbox_transition now status i of
              Inl e \<Rightarrow> (Inl e, t)
            | Inr None \<Rightarrow> set_inbox_loop now tid rid status ks t n
            | Inr (Some i') \<Rightarrow>
                set_inbox_loop now tid rid status ks (AList.update k (i'\<lparr>ib_UpdatedAt := now\<rparr>) t) (n + 1)))"

definition SetInboxStatus :: "string \<Rightarrow> string \<Rightarrow> string list \<Rightarrow> string \<Rightarrow> int store_op" where
  "SetInboxStatus tid rid ids status = with_fail ''SetInboxStatus'' (\<lambda>m.
     let (r, t) = set_inbox_loop (Now m) tid rid status ids (Inbox m) 0 in (r, m\<lparr>Inbox := t\<rparr>))"

definition revocable :: "string \<Rightarrow> string \<Rightarrow> inbox_row \<Rightarrow> bool" where
  "revocable tid mid i \<longleftrightarrow> ib_TenantID i = tid \<and> ib_MessageID i = mid \<and> active_entry i"

definition RevokeUnread :: "string \<Rightarrow> string \<Rightarrow> string list store_op" where
  "RevokeUnread tid mid = with_fail ''RevokeUnread'' (\<lambda>m.
     (Inr (sort (map ib_RecipientID (filter (revocable tid mid) (rows (Inbox m))))),
      m\<lparr>Inbox := map_rows (\<lambda>k i. if revocable tid mid i then i\<lparr>ib_Status := ''revoked''\<rparr> else i)
         (Inbox m)\<rparr>))"

definition MessageRecipients ::
  "string \<Rightarrow> string \<Rightarrow> string \<Rightarrow> string \<Rightarrow> int \<Rightarrow> inbox_row list store_op" where
  "MessageRecipients tid mid status after limit = with_fail ''MessageRecipients'' (\<lambda>m.
     let out = sort_key ib_ID (filter (\<lambda>i. ib_TenantID i = tid \<and> ib_MessageID i = mid
           \<and> (status = '''' \<or> ib_Status i = status) \<and> ib_ID i > after) (rows (Inbox m)))
     in (Inr (if 0 < limit then take (nat limit) out else out), m))"

section \<open>The audit table and the statistics\<close>

definition InsertAuditRows :: "audit_row list \<Rightarrow> unit store_op" where
  "InsertAuditRows rs = with_fail ''InsertAuditRows'' (\<lambda>m. (Inr (), m\<lparr>AuditLog := AuditLog m @ rs\<rparr>))"

definition audit_matches ::
  "string \<Rightarrow> string \<Rightarrow> string \<Rightarrow> time \<Rightarrow> time \<Rightarrow> time \<Rightarrow> audit_row \<Rightarrow> bool" where
  "audit_matches tid et actor from till cursor r \<longleftrightarrow> \<not> (au_TenantID r \<noteq> tid
     \<or> (et \<noteq> '''' \<and> au_EventType r \<noteq> et) \<or> (actor \<noteq> '''' \<and> au_ActorID r \<noteq> actor)
     \<or> au_TS r < from \<or> au_TS r > till \<or> (\<not> IsZero cursor \<and> \<not> au_TS r < cursor))"

definition name_subject :: "memstore \<Rightarrow> string \<Rightarrow> audit_row \<Rightarrow> audit_row" where
  "name_subject m tid r =
     (if au_SubjectKind r = ''channel'' then
        (case map_of (Channels m) (au_SubjectID r) of
           Some c \<Rightarrow> if ch_TenantID c = tid then r\<lparr>au_SubjectName := ch_Name c\<rparr> else r
         | None \<Rightarrow> r)
      else if au_SubjectKind r = ''template'' then
        (case map_of (Templates m) (au_SubjectID r) of
           Some c \<Rightarrow> if tp_TenantID c = tid then r\<lparr>au_SubjectName := tp_Name c\<rparr> else r
         | None \<Rightarrow> r)
      else if au_SubjectKind r = ''message'' then
        (case map_of (Messages m) (au_SubjectID r) of
           Some c \<Rightarrow> if ms_TenantID c = tid then r\<lparr>au_SubjectName := ms_Title c\<rparr> else r
         | None \<Rightarrow> r)
      else r)"

text \<open>\<open>sort.SliceStable\<close> by descending time; \<open>out[:limit]\<close> panics for a negative limit, which no
  caller passes, so the limit is a natural number.\<close>

definition QueryAudit ::
  "string \<Rightarrow> string \<Rightarrow> string \<Rightarrow> time \<Rightarrow> time \<Rightarrow> time \<Rightarrow> nat \<Rightarrow> audit_row list store_op" where
  "QueryAudit tid et actor from till cursor limit = with_fail ''QueryAudit'' (\<lambda>m.
     (Inr (take limit (sort_key (\<lambda>r. - au_TS r)
        (map (name_subject m tid) (filter (audit_matches tid et actor from till cursor) (AuditLog m))))), m))"

text \<open>\<open>counts[key]++\<close> on a map of counters.\<close>

definition count_up :: "string \<Rightarrow> (string \<times> int) list \<Rightarrow> (string \<times> int) list" where
  "count_up k t = AList.update k ((case map_of t k of None \<Rightarrow> 0 | Some n \<Rightarrow> n) + 1) t"

definition TenantStats :: "string \<Rightarrow> time \<Rightarrow> stats store_op" where
  "TenantStats tid now = with_fail ''TenantStats'' (\<lambda>m.
     let since = now - 24 * Hour in
     (Inr \<lparr> st_Channels = int (length (filter (\<lambda>c. ch_TenantID c = tid) (rows (Channels m)))),
        st_Templates = int (length (filter (\<lambda>t. tp_TenantID t = tid) (rows (Templates m)))),
        st_Notifications = fold (\<lambda>l. count_up (lg_Status l))
          (filter (\<lambda>l. lg_TenantID l = tid \<and> \<not> lg_CreatedAt l < since) (rows (Logs m))) [],
        st_Messages = fold (\<lambda>x. count_up (ms_Status x))
          (filter (\<lambda>x. ms_TenantID x = tid) (rows (Messages m))) [],
        st_Operations24h = int (length (filter (\<lambda>r. au_TenantID r = tid \<and> \<not> au_TS r < since) (AuditLog m))) \<rparr>,
      m))"

end
