(* ===== verification/StoreLaws.thy ===== *)
theory StoreLaws
  imports MemMessages
begin

text \<open>
  What the store promises its clients: the invariant \<open>wf_store\<close> (the unique indexes and the foreign
  key of the database), kept by every operation, the interface of the tables whose rows belong to
  a tenant as a locale interpreted on the store's tables, transactions, and the step relation of
  the store with its reachable states.
\<close>

section \<open>Unique indexes\<close>

definition no_clash :: "('r \<Rightarrow> 'r \<Rightarrow> bool) \<Rightarrow> 'r table \<Rightarrow> bool" where
  "no_clash R t \<longleftrightarrow> (\<forall>(k, x) \<in> set t. \<forall>(l, y) \<in> set t. k \<noteq> l \<longrightarrow> \<not> R x y)"

lemma no_clashD: "no_clash R t \<Longrightarrow> (k, x) \<in> set t \<Longrightarrow> (l, y) \<in> set t \<Longrightarrow> R x y \<Longrightarrow> k = l"
  by (auto simp: no_clash_def)

lemma no_clash_Nil [simp]: "no_clash R []"
  by (simp add: no_clash_def)

lemma no_clash_subset: "no_clash R t \<Longrightarrow> set t' \<subseteq> set t \<Longrightarrow> no_clash R t'"
  unfolding no_clash_def by blast

lemma set_update_subset: "set (AList.update k r t) \<subseteq> insert (k, r) (set t)"
  by (induction t) auto

lemma no_clash_update:
  assumes "no_clash R t" and "\<And>l y. (l, y) \<in> set t \<Longrightarrow> l \<noteq> k \<Longrightarrow> \<not> R r y \<and> \<not> R y r"
  shows "no_clash R (AList.update k r t)"
proof -
  have "no_clash R ((k, r) # t)"
    using assms unfolding no_clash_def by auto
  then show ?thesis
    by (rule no_clash_subset) (use set_update_subset in fastforce)
qed

lemma no_clash_update_same:
  assumes "no_clash R t" and "map_of t k = Some old"
    and "\<And>y. R r y \<Longrightarrow> R old y" and "\<And>y. R y r \<Longrightarrow> R y old"
  shows "no_clash R (AList.update k r t)"
  using assms(1)
proof (rule no_clash_update)
  fix l y assume "(l, y) \<in> set t" and "l \<noteq> k"
  with assms map_of_SomeD [OF assms(2)] show "\<not> R r y \<and> \<not> R y r"
    by (blast dest: no_clashD)
qed

lemma no_clash_delete: "no_clash R t \<Longrightarrow> no_clash R (AList.delete k t)"
  by (rule no_clash_subset) (auto simp: AList.delete_eq)

lemma no_clash_drop_rows: "no_clash R t \<Longrightarrow> no_clash R (drop_rows p t)"
  by (rule no_clash_subset) (auto simp: drop_rows_def)

lemma no_clash_map_rows:
  assumes "no_clash R t" and "\<And>k x l y. R (f k x) (f l y) \<Longrightarrow> R x y"
  shows "no_clash R (map_rows f t)"
  using assms unfolding no_clash_def map_rows_def by fastforce

lemmas no_clash_intros = no_clash_delete no_clash_drop_rows
lemmas wf_table_intros = wf_table_delete wf_table_drop_rows

text \<open>The unique indexes, as relations two different rows may not stand in.\<close>

definition channel_clash :: "channel \<Rightarrow> channel \<Rightarrow> bool" where
  "channel_clash x y \<longleftrightarrow> ch_TenantID x = ch_TenantID y \<and>
     (ToLower (ch_Name x) = ToLower (ch_Name y)
      \<or> (ch_IsDefault x \<and> ch_IsDefault y \<and> ch_Type x = ch_Type y)
      \<or> (ch_Managed x \<and> ch_Managed y))"

definition template_clash :: "template \<Rightarrow> template \<Rightarrow> bool" where
  "template_clash x y \<longleftrightarrow> tp_TenantID x = tp_TenantID y \<and>
     (ToLower (tp_Name x) = ToLower (tp_Name y)
      \<or> (tp_IsDefault x \<and> tp_IsDefault y \<and> tp_ChannelID x \<noteq> None \<and> tp_ChannelID x = tp_ChannelID y)
      \<or> (tp_SystemKey x \<noteq> None \<and> tp_SystemKey x = tp_SystemKey y))"

definition category_clash :: "category \<Rightarrow> category \<Rightarrow> bool" where
  "category_clash x y \<longleftrightarrow> ca_TenantID x = ca_TenantID y \<and> ToLower (ca_Name x) = ToLower (ca_Name y)"

definition inbox_clash :: "inbox_row \<Rightarrow> inbox_row \<Rightarrow> bool" where
  "inbox_clash x y \<longleftrightarrow> ib_MessageID x = ib_MessageID y \<and> ib_RecipientID x = ib_RecipientID y"

text \<open>An inbox entry's status, and when it carries a time of reading.\<close>

definition inbox_ok :: "inbox_row \<Rightarrow> bool" where
  "inbox_ok i \<longleftrightarrow> ib_Status i \<in> {''sent'', ''received'', ''read'', ''revoked'', ''deleted''} \<and>
     (ib_Status i = ''sent'' \<or> ib_Status i = ''received'' \<longrightarrow> ib_ReadAt i = None) \<and>
     (ib_Status i = ''read'' \<longrightarrow> ib_ReadAt i \<noteq> None)"

text \<open>A message's category exists and belongs to the message's tenant.\<close>

definition category_ok :: "category table \<Rightarrow> message \<Rightarrow> bool" where
  "category_ok ct msg = (case ms_CategoryID msg of
      None \<Rightarrow> True
    | Some cid \<Rightarrow> (case map_of ct cid of None \<Rightarrow> False | Some c \<Rightarrow> ca_TenantID c = ms_TenantID msg))"

definition categories_ok :: "category table \<Rightarrow> message table \<Rightarrow> bool" where
  "categories_ok ct mt \<longleftrightarrow> (\<forall>(k, msg) \<in> set mt. category_ok ct msg)"

definition wf_channels :: "memstore \<Rightarrow> bool" where
  "wf_channels m \<longleftrightarrow> wf_table ch_ID (Channels m) \<and> no_clash channel_clash (Channels m)"

definition wf_templates :: "memstore \<Rightarrow> bool" where
  "wf_templates m \<longleftrightarrow> wf_table tp_ID (Templates m) \<and> no_clash template_clash (Templates m)"

definition wf_grants :: "memstore \<Rightarrow> bool" where
  "wf_grants m \<longleftrightarrow> wf_table gr_ID (Grants m) \<and> no_clash same_tuple (Grants m)"

definition wf_categories :: "memstore \<Rightarrow> bool" where
  "wf_categories m \<longleftrightarrow> wf_table ca_ID (Categories m) \<and> no_clash category_clash (Categories m)"

definition wf_messages :: "memstore \<Rightarrow> bool" where
  "wf_messages m \<longleftrightarrow> wf_table ms_ID (Messages m) \<and> categories_ok (Categories m) (Messages m)"

definition wf_inbox :: "memstore \<Rightarrow> bool" where
  "wf_inbox m \<longleftrightarrow> wf_table ib_ID (Inbox m) \<and> no_clash inbox_clash (Inbox m)
     \<and> (\<forall>i \<in> set (rows (Inbox m)). inbox_ok i)"

definition wf_store :: "memstore \<Rightarrow> bool" where
  "wf_store m \<longleftrightarrow> wf_channels m \<and> wf_templates m \<and> wf_table lg_ID (Logs m) \<and> wf_grants m
     \<and> wf_categories m \<and> wf_messages m \<and> wf_inbox m"

lemmas wf_defs = wf_channels_def wf_templates_def wf_grants_def wf_categories_def wf_messages_def
  wf_inbox_def

lemma wf_empty_store: "wf_store empty_store"
  by (simp add: wf_store_def wf_defs empty_store_def categories_ok_def rows_def)

text \<open>Replacing one table keeps what is said of the others.\<close>

lemma wf_frame [simp]:
  "wf_channels (m\<lparr>Templates := t\<rparr>) = wf_channels m" "wf_channels (m\<lparr>Logs := l\<rparr>) = wf_channels m"
  "wf_channels (m\<lparr>Grants := g\<rparr>) = wf_channels m" "wf_channels (m\<lparr>Categories := ca\<rparr>) = wf_channels m"
  "wf_channels (m\<lparr>Messages := ms\<rparr>) = wf_channels m" "wf_channels (m\<lparr>Inbox := ib\<rparr>) = wf_channels m"
  "wf_templates (m\<lparr>Channels := c\<rparr>) = wf_templates m" "wf_templates (m\<lparr>Logs := l\<rparr>) = wf_templates m"
  "wf_templates (m\<lparr>Grants := g\<rparr>) = wf_templates m" "wf_templates (m\<lparr>Categories := ca\<rparr>) = wf_templates m"
  "wf_templates (m\<lparr>Messages := ms\<rparr>) = wf_templates m" "wf_templates (m\<lparr>Inbox := ib\<rparr>) = wf_templates m"
  "wf_grants (m\<lparr>Channels := c\<rparr>) = wf_grants m" "wf_grants (m\<lparr>Templates := t\<rparr>) = wf_grants m"
  "wf_grants (m\<lparr>Logs := l\<rparr>) = wf_grants m" "wf_grants (m\<lparr>Categories := ca\<rparr>) = wf_grants m"
  "wf_grants (m\<lparr>Messages := ms\<rparr>) = wf_grants m" "wf_grants (m\<lparr>Inbox := ib\<rparr>) = wf_grants m"
  "wf_categories (m\<lparr>Channels := c\<rparr>) = wf_categories m" "wf_categories (m\<lparr>Templates := t\<rparr>) = wf_categories m"
  "wf_categories (m\<lparr>Logs := l\<rparr>) = wf_categories m" "wf_categories (m\<lparr>Grants := g\<rparr>) = wf_categories m"
  "wf_categories (m\<lparr>Messages := ms\<rparr>) = wf_categories m" "wf_categories (m\<lparr>Inbox := ib\<rparr>) = wf_categories m"
  "wf_messages (m\<lparr>Channels := c\<rparr>) = wf_messages m" "wf_messages (m\<lparr>Templates := t\<rparr>) = wf_messages m"
  "wf_messages (m\<lparr>Logs := l\<rparr>) = wf_messages m" "wf_messages (m\<lparr>Grants := g\<rparr>) = wf_messages m"
  "wf_messages (m\<lparr>Inbox := ib\<rparr>) = wf_messages m"
  "wf_inbox (m\<lparr>Channels := c\<rparr>) = wf_inbox m" "wf_inbox (m\<lparr>Templates := t\<rparr>) = wf_inbox m"
  "wf_inbox (m\<lparr>Logs := l\<rparr>) = wf_inbox m" "wf_inbox (m\<lparr>Grants := g\<rparr>) = wf_inbox m"
  "wf_inbox (m\<lparr>Categories := ca\<rparr>) = wf_inbox m" "wf_inbox (m\<lparr>Messages := ms\<rparr>) = wf_inbox m"
  by (simp_all add: wf_defs)

lemma wf_store_audit [simp]: "wf_store (m\<lparr>AuditLog := a\<rparr>) = wf_store m" "wf_store (m\<lparr>Now := n\<rparr>) = wf_store m"
  "wf_store (m\<lparr>Fail := f\<rparr>) = wf_store m"
  by (simp_all add: wf_store_def wf_defs)

section \<open>Every operation keeps the invariant\<close>

lemma keeps_wf_I:
  assumes "\<And>m. wf_store m \<Longrightarrow> wf_store (snd (body m))"
  shows "keeps wf_store (with_fail opn body)"
  using assms by (intro keeps_with_fail keepsI)

lemma InsertChannel_wf [intro]: "keeps wf_store (InsertChannel c)"
  unfolding InsertChannel_def
proof (rule keeps_wf_I, goal_cases)
  case (1 m)
  then show ?case
    by (fastforce simp: wf_store_def Let_def wf_channels_def list_ex_rows channel_clash_def
        intro!: wf_table_update no_clash_update split: option.splits)
qed

lemma UpdateChannel_wf [intro]: "keeps wf_store (UpdateChannel c)"
  unfolding UpdateChannel_def
proof (rule keeps_wf_I, goal_cases)
  case (1 m)
  have clash: "no_clash channel_clash (Channels m)" and wf: "wf_table ch_ID (Channels m)"
    using 1 by (auto simp: wf_store_def wf_channels_def)
  have managed: "\<not> (ch_Managed old \<and> ch_Managed y \<and> ch_TenantID old = ch_TenantID y)"
    if "map_of (Channels m) i = Some old" "(l, y) \<in> set (Channels m)" "l \<noteq> i" for i old l y
    using no_clashD [OF clash map_of_SomeD [OF that(1)] that(2)] that(3) by (auto simp: channel_clash_def)
  show ?case
    using 1 managed
    by (fastforce simp: wf_store_def Let_def wf_channels_def list_ex_pair channel_clash_def
        intro!: wf_table_update no_clash_update split: option.splits dest: wf_table_lookup)
qed

lemma ClearDefaultChannel_wf [intro]: "keeps wf_store (ClearDefaultChannel tid typ except)"
  unfolding ClearDefaultChannel_def
  by (rule keeps_wf_I)
    (auto simp: wf_store_def wf_channels_def channel_clash_def split: if_splits
      intro!: wf_table_map_rows no_clash_map_rows)

lemma DeleteChannel_wf [intro]: "keeps wf_store (DeleteChannel tid i)"
  unfolding DeleteChannel_def
  by (rule keeps_wf_I)
    (auto simp: wf_store_def wf_channels_def intro: wf_table_intros no_clash_intros split: option.splits)

lemma InsertTemplate_wf [intro]: "keeps wf_store (InsertTemplate t)"
  unfolding InsertTemplate_def
proof (rule keeps_wf_I, goal_cases)
  case (1 m)
  show ?case
  proof (cases "list_ex (\<lambda>x. tp_TenantID x = tp_TenantID t \<and>
          (ToLower (tp_Name x) = ToLower (tp_Name t)
           \<or> (tp_IsDefault t \<and> tp_IsDefault x \<and> tp_ChannelID t \<noteq> None
              \<and> strp (tp_ChannelID x) = strp (tp_ChannelID t))
           \<or> (tp_SystemKey t \<noteq> None \<and> tp_SystemKey x \<noteq> None \<and> tp_SystemKey t = tp_SystemKey x)))
          (rows (Templates m))")
    case False
    then have "\<not> template_clash t' y \<and> \<not> template_clash y t'"
      if "(l, y) \<in> set (Templates m)" "t' = t\<lparr>tp_CreatedAt := Now m, tp_UpdatedAt := Now m\<rparr>" for l y t'
      using that by (fastforce simp: list_ex_iff rows_def template_clash_def)
    with 1 False show ?thesis
      by (auto simp: wf_store_def wf_templates_def intro!: wf_table_update no_clash_update)
  qed (use 1 in auto)
qed

lemma UpdateTemplate_wf [intro]: "keeps wf_store (UpdateTemplate t)"
  unfolding UpdateTemplate_def
proof (rule keeps_wf_I, goal_cases)
  case (1 m)
  have clash: "no_clash template_clash (Templates m)" and wf: "wf_table tp_ID (Templates m)"
    using 1 by (auto simp: wf_store_def wf_templates_def)
  have syskey: "\<not> (tp_SystemKey old \<noteq> None \<and> tp_SystemKey old = tp_SystemKey y \<and> tp_TenantID old = tp_TenantID y)"
    if "map_of (Templates m) i = Some old" "(l, y) \<in> set (Templates m)" "l \<noteq> i" for i old l y
    using no_clashD [OF clash map_of_SomeD [OF that(1)] that(2)] that(3) by (auto simp: template_clash_def)
  show ?case
    using 1 syskey
    by (fastforce simp: wf_store_def Let_def wf_templates_def list_ex_pair template_clash_def
        intro!: wf_table_update no_clash_update split: option.splits dest: wf_table_lookup)
qed

lemma SetTemplateBuiltin_wf [intro]: "keeps wf_store (SetTemplateBuiltin t)"
  unfolding SetTemplateBuiltin_def
  by (rule keeps_wf_I)
    (auto simp: wf_store_def Let_def wf_templates_def template_clash_def dest: wf_table_lookup
      split: option.splits intro!: wf_table_update elim!: no_clash_update_same)

lemma ClearDefaultTemplate_wf [intro]: "keeps wf_store (ClearDefaultTemplate tid ch except)"
  unfolding ClearDefaultTemplate_def
  by (rule keeps_wf_I)
    (auto simp: wf_store_def wf_templates_def template_clash_def split: if_splits
      intro!: wf_table_map_rows no_clash_map_rows)

lemma DeleteTemplate_wf [intro]: "keeps wf_store (DeleteTemplate tid i)"
  unfolding DeleteTemplate_def
  by (rule keeps_wf_I)
    (auto simp: wf_store_def wf_templates_def intro: wf_table_intros no_clash_intros split: option.splits)

lemma InsertLog_wf [intro]: "keeps wf_store (InsertLog l)"
  unfolding InsertLog_def
  by (rule keeps_wf_I) (auto simp: wf_store_def Let_def intro!: wf_table_update)

lemma SetLogOutcome_wf [intro]: "keeps wf_store (SetLogOutcome tid i status e subj bod at)"
  unfolding SetLogOutcome_def
  by (rule keeps_wf_I)
    (auto simp: wf_store_def dest: wf_table_lookup intro!: wf_table_update split: option.splits)

lemma ExpirePendingLogs_wf [intro]: "keeps wf_store (ExpirePendingLogs older)"
  unfolding ExpirePendingLogs_def
  by (rule keeps_wf_I) (auto simp: wf_store_def Let_def intro!: wf_table_map_rows)

lemma find_tuple:
  "find (\<lambda>(k, x). same_tuple x g) t = Some (k, x) \<Longrightarrow> (k, x) \<in> set t \<and> same_tuple x g"
  by (auto simp: find_Some_iff in_set_conv_nth)

lemma find_no_tuple:
  "find (\<lambda>(k, x). same_tuple x g) t = None \<longleftrightarrow> (\<forall>(k, x) \<in> set t. \<not> same_tuple x g)"
  by (auto simp: find_None_iff)

lemma same_tuple_equiv:
  "same_tuple x x" "same_tuple x y \<Longrightarrow> same_tuple y x" "same_tuple x y \<Longrightarrow> same_tuple y z \<Longrightarrow> same_tuple x z"
  by (auto simp: same_tuple_def)

text \<open>
  \<open>UpsertGrant\<close> replaces the row of the tuple or adds one: afterwards exactly one row carries the
  tuple, with the new relation and expiry, and every other row is untouched.
\<close>

lemma UpsertGrant_frame: "UpsertGrant g m = (r, m') \<Longrightarrow> m' = m\<lparr>Grants := Grants m'\<rparr>"
  by (auto simp: UpsertGrant_def with_fail_def Let_def split: option.splits prod.splits)

lemma UpsertGrant_wf_grants:
  assumes "wf_grants m"
  shows "wf_grants (snd (UpsertGrant g m))"
proof (cases "Fail m ''UpsertGrant''")
  case None
  show ?thesis
  proof (cases "find (\<lambda>(k, x). same_tuple x g) (Grants m)")
    case nofind: None
    then have "\<not> same_tuple (g\<lparr>gr_GrantedAt := Now m\<rparr>) y \<and> \<not> same_tuple y (g\<lparr>gr_GrantedAt := Now m\<rparr>)"
      if "(l, y) \<in> set (Grants m)" for l y
      using that nofind unfolding find_no_tuple by (auto simp: same_tuple_def)
    with assms nofind None show ?thesis
      by (auto simp: UpsertGrant_def with_fail_def wf_grants_def Let_def intro!: wf_table_update no_clash_update)
  next
    case (Some kx)
    obtain k x where kx: "kx = (k, x)" by (cases kx)
    with Some have mem: "(k, x) \<in> set (Grants m)" and tup: "same_tuple x g"
      using find_tuple [of g "Grants m" k x] by auto
    then have look: "map_of (Grants m) k = Some x" and idk: "gr_ID x = k"
      using assms by (auto simp: wf_grants_def wf_table_def list_all_iff)
    have "no_clash same_tuple (AList.update k (x\<lparr>gr_Relation := gr_Relation g, gr_GrantedBy := gr_GrantedBy g,
        gr_GrantedAt := Now m, gr_ExpiresAt := gr_ExpiresAt g\<rparr>) (Grants m))"
      using assms look by (auto simp: wf_grants_def same_tuple_def elim!: no_clash_update_same)
    with assms Some kx None idk show ?thesis
      by (auto simp: UpsertGrant_def with_fail_def wf_grants_def Let_def intro!: wf_table_update)
  qed
qed (simp add: UpsertGrant_def with_fail_def assms)

lemma UpsertGrant_wf [intro]: "keeps wf_store (UpsertGrant g)"
proof (rule keepsI)
  fix m assume wf: "wf_store m"
  obtain r m' where u: "UpsertGrant g m = (r, m')" by (cases "UpsertGrant g m")
  have "wf_grants m'" using UpsertGrant_wf_grants [of m g] wf u by (simp add: wf_store_def)
  moreover have "wf_store (m\<lparr>Grants := t\<rparr>) \<longleftrightarrow> wf_grants (m\<lparr>Grants := t\<rparr>)" for t
    using wf by (simp add: wf_store_def)
  ultimately show "wf_store (snd (UpsertGrant g m))"
    using UpsertGrant_frame [OF u] u by (metis snd_conv)
qed

lemma UpsertGrant_rows:
  assumes "wf_grants m" and "map_of (Grants m) (gr_ID g) = None" and "UpsertGrant g m = (Inr g', m')"
  shows "set (rows (Grants m')) = insert g' {x \<in> set (rows (Grants m)). \<not> same_tuple x g}"
    and "same_tuple g' g" "gr_Relation g' = gr_Relation g" "gr_ExpiresAt g' = gr_ExpiresAt g"
proof -
  have nf: "Fail m ''UpsertGrant'' = None"
    using assms(3) by (simp add: UpsertGrant_def with_fail_Inr)
  have "set (rows (Grants m')) = insert g' {x \<in> set (rows (Grants m)). \<not> same_tuple x g} \<and>
    same_tuple g' g \<and> gr_Relation g' = gr_Relation g \<and> gr_ExpiresAt g' = gr_ExpiresAt g"
  proof (cases "find (\<lambda>(k, x). same_tuple x g) (Grants m)")
    case None
    with assms nf have g': "g' = g\<lparr>gr_GrantedAt := Now m\<rparr>"
      and m': "Grants m' = AList.update (gr_ID g) g' (Grants m)"
      by (auto simp: UpsertGrant_def with_fail_def Let_def)
    have "x \<in> set (rows (Grants m)) \<Longrightarrow> \<not> same_tuple x g" for x
      using None by (auto simp: find_no_tuple mem_rows_iff)
    then show ?thesis
      using g' m' assms(2) by (auto simp: rows_update_fresh same_tuple_def)
  next
    case (Some kx)
    obtain k x where kx: "kx = (k, x)" by (cases kx)
    with Some have mem: "(k, x) \<in> set (Grants m)" and tup: "same_tuple x g"
      using find_tuple [of g "Grants m" k x] by auto
    have d: "distinct (map fst (Grants m))" and c: "no_clash same_tuple (Grants m)"
      using assms(1) by (auto simp: wf_grants_def wf_table_def)
    from Some kx assms nf have g': "g' = x\<lparr>gr_Relation := gr_Relation g, gr_GrantedBy := gr_GrantedBy g,
        gr_GrantedAt := Now m, gr_ExpiresAt := gr_ExpiresAt g\<rparr>"
      and m': "Grants m' = AList.update k g' (Grants m)"
      by (auto simp: UpsertGrant_def with_fail_def Let_def)
    have "set (rows (Grants m')) = insert g' {y. \<exists>l. (l, y) \<in> set (Grants m) \<and> l \<noteq> k}"
      unfolding m' by (rule rows_update_set [OF d])
    moreover have "(\<exists>l. (l, y) \<in> set (Grants m) \<and> l \<noteq> k) \<longleftrightarrow> y \<in> set (rows (Grants m)) \<and> \<not> same_tuple y g" for y
    proof
      assume "\<exists>l. (l, y) \<in> set (Grants m) \<and> l \<noteq> k"
      then obtain l where l: "(l, y) \<in> set (Grants m)" "l \<noteq> k" by blast
      then have "\<not> same_tuple y x" using no_clashD [OF c l(1) mem] by blast
      with tup l show "y \<in> set (rows (Grants m)) \<and> \<not> same_tuple y g"
        by (auto simp: mem_rows_iff same_tuple_def)
    next
      assume "y \<in> set (rows (Grants m)) \<and> \<not> same_tuple y g"
      then obtain l where l: "(l, y) \<in> set (Grants m)" and ns: "\<not> same_tuple y g"
        by (auto simp: mem_rows_iff)
      with mem d tup have "l \<noteq> k" by (metis eq_key_imp_eq_value)
      with l show "\<exists>l. (l, y) \<in> set (Grants m) \<and> l \<noteq> k" by blast
    qed
    ultimately show ?thesis
      using g' tup by (auto simp: same_tuple_def)
  qed
  then show "set (rows (Grants m')) = insert g' {x \<in> set (rows (Grants m)). \<not> same_tuple x g}"
    and "same_tuple g' g" "gr_Relation g' = gr_Relation g" "gr_ExpiresAt g' = gr_ExpiresAt g"
    by blast+
qed

lemma DeleteGrant_wf [intro]: "keeps wf_store (DeleteGrant tid i)"
  unfolding DeleteGrant_def
  by (rule keeps_wf_I)
    (auto simp: wf_store_def wf_grants_def intro: wf_table_intros no_clash_intros split: option.splits)

lemma DeleteGrantsOfResource_wf [intro]: "keeps wf_store (DeleteGrantsOfResource tid rt rid)"
  unfolding DeleteGrantsOfResource_def
  by (rule keeps_wf_I) (auto simp: wf_store_def wf_grants_def intro: wf_table_intros no_clash_intros)

lemma DeleteGrantsOfSubject_wf [intro]: "keeps wf_store (DeleteGrantsOfSubject tid rt rid st sid)"
  unfolding DeleteGrantsOfSubject_def
  by (rule keeps_wf_I) (auto simp: wf_store_def wf_grants_def intro: wf_table_intros no_clash_intros)

subsection \<open>Categories and the messages that refer to them\<close>

lemma category_ok_cong:
  "ms_CategoryID x = ms_CategoryID y \<Longrightarrow> ms_TenantID x = ms_TenantID y \<Longrightarrow> category_ok ct x = category_ok ct y"
  by (simp add: category_ok_def split: option.splits)

lemma bad_category_iff: "bad_category m msg \<longleftrightarrow> \<not> category_ok (Categories m) msg"
  by (auto simp: bad_category_def category_ok_def split: option.splits)

lemma categories_ok_update_fresh:
  assumes "categories_ok ct mt" and "map_of ct k = None"
  shows "categories_ok (AList.update k c ct) mt"
proof -
  have "category_ok ct msg \<Longrightarrow> category_ok (AList.update k c ct) msg" for msg
    using assms(2) by (auto simp: category_ok_def table_simps split: option.splits)
  with assms(1) show ?thesis by (auto simp: categories_ok_def)
qed

lemma categories_ok_update_same:
  assumes "categories_ok ct mt" and "map_of ct k = Some old" and "ca_TenantID c = ca_TenantID old"
  shows "categories_ok (AList.update k c ct) mt"
proof -
  have "category_ok ct msg \<Longrightarrow> category_ok (AList.update k c ct) msg" for msg
    using assms(2,3) by (auto simp: category_ok_def table_simps split: option.splits)
  with assms(1) show ?thesis by (auto simp: categories_ok_def)
qed

lemma categories_ok_delete:
  assumes "categories_ok ct mt" and "\<And>k msg. (k, msg) \<in> set mt \<Longrightarrow> ms_CategoryID msg \<noteq> Some i"
  shows "categories_ok (AList.delete i ct) mt"
proof -
  have "category_ok ct msg \<Longrightarrow> ms_CategoryID msg \<noteq> Some i \<Longrightarrow> category_ok (AList.delete i ct) msg" for msg
    by (auto simp: category_ok_def table_simps split: option.splits)
  with assms show ?thesis by (auto simp: categories_ok_def)
qed

lemma categories_ok_subset: "categories_ok ct mt \<Longrightarrow> set mt' \<subseteq> set mt \<Longrightarrow> categories_ok ct mt'"
  unfolding categories_ok_def by blast

lemma categories_ok_update:
  assumes "categories_ok ct mt" and "category_ok ct x"
  shows "categories_ok ct (AList.update k x mt)"
proof -
  have "categories_ok ct ((k, x) # mt)"
    using assms by (simp add: categories_ok_def)
  moreover have "set (AList.update k x mt) \<subseteq> set ((k, x) # mt)"
    using set_update_subset [of k x mt] by simp
  ultimately show ?thesis
    by (rule categories_ok_subset)
qed

lemma categories_ok_lookup: "categories_ok ct mt \<Longrightarrow> map_of mt k = Some x \<Longrightarrow> category_ok ct x"
  by (auto simp: categories_ok_def dest: map_of_SomeD)

text \<open>A category id is used once, so that a message keeps its category.\<close>

lemma InsertCategory_wf:
  assumes "wf_store m" and "map_of (Categories m) (ca_ID c) = None"
  shows "wf_store (snd (InsertCategory c m))"
proof -
  have "\<not> category_clash c' y \<and> \<not> category_clash y c'"
    if "\<not> list_ex (\<lambda>x. ca_TenantID x = ca_TenantID c \<and> ToLower (ca_Name x) = ToLower (ca_Name c)) (rows (Categories m))"
      and "(l, y) \<in> set (Categories m)" "c' = c\<lparr>ca_CreatedAt := Now m, ca_UpdatedAt := Now m\<rparr>" for l y c'
    using that by (auto simp: list_ex_rows category_clash_def) metis+
  with assms show ?thesis
    by (auto simp: InsertCategory_def with_fail_def wf_store_def wf_categories_def wf_messages_def
        split: option.splits intro!: wf_table_update no_clash_update categories_ok_update_fresh)
qed

lemma UpdateCategory_wf [intro]: "keeps wf_store (UpdateCategory c)"
  unfolding UpdateCategory_def
proof (rule keeps_wf_I, goal_cases)
  case (1 m)
  have idk: "ca_ID old = ca_ID c" if "map_of (Categories m) (ca_ID c) = Some old" for old
    using 1 that by (auto simp: wf_store_def wf_categories_def dest: wf_table_lookup)
  have ok: "categories_ok (AList.update (ca_ID c) c' (Categories m)) (Messages m)"
    if "map_of (Categories m) (ca_ID c) = Some old" "ca_TenantID c' = ca_TenantID old" for old c'
    using 1 that by (auto simp: wf_store_def wf_messages_def intro: categories_ok_update_same)
  have nc: "no_clash category_clash (AList.update (ca_ID c) c' (Categories m))"
    if "\<not> list_ex (\<lambda>(k, x). k \<noteq> ca_ID c \<and> ca_TenantID x = ca_TenantID c \<and>
          ToLower (ca_Name x) = ToLower (ca_Name c)) (Categories m)"
      and "ca_TenantID c' = ca_TenantID c" "ca_Name c' = ca_Name c" for c'
  proof (rule no_clash_update)
    show "no_clash category_clash (Categories m)"
      using 1 by (simp add: wf_store_def wf_categories_def)
    show "\<not> category_clash c' y \<and> \<not> category_clash y c'"
      if "(l, y) \<in> set (Categories m)" "l \<noteq> ca_ID c" for l y
      using that \<open>\<not> list_ex _ _\<close> \<open>ca_TenantID c' = ca_TenantID c\<close> \<open>ca_Name c' = ca_Name c\<close>
      unfolding list_ex_pair category_clash_def by metis
  qed
  show ?case
  proof (cases "map_of (Categories m) (ca_ID c)")
    case (Some old)
    with 1 idk ok [OF Some] nc show ?thesis
      by (simp add: wf_store_def Let_def wf_categories_def wf_messages_def wf_table_update)
  qed (use 1 in simp)
qed

lemma DeleteCategory_wf [intro]: "keeps wf_store (DeleteCategory tid i)"
  unfolding DeleteCategory_def
proof (rule keeps_wf_I, goal_cases)
  case (1 m)
  have "ms_CategoryID msg \<noteq> Some i" if "messageCount m i = 0" "(k, msg) \<in> set (Messages m)" for k msg
    using that by (force simp: messageCount_def filter_empty_conv mem_rows_iff)
  then have "categories_ok (AList.delete i (Categories m)) (Messages m)" if "messageCount m i = 0"
    using 1 that by (auto simp: wf_store_def wf_messages_def intro!: categories_ok_delete)
  with 1 show ?case
    by (auto simp: wf_store_def wf_categories_def wf_messages_def
        intro: wf_table_intros no_clash_intros split: option.splits)
qed

lemma InsertMessage_wf [intro]: "keeps wf_store (InsertMessage msg)"
  unfolding InsertMessage_def
  by (rule keeps_wf_I)
    (auto simp: wf_store_def wf_messages_def bad_category_iff
      intro!: wf_table_update categories_ok_update category_ok_cong [of _ msg, THEN iffD2])

lemma UpdateMessage_wf [intro]: "keeps wf_store (UpdateMessage msg)"
  unfolding UpdateMessage_def
  by (rule keeps_wf_I)
    (auto simp: wf_store_def wf_messages_def Let_def bad_category_iff dest: wf_table_lookup
      intro!: wf_table_update categories_ok_update category_ok_cong [of _ msg, THEN iffD2] split: option.splits)

lemma SetMessageStatus_wf [intro]: "keeps wf_store (SetMessageStatus tid i status at)"
  unfolding SetMessageStatus_def
proof (rule keeps_wf_I, goal_cases)
  case (1 m)
  show ?case
  proof (cases "map_of (Messages m) i")
    case (Some msg)
    have "category_ok (Categories m) msg" and "ms_ID msg = i"
      using 1 Some by (auto simp: wf_store_def wf_messages_def dest: categories_ok_lookup wf_table_lookup)
    then have "category_ok (Categories m) (msg\<lparr>ms_Status := status, ms_LeaseUntil := None, ms_UpdatedAt := Now m,
                ms_PublishedAt := (if at \<noteq> None then at else ms_PublishedAt msg)\<rparr>)"
      by (subst category_ok_cong [of _ msg]) simp_all
    with 1 Some \<open>ms_ID msg = i\<close> show ?thesis
      by (simp add: wf_store_def wf_messages_def Let_def wf_table_update categories_ok_update)
  qed (use 1 in simp)
qed

lemma rows_ok_drop: "(\<forall>i \<in> set (rows t). P i) \<Longrightarrow> (\<forall>i \<in> set (rows (drop_rows q t)). P i)"
  by (auto simp: rows_def drop_rows_def)

lemma DeleteMessage_wf [intro]: "keeps wf_store (DeleteMessage tid i)"
  unfolding DeleteMessage_def
proof (rule keeps_wf_I, goal_cases)
  case (1 m)
  then have "categories_ok (Categories m) (AList.delete i (Messages m))"
    by (auto simp: wf_store_def wf_messages_def AList.delete_eq elim!: categories_ok_subset)
  with 1 rows_ok_drop show ?case
    by (auto simp: wf_store_def wf_messages_def wf_inbox_def
        intro: wf_table_intros no_clash_intros split: option.splits)
qed

lemma claim_loop_keys: "map fst (fst (claim_loop now lease limit n t)) = map fst t"
  by (induction now lease limit n t rule: claim_loop.induct) (auto simp: Let_def split: prod.splits)

lemma claim_loop_rows:
  "(k, x) \<in> set (fst (claim_loop now lease limit n t)) \<Longrightarrow>
     \<exists>y. (k, y) \<in> set t \<and> (x = y \<or> (claimable now y \<and> x = claimed now lease y))"
  by (induction now lease limit n t rule: claim_loop.induct)
    (auto simp: Let_def split: prod.splits if_splits)

lemma ClaimDueMessages_wf [intro]: "keeps wf_store (ClaimDueMessages now lease limit)"
  unfolding ClaimDueMessages_def
proof (rule keeps_wf_I, goal_cases)
  case (1 m)
  let ?t = "fst (claim_loop now lease limit 0 (Messages m))"
  have "wf_table ms_ID ?t"
    using 1 claim_loop_rows [of _ _ now lease limit 0 "Messages m"]
    by (fastforce simp: wf_store_def wf_messages_def wf_table_def list_all_iff claim_loop_keys claimed_def)
  moreover have "categories_ok (Categories m) ?t"
    unfolding categories_ok_def
  proof (intro ballI, clarify)
    fix k x assume "(k, x) \<in> set ?t"
    then obtain y where y: "(k, y) \<in> set (Messages m)" "x = y \<or> x = claimed now lease y"
      using claim_loop_rows by blast
    with 1 have "category_ok (Categories m) y"
      by (auto simp: wf_store_def wf_messages_def categories_ok_def)
    with y(2) show "category_ok (Categories m) x"
      using category_ok_cong [of x y "Categories m"] by (auto simp: claimed_def)
  qed
  ultimately show ?case
    using 1 by (auto simp: wf_store_def wf_messages_def split: prod.splits)
qed

subsection \<open>The inbox\<close>

definition wf_inbox_table :: "inbox_row table \<Rightarrow> bool" where
  "wf_inbox_table t \<longleftrightarrow> wf_table ib_ID t \<and> no_clash inbox_clash t \<and> (\<forall>i \<in> set (rows t). inbox_ok i)"

lemma wf_inbox_iff: "wf_inbox m \<longleftrightarrow> wf_inbox_table (Inbox m)"
  by (simp add: wf_inbox_def wf_inbox_table_def)

lemma rows_ok_update:
  "(\<forall>i \<in> set (rows t). P i) \<Longrightarrow> P r \<Longrightarrow> (\<forall>i \<in> set (rows (AList.update k r t)). P i)"
  using set_update_subset [of k r t] by (fastforce simp: rows_def)

lemma wf_inbox_insert:
  assumes "wf_inbox_table t" and "\<not> inbox_dup t r" and "inbox_ok r"
  shows "wf_inbox_table (AList.update (ib_ID r) (r\<lparr>ib_CreatedAt := a, ib_UpdatedAt := b\<rparr>) t)"
proof -
  let ?r = "r\<lparr>ib_CreatedAt := a, ib_UpdatedAt := b\<rparr>"
  have "\<not> inbox_clash ?r y \<and> \<not> inbox_clash y ?r" if "(l, y) \<in> set t" for l y
    using assms(2) that unfolding inbox_dup_def list_ex_rows inbox_clash_def by simp metis
  moreover have "inbox_ok ?r" using assms(3) by (simp add: inbox_ok_def)
  ultimately show ?thesis
    using assms(1) by (auto simp: wf_inbox_table_def intro!: wf_table_update no_clash_update
        dest: rows_ok_update [of t inbox_ok ?r "ib_ID r"])
qed

lemma insert_inbox_loop_wf:
  "wf_inbox_table t \<Longrightarrow> (\<forall>r \<in> set rs. inbox_ok r) \<Longrightarrow> wf_inbox_table (fst (insert_inbox_loop now rs t))"
  by (induction now rs t rule: insert_inbox_loop.induct)
    (auto simp: Let_def wf_inbox_insert split: prod.splits)

lemma InsertInboxBatch_wf [intro]:
  "(\<forall>r \<in> set rs. inbox_ok r) \<Longrightarrow> keeps wf_store (InsertInboxBatch rs)"
  unfolding InsertInboxBatch_def
proof (rule keeps_wf_I, goal_cases)
  case (1 m)
  then have "wf_inbox_table (fst (insert_inbox_loop (Now m) rs (Inbox m)))"
    using insert_inbox_loop_wf by (simp add: wf_store_def wf_inbox_iff)
  with 1 show ?case
    by (auto simp: wf_store_def wf_inbox_iff split: prod.splits)
qed

lemma inbox_transitionE:
  assumes "inbox_transition now status i = Inr (Some i')"
  obtains
    (read) t where "status = ''read''" "active_entry i" "i' = i\<lparr>ib_Status := ''read'', ib_ReadAt := Some t\<rparr>"
      "ib_ReadAt i = None \<and> t = now \<or> ib_ReadAt i = Some t"
  | (unread) "status = ''unread''" "active_entry i" "i' = i\<lparr>ib_Status := ''sent'', ib_ReadAt := None\<rparr>"
  | (received) "status = ''received''" "ib_Status i = ''sent''" "i' = i\<lparr>ib_Status := ''received''\<rparr>"
  | (deleted) "status = ''deleted''" "ib_Status i \<noteq> ''deleted''" "i' = i\<lparr>ib_Status := ''deleted''\<rparr>"
proof (cases "status = ''read''")
  case True
  with assms show ?thesis
    by (cases "ib_ReadAt i") (auto simp: inbox_transition_def split: if_splits intro: that(1))
next
  case nr: False
  show ?thesis
  proof (cases "status = ''unread''")
    case True
    with assms show ?thesis by (simp add: inbox_transition_def that(2) split: if_splits)
  next
    case nu: False
    show ?thesis
    proof (cases "status = ''received''")
      case True
      with assms show ?thesis by (simp add: inbox_transition_def that(3) split: if_splits)
    next
      case False
      with nr nu assms show ?thesis by (simp add: inbox_transition_def that(4) split: if_splits)
    qed
  qed
qed

lemma inbox_transition_ok:
  assumes "inbox_transition now status i = Inr (Some i')" and "inbox_ok i"
  shows "inbox_ok i'" "ib_ID i' = ib_ID i" "ib_TenantID i' = ib_TenantID i"
    "ib_MessageID i' = ib_MessageID i" "ib_RecipientID i' = ib_RecipientID i"
  using assms(1) by (cases rule: inbox_transitionE; use assms(2) in \<open>simp add: inbox_ok_def\<close>)+

lemma wf_inbox_update:
  assumes "wf_inbox_table t" and "map_of t k = Some i" and "inbox_ok i'" and "ib_ID i' = ib_ID i"
    and "ib_MessageID i' = ib_MessageID i" "ib_RecipientID i' = ib_RecipientID i"
  shows "wf_inbox_table (AList.update k i' t)"
proof -
  have "ib_ID i' = k"
    using assms by (auto simp: wf_inbox_table_def dest: wf_table_lookup)
  moreover have "no_clash inbox_clash (AList.update k i' t)"
  proof (rule no_clash_update_same [OF _ assms(2)])
    show "no_clash inbox_clash t" using assms(1) by (simp add: wf_inbox_table_def)
  qed (simp_all add: inbox_clash_def assms(5,6))
  ultimately show ?thesis
    using assms(1,3) rows_ok_update [of t inbox_ok i' k] by (auto simp: wf_inbox_table_def wf_table_update)
qed

lemma wf_inbox_lookup: "wf_inbox_table t \<Longrightarrow> map_of t k = Some i \<Longrightarrow> inbox_ok i"
  by (auto simp: wf_inbox_table_def mem_rows_iff dest!: map_of_SomeD)

text \<open>What one update of the loop keeps, the loop keeps.\<close>

lemma set_inbox_loop_inv:
  assumes "I t" and "\<And>t k i i'. I t \<Longrightarrow> map_of t k = Some i \<Longrightarrow> ib_TenantID i = tid \<Longrightarrow> ib_RecipientID i = rid \<Longrightarrow>
      inbox_transition now status i = Inr (Some i') \<Longrightarrow> I (AList.update k (i'\<lparr>ib_UpdatedAt := now\<rparr>) t)"
  shows "I (snd (set_inbox_loop now tid rid status ks t n))"
  using assms(1)
proof (induction ks arbitrary: t n)
  case (Cons k ks)
  show ?case
    using Cons.IH Cons.prems assms(2)
    by (simp split: option.splits sum.splits)
qed simp

lemma set_inbox_loop_wf:
  assumes "wf_inbox_table t"
  shows "wf_inbox_table (snd (set_inbox_loop now tid rid status ks t n))"
  using assms
proof (rule set_inbox_loop_inv)
  fix t k i i'
  assume t: "wf_inbox_table t" "map_of t k = Some i" and tr: "inbox_transition now status i = Inr (Some i')"
  note ok = inbox_transition_ok [OF tr wf_inbox_lookup [OF t]]
  show "wf_inbox_table (AList.update k (i'\<lparr>ib_UpdatedAt := now\<rparr>) t)"
    by (rule wf_inbox_update [OF t]) (use ok in \<open>simp_all add: inbox_ok_def\<close>)
qed

lemma SetInboxStatus_wf [intro]: "keeps wf_store (SetInboxStatus tid rid ids status)"
  unfolding SetInboxStatus_def
proof (rule keeps_wf_I, goal_cases)
  case (1 m)
  then have "wf_inbox_table (snd (set_inbox_loop (Now m) tid rid status ids (Inbox m) 0))"
    using set_inbox_loop_wf by (simp add: wf_store_def wf_inbox_iff)
  with 1 show ?case
    by (auto simp: wf_store_def wf_inbox_iff split: prod.splits)
qed

lemma RevokeUnread_wf [intro]: "keeps wf_store (RevokeUnread tid mid)"
  unfolding RevokeUnread_def
proof (rule keeps_wf_I, goal_cases)
  case (1 m)
  let ?f = "\<lambda>k i. if revocable tid mid i then i\<lparr>ib_Status := ''revoked''\<rparr> else i"
  have f: "inbox_ok (?f k i)" if "inbox_ok i" for k i
    using that by (simp add: inbox_ok_def)
  have "inbox_ok i" if "(k, i) \<in> set (Inbox m)" for k i
    using 1 that by (auto simp: wf_store_def wf_inbox_def mem_rows_iff)
  with f have "\<forall>i \<in> set (rows (map_rows ?f (Inbox m))). inbox_ok i"
    by (auto simp: rows_map_rows simp del: if_split)
  with 1 show ?case
    by (auto simp: wf_store_def wf_inbox_def inbox_clash_def split: if_splits
        intro!: wf_table_map_rows no_clash_map_rows)
qed

lemma InsertAuditRows_wf [intro]: "keeps wf_store (InsertAuditRows rs)"
  unfolding InsertAuditRows_def by (rule keeps_wf_I) simp

section \<open>Transactions\<close>

lemma wf_restore_tables: "wf_store (restore_tables m m') = wf_store m"
  by (simp add: restore_tables_def wf_store_def wf_defs)

lemma Atomic_wf [intro]: "keeps wf_store fn \<Longrightarrow> keeps wf_store (Atomic fn)"
  unfolding Atomic_def
  by (rule keeps_wf_I) (auto simp: wf_restore_tables keeps_def split: prod.splits sum.splits)

section \<open>Runs of the store\<close>

text \<open>
  The calls of one tenant. New rows come under a new id (\<open>store.NewID\<close>), and inbox entries are
  written for a message of their tenant, not yet read.
\<close>

definition inbox_refs_ok :: "memstore \<Rightarrow> bool" where
  "inbox_refs_ok m \<longleftrightarrow> (\<forall>i \<in> set (rows (Inbox m)). case map_of (Messages m) (ib_MessageID i) of
      None \<Rightarrow> False | Some msg \<Rightarrow> ms_TenantID msg = ib_TenantID i)"

definition new_entry :: "memstore \<Rightarrow> string \<Rightarrow> inbox_row \<Rightarrow> bool" where
  "new_entry m tid r \<longleftrightarrow> ib_TenantID r = tid \<and> inbox_ok r \<and> map_of (Inbox m) (ib_ID r) = None \<and>
     (case map_of (Messages m) (ib_MessageID r) of None \<Rightarrow> False | Some msg \<Rightarrow> ms_TenantID msg = tid)"

inductive tenant_step :: "string \<Rightarrow> memstore \<Rightarrow> memstore \<Rightarrow> bool" where
  insert_channel: "map_of (Channels m) (ch_ID c) = None \<Longrightarrow>
     tenant_step (ch_TenantID c) m (snd (InsertChannel c m))"
| update_channel: "tenant_step (ch_TenantID c) m (snd (UpdateChannel c m))"
| clear_default_channel: "tenant_step tid m (snd (ClearDefaultChannel tid typ except m))"
| delete_channel: "tenant_step tid m (snd (DeleteChannel tid i m))"
| insert_template: "map_of (Templates m) (tp_ID t) = None \<Longrightarrow>
     tenant_step (tp_TenantID t) m (snd (InsertTemplate t m))"
| update_template: "tenant_step (tp_TenantID t) m (snd (UpdateTemplate t m))"
| set_builtin: "tenant_step (tp_TenantID t) m (snd (SetTemplateBuiltin t m))"
| clear_default_template: "tenant_step tid m (snd (ClearDefaultTemplate tid ch except m))"
| delete_template: "tenant_step tid m (snd (DeleteTemplate tid i m))"
| insert_log: "map_of (Logs m) (lg_ID l) = None \<Longrightarrow> tenant_step (lg_TenantID l) m (snd (InsertLog l m))"
| log_outcome: "tenant_step tid m (snd (SetLogOutcome tid i status e subj bod at m))"
| upsert_grant: "map_of (Grants m) (gr_ID g) = None \<Longrightarrow> tenant_step (gr_TenantID g) m (snd (UpsertGrant g m))"
| delete_grant: "tenant_step tid m (snd (DeleteGrant tid i m))"
| delete_grants_resource: "tenant_step tid m (snd (DeleteGrantsOfResource tid rt rid m))"
| delete_grants_subject: "tenant_step tid m (snd (DeleteGrantsOfSubject tid rt rid st sid m))"
| insert_category: "map_of (Categories m) (ca_ID c) = None \<Longrightarrow>
     tenant_step (ca_TenantID c) m (snd (InsertCategory c m))"
| update_category: "tenant_step (ca_TenantID c) m (snd (UpdateCategory c m))"
| delete_category: "tenant_step tid m (snd (DeleteCategory tid i m))"
| insert_message: "map_of (Messages m) (ms_ID msg) = None \<Longrightarrow>
     tenant_step (ms_TenantID msg) m (snd (InsertMessage msg m))"
| update_message: "tenant_step (ms_TenantID msg) m (snd (UpdateMessage msg m))"
| set_message_status: "tenant_step tid m (snd (SetMessageStatus tid i status at m))"
| delete_message: "tenant_step tid m (snd (DeleteMessage tid i m))"
| insert_inbox: "(\<forall>r \<in> set rs. new_entry m tid r) \<Longrightarrow> distinct (map ib_ID rs) \<Longrightarrow>
     tenant_step tid m (snd (InsertInboxBatch rs m))"
| set_inbox: "tenant_step tid m (snd (SetInboxStatus tid rid ids status m))"
| revoke: "tenant_step tid m (snd (RevokeUnread tid mid m))"

text \<open>Runs: tenants' calls, the background jobs, audit rows, the clock and injected failures.\<close>

inductive store_reach :: "memstore \<Rightarrow> bool" where
  start: "store_reach empty_store"
| call: "store_reach m \<Longrightarrow> tenant_step tid m m' \<Longrightarrow> store_reach m'"
| claim: "store_reach m \<Longrightarrow> store_reach (snd (ClaimDueMessages now lease limit m))"
| expire: "store_reach m \<Longrightarrow> store_reach (snd (ExpirePendingLogs older m))"
| audit: "store_reach m \<Longrightarrow> store_reach (snd (InsertAuditRows rs m))"
| tick: "store_reach m \<Longrightarrow> store_reach (m\<lparr>Now := now\<rparr>)"
| fail_on: "store_reach m \<Longrightarrow> store_reach (FailOn opn err m)"

lemma tenant_step_wf: "tenant_step tid m m' \<Longrightarrow> wf_store m \<Longrightarrow> wf_store m'"
proof (induction rule: tenant_step.induct)
  case (insert_category m c)
  then show ?case by (simp add: InsertCategory_wf)
next
  case (insert_inbox rs m tid)
  then have "keeps wf_store (InsertInboxBatch rs)" by (intro InsertInboxBatch_wf) (simp add: new_entry_def)
  with insert_inbox show ?case by (simp add: keeps_def)
qed (auto intro: keepsD [OF _ _ prod.collapse [symmetric]])

lemma store_reach_wf_store: "store_reach m \<Longrightarrow> wf_store m"
proof (induction rule: store_reach.induct)
  case (call m tid m')
  then show ?case by (blast intro: tenant_step_wf)
qed (auto simp: wf_empty_store FailOn_def intro: keepsD [OF _ _ prod.collapse [symmetric]])

section \<open>References from the inbox\<close>

text \<open>Operations that touch neither messages nor the inbox, and messages kept under their tenant.\<close>

definition msg_tenant :: "memstore \<Rightarrow> string \<Rightarrow> string option" where
  "msg_tenant m k = map_option ms_TenantID (map_of (Messages m) k)"

lemma inbox_refs_iff:
  "inbox_refs_ok m \<longleftrightarrow> (\<forall>i \<in> set (rows (Inbox m)). msg_tenant m (ib_MessageID i) = Some (ib_TenantID i))"
  by (auto simp: inbox_refs_ok_def msg_tenant_def split: option.splits)

lemma inbox_refs_mono:
  assumes "inbox_refs_ok m"
    and "\<And>k t. msg_tenant m k = Some t \<Longrightarrow> msg_tenant m' k = Some t"
    and "\<And>i'. i' \<in> set (rows (Inbox m')) \<Longrightarrow>
       \<exists>i \<in> set (rows (Inbox m)). ib_MessageID i' = ib_MessageID i \<and> ib_TenantID i' = ib_TenantID i"
  shows "inbox_refs_ok m'"
  using assms unfolding inbox_refs_iff by metis

lemma inbox_refs_frame:
  "inbox_refs_ok m \<Longrightarrow> Messages m' = Messages m \<Longrightarrow> Inbox m' = Inbox m \<Longrightarrow> inbox_refs_ok m'"
  by (simp add: inbox_refs_ok_def)

text \<open>The operations on the other tables leave messages and inbox alone.\<close>

lemma other_tables_frame [frame_simps]:
  "Messages (snd (InsertChannel c m)) = Messages m" "Inbox (snd (InsertChannel c m)) = Inbox m"
  "Messages (snd (UpdateChannel c m)) = Messages m" "Inbox (snd (UpdateChannel c m)) = Inbox m"
  "Messages (snd (ClearDefaultChannel tid typ ex m)) = Messages m" "Inbox (snd (ClearDefaultChannel tid typ ex m)) = Inbox m"
  "Messages (snd (DeleteChannel tid i m)) = Messages m" "Inbox (snd (DeleteChannel tid i m)) = Inbox m"
  "Messages (snd (InsertTemplate t m)) = Messages m" "Inbox (snd (InsertTemplate t m)) = Inbox m"
  "Messages (snd (UpdateTemplate t m)) = Messages m" "Inbox (snd (UpdateTemplate t m)) = Inbox m"
  "Messages (snd (SetTemplateBuiltin t m)) = Messages m" "Inbox (snd (SetTemplateBuiltin t m)) = Inbox m"
  "Messages (snd (ClearDefaultTemplate tid ch ex m)) = Messages m" "Inbox (snd (ClearDefaultTemplate tid ch ex m)) = Inbox m"
  "Messages (snd (DeleteTemplate tid i m)) = Messages m" "Inbox (snd (DeleteTemplate tid i m)) = Inbox m"
  "Messages (snd (InsertLog l m)) = Messages m" "Inbox (snd (InsertLog l m)) = Inbox m"
  "Messages (snd (SetLogOutcome tid i st e sj bd at m)) = Messages m" "Inbox (snd (SetLogOutcome tid i st e sj bd at m)) = Inbox m"
  "Messages (snd (ExpirePendingLogs older m)) = Messages m" "Inbox (snd (ExpirePendingLogs older m)) = Inbox m"
  "Messages (snd (UpsertGrant g m)) = Messages m" "Inbox (snd (UpsertGrant g m)) = Inbox m"
  "Messages (snd (DeleteGrant tid i m)) = Messages m" "Inbox (snd (DeleteGrant tid i m)) = Inbox m"
  "Messages (snd (DeleteGrantsOfResource tid rt rid m)) = Messages m" "Inbox (snd (DeleteGrantsOfResource tid rt rid m)) = Inbox m"
  "Messages (snd (DeleteGrantsOfSubject tid rt rid st' sid m)) = Messages m" "Inbox (snd (DeleteGrantsOfSubject tid rt rid st' sid m)) = Inbox m"
  "Messages (snd (InsertCategory ca m)) = Messages m" "Inbox (snd (InsertCategory ca m)) = Inbox m"
  "Messages (snd (UpdateCategory ca m)) = Messages m" "Inbox (snd (UpdateCategory ca m)) = Inbox m"
  "Messages (snd (DeleteCategory tid i m)) = Messages m" "Inbox (snd (DeleteCategory tid i m)) = Inbox m"
  "Messages (snd (InsertAuditRows ar m)) = Messages m" "Inbox (snd (InsertAuditRows ar m)) = Inbox m"
  by (simp_all add: InsertChannel_def UpdateChannel_def ClearDefaultChannel_def DeleteChannel_def
      InsertTemplate_def UpdateTemplate_def SetTemplateBuiltin_def ClearDefaultTemplate_def
      DeleteTemplate_def InsertLog_def SetLogOutcome_def ExpirePendingLogs_def UpsertGrant_def
      DeleteGrant_def DeleteGrantsOfResource_def DeleteGrantsOfSubject_def InsertCategory_def
      UpdateCategory_def DeleteCategory_def InsertAuditRows_def with_fail_def Let_def
      split: option.splits prod.splits)

lemma InsertMessage_refs:
  assumes "inbox_refs_ok m" and "map_of (Messages m) (ms_ID msg) = None"
  shows "inbox_refs_ok (snd (InsertMessage msg m))"
  by (rule inbox_refs_mono [OF assms(1)])
    (use assms(2) in \<open>auto simp: InsertMessage_def with_fail_def msg_tenant_def table_simps split: option.splits if_splits\<close>)

lemma UpdateMessage_refs: "inbox_refs_ok m \<Longrightarrow> inbox_refs_ok (snd (UpdateMessage msg m))"
  by (rule inbox_refs_mono, assumption)
    (auto simp: UpdateMessage_def with_fail_def Let_def msg_tenant_def table_simps split: option.splits if_splits)

lemma SetMessageStatus_refs: "inbox_refs_ok m \<Longrightarrow> inbox_refs_ok (snd (SetMessageStatus tid i status at m))"
  by (rule inbox_refs_mono, assumption)
    (auto simp: SetMessageStatus_def with_fail_def Let_def msg_tenant_def table_simps split: option.splits if_splits)

lemma DeleteMessage_refs: "inbox_refs_ok m \<Longrightarrow> inbox_refs_ok (snd (DeleteMessage tid i m))"
  unfolding inbox_refs_iff
  by (auto simp: DeleteMessage_def with_fail_def msg_tenant_def table_simps rows_drop_rows mem_rows_iff
      split: option.splits)

lemma claim_loop_msg_tenant:
  "map_option ms_TenantID (map_of (fst (claim_loop now lease limit n t)) k) = map_option ms_TenantID (map_of t k)"
  by (induction now lease limit n t rule: claim_loop.induct)
    (auto simp: Let_def claimed_def split: prod.splits)

lemma ClaimDueMessages_frame:
  "Inbox (snd (ClaimDueMessages now lease limit m)) = Inbox m"
  "msg_tenant (snd (ClaimDueMessages now lease limit m)) k = msg_tenant m k"
  using claim_loop_msg_tenant [of now lease limit 0 "Messages m" k]
  by (auto simp: ClaimDueMessages_def with_fail_def msg_tenant_def split: option.splits prod.splits)

lemma ClaimDueMessages_refs: "inbox_refs_ok m \<Longrightarrow> inbox_refs_ok (snd (ClaimDueMessages now lease limit m))"
  by (simp add: inbox_refs_iff ClaimDueMessages_frame)

lemma insert_inbox_loop_rows:
  assumes "i \<in> set (rows (fst (insert_inbox_loop now rs t)))"
  shows "(\<exists>j \<in> set (rows t) \<union> set rs. ib_MessageID i = ib_MessageID j \<and> ib_TenantID i = ib_TenantID j)"
  using assms
proof (induction now rs t rule: insert_inbox_loop.induct)
  case (2 now r rs t)
  have "set (rows (AList.update (ib_ID r) r' t)) \<subseteq> insert r' (set (rows t))" for r'
    using set_update_subset [of "ib_ID r" r' t] by (auto simp: rows_def)
  with 2 show ?case
    by (fastforce simp: Let_def split: if_splits prod.splits)
qed auto

lemma InsertInboxBatch_refs:
  assumes "inbox_refs_ok m" and "\<forall>r \<in> set rs. new_entry m tid r"
  shows "inbox_refs_ok (snd (InsertInboxBatch rs m))"
proof -
  have "msg_tenant m (ib_MessageID j) = Some (ib_TenantID j)" if "j \<in> set (rows (Inbox m)) \<union> set rs" for j
    using that assms by (auto simp: inbox_refs_iff msg_tenant_def new_entry_def split: option.splits)
  then have "msg_tenant m (ib_MessageID i) = Some (ib_TenantID i)"
    if "i \<in> set (rows (fst (insert_inbox_loop (Now m) rs (Inbox m))))" for i
    using insert_inbox_loop_rows [OF that] by metis
  with assms(1) show ?thesis
    by (auto simp: InsertInboxBatch_def with_fail_def inbox_refs_iff msg_tenant_def split: option.splits prod.splits)
qed

lemma set_inbox_loop_rows:
  "\<forall>i \<in> set (rows (snd (set_inbox_loop now tid rid status ks t n))).
     \<exists>j \<in> set (rows t). ib_MessageID i = ib_MessageID j \<and> ib_TenantID i = ib_TenantID j"
proof (rule set_inbox_loop_inv)
  fix t' k i i'
  assume t': "\<forall>i \<in> set (rows t'). \<exists>j \<in> set (rows t). ib_MessageID i = ib_MessageID j \<and> ib_TenantID i = ib_TenantID j"
    and k: "map_of t' k = Some i" and tr: "inbox_transition now status i = Inr (Some i')"
  have "ib_MessageID i' = ib_MessageID i \<and> ib_TenantID i' = ib_TenantID i"
    using tr by (cases rule: inbox_transitionE) simp_all
  moreover have "i \<in> set (rows t')"
    using k by (auto simp: mem_rows_iff dest: map_of_SomeD)
  ultimately show "\<forall>x \<in> set (rows (AList.update k (i'\<lparr>ib_UpdatedAt := now\<rparr>) t')).
      \<exists>j \<in> set (rows t). ib_MessageID x = ib_MessageID j \<and> ib_TenantID x = ib_TenantID j"
    using t' by (intro rows_ok_update) auto
qed auto

lemma SetInboxStatus_refs: "inbox_refs_ok m \<Longrightarrow> inbox_refs_ok (snd (SetInboxStatus tid rid ids status m))"
proof (rule inbox_refs_mono, assumption)
  fix i assume "i \<in> set (rows (Inbox (snd (SetInboxStatus tid rid ids status m))))"
  then show "\<exists>j \<in> set (rows (Inbox m)). ib_MessageID i = ib_MessageID j \<and> ib_TenantID i = ib_TenantID j"
    using set_inbox_loop_rows [of "Now m" tid rid status ids "Inbox m" 0]
    by (auto simp: SetInboxStatus_def with_fail_def split: option.splits prod.splits)
qed (auto simp: SetInboxStatus_def with_fail_def msg_tenant_def split: option.splits prod.splits)

lemma RevokeUnread_refs: "inbox_refs_ok m \<Longrightarrow> inbox_refs_ok (snd (RevokeUnread tid mid m))"
proof (rule inbox_refs_mono, assumption)
  fix i assume "i \<in> set (rows (Inbox (snd (RevokeUnread tid mid m))))"
  then obtain k j where "(k, j) \<in> set (Inbox m)" and "i = j \<or> i = j\<lparr>ib_Status := ''revoked''\<rparr>"
    by (auto simp: RevokeUnread_def with_fail_def map_rows_def mem_rows_iff split: option.splits if_splits)
  then show "\<exists>j \<in> set (rows (Inbox m)). ib_MessageID i = ib_MessageID j \<and> ib_TenantID i = ib_TenantID j"
    by (force simp: mem_rows_iff)
qed (auto simp: RevokeUnread_def with_fail_def msg_tenant_def split: option.splits)

lemma tenant_step_refs: "tenant_step tid m m' \<Longrightarrow> inbox_refs_ok m \<Longrightarrow> inbox_refs_ok m'"
proof (induction rule: tenant_step.induct)
  case (insert_inbox rs m tid)
  then show ?case by (simp add: InsertInboxBatch_refs)
qed (auto simp: frame_simps InsertMessage_refs UpdateMessage_refs SetMessageStatus_refs
    DeleteMessage_refs SetInboxStatus_refs RevokeUnread_refs elim!: inbox_refs_frame)

lemma store_reach_refs: "store_reach m \<Longrightarrow> inbox_refs_ok m"
proof (induction rule: store_reach.induct)
  case start
  show ?case by (simp add: inbox_refs_ok_def empty_store_def rows_def)
next
  case (call m tid m')
  then show ?case by (blast intro: tenant_step_refs)
qed (auto simp: frame_simps ClaimDueMessages_refs FailOn_def elim!: inbox_refs_frame)

section \<open>Tenants do not see each other's calls\<close>

definition slice :: "('r \<Rightarrow> string) \<Rightarrow> string \<Rightarrow> 'r table \<Rightarrow> 'r table" where
  "slice tenf tid t = filter (\<lambda>(k, r). tenf r = tid) t"

lemma slice_update:
  assumes "tenf r \<noteq> tid" and "\<And>old. map_of t k = Some old \<Longrightarrow> tenf old \<noteq> tid"
  shows "slice tenf tid (AList.update k r t) = slice tenf tid t"
  using assms by (induction t) (auto simp: slice_def split: if_splits)

lemma slice_delete:
  assumes "distinct (map fst t)" and "\<And>old. map_of t k = Some old \<Longrightarrow> tenf old \<noteq> tid"
  shows "slice tenf tid (AList.delete k t) = slice tenf tid t"
  using assms
proof (induction t)
  case (Cons a t)
  have "AList.delete k t = t" if "k \<notin> set (map fst t)"
    using that by (simp add: delete_idem)
  with Cons show ?case
    by (cases a) (auto simp: slice_def split: if_splits)
qed (simp add: slice_def)

lemma slice_map_rows:
  assumes "\<And>k r. tenf (f k r) = tenf r" and "\<And>k r. tenf r = tid \<Longrightarrow> f k r = r"
  shows "slice tenf tid (map_rows f t) = slice tenf tid t"
  using assms by (induction t) (auto simp: slice_def map_rows_def)

lemma slice_drop_rows:
  assumes "\<And>k r. (k, r) \<in> set t \<Longrightarrow> p k r \<Longrightarrow> tenf r \<noteq> tid"
  shows "slice tenf tid (drop_rows p t) = slice tenf tid t"
  using assms by (induction t) (auto simp: slice_def drop_rows_def)

lemma slice_insert_inbox_loop:
  assumes "\<forall>r \<in> set rs. ib_TenantID r \<noteq> tid \<and> map_of t (ib_ID r) = None" and "distinct (map ib_ID rs)"
  shows "slice ib_TenantID tid (fst (insert_inbox_loop now rs t)) = slice ib_TenantID tid t"
  using assms
proof (induction now rs t rule: insert_inbox_loop.induct)
  case (2 now r rs t)
  let ?t = "AList.update (ib_ID r) (r\<lparr>ib_CreatedAt := now, ib_UpdatedAt := now\<rparr>) t"
  have "slice ib_TenantID tid ?t = slice ib_TenantID tid t"
    using 2(3) by (intro slice_update) auto
  moreover have "\<forall>x \<in> set rs. ib_TenantID x \<noteq> tid \<and> map_of ?t (ib_ID x) = None"
  proof
    fix x assume x: "x \<in> set rs"
    then have "ib_ID x \<in> ib_ID ` set rs" by (rule imageI)
    with 2(4) have "ib_ID x \<noteq> ib_ID r" by (metis distinct.simps(2) list.simps(9) list.set_map)
    with x 2(3) show "ib_TenantID x \<noteq> tid \<and> map_of ?t (ib_ID x) = None"
      by (simp add: table_simps)
  qed
  ultimately show ?case
    using 2 by (auto simp: Let_def split: prod.splits)
qed simp

lemma slice_set_inbox_loop:
  assumes "tid \<noteq> tid'"
  shows "slice ib_TenantID tid' (snd (set_inbox_loop now tid rid status ks t n)) = slice ib_TenantID tid' t"
proof (rule set_inbox_loop_inv [where I = "\<lambda>t'. slice ib_TenantID tid' t' = slice ib_TenantID tid' t"])
  fix t' k i i'
  assume s: "slice ib_TenantID tid' t' = slice ib_TenantID tid' t" and "map_of t' k = Some i"
    and "ib_TenantID i = tid" and tr: "inbox_transition now status i = Inr (Some i')"
  moreover have "ib_TenantID i' = ib_TenantID i"
    using tr by (cases rule: inbox_transitionE) simp_all
  ultimately have "slice ib_TenantID tid' (AList.update k (i'\<lparr>ib_UpdatedAt := now\<rparr>) t') = slice ib_TenantID tid' t'"
    using assms by (intro slice_update) auto
  with s show "slice ib_TenantID tid' (AList.update k (i'\<lparr>ib_UpdatedAt := now\<rparr>) t') = slice ib_TenantID tid' t"
    by simp
qed simp

text \<open>All rows of a tenant.\<close>

definition tenant_view ::
  "string \<Rightarrow> memstore \<Rightarrow> channel table \<times> template table \<times> log_row table \<times> grant table \<times>
     category table \<times> message table \<times> inbox_row table" where
  "tenant_view tid m = (slice ch_TenantID tid (Channels m), slice tp_TenantID tid (Templates m),
     slice lg_TenantID tid (Logs m), slice gr_TenantID tid (Grants m),
     slice ca_TenantID tid (Categories m), slice ms_TenantID tid (Messages m),
     slice ib_TenantID tid (Inbox m))"

lemma wf_table_distinct: "wf_table idf t \<Longrightarrow> distinct (map fst t)"
  by (simp add: wf_table_def)


lemma UpsertGrant_slice:
  assumes "wf_grants m" and "gr_TenantID g \<noteq> tid'" and "map_of (Grants m) (gr_ID g) = None"
  shows "slice gr_TenantID tid' (Grants (snd (UpsertGrant g m))) = slice gr_TenantID tid' (Grants m)"
proof (cases "Fail m ''UpsertGrant'' = None")
  case True
  show ?thesis
  proof (cases "find (\<lambda>(k, x). same_tuple x g) (Grants m)")
    case None
    with True assms show ?thesis
      by (auto simp: UpsertGrant_def with_fail_def Let_def intro!: slice_update)
  next
    case (Some kx)
    obtain k x where kx: "kx = (k, x)" by (cases kx)
    with Some have "(k, x) \<in> set (Grants m)" and "same_tuple x g"
      using find_tuple [of g "Grants m" k x] by auto
    then have "map_of (Grants m) k = Some x" and "gr_TenantID x = gr_TenantID g"
      using assms(1) by (auto simp: wf_grants_def wf_table_def same_tuple_def)
    with True Some kx assms(2) show ?thesis
      by (auto simp: UpsertGrant_def with_fail_def Let_def intro!: slice_update)
  qed
qed (auto simp: UpsertGrant_def with_fail_def)

lemma DeleteMessage_slices:
  assumes "wf_messages m" and "inbox_refs_ok m" and "tid \<noteq> tid'"
  shows "slice ms_TenantID tid' (Messages (snd (DeleteMessage tid i m))) = slice ms_TenantID tid' (Messages m)"
    and "slice ib_TenantID tid' (Inbox (snd (DeleteMessage tid i m))) = slice ib_TenantID tid' (Inbox m)"
proof -
  have d: "distinct (map fst (Messages m))"
    using assms(1) by (simp add: wf_messages_def wf_table_def)
  have "ib_TenantID x \<noteq> tid'" if "map_of (Messages m) i = Some msg" "ms_TenantID msg = tid"
    "(k, x) \<in> set (Inbox m)" "ib_MessageID x = i" for msg k x
    using assms(2,3) that by (force simp: inbox_refs_iff msg_tenant_def mem_rows_iff)
  then show "slice ib_TenantID tid' (Inbox (snd (DeleteMessage tid i m))) = slice ib_TenantID tid' (Inbox m)"
    by (auto simp: DeleteMessage_def with_fail_def split: option.splits intro!: slice_drop_rows)
  show "slice ms_TenantID tid' (Messages (snd (DeleteMessage tid i m))) = slice ms_TenantID tid' (Messages m)"
    using d assms(3) by (auto simp: DeleteMessage_def with_fail_def split: option.splits intro!: slice_delete)
qed

lemma tenant_step_isolates:
  assumes "tenant_step tid m m'" and "wf_store m" and "inbox_refs_ok m" and "tid' \<noteq> tid"
  shows "tenant_view tid' m' = tenant_view tid' m"
proof -
  note wf = assms(2) [unfolded wf_store_def wf_channels_def wf_templates_def wf_categories_def]
  note d = wf [THEN conjunct1, THEN conjunct1, THEN wf_table_distinct]
  have dt: "distinct (map fst (Templates m))" "distinct (map fst (Grants m))" "distinct (map fst (Categories m))"
    using wf by (auto simp: wf_grants_def intro: wf_table_distinct)
  from assms(1) show ?thesis
  proof cases
    case (upsert_grant g)
    then have "\<exists>t. snd (UpsertGrant g m) = m\<lparr>Grants := t\<rparr>"
      by (metis UpsertGrant_frame prod.collapse)
    with upsert_grant UpsertGrant_slice [of m g tid'] assms show ?thesis
      by (auto simp: tenant_view_def wf_store_def)
  next
    case (delete_message i)
    have "snd (DeleteMessage tid i m) =
        m\<lparr>Messages := Messages (snd (DeleteMessage tid i m)), Inbox := Inbox (snd (DeleteMessage tid i m))\<rparr>"
      by (auto simp: DeleteMessage_def with_fail_def split: option.splits)
    then obtain a b where "snd (DeleteMessage tid i m) = m\<lparr>Messages := a, Inbox := b\<rparr>" by blast
    with delete_message DeleteMessage_slices [of m tid tid' i] assms show ?thesis
      by (auto simp: tenant_view_def wf_store_def)
  next
    case (insert_inbox rs)
    with assms(4) slice_insert_inbox_loop [of rs tid' "Inbox m" "Now m"] show ?thesis
      by (auto simp: tenant_view_def InsertInboxBatch_def with_fail_def new_entry_def split: option.splits prod.splits)
  next
    case (set_inbox rid ids status)
    with assms(4) slice_set_inbox_loop [of tid tid' "Now m" rid status ids "Inbox m" 0] show ?thesis
      by (auto simp: tenant_view_def SetInboxStatus_def with_fail_def split: option.splits prod.splits)
  qed (use assms(4) in \<open>auto simp: tenant_view_def with_fail_def Let_def revocable_def
      InsertChannel_def UpdateChannel_def ClearDefaultChannel_def DeleteChannel_def
      InsertTemplate_def UpdateTemplate_def SetTemplateBuiltin_def ClearDefaultTemplate_def
      DeleteTemplate_def InsertLog_def SetLogOutcome_def DeleteGrant_def DeleteGrantsOfResource_def
      DeleteGrantsOfSubject_def InsertCategory_def UpdateCategory_def DeleteCategory_def
      InsertMessage_def UpdateMessage_def SetMessageStatus_def RevokeUnread_def
      intro!: slice_update slice_map_rows slice_drop_rows slice_delete [OF d]
        slice_delete [OF dt(1)] slice_delete [OF dt(2)] slice_delete [OF dt(3)]
      split: option.splits if_splits\<close>)
qed

section \<open>The interface of a tenant's rows\<close>

text \<open>
  What the services rely on for every table whose rows belong to a tenant: a row is found by its
  own tenant only, insertion and deletion change that row alone, and a refused call changes
  nothing.
\<close>

locale tenant_rows =
  fixes tab :: "memstore \<Rightarrow> 'r table"
    and idf :: "'r \<Rightarrow> string"
    and tenf :: "'r \<Rightarrow> string"
    and stamp :: "memstore \<Rightarrow> 'r \<Rightarrow> 'r"      \<comment> \<open>the row as it is written\<close>
    and get :: "string \<Rightarrow> string \<Rightarrow> 'v store_op"
    and ins :: "'r \<Rightarrow> unit store_op"
    and del :: "string \<Rightarrow> string \<Rightarrow> unit store_op"
  assumes get_own: "healthy m \<Longrightarrow> map_of (tab m) i = Some r \<Longrightarrow> tenf r = tid \<Longrightarrow> \<exists>v. get tid i m = (Inr v, m)"
    and get_refused: "healthy m \<Longrightarrow> (\<And>r. map_of (tab m) i = Some r \<Longrightarrow> tenf r \<noteq> tid) \<Longrightarrow>
      get tid i m = (Inl Store_ErrNotFound, m)"
    and stamp_tenant: "tenf (stamp m r) = tenf r"
    and ins_ok: "ins r m = (Inr (), m') \<Longrightarrow> map_of (tab m') = (map_of (tab m))(idf r \<mapsto> stamp m r)"
    and ins_refused: "ins r m = (Inl e, m') \<Longrightarrow> m' = m"
    and ins_fail: "Fail (snd (ins r m)) = Fail m"
    and del_ok: "del tid i m = (Inr (), m') \<Longrightarrow>
      (\<exists>r. map_of (tab m) i = Some r \<and> tenf r = tid) \<and> map_of (tab m') = (map_of (tab m))(i := None)"
    and del_refused: "del tid i m = (Inl e, m') \<Longrightarrow> m' = m"
    and del_fail: "Fail (snd (del tid i m)) = Fail m"
begin

lemma get_after_insert:
  assumes "healthy m" and "ins r m = (Inr (), m')"
  shows "\<exists>v. get (tenf r) (idf r) m' = (Inr v, m')"
proof -
  obtain r' where "tenf r' = tenf r" "map_of (tab m') (idf r) = Some r'"
    using ins_ok [OF assms(2)] stamp_tenant by auto
  moreover have "healthy m'" using assms ins_fail [of r m] by (simp add: healthy_def)
  ultimately show ?thesis using get_own by blast
qed

lemma foreign_get_after_insert:
  assumes "healthy m" and "ins r m = (Inr (), m')" and "tid \<noteq> tenf r"
  shows "get tid (idf r) m' = (Inl Store_ErrNotFound, m')"
proof -
  obtain r' where "tenf r' = tenf r" "map_of (tab m') (idf r) = Some r'"
    using ins_ok [OF assms(2)] stamp_tenant by auto
  moreover have "healthy m'" using assms ins_fail [of r m] by (simp add: healthy_def)
  ultimately show ?thesis using assms(3) by (intro get_refused) auto
qed

lemma get_after_delete:
  assumes "healthy m" and "del tid i m = (Inr (), m')"
  shows "get tid' i m' = (Inl Store_ErrNotFound, m')"
proof -
  have "map_of (tab m') i = None" using del_ok [OF assms(2)] by simp
  moreover have "healthy m'" using assms del_fail [of tid i m] by (simp add: healthy_def)
  ultimately show ?thesis by (intro get_refused) auto
qed

lemma delete_foreign:
  assumes "\<And>r. map_of (tab m) i = Some r \<Longrightarrow> tenf r \<noteq> tid"
  shows "\<exists>e. del tid i m = (Inl e, m)"
  using assms del_ok [of tid i m] del_refused [of tid i m]
  by (cases "del tid i m"; cases "fst (del tid i m)") fastforce+

lemma others_after_delete:
  assumes "healthy m" and "del tid i m = (Inr (), m')" and "j \<noteq> i" and "\<exists>v. get tid' j m = (Inr v, m)"
  shows "\<exists>v. get tid' j m' = (Inr v, m')"
proof -
  obtain r where "map_of (tab m) j = Some r" "tenf r = tid'"
    using assms(1,4) get_refused [of m j tid'] by fastforce
  moreover have "map_of (tab m') j = map_of (tab m) j" using del_ok [OF assms(2)] assms(3) by simp
  moreover have "healthy m'" using assms del_fail [of tid i m] by (simp add: healthy_def)
  ultimately show ?thesis using get_own by metis
qed

end

definition stamp_channel :: "memstore \<Rightarrow> channel \<Rightarrow> channel" where
  "stamp_channel m c = c\<lparr> ch_CreatedAt := Now m, ch_UpdatedAt := Now m,
     ch_SettingsPublic := (case ch_SettingsPublic c of None \<Rightarrow> Some ''{}'' | Some b \<Rightarrow> Some b) \<rparr>"

lemmas row_simps = with_fail_def Let_def update_conv' delete_conv' healthy_def

interpretation channel_rows: tenant_rows Channels ch_ID ch_TenantID stamp_channel
  GetChannel InsertChannel DeleteChannel
  by unfold_locales
    (auto simp: GetChannel_def InsertChannel_def DeleteChannel_def stamp_channel_def row_simps
      split: option.splits if_splits)

interpretation template_rows: tenant_rows Templates tp_ID tp_TenantID
  "\<lambda>m t. t\<lparr>tp_CreatedAt := Now m, tp_UpdatedAt := Now m\<rparr>" GetTemplate InsertTemplate DeleteTemplate
  by unfold_locales
    (auto simp: GetTemplate_def InsertTemplate_def DeleteTemplate_def row_simps
      split: option.splits if_splits)

interpretation category_rows: tenant_rows Categories ca_ID ca_TenantID
  "\<lambda>m c. c\<lparr>ca_CreatedAt := Now m, ca_UpdatedAt := Now m\<rparr>" GetCategory InsertCategory DeleteCategory
  by unfold_locales
    (auto simp: GetCategory_def InsertCategory_def DeleteCategory_def row_simps
      split: option.splits if_splits)

interpretation message_rows: tenant_rows Messages ms_ID ms_TenantID
  "\<lambda>m x. x\<lparr>ms_CreatedAt := Now m, ms_UpdatedAt := Now m\<rparr>" GetMessage InsertMessage DeleteMessage
  by unfold_locales
    (auto simp: GetMessage_def InsertMessage_def DeleteMessage_def row_simps
      split: option.splits if_splits)

section \<open>Properties of the store\<close>

text \<open>Rows for the concrete instances below.\<close>

definition sample_channel :: "string \<Rightarrow> string \<Rightarrow> string \<Rightarrow> channel" where
  "sample_channel i tid name = \<lparr> ch_ID = i, ch_TenantID = tid, ch_Name = name, ch_Type = ''email'',
     ch_SettingsSealed = '''', ch_SettingsPublic = None, ch_Enabled = True, ch_IsDefault = False,
     ch_Managed = False, ch_CreatedBy = None, ch_UpdatedBy = None, ch_CreatedAt = 0, ch_UpdatedAt = 0,
     ch_TemplateCount = 0 \<rparr>"

definition sample_grant :: "string \<Rightarrow> string \<Rightarrow> string \<Rightarrow> grant" where
  "sample_grant i uid rel = \<lparr> gr_ID = i, gr_TenantID = ''t1'', gr_ResourceType = ''channel'',
     gr_ResourceID = ''c1'', gr_SubjectType = ''user'', gr_SubjectID = uid, gr_Relation = rel,
     gr_GrantedBy = None, gr_GrantedAt = 0, gr_ExpiresAt = None \<rparr>"

definition sample_message :: "string \<Rightarrow> string \<Rightarrow> message" where
  "sample_message i status = zero_message\<lparr> ms_ID := i, ms_TenantID := ''t1'', ms_Title := ''hello'',
     ms_Type := ''notice'', ms_Status := status, ms_SenderID := Some ''ada'', ms_CreatedBy := Some ''ada'',
     ms_Recipients := Some \<lparr>rc_All = False, rc_Users = [''bob'']\<rparr> \<rparr>"

definition sample_store :: memstore where
  "sample_store = snd (UpsertGrant (sample_grant ''g1'' ''ada'' ''sharer'')
     (snd (InsertMessage (sample_message ''m1'' ''draft'')
       (snd (InsertChannel (sample_channel ''c1'' ''t1'' ''Mail'') empty_store)))))"

lemmas sample_defs = sample_channel_def sample_grant_def sample_message_def zero_message_def empty_store_def

lemma sample_store_eval:
  "sample_store = empty_store\<lparr>
     Channels := [(''c1'', (sample_channel ''c1'' ''t1'' ''Mail'')\<lparr>ch_SettingsPublic := Some ''{}''\<rparr>)],
     Messages := [(''m1'', sample_message ''m1'' ''draft'')],
     Grants := [(''g1'', sample_grant ''g1'' ''ada'' ''sharer'')] \<rparr>"
  by (simp add: sample_store_def InsertChannel_def InsertMessage_def UpsertGrant_def with_fail_def
      bad_category_def rows_def sample_defs Let_def)

lemma sample_store_reach: "store_reach sample_store"
proof -
  have 1: "store_reach (snd (InsertChannel (sample_channel ''c1'' ''t1'' ''Mail'') empty_store))"
    by (rule store_reach.call [OF store_reach.start tenant_step.insert_channel]) (simp add: empty_store_def)
  have 2: "store_reach (snd (InsertMessage (sample_message ''m1'' ''draft'')
      (snd (InsertChannel (sample_channel ''c1'' ''t1'' ''Mail'') empty_store))))"
    by (rule store_reach.call [OF 1 tenant_step.insert_message])
      (simp add: InsertChannel_def with_fail_def rows_def empty_store_def)
  show ?thesis
    unfolding sample_store_def
    by (rule store_reach.call [OF 2 tenant_step.upsert_grant])
      (simp add: InsertChannel_def InsertMessage_def with_fail_def rows_def bad_category_def sample_defs)
qed

text \<open>
  C5. Every state the store reaches, whatever calls, background jobs and injected failures made it,
  satisfies its integrity constraints: rows under their own ids, names unique per tenant ignoring
  case, at most one default channel per type and one managed channel per tenant, one default
  template per channel and one template per system key, one grant per tuple, one inbox entry per
  message and recipient with a status that agrees with its time of reading, messages in existing
  categories of their tenant, and inbox entries for existing messages of their tenant.
\<close>

theorem store_reachable_wf:
  assumes "store_reach m"
  shows "wf_store m \<and> inbox_refs_ok m"
  using store_reach_wf_store [OF assms] store_reach_refs [OF assms] by blast

theorem store_reachable_wf_witness:
  "Channels sample_store \<noteq> [] \<and> Messages sample_store \<noteq> [] \<and> wf_store sample_store \<and> inbox_refs_ok sample_store"
  using store_reachable_wf [OF sample_store_reach] by (simp add: sample_store_eval)

text \<open>
  C4. A call of one tenant leaves every row of every other tenant as it was, in all tables.
\<close>

theorem tenant_isolation:
  assumes "store_reach m" and "tenant_step tid m m'" and "tid' \<noteq> tid"
  shows "tenant_view tid' m' = tenant_view tid' m"
  by (rule tenant_step_isolates [OF assms(2) store_reach_wf_store [OF assms(1)]
        store_reach_refs [OF assms(1)] assms(3)])

theorem tenant_isolation_witness:
  "tenant_view ''t1'' (snd (DeleteMessage ''t2'' ''m1'' sample_store)) = tenant_view ''t1'' sample_store \<and>
   Messages sample_store \<noteq> []"
  using tenant_isolation [OF sample_store_reach tenant_step.delete_message [where tid = "''t2''" and i = "''m1''"],
      where tid' = "''t1''"]
  by (simp add: sample_store_eval)

text \<open>
  A row that was inserted is found by its tenant and by no other, a deleted one by nobody:
  for channels, templates, categories and messages.
\<close>

theorem insert_lookup_delete:
  assumes "healthy m"
  shows "(\<forall>c m'. InsertChannel c m = (Inr (), m') \<longrightarrow>
       (\<exists>v. GetChannel (ch_TenantID c) (ch_ID c) m' = (Inr v, m')) \<and>
       (\<forall>tid. tid \<noteq> ch_TenantID c \<longrightarrow> GetChannel tid (ch_ID c) m' = (Inl Store_ErrNotFound, m'))) \<and>
    (\<forall>t m'. InsertTemplate t m = (Inr (), m') \<longrightarrow>
       (\<exists>v. GetTemplate (tp_TenantID t) (tp_ID t) m' = (Inr v, m')) \<and>
       (\<forall>tid. tid \<noteq> tp_TenantID t \<longrightarrow> GetTemplate tid (tp_ID t) m' = (Inl Store_ErrNotFound, m'))) \<and>
    (\<forall>c m'. InsertCategory c m = (Inr (), m') \<longrightarrow>
       (\<exists>v. GetCategory (ca_TenantID c) (ca_ID c) m' = (Inr v, m')) \<and>
       (\<forall>tid. tid \<noteq> ca_TenantID c \<longrightarrow> GetCategory tid (ca_ID c) m' = (Inl Store_ErrNotFound, m'))) \<and>
    (\<forall>x m'. InsertMessage x m = (Inr (), m') \<longrightarrow>
       (\<exists>v. GetMessage (ms_TenantID x) (ms_ID x) m' = (Inr v, m')) \<and>
       (\<forall>tid. tid \<noteq> ms_TenantID x \<longrightarrow> GetMessage tid (ms_ID x) m' = (Inl Store_ErrNotFound, m'))) \<and>
    (\<forall>tid tid' i m'. DeleteChannel tid i m = (Inr (), m') \<longrightarrow> GetChannel tid' i m' = (Inl Store_ErrNotFound, m')) \<and>
    (\<forall>tid tid' i m'. DeleteTemplate tid i m = (Inr (), m') \<longrightarrow> GetTemplate tid' i m' = (Inl Store_ErrNotFound, m')) \<and>
    (\<forall>tid tid' i m'. DeleteCategory tid i m = (Inr (), m') \<longrightarrow> GetCategory tid' i m' = (Inl Store_ErrNotFound, m')) \<and>
    (\<forall>tid tid' i m'. DeleteMessage tid i m = (Inr (), m') \<longrightarrow> GetMessage tid' i m' = (Inl Store_ErrNotFound, m'))"
  using assms channel_rows.get_after_insert channel_rows.foreign_get_after_insert channel_rows.get_after_delete
      template_rows.get_after_insert template_rows.foreign_get_after_insert template_rows.get_after_delete
      category_rows.get_after_insert category_rows.foreign_get_after_insert category_rows.get_after_delete
      message_rows.get_after_insert message_rows.foreign_get_after_insert message_rows.get_after_delete
  by (intro conjI allI impI) blast+

theorem insert_lookup_delete_witness:
  "\<exists>m1. InsertChannel (sample_channel ''c2'' ''t1'' ''Other'') empty_store = (Inr (), m1) \<and>
     GetChannel ''t2'' ''c2'' m1 = (Inl Store_ErrNotFound, m1)"
proof -
  have h: "healthy empty_store" by (simp add: healthy_def empty_store_def)
  obtain m1 where i: "InsertChannel (sample_channel ''c2'' ''t1'' ''Other'') empty_store = (Inr (), m1)"
    by (simp add: InsertChannel_def with_fail_def rows_def empty_store_def)
  have "ch_ID (sample_channel ''c2'' ''t1'' ''Other'') = ''c2''" "''t2'' \<noteq> ch_TenantID (sample_channel ''c2'' ''t1'' ''Other'')"
    by (simp_all add: sample_channel_def)
  with insert_lookup_delete [OF h] i show ?thesis by metis
qed

text \<open>
  Granting is an upsert on the tuple: afterwards exactly one row carries the tuple, with the new
  relation and expiry, and every other row is the one it was.
\<close>

theorem upsert_grant_tuple:
  assumes "store_reach m" and "map_of (Grants m) (gr_ID g) = None" and "UpsertGrant g m = (Inr g', m')"
  shows "set (rows (Grants m')) = insert g' {x \<in> set (rows (Grants m)). \<not> same_tuple x g} \<and>
    same_tuple g' g \<and> gr_Relation g' = gr_Relation g \<and> gr_ExpiresAt g' = gr_ExpiresAt g \<and>
    m' = m\<lparr>Grants := Grants m'\<rparr>"
proof -
  have "wf_grants m" using store_reach_wf_store [OF assms(1)] by (simp add: wf_store_def)
  from UpsertGrant_rows [OF this assms(2,3)] UpsertGrant_frame [OF assms(3)] show ?thesis by blast
qed

theorem upsert_grant_tuple_witness:
  "\<exists>g' m'. UpsertGrant (sample_grant ''g2'' ''ada'' ''viewer'') sample_store = (Inr g', m') \<and>
     set (rows (Grants m')) = {g'} \<and> gr_ID g' = ''g1'' \<and> gr_Relation g' = ''viewer''"
proof -
  have f: "map_of (Grants sample_store) (gr_ID (sample_grant ''g2'' ''ada'' ''viewer'')) = None"
    by (simp add: sample_store_eval sample_grant_def)
  obtain g' m' where u: "UpsertGrant (sample_grant ''g2'' ''ada'' ''viewer'') sample_store = (Inr g', m')"
    and "gr_ID g' = ''g1''"
    by (simp add: sample_store_eval UpsertGrant_def with_fail_def same_tuple_def sample_grant_def empty_store_def Let_def)
  with upsert_grant_tuple [OF sample_store_reach f u] show ?thesis
    by (auto simp: sample_store_eval rows_def same_tuple_def sample_grant_def)
qed

end
