(* ===== verification/Sys.thy ===== *)
theory Sys
  imports StoreLaws
begin

text \<open>
  The state the services share: the store behind \<open>repo.Store\<close>, the audit writer (\<open>None\<close> for a
  nil writer) and the live events handed to the \<open>Publisher\<close> so far, whose errors every caller drops.
  All services of a process read one clock, whose reading is \<open>Now\<close> of the store; an
  operation reads it as often as it likes and sees one value.
\<close>

record live_event =
  le_TenantID :: string
  le_To :: "string list"
  le_All :: bool
  le_Type :: string
  le_Data :: "(string \<times> any) list"

record sys =
  db :: memstore
  aud :: "writer option"
  live :: "live_event list"

type_synonym 'a sys_op = "(sys, goerr, 'a) op"

definition with_db :: "'a store_op \<Rightarrow> 'a sys_op" where
  "with_db f s = (case f (db s) of (r, m) \<Rightarrow> (r, s\<lparr>db := m\<rparr>))"

text \<open>\<open>emit\<close> of every service: nothing without a writer, the writer's error dropped.\<close>

definition emit :: "event \<Rightarrow> sys \<Rightarrow> sys" where
  "emit e s = (case aud s of
      None \<Rightarrow> s
    | Some w \<Rightarrow> s\<lparr>aud := Some (snd (Emit e (Now (db s)) w))\<rparr>)"

definition emitE :: "event \<Rightarrow> unit sys_op" where
  [op_simps]: "emitE e s = (Inr (), emit e s)"

definition liveE :: "live_event \<Rightarrow> unit sys_op" where
  [op_simps]: "liveE e s = (Inr (), s\<lparr>live := live s @ [e]\<rparr>)"

definition clock :: "sys \<Rightarrow> time" where
  "clock s = Now (db s)"

lemma db_emit [simp]: "db (emit e s) = db s"
  by (simp add: emit_def split: option.splits)

lemma clock_emit [simp]: "clock (emit e s) = clock s"
  by (simp add: clock_def)

lemma bindE_emitE [op_simps]: "bindE (emitE e) g s = g () (emit e s)"
  by (simp add: bindE_def emitE_def)

lemma live_emit [simp]: "live (emit e s) = live s"
  by (simp add: emit_def split: option.splits)

lemma bindE_liveE [op_simps]: "bindE (liveE e) g s = g () (s\<lparr>live := live s @ [e]\<rparr>)"
  by (simp add: bindE_def liveE_def)

lemma with_db_Inr:
  "with_db f s = (Inr x, s') \<longleftrightarrow> (\<exists>m. f (db s) = (Inr x, m) \<and> s' = s\<lparr>db := m\<rparr>)"
  by (auto simp: with_db_def split: prod.splits)

lemma with_db_Inl:
  "with_db f s = (Inl e, s') \<longleftrightarrow> (\<exists>m. f (db s) = (Inl e, m) \<and> s' = s\<lparr>db := m\<rparr>)"
  by (auto simp: with_db_def split: prod.splits)

lemma with_db_read: "snd (f (db s)) = db s \<Longrightarrow> with_db f s = (fst (f (db s)), s)"
  by (cases s; cases "f (db s)") (simp add: with_db_def)

lemma keeps_with_db [intro]: "keeps P f \<Longrightarrow> keeps (\<lambda>s. P (db s)) (with_db f)"
  unfolding keeps_def with_db_def by (fastforce split: prod.splits)

lemma keeps_liveE [intro]: "keeps (\<lambda>s. P (db s)) (liveE e)"
  by (simp add: keeps_def liveE_def)

lemma keeps_emitE [intro]: "keeps (\<lambda>s. P (db s)) (emitE e)"
  by (simp add: keeps_def emitE_def)


end
