(* ===== verification/Authz.thy ===== *)
theory Authz
  imports Sys
begin

text \<open>
  \<open>internal/authz/authz.go\<close> and \<open>grants.go\<close>: relations, permissions, the decision over the grants
  of a resource, and the operations that check, list, hand out and take back grants. Fresh grant
  ids (\<open>store.NewID\<close>) are arguments.
\<close>

section \<open>Relations and permissions\<close>

definition Owner :: string where "Owner = ''owner''"
definition Editor :: string where "Editor = ''editor''"
definition Viewer :: string where "Viewer = ''viewer''"
definition Sharer :: string where "Sharer = ''sharer''"

definition Read :: string where "Read = ''read''"
definition Write :: string where "Write = ''write''"
definition Delete :: string where "Delete = ''delete''"
definition Share :: string where "Share = ''share''"
definition Use :: string where "Use = ''use''"

definition Channel :: string where "Channel = ''channel''"
definition Template :: string where "Template = ''template''"

definition SubjectUser :: string where "SubjectUser = ''user''"
definition SubjectRole :: string where "SubjectRole = ''role''"
definition SubjectTenant :: string where "SubjectTenant = ''tenant''"

definition AdminRoles :: "string list" where "AdminRoles = [''owner'', ''admin'']"

lemmas relation_defs = Owner_def Editor_def Viewer_def Sharer_def
lemmas action_defs = Read_def Write_def Delete_def Share_def Use_def
lemmas kind_defs = Channel_def Template_def SubjectUser_def SubjectRole_def SubjectTenant_def

record subjects =
  sj_TenantID :: string
  sj_UserID :: string
  sj_Roles :: "string list"
  sj_Service :: string

definition ServiceSubjects :: "string \<Rightarrow> string \<Rightarrow> subjects" where
  "ServiceSubjects tenantID spiffeID =
     \<lparr> sj_TenantID = tenantID, sj_UserID = '''', sj_Roles = [], sj_Service = spiffeID \<rparr>"

definition ActorKind :: "subjects \<Rightarrow> string" where
  "ActorKind s = (if sj_Service s \<noteq> '''' then ''service'' else ''user'')"

definition ActorID :: "subjects \<Rightarrow> string" where
  "ActorID s = (if sj_Service s \<noteq> '''' then sj_Service s else sj_UserID s)"

definition IsAdmin :: "subjects \<Rightarrow> bool" where
  "IsAdmin s \<longleftrightarrow> list_ex (\<lambda>r. list_ex (\<lambda>a. r = a) AdminRoles) (sj_Roles s)"

record permissions =
  pm_Read :: bool
  pm_Write :: bool
  pm_Delete :: bool
  pm_Share :: bool
  pm_Use :: bool

definition no_permissions :: permissions where
  "no_permissions = \<lparr> pm_Read = False, pm_Write = False, pm_Delete = False, pm_Share = False, pm_Use = False \<rparr>"

definition Has :: "permissions \<Rightarrow> string \<Rightarrow> bool" where
  "Has p perm \<longleftrightarrow>
     (if perm = Read then pm_Read p
      else if perm = Write then pm_Write p
      else if perm = Delete then pm_Delete p
      else if perm = Share then pm_Share p
      else if perm = Use then pm_Use p
      else False)"

definition Of :: "string \<Rightarrow> permissions" where
  "Of relation =
     (if relation = Owner then
        \<lparr> pm_Read = True, pm_Write = True, pm_Delete = True, pm_Share = True, pm_Use = True \<rparr>
      else if relation = Editor then no_permissions\<lparr> pm_Read := True, pm_Write := True, pm_Use := True \<rparr>
      else if relation = Viewer then no_permissions\<lparr> pm_Read := True \<rparr>
      else if relation = Sharer then no_permissions\<lparr> pm_Read := True, pm_Share := True, pm_Use := True \<rparr>
      else no_permissions)"

definition rank :: "string \<Rightarrow> int" where
  "rank relation =
     (if relation = Owner then 4 else if relation = Editor then 3 else if relation = Sharer then 2
      else if relation = Viewer then 1 else 0)"

definition ValidRelation :: "string \<Rightarrow> bool" where
  "ValidRelation r \<longleftrightarrow> rank r > 0"

definition ValidPermission :: "string \<Rightarrow> bool" where
  "ValidPermission p \<longleftrightarrow> p = Read \<or> p = Write \<or> p = Delete \<or> p = Share \<or> p = Use"

definition ValidResourceType :: "string \<Rightarrow> bool" where
  "ValidResourceType t \<longleftrightarrow> t = Channel \<or> t = Template"

definition ValidSubjectType :: "string \<Rightarrow> bool" where
  "ValidSubjectType t \<longleftrightarrow> t = SubjectUser \<or> t = SubjectRole \<or> t = SubjectTenant"

section \<open>Decisions\<close>

record source =
  sr_GrantID :: string
  sr_ResourceType :: string
  sr_ResourceID :: string
  sr_SubjectType :: string
  sr_SubjectID :: string
  sr_Relation :: string
  sr_ExpiresAt :: "time option"
  sr_Inherited :: bool

record decision =
  dc_Allowed :: bool
  dc_Relation :: string
  dc_Permissions :: permissions
  dc_Sources :: "source list"

definition zero_decision :: decision where
  "zero_decision = \<lparr> dc_Allowed = False, dc_Relation = '''', dc_Permissions = no_permissions, dc_Sources = [] \<rparr>"

definition notFound :: "goerr \<Rightarrow> goerr" where
  "notFound err = (if errors_Is err Store_ErrNotFound then Authz_ErrNotFound else err)"

definition locate :: "string \<Rightarrow> string \<Rightarrow> string \<Rightarrow> unit sys_op" where
  "locate tenantID resourceType resourceID =
     mapErrE notFound
       (if resourceType = Channel
        then bindE (with_db (GetChannel tenantID resourceID)) (\<lambda>_. returnE ())
        else bindE (with_db (GetTemplate tenantID resourceID)) (\<lambda>_. returnE ()))"

definition matches :: "grant \<Rightarrow> subjects \<Rightarrow> time \<Rightarrow> bool" where
  "matches g s now \<longleftrightarrow>
     \<not> expired_at (gr_ExpiresAt g) now \<and>
     (if gr_SubjectType g = SubjectUser then sj_UserID s \<noteq> '''' \<and> gr_SubjectID g = sj_UserID s
      else if gr_SubjectType g = SubjectRole then list_ex (\<lambda>r. r = gr_SubjectID g) (sj_Roles s)
      else gr_SubjectType g = SubjectTenant)"

definition union :: "permissions \<Rightarrow> permissions \<Rightarrow> permissions" where
  "union a b = \<lparr> pm_Read = pm_Read a \<or> pm_Read b, pm_Write = pm_Write a \<or> pm_Write b,
     pm_Delete = pm_Delete a \<or> pm_Delete b, pm_Share = pm_Share a \<or> pm_Share b,
     pm_Use = pm_Use a \<or> pm_Use b \<rparr>"

definition source_of :: "grant \<Rightarrow> source" where
  "source_of g = \<lparr> sr_GrantID = gr_ID g, sr_ResourceType = gr_ResourceType g, sr_ResourceID = gr_ResourceID g,
     sr_SubjectType = gr_SubjectType g, sr_SubjectID = gr_SubjectID g, sr_Relation = gr_Relation g,
     sr_ExpiresAt = gr_ExpiresAt g, sr_Inherited = False \<rparr>"

definition admin_source :: "string \<Rightarrow> string \<Rightarrow> source" where
  "admin_source resourceType resourceID = \<lparr> sr_GrantID = '''', sr_ResourceType = resourceType,
     sr_ResourceID = resourceID, sr_SubjectType = SubjectRole, sr_SubjectID = ''admin'',
     sr_Relation = Owner, sr_ExpiresAt = None, sr_Inherited = True \<rparr>"

text \<open>One iteration of the loop over the grants.\<close>

definition decide_step :: "subjects \<Rightarrow> time \<Rightarrow> grant \<Rightarrow> decision \<Rightarrow> decision" where
  "decide_step s now g d =
     (if \<not> matches g s now then d
      else d\<lparr> dc_Permissions := union (dc_Permissions d) (Of (gr_Relation g)),
              dc_Relation := (if rank (gr_Relation g) > rank (dc_Relation d) then gr_Relation g
                              else dc_Relation d),
              dc_Sources := dc_Sources d @ [source_of g] \<rparr>)"

definition decide :: "subjects \<Rightarrow> string \<Rightarrow> string \<Rightarrow> time \<Rightarrow> grant list \<Rightarrow> decision" where
  "decide s resourceType resourceID now grants =
     (let d0 = (if IsAdmin s
                then zero_decision\<lparr> dc_Relation := Owner, dc_Permissions := Of Owner,
                       dc_Sources := [admin_source resourceType resourceID] \<rparr>
                else zero_decision);
          d = fold (decide_step s now) grants d0
      in d\<lparr> dc_Sources := sort_key (\<lambda>x. - rank (sr_Relation x)) (dc_Sources d) \<rparr>)"

definition evaluate :: "subjects \<Rightarrow> string \<Rightarrow> string \<Rightarrow> decision sys_op" where
  "evaluate s resourceType resourceID =
     bindE (with_db (GrantsOnResource (sj_TenantID s) resourceType resourceID)) (\<lambda>grants.
     bindE (getE clock) (\<lambda>now.
     returnE (decide s resourceType resourceID now grants)))"

text \<open>An event of the authorisation component: actor and tenant from the subjects.\<close>

definition authz_event ::
  "subjects \<Rightarrow> string \<Rightarrow> string \<Rightarrow> string \<Rightarrow> string \<Rightarrow> string \<Rightarrow> (string \<times> any) list \<Rightarrow> event" where
  "authz_event s typ skind sid outcome reason details =
     \<lparr> ev_Type = typ, ev_TenantID = sj_TenantID s, ev_ActorKind = ActorKind s, ev_ActorID = ActorID s,
       ev_SubjectKind = skind, ev_SubjectID = sid, ev_Outcome = outcome, ev_Reason = reason,
       ev_CorrelationID = '''', ev_Details = details \<rparr>"

definition refusal :: "subjects \<Rightarrow> string \<Rightarrow> string \<Rightarrow> string \<Rightarrow> event" where
  "refusal s resourceType resourceID permission =
     authz_event s ''access_refused'' resourceType resourceID ''refused'' (''no_'' @ permission)
       [(''permission'', VStr permission)]"

definition Check :: "subjects \<Rightarrow> string \<Rightarrow> string \<Rightarrow> string \<Rightarrow> decision sys_op" where
  "Check s resourceType resourceID permission =
     bindE (refuseE (\<not> ValidPermission permission \<or> \<not> ValidResourceType resourceType) Authz_ErrInput) (\<lambda>_.
     bindE (locate (sj_TenantID s) resourceType resourceID) (\<lambda>_.
     bindE (evaluate s resourceType resourceID) (\<lambda>d0.
     let d = d0\<lparr>dc_Allowed := Has (dc_Permissions d0) permission\<rparr> in
     bindE (if \<not> dc_Allowed d then emitE (refusal s resourceType resourceID permission) else returnE ()) (\<lambda>_.
     returnE d))))"

text \<open>\<open>Require\<close> returns the refused decision beside \<open>ErrForbidden\<close>; no caller reads it.\<close>

definition Require :: "subjects \<Rightarrow> string \<Rightarrow> string \<Rightarrow> string \<Rightarrow> decision sys_op" where
  "Require s resourceType resourceID permission =
     bindE (Check s resourceType resourceID permission) (\<lambda>d.
     bindE (refuseE (\<not> dc_Allowed d) Authz_ErrForbidden) (\<lambda>_.
     returnE d))"

definition PermissionsOn :: "subjects \<Rightarrow> string \<Rightarrow> string \<Rightarrow> permissions sys_op" where
  "PermissionsOn s resourceType resourceID =
     bindE (evaluate s resourceType resourceID) (\<lambda>d. returnE (dc_Permissions d))"

text \<open>The set \<open>map[string]bool\<close> is the list of its keys in the order of first insertion.\<close>

definition ReadableIDs :: "subjects \<Rightarrow> string \<Rightarrow> (string list \<times> bool) sys_op" where
  "ReadableIDs s resourceType =
     (if IsAdmin s then returnE ([], True)
      else
        bindE (getE clock) (\<lambda>now.
        bindE (with_db (GrantsForSubjects (sj_TenantID s) (sj_UserID s) (sj_Roles s) now)) (\<lambda>grants.
        returnE (remdups (map gr_ResourceID
          (filter (\<lambda>g. gr_ResourceType g = resourceType \<and> pm_Read (Of (gr_Relation g))) grants)), False))))"

definition Visible :: "subjects \<Rightarrow> string \<Rightarrow> visible sys_op" where
  "Visible s resourceType =
     bindE (ReadableIDs s resourceType) (\<lambda>(ids, all).
     if all then returnE \<lparr>vis_All = True, vis_IDs = []\<rparr>
     else returnE \<lparr>vis_All = False, vis_IDs = sort ids\<rparr>)"

section \<open>Grants of the services\<close>

text \<open>
  These three run inside transactions of other services, so they are operations of the store.
\<close>

definition GrantOwner :: "string \<Rightarrow> string \<Rightarrow> string \<Rightarrow> string \<Rightarrow> string \<Rightarrow> unit store_op" where
  "GrantOwner newID tenantID resourceType resourceID userID =
     (if userID = '''' then returnE ()
      else bindE (UpsertGrant \<lparr> gr_ID = newID, gr_TenantID = tenantID, gr_ResourceType = resourceType,
             gr_ResourceID = resourceID, gr_SubjectType = SubjectUser, gr_SubjectID = userID,
             gr_Relation = Owner, gr_GrantedBy = Some userID, gr_GrantedAt = 0, gr_ExpiresAt = None \<rparr>)
           (\<lambda>_. returnE ()))"

definition SetTenantUse :: "string \<Rightarrow> string \<Rightarrow> string \<Rightarrow> bool \<Rightarrow> unit store_op" where
  "SetTenantUse newID tenantID channelID on =
     (if \<not> on then DeleteGrantsOfSubject tenantID Channel channelID SubjectTenant ''''
      else bindE (UpsertGrant \<lparr> gr_ID = newID, gr_TenantID = tenantID, gr_ResourceType = Channel,
             gr_ResourceID = channelID, gr_SubjectType = SubjectTenant, gr_SubjectID = '''',
             gr_Relation = Sharer, gr_GrantedBy = None, gr_GrantedAt = 0, gr_ExpiresAt = None \<rparr>)
           (\<lambda>_. returnE ()))"

definition DropResource :: "string \<Rightarrow> string \<Rightarrow> string \<Rightarrow> unit store_op" where
  "DropResource tenantID resourceType resourceID = DeleteGrantsOfResource tenantID resourceType resourceID"

section \<open>Grant management (\<open>grants.go\<close>)\<close>

record grant_input =
  gi_ResourceType :: string
  gi_ResourceID :: string
  gi_SubjectType :: string
  gi_SubjectID :: string
  gi_Relation :: string
  gi_ExpiresAt :: "time option"

record grant_view =
  gv_ID :: string
  gv_ResourceType :: string
  gv_ResourceID :: string
  gv_SubjectType :: string
  gv_SubjectID :: string
  gv_Relation :: string
  gv_GrantedBy :: string
  gv_GrantedAt :: time
  gv_ExpiresAt :: "time option"
  gv_Expired :: bool

definition view :: "time \<Rightarrow> grant \<Rightarrow> grant_view" where
  "view now g = \<lparr> gv_ID = gr_ID g, gv_ResourceType = gr_ResourceType g, gv_ResourceID = gr_ResourceID g,
     gv_SubjectType = gr_SubjectType g, gv_SubjectID = gr_SubjectID g, gv_Relation = gr_Relation g,
     gv_GrantedBy = strp (gr_GrantedBy g), gv_GrantedAt = gr_GrantedAt g, gv_ExpiresAt = gr_ExpiresAt g,
     gv_Expired = expired_at (gr_ExpiresAt g) now \<rparr>"

definition validate_grant :: "grant_input \<Rightarrow> time \<Rightarrow> goerr option" where
  "validate_grant inp now =
     (if \<not> ValidResourceType (gi_ResourceType inp) \<or> \<not> ValidSubjectType (gi_SubjectType inp)
         \<or> \<not> ValidRelation (gi_Relation inp) \<or> gi_ResourceID inp = '''' then Some Authz_ErrInput
      else if gi_SubjectType inp = SubjectTenant \<and> gi_SubjectID inp \<noteq> '''' then Some Authz_ErrInput
      else if gi_SubjectType inp \<noteq> SubjectTenant \<and>
              (gi_SubjectID inp = '''' \<or> length (gi_SubjectID inp) > 128) then Some Authz_ErrInput
      else if expired_at (gi_ExpiresAt inp) now then Some Authz_ErrInput
      else None)"

definition grant_details :: "grant \<Rightarrow> (string \<times> any) list" where
  "grant_details g = [(''resource_type'', VStr (gr_ResourceType g)), (''resource_id'', VStr (gr_ResourceID g)),
     (''subject_type'', VStr (gr_SubjectType g)), (''subject_id'', VStr (gr_SubjectID g)),
     (''relation'', VStr (gr_Relation g))]"

text \<open>The row a grant request writes.\<close>

definition grant_row :: "string \<Rightarrow> subjects \<Rightarrow> grant_input \<Rightarrow> grant" where
  "grant_row newID s inp = \<lparr> gr_ID = newID, gr_TenantID = sj_TenantID s,
     gr_ResourceType = gi_ResourceType inp, gr_ResourceID = gi_ResourceID inp,
     gr_SubjectType = gi_SubjectType inp, gr_SubjectID = gi_SubjectID inp,
     gr_Relation = gi_Relation inp,
     gr_GrantedBy = (if sj_UserID s \<noteq> '''' then Some (sj_UserID s) else None),
     gr_GrantedAt = 0, gr_ExpiresAt = gi_ExpiresAt inp \<rparr>"

definition Grant :: "string \<Rightarrow> subjects \<Rightarrow> grant_input \<Rightarrow> grant_view sys_op" where
  "Grant newID s inp =
     bindE (getE clock) (\<lambda>now.
     case validate_grant inp now of
       Some err \<Rightarrow> failE err
     | None \<Rightarrow>
     bindE (Check s (gi_ResourceType inp) (gi_ResourceID inp) Share) (\<lambda>d.
     bindE (refuseE (\<not> dc_Allowed d) Authz_ErrForbidden) (\<lambda>_.
     if rank (gi_Relation inp) > rank (dc_Relation d) then
       bindE (emitE (authz_event s ''access_refused'' (gi_ResourceType inp) (gi_ResourceID inp) ''refused''
          ''relation_above_granter'' [(''relation'', VStr (gi_Relation inp)), (''held'', VStr (dc_Relation d))]))
         (\<lambda>_. failE Authz_ErrAboveGranter)
     else
       bindE (with_db (UpsertGrant (grant_row newID s inp))) (\<lambda>g.
       bindE (emitE (authz_event s ''grant_created'' ''grant'' (gr_ID g) ''ok'' ''''
          (grant_details g @ [(''expires'', VBool (gr_ExpiresAt g \<noteq> None))]))) (\<lambda>_.
       returnE (view now g))))))"

definition Revoke :: "subjects \<Rightarrow> string \<Rightarrow> unit sys_op" where
  "Revoke s grantID =
     bindE (mapErrE notFound (with_db (GetGrant (sj_TenantID s) grantID))) (\<lambda>g.
     bindE (Check s (gr_ResourceType g) (gr_ResourceID g) Share) (\<lambda>d.
     bindE (refuseE (\<not> dc_Allowed d) Authz_ErrForbidden) (\<lambda>_.
     bindE (mapErrE notFound (with_db (DeleteGrant (sj_TenantID s) grantID))) (\<lambda>_.
     emitE (authz_event s ''grant_revoked'' ''grant'' (gr_ID g) ''ok'' '''' (grant_details g))))))"

definition ListGrants :: "subjects \<Rightarrow> string \<Rightarrow> string \<Rightarrow> grant_view list sys_op" where
  "ListGrants s resourceType resourceID =
     bindE (refuseE (\<not> ValidResourceType resourceType) Authz_ErrInput) (\<lambda>_.
     bindE (locate (sj_TenantID s) resourceType resourceID) (\<lambda>_.
     bindE (with_db (GrantsOnResource (sj_TenantID s) resourceType resourceID)) (\<lambda>grants.
     bindE (getE clock) (\<lambda>now.
     if \<not> pm_Read (dc_Permissions (decide s resourceType resourceID now grants)) then
       bindE (emitE (authz_event s ''access_refused'' resourceType resourceID ''refused'' ''no_read'' []))
         (\<lambda>_. failE Authz_ErrForbidden)
     else returnE (map (view now) grants)))))"

definition Effective :: "subjects \<Rightarrow> string \<Rightarrow> string \<Rightarrow> decision sys_op" where
  "Effective s resourceType resourceID =
     bindE (refuseE (\<not> ValidResourceType resourceType) Authz_ErrInput) (\<lambda>_.
     bindE (locate (sj_TenantID s) resourceType resourceID) (\<lambda>_.
     bindE (evaluate s resourceType resourceID) (\<lambda>d.
     returnE (d\<lparr>dc_Allowed := pm_Read (dc_Permissions d)\<rparr>))))"

definition other_subject :: "subjects \<Rightarrow> string \<Rightarrow> string \<Rightarrow> subjects" where
  "other_subject s subjectType subjectID =
     (if subjectType = SubjectUser
      then \<lparr> sj_TenantID = sj_TenantID s, sj_UserID = subjectID, sj_Roles = [], sj_Service = '''' \<rparr>
      else \<lparr> sj_TenantID = sj_TenantID s, sj_UserID = '''', sj_Roles = [subjectID], sj_Service = '''' \<rparr>)"

definition EffectiveFor ::
  "subjects \<Rightarrow> string \<Rightarrow> string \<Rightarrow> string \<Rightarrow> string \<Rightarrow> decision sys_op" where
  "EffectiveFor s resourceType resourceID subjectType subjectID =
     bindE (refuseE (\<not> ValidResourceType resourceType
        \<or> (subjectType \<noteq> SubjectUser \<and> subjectType \<noteq> SubjectRole) \<or> subjectID = '''') Authz_ErrInput) (\<lambda>_.
     bindE (locate (sj_TenantID s) resourceType resourceID) (\<lambda>_.
     bindE (with_db (GrantsOnResource (sj_TenantID s) resourceType resourceID)) (\<lambda>grants.
     bindE (getE clock) (\<lambda>now.
     if \<not> pm_Share (dc_Permissions (decide s resourceType resourceID now grants)) then
       bindE (emitE (authz_event s ''access_refused'' resourceType resourceID ''refused'' ''no_share'' []))
         (\<lambda>_. failE Authz_ErrForbidden)
     else
       let d = decide (other_subject s subjectType subjectID) resourceType resourceID now grants
       in returnE (d\<lparr>dc_Allowed := pm_Read (dc_Permissions d)\<rparr>)))))"

section \<open>What a decision means\<close>

text \<open>
  The specification of access: an administrator of the tenant holds every permission, anybody else
  what the unexpired tuples on the resource that name them carry.
\<close>

definition applies :: "grant \<Rightarrow> subjects \<Rightarrow> string \<Rightarrow> string \<Rightarrow> time \<Rightarrow> bool" where
  "applies g s rt rid now \<longleftrightarrow> gr_TenantID g = sj_TenantID s \<and> gr_ResourceType g = rt \<and>
     gr_ResourceID g = rid \<and> matches g s now"

definition holds :: "memstore \<Rightarrow> subjects \<Rightarrow> string \<Rightarrow> string \<Rightarrow> string \<Rightarrow> bool" where
  "holds m s rt rid perm \<longleftrightarrow> (IsAdmin s \<and> ValidPermission perm) \<or>
     (\<exists>g \<in> set (rows (Grants m)). applies g s rt rid (Now m) \<and> Has (Of (gr_Relation g)) perm)"

definition located :: "memstore \<Rightarrow> string \<Rightarrow> string \<Rightarrow> string \<Rightarrow> bool" where
  "located m tid rt rid \<longleftrightarrow>
     (if rt = Channel then (case map_of (Channels m) rid of None \<Rightarrow> False | Some c \<Rightarrow> ch_TenantID c = tid)
      else (case map_of (Templates m) rid of None \<Rightarrow> False | Some t \<Rightarrow> tp_TenantID t = tid))"

lemma holds_mono:
  "holds m' s rt rid p \<Longrightarrow> set (rows (Grants m')) \<subseteq> set (rows (Grants m)) \<Longrightarrow> Now m' = Now m \<Longrightarrow> holds m s rt rid p"
  by (auto simp: holds_def)

lemma Has_union: "Has (union a b) p \<longleftrightarrow> Has a p \<or> Has b p"
  by (simp add: Has_def union_def)

lemma Has_no_permissions [simp]: "\<not> Has no_permissions p"
  by (simp add: Has_def no_permissions_def)

lemma Has_Owner [simp]: "Has (Of Owner) p \<longleftrightarrow> ValidPermission p"
  by (auto simp: Has_def Of_def ValidPermission_def)

lemma Has_Valid: "Has q p \<Longrightarrow> ValidPermission p"
  by (auto simp: Has_def ValidPermission_def split: if_splits)

lemma pm_Read_Has: "pm_Read q \<longleftrightarrow> Has q Read"
  by (simp add: Has_def)

lemma pm_Share_Has: "pm_Share q \<longleftrightarrow> Has q Share"
  by (simp add: Has_def action_defs)

lemma Has_rank:
  "Has (Of r) p \<longleftrightarrow>
     (p = Read \<and> rank r \<ge> 1) \<or> (p = Write \<and> rank r \<ge> 3) \<or> (p = Delete \<and> rank r = 4)
     \<or> (p = Share \<and> (rank r = 2 \<or> rank r = 4)) \<or> (p = Use \<and> rank r \<ge> 2)"
  by (auto simp: Has_def Of_def rank_def no_permissions_def action_defs relation_defs)

lemma decide_fold_Has:
  "Has (dc_Permissions (fold (decide_step s now) grants d)) p \<longleftrightarrow>
     Has (dc_Permissions d) p \<or> (\<exists>g \<in> set grants. matches g s now \<and> Has (Of (gr_Relation g)) p)"
  by (induction grants arbitrary: d) (auto simp: decide_step_def Has_union)

lemma decide_fold_Sources:
  "dc_Sources (fold (decide_step s now) grants d) =
     dc_Sources d @ map source_of (filter (\<lambda>g. matches g s now) grants)"
  by (induction grants arbitrary: d) (auto simp: decide_step_def)

lemma decide_fold_rank_ge:
  "rank (dc_Relation d) \<le> rank (dc_Relation (fold (decide_step s now) grants d))"
proof (induction grants arbitrary: d)
  case (Cons g grants)
  have "rank (dc_Relation d) \<le> rank (dc_Relation (decide_step s now g d))"
    by (simp add: decide_step_def)
  also have "\<dots> \<le> rank (dc_Relation (fold (decide_step s now) grants (decide_step s now g d)))"
    by (rule Cons.IH)
  finally show ?case by simp
qed simp

lemma decide_fold_rank_max:
  "g \<in> set grants \<Longrightarrow> matches g s now \<Longrightarrow>
     rank (gr_Relation g) \<le> rank (dc_Relation (fold (decide_step s now) grants d))"
proof (induction grants arbitrary: d)
  case (Cons g' grants)
  show ?case
  proof (cases "g = g'")
    case True
    with Cons.prems have "rank (gr_Relation g) \<le> rank (dc_Relation (decide_step s now g' d))"
      by (simp add: decide_step_def)
    also have "\<dots> \<le> rank (dc_Relation (fold (decide_step s now) grants (decide_step s now g' d)))"
      by (rule decide_fold_rank_ge)
    finally show ?thesis by simp
  next
    case False
    with Cons show ?thesis by simp
  qed
qed simp

lemma decide_fold_rank_held:
  "dc_Relation (fold (decide_step s now) grants d) = dc_Relation d \<or>
     (\<exists>g \<in> set grants. matches g s now \<and> gr_Relation g = dc_Relation (fold (decide_step s now) grants d))"
proof (induction grants arbitrary: d)
  case (Cons g grants)
  have "dc_Relation (decide_step s now g d) = dc_Relation d \<or>
      (matches g s now \<and> gr_Relation g = dc_Relation (decide_step s now g d))"
    by (simp add: decide_step_def)
  with Cons.IH [of "decide_step s now g d"] show ?case by auto
qed simp

text \<open>The decision's permissions, by the kinds of rows that give them.\<close>

lemma decide_Has:
  "Has (dc_Permissions (decide s rt rid now grants)) p \<longleftrightarrow>
     (IsAdmin s \<and> ValidPermission p) \<or> (\<exists>g \<in> set grants. matches g s now \<and> Has (Of (gr_Relation g)) p)"
  by (simp add: decide_def Let_def decide_fold_Has zero_decision_def)

lemma set_GrantsOnResource:
  "GrantsOnResource tid rt rid m = (Inr gs, m') \<Longrightarrow>
     m' = m \<and> set gs = {g \<in> set (rows (Grants m)). gr_TenantID g = tid \<and> gr_ResourceType g = rt \<and> gr_ResourceID g = rid}"
  by (auto simp: GrantsOnResource_def with_fail_def sortGrants_def split: option.splits)

lemma decide_holds:
  assumes "GrantsOnResource (sj_TenantID s) rt rid m = (Inr gs, m')"
  shows "Has (dc_Permissions (decide s rt rid (Now m) gs)) p \<longleftrightarrow> holds m s rt rid p"
  using set_GrantsOnResource [OF assms] by (auto simp: decide_Has holds_def applies_def)

lemma locate_frame [frame_simps]: "snd (locate tid rt rid s) = s"
  by (auto simp: locate_def mapErrE_def bindE_def returnE_def with_db_read reads_frame
      split: prod.splits sum.splits)

lemma locate_Inr:
  "locate tid rt rid s = (Inr u, s') \<Longrightarrow> s' = s \<and> located (db s) tid rt rid"
  using locate_frame [of tid rt rid s]
  by (auto simp: locate_def mapErrE_def bindE_def returnE_def with_db_def located_def
      GetChannel_def GetTemplate_def with_fail_def split: prod.splits sum.splits option.splits if_splits)

lemma locate_healthy:
  "healthy (db s) \<Longrightarrow>
     locate tid rt rid s = (if located (db s) tid rt rid then Inr () else Inl Authz_ErrNotFound, s)"
  by (auto simp: locate_def mapErrE_def bindE_def returnE_def with_db_def located_def notFound_def
      errors_Is_def GetChannel_def GetTemplate_def split: prod.splits sum.splits option.splits)

lemma evaluate_Inr:
  assumes "evaluate s rt rid y = (Inr d, y')"
  shows "y' = y" and "\<And>p. Has (dc_Permissions d) p \<longleftrightarrow> holds (db y) s rt rid p"
    and "\<exists>gs. set gs = {g \<in> set (rows (Grants (db y))). gr_TenantID g = sj_TenantID s \<and> gr_ResourceType g = rt \<and> gr_ResourceID g = rid}
           \<and> d = decide s rt rid (Now (db y)) gs"
proof -
  from assms obtain gs m where g: "GrantsOnResource (sj_TenantID s) rt rid (db y) = (Inr gs, m)"
    and d: "d = decide s rt rid (clock (y\<lparr>db := m\<rparr>)) gs" and y: "y' = y\<lparr>db := m\<rparr>"
    by (auto simp: evaluate_def bindE_Inr_iff with_db_Inr getE_def returnE_def)
  have m: "m = db y" using set_GrantsOnResource [OF g] by simp
  show "y' = y" using y m by simp
  show "\<And>p. Has (dc_Permissions d) p \<longleftrightarrow> holds (db y) s rt rid p"
    using decide_holds [OF g] d m by (simp add: clock_def)
  show "\<exists>gs. set gs = {g \<in> set (rows (Grants (db y))). gr_TenantID g = sj_TenantID s \<and> gr_ResourceType g = rt \<and> gr_ResourceID g = rid}
           \<and> d = decide s rt rid (Now (db y)) gs"
    using set_GrantsOnResource [OF g] d m by (auto simp: clock_def)
qed

text \<open>What a completed check has established.\<close>

lemma Check_Inr:
  assumes "Check s rt rid perm y = (Inr d, y')"
  shows "ValidPermission perm" "ValidResourceType rt" "located (db y) (sj_TenantID s) rt rid"
    and "dc_Allowed d \<longleftrightarrow> holds (db y) s rt rid perm"
    and "y' = (if holds (db y) s rt rid perm then y else emit (refusal s rt rid perm) y)"
    and "\<And>p. Has (dc_Permissions d) p \<longleftrightarrow> holds (db y) s rt rid p"
    and "\<exists>gs. set gs = {g \<in> set (rows (Grants (db y))). gr_TenantID g = sj_TenantID s \<and> gr_ResourceType g = rt \<and> gr_ResourceID g = rid}
           \<and> dc_Relation d = dc_Relation (decide s rt rid (Now (db y)) gs)"
proof -
  from assms obtain u y1 d0 y2 where v: "ValidPermission perm" "ValidResourceType rt"
    and l: "locate (sj_TenantID s) rt rid y = (Inr u, y1)"
    and e0: "evaluate s rt rid y1 = (Inr d0, y2)"
    and d: "d = d0\<lparr>dc_Allowed := Has (dc_Permissions d0) perm\<rparr>"
    and y2: "y' = (if Has (dc_Permissions d0) perm then y2 else emit (refusal s rt rid perm) y2)"
    unfolding Check_def bindE_Inr_iff refuseE_def Let_def
    by (auto simp: emitE_def returnE_def split: if_splits)
  have e: "evaluate s rt rid y1 = (Inr d0, y1)"
    and y': "y' = (if Has (dc_Permissions d0) perm then y1 else emit (refusal s rt rid perm) y1)"
    using evaluate_Inr(1) [OF e0] e0 y2 by simp_all
  note lo = locate_Inr [OF l]
  note ev = evaluate_Inr [OF e]
  show "ValidPermission perm" "ValidResourceType rt" by fact+
  show "located (db y) (sj_TenantID s) rt rid" using lo by simp
  show "dc_Allowed d \<longleftrightarrow> holds (db y) s rt rid perm" using lo ev d by simp
  show "y' = (if holds (db y) s rt rid perm then y else emit (refusal s rt rid perm) y)"
    using lo ev y' by simp
  show "\<And>p. Has (dc_Permissions d) p \<longleftrightarrow> holds (db y) s rt rid p" using lo ev d by simp
  show "\<exists>gs. set gs = {g \<in> set (rows (Grants (db y))). gr_TenantID g = sj_TenantID s \<and> gr_ResourceType g = rt \<and> gr_ResourceID g = rid}
           \<and> dc_Relation d = dc_Relation (decide s rt rid (Now (db y)) gs)"
    using lo ev(3) d by auto
qed

lemma Check_healthy:
  assumes "healthy (db y)" "ValidPermission perm" "ValidResourceType rt"
    "located (db y) (sj_TenantID s) rt rid"
  shows "\<exists>d y'. Check s rt rid perm y = (Inr d, y')"
proof -
  obtain d0 where "evaluate s rt rid y = (Inr d0, y)"
    using assms(1) by (simp add: evaluate_def bindE_def with_db_def GrantsOnResource_def getE_def returnE_def)
  with assms show ?thesis
    by (simp add: Check_def refuseE_def bindE_def locate_healthy Let_def emitE_def returnE_def)
qed

section \<open>Properties of decisions\<close>

definition ada :: subjects where
  "ada = \<lparr> sj_TenantID = ''t1'', sj_UserID = ''ada'', sj_Roles = [''member''], sj_Service = '''' \<rparr>"

definition bob :: subjects where
  "bob = \<lparr> sj_TenantID = ''t1'', sj_UserID = ''bob'', sj_Roles = [], sj_Service = '''' \<rparr>"

definition sample_sys :: sys where
  "sample_sys = \<lparr> db = sample_store, aud = Some (newWriter 8), live = [] \<rparr>"

lemma sample_healthy: "healthy (db sample_sys)"
  by (simp add: sample_sys_def sample_store_eval healthy_def empty_store_def)

lemma sample_holds:
  "located (db sample_sys) ''t1'' ''channel'' ''c1''"
  "holds (db sample_sys) ada ''channel'' ''c1'' p \<longleftrightarrow> Has (Of Sharer) p"
  "holds (db sample_sys) bob ''channel'' ''c1'' p \<longleftrightarrow> False"
  by (auto simp: located_def holds_def applies_def matches_def expired_at_def IsAdmin_def AdminRoles_def
      ada_def bob_def sample_sys_def sample_store_eval rows_def sample_defs kind_defs relation_defs)



lemma decide_relation_held:
  "Has (Of (dc_Relation (decide s rt rid now grants))) p \<Longrightarrow>
     Has (dc_Permissions (decide s rt rid now grants)) p"
  using decide_fold_rank_held [of s now grants "if IsAdmin s then zero_decision\<lparr> dc_Relation := Owner,
      dc_Permissions := Of Owner, dc_Sources := [admin_source rt rid] \<rparr> else zero_decision"]
  by (auto simp: decide_def Let_def decide_fold_Has zero_decision_def Has_rank rank_def relation_defs
      split: if_splits)

text \<open>
  The reported relation is the strongest one held: no matching grant ranks above it, its rank is
  that of some source (0 when there is none), and the sources are exactly the matching grants, plus
  the implicit administrator's, strongest first.
\<close>

theorem strongest_relation:
  "(\<forall>g \<in> set grants. matches g s now \<longrightarrow> rank (gr_Relation g) \<le> rank (dc_Relation (decide s rt rid now grants)))
   \<and> (dc_Relation (decide s rt rid now grants) = [] \<or>
      dc_Relation (decide s rt rid now grants) \<in> sr_Relation ` set (dc_Sources (decide s rt rid now grants)))
   \<and> sorted_wrt (\<lambda>a b. rank (sr_Relation a) \<ge> rank (sr_Relation b)) (dc_Sources (decide s rt rid now grants))
   \<and> mset (dc_Sources (decide s rt rid now grants)) =
      mset ((if IsAdmin s then [admin_source rt rid] else []) @ map source_of (filter (\<lambda>g. matches g s now) grants))"
proof -
  let ?start = "if IsAdmin s then zero_decision\<lparr> dc_Relation := Owner, dc_Permissions := Of Owner,
      dc_Sources := [admin_source rt rid] \<rparr> else zero_decision"
  let ?d = "fold (decide_step s now) grants ?start"
  have src: "dc_Sources ?d = (if IsAdmin s then [admin_source rt rid] else []) @ map source_of (filter (\<lambda>g. matches g s now) grants)"
    by (simp add: decide_fold_Sources zero_decision_def)
  have rel: "dc_Relation (decide s rt rid now grants) = dc_Relation ?d"
    and sorted: "dc_Sources (decide s rt rid now grants) = sort_key (\<lambda>x. - rank (sr_Relation x)) (dc_Sources ?d)"
    by (simp_all add: decide_def Let_def)
  have "sorted_wrt (\<lambda>a b. rank (sr_Relation a) \<ge> rank (sr_Relation b)) (sort_key (\<lambda>x. - rank (sr_Relation x)) (dc_Sources ?d))"
    using sorted_sort_key [of "\<lambda>x. - rank (sr_Relation x)" "dc_Sources ?d"] by (simp add: sorted_map)
  moreover have "dc_Relation ?d = [] \<or> dc_Relation ?d \<in> sr_Relation ` set (dc_Sources ?d)"
  proof -
    consider "dc_Relation ?d = dc_Relation ?start"
      | g where "g \<in> set grants" "matches g s now" "gr_Relation g = dc_Relation ?d"
      using decide_fold_rank_held [of s now grants ?start] by blast
    then show ?thesis
    proof cases
      case 1
      then show ?thesis
        unfolding src by (cases "IsAdmin s") (simp_all add: zero_decision_def admin_source_def)
    next
      case (2 g)
      then have "source_of g \<in> set (dc_Sources ?d)" unfolding src by simp
      moreover have "sr_Relation (source_of g) = dc_Relation ?d" using 2 by (simp add: source_of_def)
      ultimately show ?thesis by (metis imageI)
    qed
  qed
  ultimately show ?thesis
    unfolding rel sorted using decide_fold_rank_max [of _ grants s now ?start] src by simp
qed

theorem strongest_relation_witness:
  "rank ''sharer'' \<le> rank (dc_Relation (decide ada ''channel'' ''c1'' 0
     [sample_grant ''g1'' ''ada'' ''sharer'', sample_grant ''g2'' ''bob'' ''owner'']))"
proof -
  let ?gs = "[sample_grant ''g1'' ''ada'' ''sharer'', sample_grant ''g2'' ''bob'' ''owner'']"
  have "matches (sample_grant ''g1'' ''ada'' ''sharer'') ada 0"
    by (simp add: matches_def sample_grant_def ada_def expired_at_def kind_defs)
  moreover have "sample_grant ''g1'' ''ada'' ''sharer'' \<in> set ?gs" by simp
  ultimately have "rank (gr_Relation (sample_grant ''g1'' ''ada'' ''sharer'')) \<le>
      rank (dc_Relation (decide ada ''channel'' ''c1'' 0 ?gs))"
    using strongest_relation [of ?gs ada 0 "''channel''" "''c1''"] by blast
  then show ?thesis by (simp add: sample_grant_def)
qed

section \<open>Properties of grant management\<close>

lemma rank_bound_permits:
  assumes "Has (dc_Permissions d) Share" and "rank rel \<le> rank (dc_Relation d)"
    and "\<And>p. Has (Of (dc_Relation d)) p \<Longrightarrow> Has (dc_Permissions d) p" and "Has (Of rel) p"
  shows "Has (dc_Permissions d) p"
proof (cases "p = Share")
  case False
  with assms(2,4) have "Has (Of (dc_Relation d)) p"
    unfolding Has_rank [of rel] Has_rank [of "dc_Relation d"]
    by (auto simp: rank_def split: if_splits)
  with assms(3) show ?thesis .
qed (use assms(1) in simp)

lemma Grant_Inr:
  assumes "Grant newID s inp y = (Inr v, y')"
  shows "\<exists>(d :: decision) g m. holds (db y) s (gi_ResourceType inp) (gi_ResourceID inp) Share
     \<and> rank (gi_Relation inp) \<le> rank (dc_Relation d)
     \<and> (\<forall>p. Has (dc_Permissions d) p \<longleftrightarrow> holds (db y) s (gi_ResourceType inp) (gi_ResourceID inp) p)
     \<and> (\<forall>p. Has (Of (dc_Relation d)) p \<longrightarrow> Has (dc_Permissions d) p)
     \<and> validate_grant inp (clock y) = None
     \<and> UpsertGrant (grant_row newID s inp) (db y) = (Inr g, m)
     \<and> v = view (clock y) g \<and> db y' = m"
proof -
  from assms obtain d y1 g m where val: "validate_grant inp (clock y) = None"
    and c: "Check s (gi_ResourceType inp) (gi_ResourceID inp) Share y = (Inr d, y1)" and al: "dc_Allowed d"
    and rk: "rank (gi_Relation inp) \<le> rank (dc_Relation d)"
    and u: "UpsertGrant (grant_row newID s inp) (db y1) = (Inr g, m)"
    and v: "v = view (clock y) g" and y': "db y' = m"
    by (auto simp: Grant_def bindE_getE bindE_Inr_iff refuseE_def with_db_Inr emitE_def returnE_def failE_def
        split: option.splits if_splits)
  note ck = Check_Inr [OF c]
  have "y1 = y" using ck(4,5) al by simp
  moreover have "Has (Of (dc_Relation d)) p \<Longrightarrow> Has (dc_Permissions d) p" for p
  proof -
    assume h: "Has (Of (dc_Relation d)) p"
    obtain gs where gs: "set gs = {g \<in> set (rows (Grants (db y))). gr_TenantID g = sj_TenantID s
        \<and> gr_ResourceType g = gi_ResourceType inp \<and> gr_ResourceID g = gi_ResourceID inp}"
      and "dc_Relation d = dc_Relation (decide s (gi_ResourceType inp) (gi_ResourceID inp) (Now (db y)) gs)"
      using ck(7) by blast
    with h decide_relation_held have "Has (dc_Permissions (decide s (gi_ResourceType inp) (gi_ResourceID inp) (Now (db y)) gs)) p"
      by metis
    with gs ck(6) show ?thesis by (auto simp: decide_Has holds_def applies_def)
  qed
  ultimately have "holds (db y) s (gi_ResourceType inp) (gi_ResourceID inp) Share
     \<and> rank (gi_Relation inp) \<le> rank (dc_Relation d)
     \<and> (\<forall>p. Has (dc_Permissions d) p \<longleftrightarrow> holds (db y) s (gi_ResourceType inp) (gi_ResourceID inp) p)
     \<and> (\<forall>p. Has (Of (dc_Relation d)) p \<longrightarrow> Has (dc_Permissions d) p)
     \<and> validate_grant inp (clock y) = None \<and> UpsertGrant (grant_row newID s inp) (db y) = (Inr g, m)
     \<and> v = view (clock y) g \<and> db y' = m"
    using val al ck(4,6) rk u v y' by simp
  then show ?thesis by blast
qed

text \<open>
  C2. Granting never escalates: the granter held \<open>share\<close> on the resource, and whatever anybody can
  do after a successful grant and could not do before is something the granter could do on that
  very resource.
\<close>

theorem grant_delegates:
  assumes "Grant newID s inp y = (Inr v, y')" and "wf_grants (db y)" and "map_of (Grants (db y)) newID = None"
    and "holds (db y') s2 rt rid p" and "\<not> holds (db y) s2 rt rid p"
  shows "rt = gi_ResourceType inp \<and> rid = gi_ResourceID inp \<and> sj_TenantID s2 = sj_TenantID s \<and>
    holds (db y) s rt rid p \<and> holds (db y) s rt rid Share"
proof -
  from Grant_Inr [OF assms(1)] obtain d g m where
    sh: "holds (db y) s (gi_ResourceType inp) (gi_ResourceID inp) Share"
    and rk: "rank (gi_Relation inp) \<le> rank (dc_Relation (d :: decision))"
    and ph: "\<And>p. Has (dc_Permissions d) p \<longleftrightarrow> holds (db y) s (gi_ResourceType inp) (gi_ResourceID inp) p"
    and rh: "\<And>p. Has (Of (dc_Relation d)) p \<Longrightarrow> Has (dc_Permissions d) p"
    and u: "UpsertGrant (grant_row newID s inp) (db y) = (Inr g, m)" and m: "db y' = m"
    by blast
  have fresh: "map_of (Grants (db y)) (gr_ID (grant_row newID s inp)) = None"
    using assms(3) by (simp add: grant_row_def)
  note up = UpsertGrant_rows [OF assms(2) fresh u]
  have now: "Now (db y') = Now (db y)"
    using UpsertGrant_frame [OF u] m by (metis memstore.select_convs(10) memstore.surjective memstore.update_convs(4))
  from assms(4,5) obtain x where x: "x \<in> set (rows (Grants (db y')))" "applies x s2 rt rid (Now (db y))"
    "Has (Of (gr_Relation x)) p" and "x \<notin> set (rows (Grants (db y)))"
    by (auto simp: holds_def now)
  with up(1) m have "x = g" by auto
  with x up(2,3) have "rt = gi_ResourceType inp" "rid = gi_ResourceID inp" "sj_TenantID s2 = sj_TenantID s"
    and "Has (Of (gi_Relation inp)) p"
    by (auto simp: applies_def same_tuple_def grant_row_def)
  moreover have "Has (dc_Permissions d) p"
    by (rule rank_bound_permits [OF _ rk rh]) (use ph sh \<open>Has (Of (gi_Relation inp)) p\<close> in auto)
  ultimately show ?thesis using ph sh by simp
qed

definition sample_request :: grant_input where
  "sample_request = \<lparr> gi_ResourceType = ''channel'', gi_ResourceID = ''c1'', gi_SubjectType = ''user'',
     gi_SubjectID = ''bob'', gi_Relation = ''viewer'', gi_ExpiresAt = None \<rparr>"

lemma sample_grant_run:
  "\<not> isl (fst (Grant ''g9'' ada sample_request sample_sys))"
  "holds (db (snd (Grant ''g9'' ada sample_request sample_sys))) bob ''channel'' ''c1'' Read"
  unfolding sample_sys_def sample_store_eval by code_simp+

theorem grant_delegates_witness:
  "holds (db (snd (Grant ''g9'' ada sample_request sample_sys))) bob ''channel'' ''c1'' Read \<and>
   holds (db sample_sys) ada ''channel'' ''c1'' Read"
proof -
  obtain v y' where g: "Grant ''g9'' ada sample_request sample_sys = (Inr v, y')"
    using sample_grant_run(1) by (metis prod.collapse sum.collapse(2))
  have w: "wf_grants (db sample_sys)" and f: "map_of (Grants (db sample_sys)) ''g9'' = None"
    using store_reach_wf_store [OF sample_store_reach]
    by (simp_all add: sample_sys_def wf_store_def sample_store_eval)
  have h: "holds (db y') bob ''channel'' ''c1'' Read" using sample_grant_run(2) g by simp
  have "\<not> holds (db sample_sys) bob ''channel'' ''c1'' Read" by (simp add: sample_holds)
  from grant_delegates [OF g w f h this] h g show ?thesis by (metis snd_conv)
qed

text \<open>
  Revoking needs \<open>share\<close> on the grant's resource, removes exactly that grant of the caller's
  tenant, and gives nobody a permission.
\<close>

theorem revoke_only_removes:
  assumes "Revoke s grantID y = (Inr u, y')" and "wf_grants (db y)"
  shows "\<exists>g. map_of (Grants (db y)) grantID = Some g \<and> gr_TenantID g = sj_TenantID s \<and>
    holds (db y) s (gr_ResourceType g) (gr_ResourceID g) Share \<and>
    db y' = (db y)\<lparr>Grants := AList.delete grantID (Grants (db y))\<rparr> \<and>
    (\<forall>s2 rt rid p. holds (db y') s2 rt rid p \<longrightarrow> holds (db y) s2 rt rid p)"
proof -
  from assms(1) obtain g y1 d y2 where
    g: "GetGrant (sj_TenantID s) grantID (db y) = (Inr g, db y1)" and y1: "y1 = y"
    and c: "Check s (gr_ResourceType g) (gr_ResourceID g) Share y = (Inr d, y2)" and al: "dc_Allowed d"
    and del: "DeleteGrant (sj_TenantID s) grantID (db y2) = (Inr (), db y')"
    by (auto simp: Revoke_def bindE_Inr_iff mapErrE_def with_db_def refuseE_def emitE_def GetGrant_Inr
        split: prod.splits sum.splits if_splits)
  note ck = Check_Inr [OF c]
  have y2: "y2 = y" using ck(4,5) al by simp
  have gr: "map_of (Grants (db y)) grantID = Some g" "gr_TenantID g = sj_TenantID s"
    using g by (auto simp: GetGrant_Inr)
  have y': "db y' = (db y)\<lparr>Grants := AList.delete grantID (Grants (db y))\<rparr>"
    using del y2 gr by (auto simp: DeleteGrant_def with_fail_def split: option.splits if_splits)
  then have "holds (db y') s2 rt rid p \<longrightarrow> holds (db y) s2 rt rid p" for s2 rt rid p
    using holds_mono [of "db y'" s2 rt rid p "db y"] by (auto simp: rows_def AList.delete_eq)
  with gr ck(4) al y' show ?thesis by blast
qed

theorem revoke_only_removes_witness:
  "fst (Revoke ada ''g1'' sample_sys) = Inr () \<and> Grants (db (snd (Revoke ada ''g1'' sample_sys))) = []"
proof -
  have "fst (Revoke ada ''g1'' sample_sys) = Inr ()"
    unfolding sample_sys_def sample_store_eval by code_simp
  then obtain y' where r: "Revoke ada ''g1'' sample_sys = (Inr (), y')"
    by (metis prod.collapse)
  have "wf_grants (db sample_sys)"
    using store_reach_wf_store [OF sample_store_reach] by (simp add: sample_sys_def wf_store_def)
  from revoke_only_removes [OF r this] r show ?thesis
    by (auto simp: sample_sys_def sample_store_eval)
qed

text \<open>
  C29. The listing restriction agrees with the checks: a record is listed exactly when the caller may
  read it (for grants with a known subject type, the only ones grant requests can make).
\<close>

theorem visible_iff_readable:
  assumes "Visible s rt y = (Inr v, y')" and "\<forall>g \<in> set (rows (Grants (db y))). ValidSubjectType (gr_SubjectType g)"
  shows "y' = y \<and> (Allows v i \<longleftrightarrow> holds (db y) s rt i Read) \<and> distinct (vis_IDs v) \<and> sorted (vis_IDs v)"
proof (cases "IsAdmin s")
  case True
  with assms(1) show ?thesis
    by (auto simp: Visible_def ReadableIDs_def bindE_def returnE_def Allows_iff holds_def ValidPermission_def)
next
  case False
  with assms(1) obtain gs m where
    g: "GrantsForSubjects (sj_TenantID s) (sj_UserID s) (sj_Roles s) (Now (db y)) (db y) = (Inr gs, m)"
    and y': "y' = y\<lparr>db := m\<rparr>"
    and v: "v = \<lparr>vis_All = False, vis_IDs = sort (remdups (map gr_ResourceID
          (filter (\<lambda>g. gr_ResourceType g = rt \<and> pm_Read (Of (gr_Relation g))) gs)))\<rparr>"
    by (auto simp: Visible_def ReadableIDs_def bindE_getE bindE_Inr_iff with_db_Inr returnE_def clock_def
        split: if_splits)
  have m: "m = db y" and gs: "set gs = {g \<in> set (rows (Grants (db y))). gr_TenantID g = sj_TenantID s \<and>
      \<not> expired_at (gr_ExpiresAt g) (Now (db y)) \<and>
      (if gr_SubjectType g = ''user'' then \<not> (sj_UserID s = [] \<or> gr_SubjectID g \<noteq> sj_UserID s)
       else if gr_SubjectType g = ''role'' then list_ex (\<lambda>r. r = gr_SubjectID g) (sj_Roles s) else True)}"
    using g by (auto simp: GrantsForSubjects_def with_fail_def sortGrants_def split: option.splits)
  have "x \<in> set gs \<longleftrightarrow> x \<in> set (rows (Grants (db y))) \<and> gr_TenantID x = sj_TenantID s \<and> matches x s (Now (db y))" for x
    using assms(2) unfolding gs matches_def ValidSubjectType_def kind_defs by auto
  then have "Allows v i \<longleftrightarrow> holds (db y) s rt i Read"
    using False unfolding v Allows_iff holds_def applies_def pm_Read_Has by auto
  then show ?thesis using y' m v by simp
qed

theorem visible_iff_readable_witness:
  "\<exists>v. Visible ada ''channel'' sample_sys = (Inr v, sample_sys) \<and> Allows v ''c1''"
proof -
  obtain v y' where v: "Visible ada ''channel'' sample_sys = (Inr v, y')"
  proof -
    have "\<not> isl (fst (Visible ada ''channel'' sample_sys))"
      unfolding sample_sys_def sample_store_eval by code_simp
    then show thesis using that by (metis prod.collapse sum.collapse(2))
  qed
  have "\<forall>g \<in> set (rows (Grants (db sample_sys))). ValidSubjectType (gr_SubjectType g)"
    by (simp add: sample_sys_def sample_store_eval rows_def sample_grant_def ValidSubjectType_def kind_defs)
  from visible_iff_readable [OF v this, of "''c1''"] v sample_holds(2) [of Read] show ?thesis
    by (auto simp: Has_def Of_def relation_defs action_defs)
qed

end
