(* ===== verification/MessagesSvc.thy ===== *)
theory MessagesSvc
  imports Authz
begin

text \<open>
  \<open>internal/messages/messages.go\<close>, \<open>scheduler.go\<close> and \<open>directory.go\<close>: categories, the message state
  machine with its fan-out to inboxes, the member directory, and the scheduler. Service operations
  carry the name of their package (\<open>Messages_Create\<close> is \<open>(*messages.Service).Create\<close>); ids drawn
  from \<open>store.NewID\<close> are arguments. The paged list contract (\<open>listquery\<close>) is not modelled.
\<close>

section \<open>Statuses, limits and errors\<close>

definition Draft :: string where "Draft = ''draft''"
definition Scheduled :: string where "Scheduled = ''scheduled''"
definition Publishing :: string where "Publishing = ''publishing''"
definition Published :: string where "Published = ''published''"
definition Revoked :: string where "Revoked = ''revoked''"
definition Archived :: string where "Archived = ''archived''"

lemmas status_defs = Draft_def Scheduled_def Publishing_def Published_def Revoked_def Archived_def

definition MaxRecipients :: nat where "MaxRecipients = 10000"
definition FanoutBatch :: nat where "FanoutBatch = 1000"

definition invalid :: "string \<Rightarrow> string \<Rightarrow> goerr" where
  "invalid msg field = Messages_Validation msg field"

definition userPtr :: "subjects \<Rightarrow> string option" where
  "userPtr s = (if sj_UserID s = '''' then None else Some (sj_UserID s))"

section \<open>Categories\<close>

record category_input =
  ci_Name :: string
  ci_Description :: string
  ci_Sort :: int

record category_view =
  cv_ID :: string
  cv_Name :: string
  cv_Description :: string
  cv_Sort :: int
  cv_MessageCount :: nat
  cv_CreatedBy :: string
  cv_UpdatedBy :: string
  cv_CreatedAt :: time
  cv_UpdatedAt :: time

definition categoryView :: "category \<Rightarrow> category_view" where
  "categoryView c = \<lparr> cv_ID = ca_ID c, cv_Name = ca_Name c, cv_Description = ca_Description c,
     cv_Sort = ca_Sort c, cv_MessageCount = ca_MessageCount c, cv_CreatedBy = strp (ca_CreatedBy c),
     cv_UpdatedBy = strp (ca_UpdatedBy c), cv_CreatedAt = ca_CreatedAt c, cv_UpdatedAt = ca_UpdatedAt c \<rparr>"

definition validate_category :: "category_input \<Rightarrow> goerr option" where
  "validate_category inp =
     (if length (ci_Name inp) = 0 \<or> length (ci_Name inp) > 100 then Some (invalid ''name must be 1-100 characters'' ''name'')
      else if length (ci_Description inp) > 500 then Some (invalid ''description too long'' ''description'')
      else if ci_Sort inp < 0 \<or> ci_Sort inp > 100000 then Some (invalid ''sort out of range'' ''sort'')
      else None)"

text \<open>\<open>if err := validate(); err != nil { return err }\<close>\<close>

definition checkE :: "'e option \<Rightarrow> ('s, 'e, unit) op" where
  "checkE c = (case c of None \<Rightarrow> returnE () | Some e \<Rightarrow> failE e)"

lemma bindE_checkE [op_simps]: "bindE (checkE c) g s = (case c of None \<Rightarrow> g () s | Some e \<Rightarrow> (Inl e, s))"
  by (simp add: checkE_def bindE_def returnE_def failE_def split: option.splits)

lemma keeps_checkE [intro]: "keeps P (checkE c)"
  by (auto simp: checkE_def split: option.splits)

definition Messages_CreateCategory :: "string \<Rightarrow> subjects \<Rightarrow> category_input \<Rightarrow> category_view sys_op" where
  "Messages_CreateCategory newID subj inp =
     bindE (checkE (validate_category inp)) (\<lambda>_.
     bindE (with_db (InsertCategory \<lparr> ca_ID = newID, ca_TenantID = sj_TenantID subj, ca_Name = ci_Name inp,
        ca_Description = ci_Description inp, ca_Sort = ci_Sort inp, ca_CreatedBy = userPtr subj,
        ca_UpdatedBy = userPtr subj, ca_CreatedAt = 0, ca_UpdatedAt = 0, ca_MessageCount = 0 \<rparr>)) (\<lambda>_.
     bindE (emitE (authz_event subj ''category_created'' ''category'' newID ''ok'' '''' [(''name'', VStr (ci_Name inp))])) (\<lambda>_.
     bindE (with_db (GetCategory (sj_TenantID subj) newID)) (\<lambda>got.
     returnE (categoryView got)))))"

definition Messages_ListCategories :: "subjects \<Rightarrow> category_view list sys_op" where
  "Messages_ListCategories subj =
     bindE (with_db (ListCategories (sj_TenantID subj))) (\<lambda>rs. returnE (map categoryView rs))"

definition Messages_UpdateCategory :: "subjects \<Rightarrow> string \<Rightarrow> category_input \<Rightarrow> category_view sys_op" where
  "Messages_UpdateCategory subj i inp =
     bindE (checkE (validate_category inp)) (\<lambda>_.
     bindE (with_db (GetCategory (sj_TenantID subj) i)) (\<lambda>row.
     bindE (with_db (UpdateCategory (row\<lparr> ca_Name := ci_Name inp, ca_Description := ci_Description inp,
        ca_Sort := ci_Sort inp, ca_UpdatedBy := userPtr subj \<rparr>))) (\<lambda>_.
     bindE (emitE (authz_event subj ''category_updated'' ''category'' i ''ok'' '''' [(''name'', VStr (ci_Name inp))])) (\<lambda>_.
     bindE (with_db (GetCategory (sj_TenantID subj) i)) (\<lambda>got.
     returnE (categoryView got))))))"

definition Messages_DeleteCategory :: "subjects \<Rightarrow> string \<Rightarrow> unit sys_op" where
  "Messages_DeleteCategory subj i =
     bindE (with_db (GetCategory (sj_TenantID subj) i)) (\<lambda>row.
     bindE (refuseE (ca_MessageCount row > 0) Messages_ErrInUse) (\<lambda>_.
     bindE (mapErrE (\<lambda>e. if errors_Is e Store_ErrConflict then Messages_ErrInUse else e)
        (with_db (DeleteCategory (sj_TenantID subj) i))) (\<lambda>_.
     emitE (authz_event subj ''category_deleted'' ''category'' i ''ok'' '''' [(''name'', VStr (ca_Name row))]))))"

section \<open>Message requests and views\<close>

record message_input =
  mi_Title :: string
  mi_Content :: string
  mi_Type :: string
  mi_CategoryID :: string
  mi_Recipients :: recipients
  mi_ScheduledAt :: "time option"

record message_view =
  mv_ID :: string
  mv_Title :: string
  mv_Content :: string
  mv_Type :: string
  mv_Status :: string
  mv_CategoryID :: "string option"
  mv_CategoryName :: string
  mv_SenderID :: string
  mv_Recipients :: recipients
  mv_RecipientCount :: nat
  mv_ReadCount :: nat
  mv_ScheduledAt :: "time option"
  mv_PublishedAt :: "time option"
  mv_CreatedBy :: string
  mv_UpdatedBy :: string
  mv_CreatedAt :: time
  mv_UpdatedAt :: time

text \<open>Decoding the recipients column; no bytes decode to the zero value.\<close>

definition decode_recipients :: "recipients option \<Rightarrow> recipients" where
  "decode_recipients r = (case r of None \<Rightarrow> \<lparr>rc_All = False, rc_Users = []\<rparr> | Some x \<Rightarrow> x)"

definition messageView :: "message \<Rightarrow> message_view" where
  "messageView m = \<lparr> mv_ID = ms_ID m, mv_Title = ms_Title m, mv_Content = ms_Content m, mv_Type = ms_Type m,
     mv_Status = ms_Status m, mv_CategoryID = ms_CategoryID m, mv_CategoryName = ms_CategoryName m,
     mv_SenderID = (if strp (ms_SenderID m) = '''' then ms_SenderService m else strp (ms_SenderID m)),
     mv_Recipients = decode_recipients (ms_Recipients m), mv_RecipientCount = ms_RecipientCount m,
     mv_ReadCount = ms_ReadCount m, mv_ScheduledAt = ms_ScheduledAt m, mv_PublishedAt = ms_PublishedAt m,
     mv_CreatedBy = strp (ms_CreatedBy m), mv_UpdatedBy = strp (ms_UpdatedBy m),
     mv_CreatedAt = ms_CreatedAt m, mv_UpdatedAt = ms_UpdatedAt m \<rparr>"

text \<open>The loop over the recipients: an empty id is refused, later repetitions are dropped.\<close>

fun dedup_recipients :: "string list \<Rightarrow> string list \<Rightarrow> goerr + string list" where
  "dedup_recipients seen [] = Inr []"
| "dedup_recipients seen (u # us) =
     (if u = '''' then Inl (invalid ''empty recipient id'' ''recipients'')
      else if u \<in> set seen then dedup_recipients seen us
      else (case dedup_recipients (u # seen) us of Inl e \<Rightarrow> Inl e | Inr r \<Rightarrow> Inr (u # r)))"

definition validate_message :: "message_input \<Rightarrow> goerr + message_input" where
  "validate_message inp =
     (if length (mi_Title inp) = 0 \<or> length (mi_Title inp) > 200
        then Inl (invalid ''title must be 1-200 characters'' ''title'')
      else if length (mi_Content inp) > 65536 then Inl (invalid ''content exceeds 64 KiB'' ''content'')
      else
        let typ = (if mi_Type inp = '''' then ''notification'' else mi_Type inp) in
        if typ \<noteq> ''notification'' \<and> typ \<noteq> ''private'' \<and> typ \<noteq> ''group''
          then Inl (invalid ''unknown type'' ''type'')
        else if rc_All (mi_Recipients inp) = (length (rc_Users (mi_Recipients inp)) > 0)
          then Inl (invalid ''recipients must be all=true or a list of users'' ''recipients'')
        else if length (rc_Users (mi_Recipients inp)) > MaxRecipients
          then Inl (invalid ''too many recipients'' ''recipients'')
        else (case dedup_recipients [] (rc_Users (mi_Recipients inp)) of
            Inl e \<Rightarrow> Inl e
          | Inr us \<Rightarrow> Inr (inp\<lparr> mi_Type := typ, mi_Recipients := (mi_Recipients inp)\<lparr>rc_Users := us\<rparr> \<rparr>)))"

definition liftSum :: "'e + 'a \<Rightarrow> ('s, 'e, 'a) op" where
  "liftSum r s = (r, s)"

lemma keeps_liftSum [intro]: "keeps P (liftSum r)"
  by (simp add: keeps_def liftSum_def)

definition canManage :: "message \<Rightarrow> subjects \<Rightarrow> bool \<Rightarrow> bool" where
  "canManage m subj manage \<longleftrightarrow> manage \<or> (sj_UserID subj \<noteq> '''' \<and> strp (ms_SenderID m) = sj_UserID subj)
     \<or> (sj_Service subj \<noteq> '''' \<and> ms_SenderService m = sj_Service subj)"

section \<open>Operations on messages\<close>

definition Messages_Get :: "subjects \<Rightarrow> string \<Rightarrow> bool \<Rightarrow> message_view sys_op" where
  "Messages_Get subj i manage =
     bindE (with_db (GetMessage (sj_TenantID subj) i)) (\<lambda>m.
     bindE (refuseE (\<not> canManage m subj manage) Store_ErrNotFound) (\<lambda>_.
     returnE (messageView m)))"

definition category_ref :: "string \<Rightarrow> string option" where
  "category_ref cid = (if cid \<noteq> '''' then Some cid else None)"

definition unknown_category :: "goerr \<Rightarrow> goerr" where
  "unknown_category e = (if errors_Is e Store_ErrConflict then invalid ''unknown category'' ''category_id'' else e)"

definition Messages_Create :: "string \<Rightarrow> subjects \<Rightarrow> message_input \<Rightarrow> message_view sys_op" where
  "Messages_Create newID subj inp0 =
     bindE (liftSum (validate_message inp0)) (\<lambda>inp.
     bindE (mapErrE unknown_category (with_db (InsertMessage (zero_message\<lparr> ms_ID := newID,
        ms_TenantID := sj_TenantID subj, ms_Title := mi_Title inp, ms_Content := mi_Content inp,
        ms_Type := mi_Type inp, ms_Status := Draft, ms_SenderID := userPtr subj,
        ms_SenderService := sj_Service subj, ms_Recipients := Some (mi_Recipients inp),
        ms_ScheduledAt := mi_ScheduledAt inp, ms_CreatedBy := userPtr subj, ms_UpdatedBy := userPtr subj,
        ms_CategoryID := category_ref (mi_CategoryID inp) \<rparr>)))) (\<lambda>_.
     bindE (emitE (authz_event subj ''message_created'' ''message'' newID ''ok'' ''''
        [(''type'', VStr (mi_Type inp)), (''all'', VBool (rc_All (mi_Recipients inp))),
         (''recipients'', VInt (int (length (rc_Users (mi_Recipients inp)))))])) (\<lambda>_.
     Messages_Get subj newID True)))"

definition Messages_Update :: "subjects \<Rightarrow> string \<Rightarrow> message_input \<Rightarrow> bool \<Rightarrow> message_view sys_op" where
  "Messages_Update subj i inp0 manage =
     bindE (liftSum (validate_message inp0)) (\<lambda>inp.
     bindE (with_db (GetMessage (sj_TenantID subj) i)) (\<lambda>m.
     bindE (refuseE (\<not> canManage m subj manage) Store_ErrNotFound) (\<lambda>_.
     bindE (refuseE (ms_Status m \<noteq> Draft \<and> ms_Status m \<noteq> Scheduled) Messages_ErrState) (\<lambda>_.
     bindE (getE clock) (\<lambda>now.
     let m1 = m\<lparr> ms_Title := mi_Title inp, ms_Content := mi_Content inp, ms_Type := mi_Type inp,
            ms_Recipients := Some (mi_Recipients inp), ms_ScheduledAt := mi_ScheduledAt inp,
            ms_UpdatedBy := userPtr subj, ms_CategoryID := category_ref (mi_CategoryID inp) \<rparr>;
         m2 = (if ms_Status m1 = Scheduled \<and> (case mi_ScheduledAt inp of None \<Rightarrow> True | Some t \<Rightarrow> \<not> t > now)
               then m1\<lparr>ms_Status := Draft\<rparr> else m1) in
     bindE (mapErrE unknown_category (with_db (UpdateMessage m2))) (\<lambda>_.
     bindE (emitE (authz_event subj ''message_updated'' ''message'' i ''ok'' '''' [])) (\<lambda>_.
     Messages_Get subj i manage)))))))"

section \<open>Publishing\<close>

text \<open>
  The member directory: the members among the given ids, and the pages of all members with the
  error that ends the paging, if any.
\<close>

record directory =
  dr_Lookup :: "string \<Rightarrow> string list \<Rightarrow> goerr + string list"
  dr_Members :: "string \<Rightarrow> string list list \<times> goerr option"

text \<open>\<open>for i := 0; i < len(xs); i += n { xs[i:min(i+n, len(xs))] }\<close>\<close>

function chunks :: "nat \<Rightarrow> 'a list \<Rightarrow> 'a list list" where
  "chunks n xs = (if xs = [] \<or> n = 0 then [] else take n xs # chunks n (drop n xs))"
  by pat_completeness auto
termination
  by (relation "measure (\<lambda>(n, xs). length xs)") auto

declare chunks.simps [simp del]

lemma concat_chunks: "0 < n \<Longrightarrow> concat (chunks n xs) = xs"
proof (induction n xs rule: chunks.induct)
  case (1 n xs)
  then show ?case by (subst chunks.simps) simp
qed

text \<open>One batch: the entries with the ids drawn for them, and the live event when any was new.\<close>

definition inbox_entry :: "string \<Rightarrow> string \<Rightarrow> string \<Rightarrow> string \<Rightarrow> inbox_row" where
  "inbox_entry newID tid mid u = \<lparr> ib_ID = newID, ib_TenantID = tid, ib_MessageID = mid, ib_RecipientID = u,
     ib_Status = ''sent'', ib_ReadAt = None, ib_CreatedAt = 0, ib_UpdatedAt = 0, ib_Message = None \<rparr>"

definition deliver :: "(nat \<Rightarrow> string) \<Rightarrow> nat \<Rightarrow> string \<Rightarrow> string \<Rightarrow> message \<Rightarrow> string list \<Rightarrow> int sys_op" where
  "deliver nid k tid i m ids =
     bindE (with_db (InsertInboxBatch (map (\<lambda>(j, u). inbox_entry (nid (k + j)) tid i u)
        (enumerate 0 ids)))) (\<lambda>n.
     bindE (if n > 0 then liveE \<lparr> le_TenantID = tid, le_To = ids, le_All = False, le_Type = ''inbox'',
              le_Data = [(''message_id'', VStr i), (''title'', VStr (ms_Title m)),
                (''category'', VStr (ms_CategoryName m))] \<rparr>
            else returnE ()) (\<lambda>_.
     returnE n))"

fun fanout :: "(nat \<Rightarrow> string) \<Rightarrow> nat \<Rightarrow> string \<Rightarrow> string \<Rightarrow> message \<Rightarrow> string list list \<Rightarrow> int \<Rightarrow> int sys_op" where
  "fanout nid k tid i m [] tot = returnE tot"
| "fanout nid k tid i m (b # bs) tot =
     bindE (deliver nid k tid i m b) (\<lambda>n. fanout nid (k + length b) tid i m bs (tot + n))"

text \<open>
  The recipients of a message: batches of every page of members, or of the active ones among the
  listed users, with the users that are dropped. An error of the directory after some pages comes
  after their delivery.
\<close>

definition Messages_Publish ::
  "directory \<Rightarrow> (nat \<Rightarrow> string) \<Rightarrow> string \<Rightarrow> string \<Rightarrow> subjects \<Rightarrow> (int \<times> string list) sys_op" where
  "Messages_Publish dir nid tenantID i actor =
     bindE (with_db (GetMessage tenantID i)) (\<lambda>m.
     let rc = decode_recipients (ms_Recipients m) in
     bindE (if rc_All rc then
              (let (pages, err) = dr_Members dir tenantID in
               bindE (fanout nid 0 tenantID i m (concat (map (chunks FanoutBatch) pages)) 0) (\<lambda>tot.
               case err of Some e \<Rightarrow> failE e | None \<Rightarrow> returnE (tot, [])))
            else
              bindE (liftSum (dr_Lookup dir tenantID (rc_Users rc))) (\<lambda>active.
              let dropped = sort (filter (\<lambda>u. u \<notin> set active) (rc_Users rc)) in
              bindE (fanout nid 0 tenantID i m (chunks FanoutBatch active) 0) (\<lambda>tot.
              returnE (tot, dropped)))) (\<lambda>(tot, dropped).
     bindE (getE clock) (\<lambda>now.
     bindE (with_db (SetMessageStatus tenantID i Published (Some now))) (\<lambda>_.
     bindE (emitE ((authz_event actor ''message_published'' ''message'' i ''ok'' ''''
        [(''recipients'', VInt tot), (''dropped'', VInt (int (length dropped))), (''all'', VBool (rc_All rc))])
        \<lparr>ev_TenantID := tenantID\<rparr>)) (\<lambda>_.
     returnE (tot, dropped))))))"

record send_result =
  se_Status :: string
  se_RecipientCount :: int
  se_DroppedRecipients :: "string list"

definition Messages_Send :: "directory \<Rightarrow> (nat \<Rightarrow> string) \<Rightarrow> subjects \<Rightarrow> string \<Rightarrow> bool \<Rightarrow> send_result sys_op" where
  "Messages_Send dir nid subj i manage =
     bindE (with_db (GetMessage (sj_TenantID subj) i)) (\<lambda>m.
     bindE (refuseE (\<not> canManage m subj manage) Store_ErrNotFound) (\<lambda>_.
     bindE (refuseE (ms_Status m \<noteq> Draft) Messages_ErrState) (\<lambda>_.
     bindE (getE clock) (\<lambda>now.
     if (case ms_ScheduledAt m of None \<Rightarrow> False | Some t \<Rightarrow> t > now) then
       bindE (with_db (SetMessageStatus (sj_TenantID subj) i Scheduled None)) (\<lambda>_.
       bindE (emitE (authz_event subj ''message_updated'' ''message'' i ''ok'' '''' [(''status'', VStr Scheduled)])) (\<lambda>_.
       returnE \<lparr> se_Status = Scheduled, se_RecipientCount = 0, se_DroppedRecipients = [] \<rparr>))
     else
       bindE (with_db (SetMessageStatus (sj_TenantID subj) i Publishing None)) (\<lambda>_.
       bindE (Messages_Publish dir nid (sj_TenantID subj) i subj) (\<lambda>(n, dropped).
       returnE \<lparr> se_Status = Published, se_RecipientCount = n, se_DroppedRecipients = dropped \<rparr>))))))"

section \<open>Cancel, archive, revoke, delete\<close>

definition transition ::
  "subjects \<Rightarrow> string \<Rightarrow> bool \<Rightarrow> string \<Rightarrow> string \<Rightarrow> string \<Rightarrow> string list \<Rightarrow> message_view sys_op" where
  "transition subj i manage from to ev alsoFrom =
     bindE (with_db (GetMessage (sj_TenantID subj) i)) (\<lambda>m.
     bindE (refuseE (\<not> canManage m subj manage) Store_ErrNotFound) (\<lambda>_.
     bindE (refuseE (\<not> (ms_Status m = from \<or> list_ex (\<lambda>f. ms_Status m = f) alsoFrom)) Messages_ErrState) (\<lambda>_.
     bindE (with_db (SetMessageStatus (sj_TenantID subj) i to None)) (\<lambda>_.
     bindE (emitE (authz_event subj ev ''message'' i ''ok'' '''' [(''status'', VStr to)])) (\<lambda>_.
     Messages_Get subj i manage)))))"

definition Messages_Cancel :: "subjects \<Rightarrow> string \<Rightarrow> bool \<Rightarrow> message_view sys_op" where
  "Messages_Cancel subj i manage = transition subj i manage Scheduled Draft ''message_updated'' []"

definition Messages_Archive :: "subjects \<Rightarrow> string \<Rightarrow> bool \<Rightarrow> message_view sys_op" where
  "Messages_Archive subj i manage = transition subj i manage Published Archived ''message_archived'' [Revoked]"

fun revoke_events :: "string \<Rightarrow> string \<Rightarrow> string list list \<Rightarrow> unit sys_op" where
  "revoke_events tid i [] = returnE ()"
| "revoke_events tid i (b # bs) =
     bindE (liveE \<lparr> le_TenantID = tid, le_To = b, le_All = False, le_Type = ''inbox.revoked'',
        le_Data = [(''message_id'', VStr i)] \<rparr>) (\<lambda>_. revoke_events tid i bs)"

definition Messages_Revoke :: "subjects \<Rightarrow> string \<Rightarrow> bool \<Rightarrow> message_view sys_op" where
  "Messages_Revoke subj i manage =
     bindE (with_db (GetMessage (sj_TenantID subj) i)) (\<lambda>m.
     bindE (refuseE (\<not> canManage m subj manage) Store_ErrNotFound) (\<lambda>_.
     bindE (refuseE (ms_Status m \<noteq> Published) Messages_ErrState) (\<lambda>_.
     bindE (with_db (Atomic (
        bindE (RevokeUnread (sj_TenantID subj) i) (\<lambda>affected.
        bindE (SetMessageStatus (sj_TenantID subj) i Revoked None) (\<lambda>_.
        returnE affected))))) (\<lambda>affected.
     bindE (revoke_events (sj_TenantID subj) i (chunks FanoutBatch affected)) (\<lambda>_.
     bindE (emitE (authz_event subj ''message_revoked'' ''message'' i ''ok'' ''''
        [(''recipients'', VInt (int (length affected)))])) (\<lambda>_.
     Messages_Get subj i manage))))))"

definition Messages_Delete :: "subjects \<Rightarrow> string \<Rightarrow> bool \<Rightarrow> unit sys_op" where
  "Messages_Delete subj i manage =
     bindE (with_db (GetMessage (sj_TenantID subj) i)) (\<lambda>m.
     bindE (refuseE (\<not> canManage m subj manage) Store_ErrNotFound) (\<lambda>_.
     bindE (refuseE (ms_Status m \<noteq> Draft \<and> ms_Status m \<noteq> Archived \<and> ms_Status m \<noteq> Revoked) Messages_ErrState) (\<lambda>_.
     bindE (with_db (DeleteMessage (sj_TenantID subj) i)) (\<lambda>_.
     emitE (authz_event subj ''message_deleted'' ''message'' i ''ok'' '''' [(''status'', VStr (ms_Status m))])))))"

section \<open>Listing\<close>

text \<open>
  A page cursor is the time in RFC 3339 format with nanoseconds, a bar and the id. The formatter and
  the parser of \<open>package time\<close> are arguments.
\<close>

definition EncodeCursor :: "(time \<Rightarrow> string) \<Rightarrow> time \<Rightarrow> string \<Rightarrow> string" where
  "EncodeCursor fmt ts i = fmt ts @ ''|'' @ i"

text \<open>The loop stops at the first bar behind the first byte.\<close>

definition DecodeCursor :: "(string \<Rightarrow> time option) \<Rightarrow> string \<Rightarrow> goerr + (time \<times> string)" where
  "DecodeCursor prs c = (case c of
      [] \<Rightarrow> Inr (0, '''')
    | x # r \<Rightarrow> (case Cut (CHR ''|'') r of
        (a, b, found) \<Rightarrow>
          if found then (case prs (x # a) of
              Some ts \<Rightarrow> Inr (ts, b)
            | None \<Rightarrow> Inl (invalid ''bad cursor'' ''cursor''))
          else Inl (invalid ''bad cursor'' ''cursor'')))"

record list_filter =
  li_Status :: string
  li_CategoryID :: string
  li_Q :: string
  li_Cursor :: string
  li_Limit :: int

definition clamp_limit :: "int \<Rightarrow> int" where
  "clamp_limit n = (if n \<le> 0 \<or> n > 100 then 50 else n)"

definition Messages_List ::
  "(time \<Rightarrow> string) \<Rightarrow> (string \<Rightarrow> time option) \<Rightarrow> subjects \<Rightarrow> list_filter \<Rightarrow> bool
     \<Rightarrow> (message_view list \<times> string) sys_op" where
  "Messages_List fmt prs subj f manage =
     (if \<not> manage \<and> sj_UserID subj = '''' then returnE ([], '''')
      else
        let limit = clamp_limit (li_Limit f) in
        bindE (liftSum (DecodeCursor prs (li_Cursor f))) (\<lambda>(ts, i).
        bindE (with_db (ListMessages (sj_TenantID subj) \<lparr> mf_Status = li_Status f,
           mf_CategoryID = li_CategoryID f, mf_Q = li_Q f,
           mf_SenderID = (if \<not> manage then sj_UserID subj else ''''),
           mf_CursorTS = ts, mf_CursorID = i, mf_Limit = limit \<rparr>)) (\<lambda>rs.
        returnE (map messageView rs,
          if int (length rs) = limit then EncodeCursor fmt (ms_CreatedAt (last rs)) (ms_ID (last rs)) else ''''))))"

record recipient_view =
  rv_ID :: string
  rv_RecipientID :: string
  rv_Status :: string
  rv_ReadAt :: "time option"
  rv_CreatedAt :: time

definition recipientView :: "inbox_row \<Rightarrow> recipient_view" where
  "recipientView r = \<lparr> rv_ID = ib_ID r, rv_RecipientID = ib_RecipientID r, rv_Status = ib_Status r,
     rv_ReadAt = ib_ReadAt r, rv_CreatedAt = ib_CreatedAt r \<rparr>"

definition Messages_Recipients ::
  "subjects \<Rightarrow> string \<Rightarrow> string \<Rightarrow> string \<Rightarrow> int \<Rightarrow> bool \<Rightarrow> (recipient_view list \<times> string) sys_op" where
  "Messages_Recipients subj i status cursor limit0 manage =
     bindE (with_db (GetMessage (sj_TenantID subj) i)) (\<lambda>m.
     bindE (refuseE (\<not> canManage m subj manage) Store_ErrNotFound) (\<lambda>_.
     let limit = clamp_limit limit0 in
     bindE (with_db (MessageRecipients (sj_TenantID subj) i status cursor limit)) (\<lambda>rs.
     returnE (map recipientView rs, if int (length rs) = limit then ib_ID (last rs) else ''''))))"

section \<open>The directory\<close>

text \<open>
  \<open>AuthDirectory\<close> over the member listing of the auth service: a tenant, the ids asked for, a cursor
  and a limit give an error, or ids with the next cursor.
\<close>

type_synonym list_members = "string \<Rightarrow> string list \<Rightarrow> string \<Rightarrow> int \<Rightarrow> goerr + (string list \<times> string)"

fun lookup_loop :: "list_members \<Rightarrow> string \<Rightarrow> string list list \<Rightarrow> goerr + string list" where
  "lookup_loop client tid [] = Inr []"
| "lookup_loop client tid (b # bs) = (case client tid b '''' 0 of
      Inl e \<Rightarrow> Inl e
    | Inr (ids, next) \<Rightarrow> (case lookup_loop client tid bs of Inl e \<Rightarrow> Inl e | Inr rest \<Rightarrow> Inr (ids @ rest)))"

definition AuthDirectory_Lookup :: "list_members \<Rightarrow> string \<Rightarrow> string list \<Rightarrow> goerr + string list" where
  "AuthDirectory_Lookup client tid ids = lookup_loop client tid (chunks 1000 ids)"

text \<open>The pages handed to the callback and the error that ends the loop; \<open>None\<close> when it never ends.\<close>

partial_function (option) members_loop ::
  "list_members \<Rightarrow> string \<Rightarrow> string \<Rightarrow> (string list list \<times> goerr option) option" where
  "members_loop client tid cursor = (case client tid [] cursor 1000 of
      Inl e \<Rightarrow> Some ([], Some e)
    | Inr (ids, next) \<Rightarrow>
        (let page = (if ids \<noteq> [] then [ids] else []) in
         if next = '''' then Some (page, None)
         else Option.bind (members_loop client tid next) (\<lambda>(pages, err). Some (page @ pages, err))))"

declare members_loop.simps [code]

definition AuthDirectory_Members :: "list_members \<Rightarrow> string \<Rightarrow> (string list list \<times> goerr option) option" where
  "AuthDirectory_Members client tid = members_loop client tid ''''"

text \<open>\<open>StaticDirectory\<close>: a fixed set of active members.\<close>

definition StaticDirectory :: "(string \<times> bool) list \<Rightarrow> goerr option \<Rightarrow> directory" where
  "StaticDirectory act err = \<lparr>
     dr_Lookup = (\<lambda>_ ids. case err of Some e \<Rightarrow> Inl e | None \<Rightarrow> Inr (filter (\<lambda>i. map_of act i = Some True) ids)),
     dr_Members = (\<lambda>_. case err of Some e \<Rightarrow> ([], Some e)
        | None \<Rightarrow> (chunks 1000 (sort (map fst (filter snd act))), None)) \<rparr>"

section \<open>The scheduler\<close>

record scheduler_config =
  sc_Interval :: duration
  sc_Lease :: duration
  sc_Batch :: int

definition NewScheduler :: "scheduler_config \<Rightarrow> scheduler_config" where
  "NewScheduler cfg = \<lparr> sc_Interval = (if sc_Interval cfg \<le> 0 then 15 * Second else sc_Interval cfg),
     sc_Lease = (if sc_Lease cfg \<le> 0 then Minute else sc_Lease cfg),
     sc_Batch = (if sc_Batch cfg \<le> 0 then 50 else sc_Batch cfg) \<rparr>"

text \<open>Every claimed message is published; a failure is logged and left to the lease.\<close>

fun publish_due ::
  "directory \<Rightarrow> (string \<Rightarrow> nat \<Rightarrow> string) \<Rightarrow> message list \<Rightarrow> int \<Rightarrow> sys \<Rightarrow> int \<times> sys" where
  "publish_due dir nid [] n s = (n, s)"
| "publish_due dir nid (m # ms) n s =
     (case Messages_Publish dir (nid (ms_ID m)) (ms_TenantID m) (ms_ID m)
         \<lparr> sj_TenantID = ms_TenantID m, sj_UserID = '''', sj_Roles = [], sj_Service = ''system'' \<rparr> s of
        (Inl e, s') \<Rightarrow> publish_due dir nid ms n s'
      | (Inr x, s') \<Rightarrow> publish_due dir nid ms (n + 1) s')"

definition Scheduler_Once ::
  "directory \<Rightarrow> (string \<Rightarrow> nat \<Rightarrow> string) \<Rightarrow> scheduler_config \<Rightarrow> int sys_op" where
  "Scheduler_Once dir nid cfg =
     bindE (getE clock) (\<lambda>now.
     bindE (with_db (ClaimDueMessages now (sc_Lease cfg) (sc_Batch cfg))) (\<lambda>due.
     \<lambda>s. let (n, s') = publish_due dir nid due 0 s in (Inr n, s')))"

end
