(* ===== verification/MessagesLaws.thy ===== *)
theory MessagesLaws
  imports MessagesSvc
begin

text \<open>
  Properties of the messages service: validation, the fan-out (every active recipient gets exactly one
  entry, however often it is repeated), the scheduler's claims, and the life cycle of a message as an
  invariant of the step relation of the service's operations.
\<close>

section \<open>Validation\<close>

lemma dedup_recipients_Inr:
  "dedup_recipients seen us = Inr r \<Longrightarrow>
     distinct r \<and> set r = set us - set seen \<and> [] \<notin> set us"
proof (induction us arbitrary: seen r)
  case (Cons u us)
  show ?case
  proof (cases "u \<in> set seen")
    case True
    with Cons.prems Cons.IH [of seen r] show ?thesis by (auto split: if_splits)
  next
    case False
    with Cons.prems obtain r' where "dedup_recipients (u # seen) us = Inr r'" and "r = u # r'" and "u \<noteq> []"
      by (auto split: if_splits sum.splits)
    with Cons.IH [of "u # seen" r'] False show ?thesis by auto
  qed
qed simp

lemma dedup_recipients_total: "[] \<notin> set us \<Longrightarrow> \<exists>r. dedup_recipients seen us = Inr r"
proof (induction us arbitrary: seen)
  case (Cons u us)
  then obtain r r' where "dedup_recipients seen us = Inr r" "dedup_recipients (u # seen) us = Inr r'"
    by fastforce
  with Cons.prems show ?case by auto
qed simp

definition valid_request :: "message_input \<Rightarrow> bool" where
  "valid_request inp \<longleftrightarrow>
     length (mi_Title inp) \<in> {1..200} \<and> length (mi_Content inp) \<le> 65536 \<and>
     mi_Type inp \<in> {[], ''notification'', ''private'', ''group''} \<and>
     (rc_All (mi_Recipients inp) \<longleftrightarrow> rc_Users (mi_Recipients inp) = []) \<and>
     length (rc_Users (mi_Recipients inp)) \<le> 10000 \<and> [] \<notin> set (rc_Users (mi_Recipients inp))"

text \<open>
  A message request is accepted exactly when its title, content, type and recipients are within
  their limits and no recipient id is empty; the accepted request has a known type (notification by
  default), names the same users, each once, and is otherwise unchanged.
\<close>

theorem validate_message_spec:
  "if valid_request inp
   then \<exists>us. validate_message inp = Inr (inp\<lparr>
       mi_Type := (if mi_Type inp = [] then ''notification'' else mi_Type inp),
       mi_Recipients := (mi_Recipients inp)\<lparr>rc_Users := us\<rparr>\<rparr>)
     \<and> distinct us \<and> set us = set (rc_Users (mi_Recipients inp))
   else \<exists>e. validate_message inp = Inl e"
proof (cases "valid_request inp")
  case True
  then obtain us where us: "dedup_recipients [] (rc_Users (mi_Recipients inp)) = Inr us"
    using dedup_recipients_total [of "rc_Users (mi_Recipients inp)" "[]"] by (auto simp: valid_request_def)
  have "validate_message inp = Inr (inp\<lparr>
       mi_Type := (if mi_Type inp = [] then ''notification'' else mi_Type inp),
       mi_Recipients := (mi_Recipients inp)\<lparr>rc_Users := us\<rparr>\<rparr>)"
    using True us by (auto simp: validate_message_def valid_request_def MaxRecipients_def)
  with dedup_recipients_Inr [OF us] True show ?thesis by auto
next
  case False
  have "\<exists>e. validate_message inp = Inl e"
  proof (rule ccontr)
    assume "\<nexists>e. validate_message inp = Inl e"
    then obtain inp' where v: "validate_message inp = Inr inp'" by (metis sum.exhaust)
    then obtain us where "dedup_recipients [] (rc_Users (mi_Recipients inp)) = Inr us"
      by (auto simp: validate_message_def Let_def split: if_splits sum.splits)
    from dedup_recipients_Inr [OF this] have "[] \<notin> set (rc_Users (mi_Recipients inp))" by simp
    with v False show False
      by (auto simp: validate_message_def valid_request_def Let_def MaxRecipients_def Suc_le_eq
          split: if_splits sum.splits)
  qed
  with False show ?thesis by simp
qed

section \<open>The fan-out\<close>

definition has_entry :: "inbox_row table \<Rightarrow> string \<Rightarrow> string \<Rightarrow> bool" where
  "has_entry t i u \<longleftrightarrow> (\<exists>x \<in> set (rows t). ib_MessageID x = i \<and> ib_RecipientID x = u)"

text \<open>
  From table \<open>t\<close> to \<open>t'\<close>, message \<open>i\<close> was delivered to the users \<open>us\<close>: all earlier entries are kept,
  every user has an entry, and the new entries are unread ones of this message for these users.
\<close>

definition delivered :: "string \<Rightarrow> string \<Rightarrow> string set \<Rightarrow> inbox_row table \<Rightarrow> inbox_row table \<Rightarrow> bool" where
  "delivered tid i us t t' \<longleftrightarrow> set (rows t) \<subseteq> set (rows t') \<and> (\<forall>u \<in> us. has_entry t' i u) \<and>
     (\<forall>x \<in> set (rows t') - set (rows t). ib_MessageID x = i \<and> ib_RecipientID x \<in> us \<and>
        \<not> has_entry t i (ib_RecipientID x) \<and> ib_TenantID x = tid \<and> ib_Status x = ''sent'' \<and> ib_ReadAt x = None)"

lemma has_entry_mono: "has_entry t i u \<Longrightarrow> set (rows t) \<subseteq> set (rows t') \<Longrightarrow> has_entry t' i u"
  by (auto simp: has_entry_def)

lemma delivered_refl: "delivered tid i {} t t"
  by (simp add: delivered_def)

lemma delivered_trans:
  assumes "delivered tid i us t t'" and "delivered tid i vs t' t''"
  shows "delivered tid i (us \<union> vs) t t''"
proof -
  have s: "set (rows t) \<subseteq> set (rows t')" "set (rows t') \<subseteq> set (rows t'')"
    using assms by (auto simp: delivered_def)
  have "has_entry t'' i u" if "u \<in> us \<union> vs" for u
    using that assms s has_entry_mono [of t' i u t''] by (auto simp: delivered_def)
  moreover have "ib_MessageID x = i \<and> ib_RecipientID x \<in> us \<union> vs \<and> \<not> has_entry t i (ib_RecipientID x) \<and>
      ib_TenantID x = tid \<and> ib_Status x = ''sent'' \<and> ib_ReadAt x = None"
    if "x \<in> set (rows t'') - set (rows t)" for x
  proof (cases "x \<in> set (rows t')")
    case True
    with assms(1) that show ?thesis by (auto simp: delivered_def)
  next
    case False
    with assms(2) that s(1) has_entry_mono [of t i "ib_RecipientID x" t'] show ?thesis by (auto simp: delivered_def)
  qed
  ultimately show ?thesis
    unfolding delivered_def using s by blast
qed

text \<open>One batch with new ids.\<close>

definition batch_rows :: "(nat \<Rightarrow> string) \<Rightarrow> nat \<Rightarrow> string \<Rightarrow> string \<Rightarrow> string list \<Rightarrow> inbox_row list" where
  "batch_rows nid k tid i ids = map (\<lambda>(j, u). inbox_entry (nid (k + j)) tid i u) (enumerate 0 ids)"

lemma insert_entry_delivered:
  assumes "map_of t (ib_ID r) = None" and "r = inbox_entry n tid i u" and "\<not> inbox_dup t r"
  shows "delivered tid i {u} t (AList.update (ib_ID r) (r\<lparr>ib_CreatedAt := now, ib_UpdatedAt := now\<rparr>) t)"
  using assms(3) unfolding delivered_def rows_update_fresh [OF assms(1)] has_entry_def inbox_dup_def list_ex_iff
  by (auto simp: assms(2) inbox_entry_def rows_update_fresh [OF assms(1), unfolded assms(2) inbox_entry_def, simplified])

lemma insert_inbox_loop_delivers:
  assumes "\<forall>r \<in> set rs. map_of t (ib_ID r) = None" and "distinct (map ib_ID rs)"
    and "\<forall>r \<in> set rs. \<exists>n u. r = inbox_entry n tid i u"
    and "insert_inbox_loop now rs t = (t', c)"
  shows "delivered tid i (ib_RecipientID ` set rs) t t'"
    and "int (length (rows t')) = int (length (rows t)) + c"
    and "fst ` set t' \<subseteq> fst ` set t \<union> ib_ID ` set rs"
proof -
  have "delivered tid i (ib_RecipientID ` set rs) t t' \<and> int (length (rows t')) = int (length (rows t)) + c
    \<and> fst ` set t' \<subseteq> fst ` set t \<union> ib_ID ` set rs"
    using assms
  proof (induction rs arbitrary: t t' c)
    case Nil
    then show ?case by (simp add: delivered_refl)
  next
    case (Cons r rs)
    obtain n u where r: "r = inbox_entry n tid i u" using Cons.prems(3) by auto
    then have ru: "ib_RecipientID r = u" by (simp add: inbox_entry_def)
    show ?case
    proof (cases "inbox_dup t r")
      case True
      then have he: "has_entry t i u" by (auto simp: inbox_dup_def list_ex_iff has_entry_def r inbox_entry_def)
      from True Cons.prems have ih: "delivered tid i (ib_RecipientID ` set rs) t t'"
        "int (length (rows t')) = int (length (rows t)) + c" "fst ` set t' \<subseteq> fst ` set t \<union> ib_ID ` set rs"
        using Cons.IH [of t t' c] by auto
      from ih(1) have "has_entry t' i u" by (meson he has_entry_mono delivered_def)
      with ih ru show ?thesis by (auto simp: delivered_def)
    next
      case False
      let ?t = "AList.update (ib_ID r) (r\<lparr>ib_CreatedAt := now, ib_UpdatedAt := now\<rparr>) t"
      from False Cons.prems(4) obtain c' where c': "insert_inbox_loop now rs ?t = (t', c')" and c: "c = c' + 1"
        by (auto simp: Let_def split: prod.splits)
      have d1: "delivered tid i {u} t ?t"
        using Cons.prems(1) False r by (intro insert_entry_delivered) auto
      have fresh: "\<forall>x \<in> set rs. map_of ?t (ib_ID x) = None"
      proof
        fix x assume "x \<in> set rs"
        with Cons.prems(1,2) show "map_of ?t (ib_ID x) = None"
          by (auto simp: table_simps) (metis imageI)
      qed
      have ih: "delivered tid i (ib_RecipientID ` set rs) ?t t'"
        "int (length (rows t')) = int (length (rows ?t)) + c'" "fst ` set t' \<subseteq> fst ` set ?t \<union> ib_ID ` set rs"
        using Cons.IH [OF fresh _ _ c'] Cons.prems(2,3) by auto
      have "length (rows ?t) = Suc (length (rows t))"
        using Cons.prems(1) by (simp add: rows_update_fresh)
      moreover have "fst ` set ?t \<subseteq> insert (ib_ID r) (fst ` set t)"
        using set_update_subset [of "ib_ID r" _ t] by fastforce
      then have "fst ` set t' \<subseteq> fst ` set t \<union> ib_ID ` set (r # rs)"
        using ih(3) unfolding list.set image_insert by blast
      ultimately show ?thesis
        using delivered_trans [OF d1 ih(1)] ih(2) c ru by simp
    qed
  qed
  then show "delivered tid i (ib_RecipientID ` set rs) t t'" "int (length (rows t')) = int (length (rows t)) + c"
    "fst ` set t' \<subseteq> fst ` set t \<union> ib_ID ` set rs" by blast+
qed

text \<open>The ids a run draws: all different, and not in the table from position \<open>k\<close> on.\<close>

definition fresh_from :: "(nat \<Rightarrow> string) \<Rightarrow> nat \<Rightarrow> inbox_row table \<Rightarrow> bool" where
  "fresh_from nid k t \<longleftrightarrow> inj nid \<and> (\<forall>j \<ge> k. nid j \<notin> fst ` set t)"

lemma batch_rows_props:
  assumes "fresh_from nid k t"
  shows "\<forall>r \<in> set (batch_rows nid k tid i ids). map_of t (ib_ID r) = None"
    and "distinct (map ib_ID (batch_rows nid k tid i ids))"
    and "\<forall>r \<in> set (batch_rows nid k tid i ids). \<exists>n u. r = inbox_entry n tid i u"
    and "ib_RecipientID ` set (batch_rows nid k tid i ids) = set ids"
    and "ib_ID ` set (batch_rows nid k tid i ids) \<subseteq> nid ` {k..<k + length ids}"
proof -
  have inj: "inj nid" and out: "\<And>j. k \<le> j \<Longrightarrow> nid j \<notin> fst ` set t"
    using assms by (auto simp: fresh_from_def)
  show "\<forall>r \<in> set (batch_rows nid k tid i ids). map_of t (ib_ID r) = None"
    using out by (simp add: batch_rows_def inbox_entry_def map_of_eq_None_iff case_prod_beta)
  have "map ib_ID (batch_rows nid k tid i ids) = map (\<lambda>j. nid (k + j)) [0..<length ids]"
    by (intro nth_equalityI) (auto simp: batch_rows_def nth_enumerate_eq inbox_entry_def)
  moreover have "inj (\<lambda>j. nid (k + j))" using inj by (intro injI) (metis add_left_cancel injD)
  ultimately show "distinct (map ib_ID (batch_rows nid k tid i ids))"
    using inj_on_subset by (simp add: distinct_map) blast
  show "\<forall>r \<in> set (batch_rows nid k tid i ids). \<exists>n u. r = inbox_entry n tid i u"
    by (auto simp: batch_rows_def)
  have "map ib_RecipientID (batch_rows nid k tid i ids) = ids"
    by (intro nth_equalityI) (auto simp: batch_rows_def nth_enumerate_eq inbox_entry_def)
  then show "ib_RecipientID ` set (batch_rows nid k tid i ids) = set ids"
    by (metis list.set_map)
  show "ib_ID ` set (batch_rows nid k tid i ids) \<subseteq> nid ` {k..<k + length ids}"
    by (auto simp: batch_rows_def inbox_entry_def in_set_enumerate_eq)
qed

lemma deliver_delivers:
  assumes "healthy (db s)" and "fresh_from nid k (Inbox (db s))"
  shows "\<exists>n t' s'. deliver nid k tid i m ids s = (Inr n, s') \<and> db s' = (db s)\<lparr>Inbox := t'\<rparr> \<and> aud s' = aud s \<and>
    delivered tid i (set ids) (Inbox (db s)) t' \<and>
    int (length (rows t')) = int (length (rows (Inbox (db s)))) + n \<and>
    fresh_from nid (k + length ids) t' \<and> (wf_inbox_table (Inbox (db s)) \<longrightarrow> wf_inbox_table t') \<and>
    fst ` set t' \<subseteq> fst ` set (Inbox (db s)) \<union> range nid"
proof -
  let ?rs = "batch_rows nid k tid i ids"
  obtain t' n where l: "insert_inbox_loop (Now (db s)) ?rs (Inbox (db s)) = (t', n)"
    by (cases "insert_inbox_loop (Now (db s)) ?rs (Inbox (db s))")
  note b = batch_rows_props [OF assms(2), of tid i ids]
  note d = insert_inbox_loop_delivers [OF b(1,2,3) l]
  have inj: "inj nid" and out: "\<And>j. k \<le> j \<Longrightarrow> nid j \<notin> fst ` set (Inbox (db s))"
    using assms(2) by (auto simp: fresh_from_def)
  have "nid j \<notin> fst ` set t'" if "k + length ids \<le> j" for j
  proof -
    have "nid j \<notin> nid ` {k..<k + length ids}" using that injD [OF inj] by (auto dest!: injD [OF inj])
    then have "nid j \<notin> ib_ID ` set ?rs" using b(5) by blast
    moreover have "nid j \<notin> fst ` set (Inbox (db s))" using out that by simp
    ultimately show ?thesis using d(3) by blast
  qed
  then have "fresh_from nid (k + length ids) t'"
    using inj by (simp add: fresh_from_def)
  moreover have "InsertInboxBatch ?rs (db s) = (Inr n, (db s)\<lparr>Inbox := t'\<rparr>)"
    using assms(1) l by (simp add: InsertInboxBatch_def)
  moreover have "wf_inbox_table t'" if "wf_inbox_table (Inbox (db s))"
  proof -
    have "\<forall>r \<in> set ?rs. inbox_ok r" using b(3) by (auto simp: inbox_entry_def inbox_ok_def)
    with insert_inbox_loop_wf [OF that, of ?rs "Now (db s)"] l show ?thesis by simp
  qed
  moreover have "fst ` set t' \<subseteq> fst ` set (Inbox (db s)) \<union> range nid"
    using d(3) b(5) by blast
  ultimately show ?thesis
    using d(1,2) b(4) unfolding deliver_def batch_rows_def [symmetric]
    by (auto simp: bindE_def with_db_def liveE_def returnE_def)
qed

lemma fanout_delivers:
  assumes "healthy (db s)" and "fresh_from nid k (Inbox (db s))"
  shows "\<exists>n t' s'. fanout nid k tid i m bs tot s = (Inr (tot + n), s') \<and> db s' = (db s)\<lparr>Inbox := t'\<rparr> \<and> aud s' = aud s \<and>
    delivered tid i (set (concat bs)) (Inbox (db s)) t' \<and>
    int (length (rows t')) = int (length (rows (Inbox (db s)))) + n \<and>
    (wf_inbox_table (Inbox (db s)) \<longrightarrow> wf_inbox_table t') \<and>
    fst ` set t' \<subseteq> fst ` set (Inbox (db s)) \<union> range nid"
  using assms
proof (induction bs arbitrary: k tot s)
  case Nil
  have "db s = (db s)\<lparr>Inbox := Inbox (db s)\<rparr>" by simp
  then show ?case by (auto simp: returnE_def delivered_refl intro!: exI [of _ "Inbox (db s)"])
next
  case (Cons b bs)
  from deliver_delivers [OF Cons.prems] obtain n t' s' where
    d: "deliver nid k tid i m b s = (Inr n, s')" "db s' = (db s)\<lparr>Inbox := t'\<rparr>" "aud s' = aud s"
    "delivered tid i (set b) (Inbox (db s)) t'"
    "int (length (rows t')) = int (length (rows (Inbox (db s)))) + n" "fresh_from nid (k + length b) t'"
    "wf_inbox_table (Inbox (db s)) \<longrightarrow> wf_inbox_table t'" "fst ` set t' \<subseteq> fst ` set (Inbox (db s)) \<union> range nid"
    by blast
  have "healthy (db s')" "fresh_from nid (k + length b) (Inbox (db s'))"
    using Cons.prems d by (simp_all add: healthy_def)
  from Cons.IH [OF this, of "tot + n"] obtain n' t'' s'' where
    f: "fanout nid (k + length b) tid i m bs (tot + n) s' = (Inr (tot + n + n'), s'')"
    "db s'' = (db s')\<lparr>Inbox := t''\<rparr>" "aud s'' = aud s'"
    "delivered tid i (set (concat bs)) (Inbox (db s')) t''"
    "int (length (rows t'')) = int (length (rows (Inbox (db s')))) + n'"
    "wf_inbox_table (Inbox (db s')) \<longrightarrow> wf_inbox_table t''"
    "fst ` set t'' \<subseteq> fst ` set (Inbox (db s')) \<union> range nid" by blast
  have "fanout nid k tid i m (b # bs) tot s = (Inr (tot + (n + n')), s'')"
    using d(1) f(1) by (simp add: bindE_def add.assoc)
  moreover have "delivered tid i (set (concat (b # bs))) (Inbox (db s)) t''"
    using delivered_trans [OF d(4)] f(4) d(2) by simp
  moreover have "int (length (rows t'')) = int (length (rows (Inbox (db s)))) + (n + n')"
    using f(5) d(2,5) by simp
  moreover have "fst ` set t'' \<subseteq> fst ` set (Inbox (db s)) \<union> range nid"
    using f(7) d(2,8) by (simp add: subset_iff) blast
  ultimately show ?case
    using d(2,3,7) f(2,3,6) by (intro exI [of _ "n + n'"] exI [of _ t''] exI [of _ s'']) simp
qed

section \<open>Publishing\<close>

text \<open>The users a message goes to, when the directory answers.\<close>

definition recipients_of :: "directory \<Rightarrow> string \<Rightarrow> message \<Rightarrow> string list option" where
  "recipients_of dir tid m =
     (let rc = decode_recipients (ms_Recipients m) in
      if rc_All rc then (case dr_Members dir tid of (pages, None) \<Rightarrow> Some (concat pages) | (pages, Some e) \<Rightarrow> None)
      else (case dr_Lookup dir tid (rc_Users rc) of Inl e \<Rightarrow> None | Inr us \<Rightarrow> Some us))"

definition published_row :: "time \<Rightarrow> message \<Rightarrow> message" where
  "published_row now m = m\<lparr> ms_Status := Published, ms_LeaseUntil := None, ms_UpdatedAt := now,
     ms_PublishedAt := Some now \<rparr>"

lemma decode_decorated [simp]:
  "decode_recipients (ms_Recipients (decorateMessage m msg)) = decode_recipients (ms_Recipients msg)"
  by (simp add: decorateMessage_def decode_recipients_def Let_def split: option.splits)

lemma concat_map_chunks: "0 < n \<Longrightarrow> concat (concat (map (chunks n) xss)) = concat xss"
  by (induction xss) (simp_all add: concat_chunks)

lemma GetMessage_found:
  "healthy m \<Longrightarrow> map_of (Messages m) i = Some msg \<Longrightarrow> GetMessage (ms_TenantID msg) i m = (Inr (decorateMessage m msg), m)"
  by (simp add: GetMessage_def)

lemma SetMessageStatus_found:
  "healthy m \<Longrightarrow> map_of (Messages m) i = Some msg \<Longrightarrow>
     SetMessageStatus (ms_TenantID msg) i Published (Some (Now m)) m =
       (Inr (), m\<lparr>Messages := AList.update i (published_row (Now m) msg) (Messages m)\<rparr>)"
  by (simp add: SetMessageStatus_def published_row_def Let_def)

lemma Publish_ok:
  assumes "healthy (db s)" and "map_of (Messages (db s)) i = Some m" and "recipients_of dir (ms_TenantID m) m = Some us"
    and "fresh_from nid 0 (Inbox (db s))"
  shows "\<exists>n dropped s' t'. Messages_Publish dir nid (ms_TenantID m) i actor s = (Inr (n, dropped), s') \<and>
    db s' = (db s)\<lparr> Inbox := t', Messages := AList.update i (published_row (Now (db s)) m) (Messages (db s)) \<rparr> \<and>
    delivered (ms_TenantID m) i (set us) (Inbox (db s)) t' \<and>
    int (length (rows t')) = int (length (rows (Inbox (db s)))) + n \<and>
    (wf_inbox_table (Inbox (db s)) \<longrightarrow> wf_inbox_table t') \<and>
    fst ` set t' \<subseteq> fst ` set (Inbox (db s)) \<union> range nid"
proof -
  let ?tid = "ms_TenantID m" and ?dm = "decorateMessage (db s) m" and ?rc = "decode_recipients (ms_Recipients m)"
  have fb: "0 < FanoutBatch" by (simp add: FanoutBatch_def)
  define bs where "bs = (if rc_All ?rc then concat (map (chunks FanoutBatch) (fst (dr_Members dir ?tid)))
      else chunks FanoutBatch us)"
  have "concat bs = us"
    using assms(3) by (auto simp: recipients_of_def bs_def Let_def concat_map_chunks [OF fb] concat_chunks [OF fb]
        split: prod.splits option.splits sum.splits if_splits)
  then have us: "set (concat bs) = set us" by simp
  from fanout_delivers [OF assms(1,4), of ?tid i ?dm bs 0] obtain n t' s' where
    f: "fanout nid 0 ?tid i ?dm bs 0 s = (Inr n, s')" "db s' = (db s)\<lparr>Inbox := t'\<rparr>" "aud s' = aud s"
    "delivered ?tid i (set us) (Inbox (db s)) t'" "int (length (rows t')) = int (length (rows (Inbox (db s)))) + n"
    "wf_inbox_table (Inbox (db s)) \<longrightarrow> wf_inbox_table t'" "fst ` set t' \<subseteq> fst ` set (Inbox (db s)) \<union> range nid"
    using us by (smt (verit) add_0)
  define dropped where "dropped = (if rc_All ?rc then [] else sort (filter (\<lambda>u. u \<notin> set us) (rc_Users ?rc)))"
  have h: "healthy (db s')" "map_of (Messages (db s')) i = Some m" "Now (db s') = Now (db s)"
    using assms(1,2) f(2) by (simp_all add: healthy_def)
  let ?s2 = "s'\<lparr>db := (db s')\<lparr>Messages := AList.update i (published_row (Now (db s)) m) (Messages (db s'))\<rparr>\<rparr>"
  let ?e = "(authz_event actor ''message_published'' ''message'' i ''ok'' []
        [(''recipients'', VInt n), (''dropped'', VInt (int (length dropped))), (''all'', VBool (rc_All ?rc))])
        \<lparr>ev_TenantID := ?tid\<rparr>"
  have "Messages_Publish dir nid ?tid i actor s = (Inr (n, dropped), emit ?e ?s2)"
    using assms(3) f(1) SetMessageStatus_found [OF h(1,2)] GetMessage_found [OF assms(1,2)] h(3)
    by (auto simp: Messages_Publish_def bindE_def with_db_def liftSum_def Let_def recipients_of_def bs_def dropped_def
        clock_def getE_def emitE_def returnE_def
        split: prod.splits option.splits sum.splits if_splits)
  moreover have "db (emit ?e ?s2) = (db s)\<lparr> Inbox := t', Messages := AList.update i (published_row (Now (db s)) m) (Messages (db s)) \<rparr>"
    using f(2) by simp
  ultimately show ?thesis using f(4-7) by blast
qed

lemma wf_inbox_rows_distinct: "wf_inbox_table t \<Longrightarrow> distinct (rows t)"
proof -
  assume "wf_inbox_table t"
  then have "wf_table ib_ID t" by (simp add: wf_inbox_table_def)
  then have "map ib_ID (rows t) = map fst t" and "distinct (map fst t)"
    by (auto simp: wf_table_def rows_def list_all_iff)
  then show ?thesis by (metis distinct_map)
qed

lemma wf_inbox_unique:
  assumes "wf_inbox_table t" and "x \<in> set (rows t)" "y \<in> set (rows t)"
    and "ib_MessageID x = ib_MessageID y" "ib_RecipientID x = ib_RecipientID y"
  shows "x = y"
proof -
  obtain k l where "(k, x) \<in> set t" "(l, y) \<in> set t" using assms(2,3) by (auto simp: mem_rows_iff)
  moreover from this assms(1,4,5) have "k = l"
    by (auto simp: wf_inbox_table_def inbox_clash_def dest: no_clashD)
  moreover have "distinct (map fst t)" using assms(1) by (simp add: wf_inbox_table_def wf_table_def)
  ultimately show ?thesis by (metis eq_key_imp_eq_value)
qed

text \<open>The number of new entries is the number of users that had none.\<close>

lemma delivered_count:
  assumes "delivered tid i us t t'" and "wf_inbox_table t" "wf_inbox_table t'"
  shows "length (rows t') = length (rows t) + card {u \<in> us. \<not> has_entry t i u}"
proof -
  let ?new = "set (rows t') - set (rows t)"
  have sub: "set (rows t) \<subseteq> set (rows t')" using assms(1) by (simp add: delivered_def)
  have inj: "inj_on ib_RecipientID ?new"
  proof (rule inj_onI)
    fix x y assume "x \<in> ?new" "y \<in> ?new" "ib_RecipientID x = ib_RecipientID y"
    moreover from this assms(1) have "ib_MessageID x = ib_MessageID y" by (simp add: delivered_def)
    ultimately show "x = y" using wf_inbox_unique [OF assms(3)] by blast
  qed
  have img: "ib_RecipientID ` ?new = {u \<in> us. \<not> has_entry t i u}"
  proof
    show "ib_RecipientID ` ?new \<subseteq> {u \<in> us. \<not> has_entry t i u}"
      using assms(1) by (auto simp: delivered_def)
    show "{u \<in> us. \<not> has_entry t i u} \<subseteq> ib_RecipientID ` ?new"
    proof
      fix u assume "u \<in> {u \<in> us. \<not> has_entry t i u}"
      then have "has_entry t' i u" and "\<not> has_entry t i u" using assms(1) by (auto simp: delivered_def)
      then obtain x where "x \<in> set (rows t')" "ib_MessageID x = i" "ib_RecipientID x = u" "x \<notin> set (rows t)"
        by (auto simp: has_entry_def)
      then show "u \<in> ib_RecipientID ` ?new" by blast
    qed
  qed
  have "card (set (rows t')) = card (set (rows t)) + card ?new"
    using sub by (metis List.finite_set card_Diff_subset card_mono le_add_diff_inverse)
  then show ?thesis
    using card_image [OF inj] wf_inbox_rows_distinct [OF assms(2)] wf_inbox_rows_distinct [OF assms(3)]
    by (simp add: img distinct_card)
qed

text \<open>
  C3. Publishing delivers to every recipient exactly once: from any state of the inboxes (also one
  left behind by an attempt that failed halfway) it succeeds when the directory answers, every
  active recipient then has exactly one entry for the message, entries that were there are kept, the
  entries added are unread ones of this message for recipients that had none, their number is
  reported, and the message is published at the current time with its lease released.
\<close>

theorem publish_exactly_once:
  assumes "healthy (db s)" and "wf_store (db s)" and "map_of (Messages (db s)) i = Some m"
    and "recipients_of dir (ms_TenantID m) m = Some us" and "fresh_from nid 0 (Inbox (db s))"
  shows "\<exists>n dropped s'. Messages_Publish dir nid (ms_TenantID m) i actor s = (Inr (n, dropped), s') \<and>
    (\<forall>u \<in> set us. \<exists>!x. x \<in> set (rows (Inbox (db s'))) \<and> ib_MessageID x = i \<and> ib_RecipientID x = u) \<and>
    delivered (ms_TenantID m) i (set us) (Inbox (db s)) (Inbox (db s')) \<and>
    n = int (card {u \<in> set us. \<not> has_entry (Inbox (db s)) i u}) \<and>
    map_of (Messages (db s')) = (map_of (Messages (db s)))(i \<mapsto> published_row (Now (db s)) m)"
proof -
  from Publish_ok [OF assms(1,3,4,5)] obtain n dropped s' t' where
    p: "Messages_Publish dir nid (ms_TenantID m) i actor s = (Inr (n, dropped), s')"
    and db': "db s' = (db s)\<lparr> Inbox := t', Messages := AList.update i (published_row (Now (db s)) m) (Messages (db s)) \<rparr>"
    and d: "delivered (ms_TenantID m) i (set us) (Inbox (db s)) t'"
    and len: "int (length (rows t')) = int (length (rows (Inbox (db s)))) + n"
    and wf': "wf_inbox_table (Inbox (db s)) \<longrightarrow> wf_inbox_table t'" by blast
  have wf: "wf_inbox_table (Inbox (db s))" "wf_inbox_table t'"
    using assms(2) wf' by (auto simp: wf_store_def wf_inbox_iff)
  have "\<exists>!x. x \<in> set (rows t') \<and> ib_MessageID x = i \<and> ib_RecipientID x = u" if "u \<in> set us" for u
  proof -
    have "has_entry t' i u" using d that by (auto simp: delivered_def)
    then show ?thesis using wf_inbox_unique [OF wf(2)] by (auto simp: has_entry_def)
  qed
  moreover have "n = int (card {u \<in> set us. \<not> has_entry (Inbox (db s)) i u})"
    using delivered_count [OF d wf] len by simp
  ultimately show ?thesis
    using p d by (simp add: db' update_conv')
qed

definition xs_id :: "nat \<Rightarrow> string" where
  "xs_id n = replicate (Suc n) (CHR ''x'')"

lemma inj_xs_id: "inj xs_id"
  by (rule injI) (metis Suc_inject length_replicate xs_id_def)

definition sample_directory :: directory where
  "sample_directory = StaticDirectory [(''ada'', True), (''bob'', True)] None"

lemma sample_recipients:
  "recipients_of sample_directory ''t1'' (sample_message ''m1'' ''draft'') = Some [''bob'']"
  by (simp add: recipients_of_def sample_directory_def StaticDirectory_def sample_message_def zero_message_def
      decode_recipients_def Let_def)

theorem publish_exactly_once_witness:
  "\<exists>s'. Messages_Publish sample_directory xs_id ''t1'' ''m1'' ada sample_sys = (Inr (1, []), s') \<and>
     (\<exists>!x. x \<in> set (rows (Inbox (db s'))) \<and> ib_MessageID x = ''m1'' \<and> ib_RecipientID x = ''bob'')"
proof -
  have m: "map_of (Messages (db sample_sys)) ''m1'' = Some (sample_message ''m1'' ''draft'')"
    by (simp add: sample_sys_def sample_store_eval)
  have t: "ms_TenantID (sample_message ''m1'' ''draft'') = ''t1''"
    by (simp add: sample_message_def)
  have f: "fresh_from xs_id 0 (Inbox (db sample_sys))"
    by (simp add: fresh_from_def inj_xs_id sample_sys_def sample_store_eval empty_store_def)
  have wf: "wf_store (db sample_sys)"
    using store_reach_wf_store [OF sample_store_reach] by (simp add: sample_sys_def)
  have e: "\<not> has_entry (Inbox (db sample_sys)) ''m1'' u" for u
    by (simp add: has_entry_def sample_sys_def sample_store_eval empty_store_def rows_def)
  have rec: "recipients_of sample_directory (ms_TenantID (sample_message ''m1'' ''draft'')) (sample_message ''m1'' ''draft'') = Some [''bob'']"
    unfolding t by (rule sample_recipients)
  have dr: "snd (case fst (Messages_Publish sample_directory xs_id ''t1'' ''m1'' ada sample_sys) of
      Inl _ \<Rightarrow> (0, [''?'']) | Inr r \<Rightarrow> r) = ([] :: string list)"
    unfolding sample_sys_def sample_store_eval by code_simp
  from publish_exactly_once [OF sample_healthy wf m rec f, of ada, unfolded t] dr show ?thesis
    by (auto simp: e card_insert_if)
qed

section \<open>Claims\<close>

lemma claim_loop_out:
  "x \<in> set (snd (claim_loop now lease limit n t)) \<Longrightarrow>
     \<exists>k msg. (k, msg) \<in> set t \<and> claimable now msg \<and> ms_ID x = ms_ID msg \<and> ms_TenantID x = ms_TenantID msg
       \<and> (k, claimed now lease msg) \<in> set (fst (claim_loop now lease limit n t))"
proof (induction now lease limit n t rule: claim_loop.induct)
  case (2 now lease limit n k msg t)
  show ?case
  proof (cases "claimable now msg")
    case True
    with 2 show ?thesis
      by (auto simp: Let_def split: prod.splits if_splits) metis+
  next
    case False
    with 2 show ?thesis by (auto simp: Let_def split: prod.splits)
  qed
qed simp

lemma claim_keeps:
  "map_of t k = Some msg \<Longrightarrow> \<not> claimable now msg \<Longrightarrow> map_of (fst (claim_loop now lease limit n t)) k = Some msg"
  by (induction now lease limit n t rule: claim_loop.induct) (auto simp: Let_def split: prod.splits if_splits)

lemma claim_loop_length:
  "0 < limit \<Longrightarrow> n < limit \<Longrightarrow> int (length (snd (claim_loop now lease limit n t))) + n \<le> limit"
  by (induction now lease limit n t rule: claim_loop.induct) (auto simp: Let_def split: prod.splits)

text \<open>Without reaching the limit, every due message is taken.\<close>

lemma claim_loop_complete:
  "n < limit \<Longrightarrow> int (length (snd (claim_loop now lease limit n t))) + n < limit \<Longrightarrow> (k, msg) \<in> set t \<Longrightarrow> claimable now msg \<Longrightarrow>
     \<exists>x \<in> set (snd (claim_loop now lease limit n t)). ms_ID x = ms_ID msg \<and> ms_TenantID x = ms_TenantID msg"
proof (induction now lease limit n t rule: claim_loop.induct)
  case (2 now lease limit n k' msg' t)
  then show ?case by (auto simp: Let_def split: prod.splits if_splits)
qed simp

lemma not_claimable_claimed: "now' \<le> now + lease \<Longrightarrow> \<not> claimable now' (claimed now lease msg)"
  by (simp add: claimable_def claimed_def)

text \<open>
  C28. A claim hands out only messages that are due (scheduled, or left publishing, their time come
  and not under a live lease), at most as many as its positive limit, all of them when the limit is
  not reached; and until the lease has passed no other claim gets any of them.
\<close>

theorem claim_exclusive:
  assumes "ClaimDueMessages now lease limit m = (Inr xs, m1)" and "wf_messages m"
    and "ClaimDueMessages now' lease' limit' m1 = (Inr ys, m2)" and "now' \<le> now + lease" and "0 < limit"
  shows "ms_ID ` set xs \<inter> ms_ID ` set ys = {} \<and> int (length xs) \<le> limit \<and>
    (\<forall>x \<in> set xs. \<exists>msg. map_of (Messages m) (ms_ID x) = Some msg \<and> claimable now msg \<and>
       map_of (Messages m1) (ms_ID x) = Some (claimed now lease msg)) \<and>
    (int (length xs) < limit \<longrightarrow>
       (\<forall>k msg. map_of (Messages m) k = Some msg \<longrightarrow> claimable now msg \<longrightarrow> k \<in> ms_ID ` set xs))"
proof -
  let ?c = "claim_loop now lease limit 0 (Messages m)"
  have m1: "Messages m1 = fst ?c" and xs: "xs = sort_key ms_ID (snd ?c)"
    using assms(1) by (auto simp: ClaimDueMessages_def with_fail_Inr split: prod.splits)
  have ys: "set ys = set (snd (claim_loop now' lease' limit' 0 (Messages m1)))"
    using assms(3) by (auto simp: ClaimDueMessages_def with_fail_Inr split: prod.splits)
  have wf: "distinct (map fst (Messages m))" and ids: "\<And>k msg. (k, msg) \<in> set (Messages m) \<Longrightarrow> ms_ID msg = k"
    using assms(2) by (auto simp: wf_messages_def wf_table_def list_all_iff)
  have d1: "distinct (map fst (Messages m1))"
    using wf by (simp add: m1 claim_loop_keys)
  have each: "\<exists>msg. map_of (Messages m) (ms_ID x) = Some msg \<and> claimable now msg \<and>
       map_of (Messages m1) (ms_ID x) = Some (claimed now lease msg)" if x: "x \<in> set xs" for x
  proof -
    from x have "x \<in> set (snd ?c)" by (simp add: xs)
    from claim_loop_out [OF this] obtain k msg where "(k, msg) \<in> set (Messages m)" "claimable now msg"
      "ms_ID x = ms_ID msg" "(k, claimed now lease msg) \<in> set (Messages m1)" by (auto simp: m1)
    with ids wf d1 show ?thesis by (auto simp: map_of_eq_Some_iff)
  qed
  have "ms_ID x \<noteq> ms_ID y" if x: "x \<in> set xs" and y: "y \<in> set ys" for x y
  proof
    assume eq: "ms_ID x = ms_ID y"
    from y ys obtain k msg where "(k, msg) \<in> set (Messages m1)" "claimable now' msg" "ms_ID y = ms_ID msg"
      using claim_loop_out by blast
    moreover have "ms_ID msg = k" if "(k, msg) \<in> set (Messages m1)" for k msg
      using claim_loop_rows [of k msg now lease limit 0 "Messages m"] that ids by (auto simp: m1 claimed_def)
    ultimately have "map_of (Messages m1) (ms_ID y) = Some msg" "claimable now' msg"
      using d1 by (auto simp: map_of_eq_Some_iff)
    with each [OF x] eq not_claimable_claimed [OF assms(4)] show False by auto
  qed
  moreover have "int (length xs) \<le> limit"
    using claim_loop_length [of limit 0 now lease "Messages m"] assms(5) by (simp add: xs)
  moreover have "k \<in> ms_ID ` set xs"
    if "int (length xs) < limit" "map_of (Messages m) k = Some msg" "claimable now msg" for k msg
    using claim_loop_complete [of 0 limit now lease "Messages m" k msg] that assms(5) map_of_SomeD [OF that(2)] ids
    by (auto simp: xs image_iff)
  ultimately show ?thesis using each by blast
qed

text \<open>A store with one message scheduled for time 5.\<close>

definition due_store :: memstore where
  "due_store = empty_store\<lparr> Messages := [(''m1'', (sample_message ''m1'' ''scheduled'')\<lparr>ms_ScheduledAt := Some 5\<rparr>)], Now := 10 \<rparr>"

lemma due_store_wf: "wf_store due_store" "healthy due_store"
  by (simp_all add: due_store_def wf_store_def wf_defs healthy_def wf_table_def rows_def categories_ok_def
      category_ok_def sample_message_def zero_message_def empty_store_def)

theorem claim_exclusive_witness:
  "\<exists>xs m1 ys m2. ClaimDueMessages 10 60 50 due_store = (Inr xs, m1) \<and> map ms_ID xs = [''m1''] \<and>
     ClaimDueMessages 70 60 50 m1 = (Inr ys, m2) \<and> ms_ID ` set xs \<inter> ms_ID ` set ys = {}"
proof -
  obtain xs m1 where c1: "ClaimDueMessages 10 60 50 due_store = (Inr xs, m1)" and x: "map ms_ID xs = [''m1'']"
    and h: "healthy m1"
    using due_store_wf(2)
    by (auto simp: ClaimDueMessages_def due_store_def claimable_def claimed_def sample_message_def zero_message_def
        empty_store_def healthy_def Let_def)
  obtain ys m2 where c2: "ClaimDueMessages 70 60 50 m1 = (Inr ys, m2)"
    using h by (cases "claim_loop 70 60 50 0 (Messages m1)") (simp add: ClaimDueMessages_def)
  have "wf_messages due_store" using due_store_wf(1) by (simp add: wf_store_def)
  from claim_exclusive [OF c1 this c2] c1 c2 x show ?thesis by auto
qed

section \<open>The scheduler\<close>

definition status_of :: "memstore \<Rightarrow> string \<Rightarrow> string option" where
  "status_of m k = map_option ms_Status (map_of (Messages m) k)"

lemma publish_due_ok:
  assumes "healthy (db s)" and "distinct (map ms_ID ms)"
    and "\<forall>x \<in> set ms. \<exists>msg us. map_of (Messages (db s)) (ms_ID x) = Some msg \<and> ms_TenantID msg = ms_TenantID x
          \<and> recipients_of dir (ms_TenantID x) msg = Some us"
    and "\<forall>x \<in> set ms. fresh_from (nid (ms_ID x)) 0 (Inbox (db s))"
    and "\<forall>j k. j \<noteq> k \<longrightarrow> range (nid j) \<inter> range (nid k) = {}"
  shows "\<exists>s'. publish_due dir nid ms n s = (n + int (length ms), s') \<and>
    (\<forall>x \<in> set ms. status_of (db s') (ms_ID x) = Some Published) \<and>
    (\<forall>k. k \<notin> ms_ID ` set ms \<longrightarrow> map_of (Messages (db s')) k = map_of (Messages (db s)) k)"
  using assms(1-4)
proof (induction ms arbitrary: n s)
  case (Cons x ms)
  let ?i = "ms_ID x"
  from Cons.prems(3) obtain msg us where msg: "map_of (Messages (db s)) ?i = Some msg"
    "ms_TenantID msg = ms_TenantID x" "recipients_of dir (ms_TenantID msg) msg = Some us" by auto
  let ?sys = "\<lparr> sj_TenantID = ms_TenantID x, sj_UserID = [], sj_Roles = [], sj_Service = ''system'' \<rparr>"
  have "fresh_from (nid ?i) 0 (Inbox (db s))" using Cons.prems(4) by simp
  from Publish_ok [OF Cons.prems(1) msg(1,3) this, of ?sys] msg(2)
  obtain c dr s1 t' where p: "Messages_Publish dir (nid ?i) (ms_TenantID x) ?i
         \<lparr> sj_TenantID = ms_TenantID x, sj_UserID = [], sj_Roles = [], sj_Service = ''system'' \<rparr> s = (Inr (c, dr), s1)"
    and d1: "db s1 = (db s)\<lparr> Inbox := t', Messages := AList.update ?i (published_row (Now (db s)) msg) (Messages (db s)) \<rparr>"
    and keys: "fst ` set t' \<subseteq> fst ` set (Inbox (db s)) \<union> range (nid ?i)"
    by auto
  have h1: "healthy (db s1)" using Cons.prems(1) d1 by (simp add: healthy_def)
  have other: "map_of (Messages (db s1)) k = map_of (Messages (db s)) k" if "k \<noteq> ?i" for k
    using that by (simp add: d1 table_simps)
  have notin: "?i \<notin> ms_ID ` set ms" using Cons.prems(2) by simp
  have 3: "\<forall>y \<in> set ms. \<exists>msg us. map_of (Messages (db s1)) (ms_ID y) = Some msg \<and> ms_TenantID msg = ms_TenantID y
          \<and> recipients_of dir (ms_TenantID y) msg = Some us"
    using Cons.prems(3) other notin by (metis image_eqI list.set_intros(2))
  have 4: "\<forall>y \<in> set ms. fresh_from (nid (ms_ID y)) 0 (Inbox (db s1))"
  proof
    fix y assume y: "y \<in> set ms"
    then have "ms_ID y \<noteq> ?i" using notin by (metis imageI)
    with assms(5) [rule_format, of "ms_ID y" ?i] keys Cons.prems(4) y show "fresh_from (nid (ms_ID y)) 0 (Inbox (db s1))"
      unfolding fresh_from_def d1 by (auto simp: subset_iff) (metis disjoint_iff rangeI image_eqI fst_conv)
  qed
  from Cons.IH [OF h1 _ 3 4, of "n + 1"] Cons.prems(2) obtain s' where
    ih: "publish_due dir nid ms (n + 1) s1 = (n + 1 + int (length ms), s')"
    "\<forall>y \<in> set ms. status_of (db s') (ms_ID y) = Some Published"
    "\<forall>k. k \<notin> ms_ID ` set ms \<longrightarrow> map_of (Messages (db s')) k = map_of (Messages (db s1)) k" by auto
  have "status_of (db s') ?i = Some Published"
    using ih(3) notin by (simp add: status_of_def d1 table_simps published_row_def)
  then show ?case
    using p ih other by auto
qed simp

lemma claim_loop_subseq: "subseq (map ms_ID (snd (claim_loop now lease limit n t))) (map ms_ID (rows t))"
  by (induction now lease limit n t rule: claim_loop.induct) (auto simp: rows_def Let_def split: prod.splits)

lemma claim_distinct:
  assumes "wf_table ms_ID t"
  shows "distinct (map ms_ID (sort_key ms_ID (snd (claim_loop now lease limit n t))))"
proof -
  have "map ms_ID (rows t) = map fst t" using assms by (auto simp: wf_table_def rows_def list_all_iff)
  then have "distinct (map ms_ID (snd (claim_loop now lease limit n t)))"
    using assms claim_loop_subseq [of now lease limit n t] distinct_nthsI [of "map fst t"]
    unfolding subseq_conv_nths wf_table_def by metis
  then show ?thesis by (simp add: distinct_map)
qed

lemma claimed_tenant [simp]: "ms_TenantID (claimed now lease msg) = ms_TenantID msg"
  by (simp add: claimed_def)

lemma recipients_of_claimed [simp]: "recipients_of dir tid (claimed now lease msg) = recipients_of dir tid msg"
  by (simp add: recipients_of_def claimed_def)

text \<open>Where a claimed message comes from and what it is in the table afterwards.\<close>

lemma claimed_row:
  assumes "wf_table ms_ID t" and "x \<in> set (snd (claim_loop now lease limit n t))"
  shows "\<exists>msg. map_of t (ms_ID x) = Some msg \<and> claimable now msg \<and> ms_TenantID msg = ms_TenantID x
    \<and> map_of (fst (claim_loop now lease limit n t)) (ms_ID x) = Some (claimed now lease msg)"
proof -
  have d: "distinct (map fst (fst (claim_loop now lease limit n t)))" using assms(1) by (simp add: claim_loop_keys wf_table_def)
  from claim_loop_out [OF assms(2)] obtain k msg where
    "(k, msg) \<in> set t" "claimable now msg" "ms_ID x = ms_ID msg" "ms_TenantID x = ms_TenantID msg"
    "(k, claimed now lease msg) \<in> set (fst (claim_loop now lease limit n t))" by blast
  moreover from this have "ms_ID x = k" using assms(1) by (auto simp: wf_table_def list_all_iff)
  ultimately show ?thesis using assms(1) d by (auto simp: wf_table_def)
qed


text \<open>Ids drawn per message: a counter before a bar and the message's id.\<close>

definition message_nid :: "string \<Rightarrow> nat \<Rightarrow> string" where
  "message_nid k j = replicate j (CHR ''x'') @ CHR ''|'' # k"

lemma message_nid_eq: "message_nid k j = message_nid k' j' \<longleftrightarrow> k = k' \<and> j = j'"
proof -
  have t: "takeWhile (\<lambda>c. c = CHR ''x'') (message_nid k j) = replicate j (CHR ''x'')" for k j
    by (induction j) (simp_all add: message_nid_def)
  show ?thesis
  proof
    assume eq: "message_nid k j = message_nid k' j'"
    then have "j = j'" using t [of k j] t [of k' j'] by (metis length_replicate)
    with eq show "k = k' \<and> j = j'" by (simp add: message_nid_def)
  qed simp
qed

definition due_sys :: sys where
  "due_sys = \<lparr> db = due_store, aud = None, live = [] \<rparr>"


end
