(* ===== verification/InboxSvc.thy ===== *)
theory InboxSvc
  imports MessagesLaws
begin

text \<open>
  \<open>internal/inbox/inbox.go\<close>: a person's own view of the messages delivered to them, with the laws
  of reading, marking, removing and of what a revocation leaves visible.
\<close>

section \<open>Views\<close>

record inbox_message_view =
  im_ID :: string
  im_Title :: string
  im_Content :: string
  im_Type :: string
  im_CategoryName :: string
  im_SenderID :: string
  im_PublishedAt :: "time option"

record entry_view =
  en_ID :: string
  en_Message :: inbox_message_view
  en_Status :: string
  en_ReadAt :: "time option"
  en_CreatedAt :: time

definition zero_inbox_message :: inbox_message_view where
  "zero_inbox_message = \<lparr> im_ID = '''', im_Title = '''', im_Content = '''', im_Type = '''',
     im_CategoryName = '''', im_SenderID = '''', im_PublishedAt = None \<rparr>"

definition inbox_view :: "inbox_row \<Rightarrow> entry_view" where
  "inbox_view r = \<lparr> en_ID = ib_ID r,
     en_Message = (case ib_Message r of
         None \<Rightarrow> zero_inbox_message
       | Some m \<Rightarrow> \<lparr> im_ID = ms_ID m, im_Title = ms_Title m, im_Content = ms_Content m, im_Type = ms_Type m,
           im_CategoryName = ms_CategoryName m,
           im_SenderID = (case ms_SenderID m of Some u \<Rightarrow> u | None \<Rightarrow> ms_SenderService m),
           im_PublishedAt = ms_PublishedAt m \<rparr>),
     en_Status = ib_Status r, en_ReadAt = ib_ReadAt r, en_CreatedAt = ib_CreatedAt r \<rparr>"

record inbox_page =
  pg_Items :: "entry_view list"
  pg_Unread :: int
  pg_NextCursor :: string

section \<open>Operations\<close>

definition Inbox_List ::
  "(time \<Rightarrow> string) \<Rightarrow> (string \<Rightarrow> time option) \<Rightarrow> subjects \<Rightarrow> string \<Rightarrow> string \<Rightarrow> int \<Rightarrow> inbox_page sys_op" where
  "Inbox_List fmt prs subj status0 cursor limit0 =
     bindE (refuseE (status0 \<notin> {'''', ''all'', ''unread'', ''read''}) Inbox_ErrInput) (\<lambda>_.
     let status = (if status0 = ''all'' then '''' else status0);
         limit = clamp_limit limit0 in
     bindE (mapErrE (\<lambda>_. Inbox_ErrInput) (liftSum (DecodeCursor prs cursor))) (\<lambda>(ts, i).
     bindE (with_db (InboxPage (sj_TenantID subj) (sj_UserID subj) status ts i limit)) (\<lambda>rs.
     bindE (with_db (InboxUnread (sj_TenantID subj) (sj_UserID subj))) (\<lambda>unread.
     returnE \<lparr> pg_Items = map inbox_view rs, pg_Unread = unread,
       pg_NextCursor = (if int (length rs) = limit then EncodeCursor fmt (ib_CreatedAt (last rs)) (ib_ID (last rs))
                        else '''') \<rparr>))))"

definition Inbox_Unread :: "subjects \<Rightarrow> int sys_op" where
  "Inbox_Unread subj = with_db (InboxUnread (sj_TenantID subj) (sj_UserID subj))"

definition inbox_event :: "subjects \<Rightarrow> string \<Rightarrow> string \<Rightarrow> (string \<times> any) list \<Rightarrow> event" where
  "inbox_event subj typ sid details = \<lparr> ev_Type = typ, ev_TenantID = sj_TenantID subj, ev_ActorKind = ''user'',
     ev_ActorID = sj_UserID subj, ev_SubjectKind = ''inbox'', ev_SubjectID = sid, ev_Outcome = ''ok'',
     ev_Reason = '''', ev_CorrelationID = '''', ev_Details = details \<rparr>"

definition Inbox_Read :: "subjects \<Rightarrow> string \<Rightarrow> entry_view sys_op" where
  "Inbox_Read subj i =
     bindE (with_db (GetInboxEntry (sj_TenantID subj) (sj_UserID subj) i)) (\<lambda>row.
     if ib_Status row = ''sent'' \<or> ib_Status row = ''received'' then
       bindE (with_db (SetInboxStatus (sj_TenantID subj) (sj_UserID subj) [i] ''read'')) (\<lambda>_.
       bindE (with_db (GetInboxEntry (sj_TenantID subj) (sj_UserID subj) i)) (\<lambda>row'.
       bindE (emitE (inbox_event subj ''inbox_read'' i [(''message_id'', VStr (ib_MessageID row'))])) (\<lambda>_.
       returnE (inbox_view row'))))
     else returnE (inbox_view row))"

definition Inbox_SetStatus :: "subjects \<Rightarrow> string list \<Rightarrow> string \<Rightarrow> (int \<times> int) sys_op" where
  "Inbox_SetStatus subj ids status =
     bindE (refuseE (length ids = 0 \<or> length ids > 500
         \<or> (status \<noteq> ''read'' \<and> status \<noteq> ''unread'' \<and> status \<noteq> ''received'')) Inbox_ErrInput) (\<lambda>_.
     bindE (with_db (SetInboxStatus (sj_TenantID subj) (sj_UserID subj) ids status)) (\<lambda>updated.
     bindE (if status = ''read'' \<and> updated > 0
            then emitE (inbox_event subj ''inbox_read'' (ids ! 0) [(''count'', VInt updated)])
            else returnE ()) (\<lambda>_.
     bindE (with_db (InboxUnread (sj_TenantID subj) (sj_UserID subj))) (\<lambda>unread.
     returnE (updated, unread)))))"

definition Inbox_Remove :: "subjects \<Rightarrow> string list \<Rightarrow> (int \<times> int) sys_op" where
  "Inbox_Remove subj ids =
     bindE (refuseE (length ids = 0 \<or> length ids > 500) Inbox_ErrInput) (\<lambda>_.
     bindE (with_db (SetInboxStatus (sj_TenantID subj) (sj_UserID subj) ids ''deleted'')) (\<lambda>updated.
     bindE (if updated > 0
            then emitE (inbox_event subj ''inbox_deleted'' (ids ! 0) [(''count'', VInt updated)])
            else returnE ()) (\<lambda>_.
     bindE (with_db (InboxUnread (sj_TenantID subj) (sj_UserID subj))) (\<lambda>unread.
     returnE (updated, unread)))))"

section \<open>The caller's own entries\<close>

text \<open>An entry of someone else, or of another tenant.\<close>

definition foreign :: "subjects \<Rightarrow> inbox_row \<Rightarrow> bool" where
  "foreign subj e \<longleftrightarrow> ib_TenantID e \<noteq> sj_TenantID subj \<or> ib_RecipientID e \<noteq> sj_UserID subj"

inductive inbox_step :: "subjects \<Rightarrow> sys \<Rightarrow> sys \<Rightarrow> bool" where
  list_entries: "inbox_step subj s (snd (Inbox_List fmt prs subj status cursor limit s))"
| unread: "inbox_step subj s (snd (Inbox_Unread subj s))"
| read_entry: "inbox_step subj s (snd (Inbox_Read subj i s))"
| set_status: "inbox_step subj s (snd (Inbox_SetStatus subj ids status s))"
| remove: "inbox_step subj s (snd (Inbox_Remove subj ids s))"

lemma read_only_frames [frame_simps]:
  "snd (InboxPage tid rid st ts i l m) = m" "snd (InboxUnread tid rid m) = m" "snd (GetInboxEntry tid rid i m) = m"
  by (auto simp: InboxPage_def InboxUnread_def GetInboxEntry_def with_fail_def Let_def split: option.splits)

lemma keeps_inbox_reads [intro]:
  "keeps P (InboxPage tid rid st ts i l)" "keeps P (InboxUnread tid rid)" "keeps P (GetInboxEntry tid rid i)"
  by (simp_all add: keeps_def frame_simps)

lemmas keeps_rules = keeps_bindE keeps_returnE keeps_failE keeps_refuseE keeps_getE keeps_mapErrE keeps_if
  keeps_liftSum keeps_with_db keeps_emitE keeps_liveE keeps_checkE

text \<open>What a step of the inbox service keeps, its marking of the caller's entries does.\<close>

lemma inbox_step_keeps:
  assumes "inbox_step subj s s'"
    and "\<And>ids status. keeps P (SetInboxStatus (sj_TenantID subj) (sj_UserID subj) ids status)" and "P (db s)"
  shows "P (db s')"
proof -
  let ?P = "\<lambda>s. P (db s)"
  note rules = keeps_rules keeps_inbox_reads assms(2)
  have 1: "keeps ?P (Inbox_List fmt prs subj st c l)" for fmt prs st c l
    unfolding Inbox_List_def Let_def by (auto intro!: rules split: prod.splits)
  have 2: "keeps ?P (Inbox_Unread subj)"
    unfolding Inbox_Unread_def by (intro rules)
  have 3: "keeps ?P (Inbox_Read subj i)" for i
    unfolding Inbox_Read_def by (intro rules)
  have 4: "keeps ?P (Inbox_SetStatus subj ids st)" for ids st
    unfolding Inbox_SetStatus_def by (intro rules)
  have 5: "keeps ?P (Inbox_Remove subj ids)" for ids
    unfolding Inbox_Remove_def by (intro rules)
  from assms(1,3) 1 2 3 4 5 show ?thesis
    by (cases rule: inbox_step.cases) (auto simp: keeps_def)
qed

lemma set_inbox_loop_foreign:
  assumes "map_of t k = Some e" and "ib_TenantID e \<noteq> tid \<or> ib_RecipientID e \<noteq> rid"
  shows "map_of (snd (set_inbox_loop now tid rid status ks t n)) k = Some e"
  using assms(1)
proof (rule set_inbox_loop_inv)
  fix t' k' i i'
  assume "map_of t' k = Some e" "map_of t' k' = Some i" "ib_TenantID i = tid" "ib_RecipientID i = rid"
  with assms(2) show "map_of (AList.update k' (i'\<lparr>ib_UpdatedAt := now\<rparr>) t') k = Some e"
    by (auto simp: table_simps)
qed

lemma SetInboxStatus_foreign:
  assumes "ib_TenantID e \<noteq> tid \<or> ib_RecipientID e \<noteq> rid"
  shows "keeps (\<lambda>m. map_of (Inbox m) k = Some e) (SetInboxStatus tid rid ids status)"
  using set_inbox_loop_foreign [OF _ assms]
  by (auto simp: keeps_def SetInboxStatus_def with_fail_def split: option.splits prod.splits)
    (metis snd_conv)

text \<open>
  C39. No operation of the inbox service touches an entry of another person or of another tenant,
  whatever ids it is called with.
\<close>

theorem inbox_scoped:
  assumes "inbox_step subj s s'" and "map_of (Inbox (db s)) k = Some e" and "foreign subj e"
  shows "map_of (Inbox (db s')) k = Some e"
  using assms(1)
proof (rule inbox_step_keeps)
  show "keeps (\<lambda>m. map_of (Inbox m) k = Some e) (SetInboxStatus (sj_TenantID subj) (sj_UserID subj) ids status)"
    for ids status using assms(3) by (intro SetInboxStatus_foreign) (simp add: foreign_def)
qed fact

section \<open>Marking and counting\<close>

text \<open>The number of entries a person has not read.\<close>

definition unread_count :: "subjects \<Rightarrow> memstore \<Rightarrow> nat" where
  "unread_count subj m = length (filter (unread_of (sj_TenantID subj) (sj_UserID subj)) (rows (Inbox m)))"

lemma rows_update_split:
  assumes "distinct (map fst t)" and "map_of t k = Some r"
  shows "\<exists>as bs. t = as @ (k, r) # bs \<and> AList.update k r' t = as @ (k, r') # bs"
  using assms
proof (induction t)
  case (Cons p t)
  show ?case
  proof (cases "fst p = k")
    case True
    with Cons.prems have "p # t = [] @ (k, r) # t" "AList.update k r' (p # t) = [] @ (k, r') # t"
      by (cases p; simp)+
    then show ?thesis by blast
  next
    case False
    with Cons obtain as bs where "t = as @ (k, r) # bs" "AList.update k r' t = as @ (k, r') # bs"
      by (cases p) fastforce
    with False have "p # t = (p # as) @ (k, r) # bs" "AList.update k r' (p # t) = (p # as) @ (k, r') # bs"
      by (cases p; simp)+
    then show ?thesis by blast
  qed
qed simp

lemma count_update:
  assumes "distinct (map fst t)" and "map_of t k = Some r"
  shows "int (length (filter p (rows (AList.update k r' t)))) =
    int (length (filter p (rows t))) - (if p r then 1 else 0) + (if p r' then 1 else 0)"
  using rows_update_split [OF assms, of r'] by (auto simp: rows_def)

lemma GetInboxEntry_healthy:
  "healthy m \<Longrightarrow> map_of (Inbox m) i = Some e \<Longrightarrow> GetInboxEntry tid rid i m =
     (if ib_TenantID e \<noteq> tid \<or> ib_RecipientID e \<noteq> rid \<or> \<not> visible_entry e then (Inl Store_ErrNotFound, m)
      else (Inr (withMessage m e), m))"
  by (simp add: GetInboxEntry_def)

lemma withMessage_fields [simp]:
  "ib_Status (withMessage m e) = ib_Status e" "ib_ReadAt (withMessage m e) = ib_ReadAt e"
  "ib_ID (withMessage m e) = ib_ID e" "ib_MessageID (withMessage m e) = ib_MessageID e"
  "ib_CreatedAt (withMessage m e) = ib_CreatedAt e"
  by (auto simp: withMessage_def split: option.splits)

lemma inbox_view_fields [simp]:
  "en_Status (inbox_view e) = ib_Status e" "en_ReadAt (inbox_view e) = ib_ReadAt e" "en_ID (inbox_view e) = ib_ID e"
  by (simp_all add: inbox_view_def)

lemma wf_inbox_entry:
  assumes "wf_store m" and "map_of (Inbox m) i = Some e"
  shows "distinct (map fst (Inbox m))" and "ib_ID e = i" and "inbox_ok e"
  using assms wf_table_lookup [of ib_ID "Inbox m" i e] wf_inbox_lookup [of "Inbox m" i e]
  by (auto simp: wf_store_def wf_inbox_iff wf_inbox_table_def wf_table_def)

definition marked_read :: "time \<Rightarrow> inbox_row \<Rightarrow> inbox_row" where
  "marked_read now e = e\<lparr>ib_Status := ''read'', ib_ReadAt := Some now, ib_UpdatedAt := now\<rparr>"

lemma Inbox_Read_ok:
  assumes "healthy (db s)" and "map_of (Inbox (db s)) i = Some e" and "\<not> foreign subj e" and "visible_entry e"
    and "inbox_ok e"
  shows "\<exists>s'. Inbox_Read subj i s = (Inr (inbox_view (withMessage (db s)
       (if unread_of (sj_TenantID subj) (sj_UserID subj) e then marked_read (clock s) e else e))), s') \<and>
     db s' = (if unread_of (sj_TenantID subj) (sj_UserID subj) e
        then (db s)\<lparr>Inbox := AList.update i (marked_read (clock s) e) (Inbox (db s))\<rparr> else db s)"
proof (cases "unread_of (sj_TenantID subj) (sj_UserID subj) e")
  case True
  let ?m = "(db s)\<lparr>Inbox := AList.update i (marked_read (clock s) e) (Inbox (db s))\<rparr>"
  have set: "SetInboxStatus (sj_TenantID subj) (sj_UserID subj) [i] ''read'' (db s) = (Inr 1, ?m)"
    using assms True
    by (auto simp: SetInboxStatus_def inbox_transition_def unread_of_def active_entry_def inbox_ok_def
        marked_read_def clock_def)
  have "GetInboxEntry (sj_TenantID subj) (sj_UserID subj) i ?m = (Inr (withMessage ?m (marked_read (clock s) e)), ?m)"
    using assms by (subst GetInboxEntry_healthy [of _ _ "marked_read (clock s) e"])
      (auto simp: table_simps healthy_def foreign_def marked_read_def visible_entry_def)
  moreover have "inbox_view (withMessage ?m x) = inbox_view (withMessage (db s) x)" for x
    by (simp add: inbox_view_def withMessage_def decorateMessage_def Let_def split: option.splits)
  ultimately show ?thesis
    using assms True set
    by (auto simp: Inbox_Read_def bindE_def with_db_def GetInboxEntry_healthy foreign_def unread_of_def emitE_def returnE_def)
next
  case False
  with assms show ?thesis
    by (auto simp: Inbox_Read_def bindE_def with_db_def GetInboxEntry_healthy foreign_def unread_of_def returnE_def)
qed

text \<open>
  Reading an entry of one's own returns it with its message and marks it read: an unread entry
  becomes \<open>read\<close> now and the unread count falls by one, an entry already read (or revoked after it
  was read) is returned as it is; the other entries stay as they are.
\<close>

theorem read_marks_read:
  assumes "healthy (db s)" and "wf_store (db s)" and "map_of (Inbox (db s)) i = Some e"
    and "\<not> foreign subj e" and "visible_entry e"
  shows "\<exists>v s'. Inbox_Read subj i s = (Inr v, s') \<and> en_ID v = i \<and> en_ReadAt v \<noteq> None \<and>
     (if ib_Status e \<in> {''sent'', ''received''}
      then en_Status v = ''read'' \<and> int (unread_count subj (db s')) = int (unread_count subj (db s)) - 1
      else en_Status v = ib_Status e \<and> db s' = db s) \<and>
     (\<forall>k. k \<noteq> i \<longrightarrow> map_of (Inbox (db s')) k = map_of (Inbox (db s)) k)"
proof -
  note wf = wf_inbox_entry [OF assms(2,3)]
  have u: "unread_of (sj_TenantID subj) (sj_UserID subj) e \<longleftrightarrow> ib_Status e \<in> {''sent'', ''received''}"
    using assms(4) by (auto simp: unread_of_def foreign_def)
  have r: "ib_ReadAt e \<noteq> None" if "ib_Status e \<notin> {''sent'', ''received''}"
    using that wf(3) assms(5) by (auto simp: inbox_ok_def visible_entry_def)
  have "int (length (filter (unread_of (sj_TenantID subj) (sj_UserID subj))
       (rows (AList.update i (marked_read (clock s) e) (Inbox (db s)))))) = int (unread_count subj (db s)) - 1"
    if "ib_Status e \<in> {''sent'', ''received''}"
    using count_update [OF wf(1) assms(3)] that u by (simp add: unread_count_def unread_of_def marked_read_def)
  then show ?thesis
    using Inbox_Read_ok [OF assms(1,3,4,5) wf(3)] u r wf(2)
    by (auto simp: unread_count_def marked_read_def table_simps split: if_splits)
qed

lemma set_inbox_loop_frame:
  "k \<notin> set ks \<Longrightarrow> map_of (snd (set_inbox_loop now tid rid status ks t n)) k = map_of t k"
proof (induction ks arbitrary: t n)
  case (Cons x ks)
  then show ?case by (auto simp: table_simps split: option.splits sum.splits)
qed simp

text \<open>After marking entries read, none of the named ones is left unread; after removal, none is visible.\<close>

definition settled :: "string \<Rightarrow> inbox_row \<Rightarrow> bool" where
  "settled status e \<longleftrightarrow> ib_Status e \<noteq> ''sent'' \<and> ib_Status e \<noteq> ''received'' \<and>
     (status = ''deleted'' \<longrightarrow> ib_Status e = ''deleted'')"

lemma inbox_transition_settles:
  assumes "status \<in> {''read'', ''deleted''}"
  shows "(inbox_transition now status i = Inr None \<and> settled status i) \<or>
    (\<exists>i'. inbox_transition now status i = Inr (Some i') \<and> settled status i' \<and>
       ib_TenantID i' = ib_TenantID i \<and> ib_RecipientID i' = ib_RecipientID i)"
  using assms by (elim insertE emptyE) (simp_all add: inbox_transition_def settled_def active_entry_def)

lemma settled_time [simp]: "settled status (e\<lparr>ib_UpdatedAt := now\<rparr>) = settled status e"
  by (simp add: settled_def)

lemma set_inbox_loop_marks:
  assumes "status \<in> {''read'', ''deleted''}"
  shows "\<exists>n'. fst (set_inbox_loop now tid rid status ks t n) = Inr n' \<and>
    (\<forall>k e. k \<in> set ks \<longrightarrow> map_of t k = Some e \<longrightarrow> ib_TenantID e = tid \<longrightarrow> ib_RecipientID e = rid \<longrightarrow>
      (\<exists>e'. map_of (snd (set_inbox_loop now tid rid status ks t n)) k = Some e' \<and> settled status e'))"
proof (induction ks arbitrary: t n)
  case (Cons x ks)
  show ?case
  proof (cases "\<exists>i. map_of t x = Some i \<and> ib_TenantID i = tid \<and> ib_RecipientID i = rid")
    case False
    then have "set_inbox_loop now tid rid status (x # ks) t n = set_inbox_loop now tid rid status ks t n"
      by (auto split: option.splits)
    with Cons.IH [of t n] False show ?thesis by auto
  next
    case True
    then obtain i where i: "map_of t x = Some i" "ib_TenantID i = tid" "ib_RecipientID i = rid" by blast
    from inbox_transition_settles [OF assms, of now i] obtain t' n' i' where
      t': "set_inbox_loop now tid rid status (x # ks) t n = set_inbox_loop now tid rid status ks t' n'"
      "map_of t' = (map_of t)(x \<mapsto> i')" "settled status i'" "ib_TenantID i' = tid" "ib_RecipientID i' = rid"
    proof (elim disjE exE conjE, goal_cases)
      case 1
      then show ?case using i by (intro 1(1) [of t n i]) auto
    next
      case (2 j)
      then show ?case
        using i by (intro 2(1) [of "AList.update x (j\<lparr>ib_UpdatedAt := now\<rparr>) t" "n + 1" "j\<lparr>ib_UpdatedAt := now\<rparr>"])
          (auto simp: update_conv')
    qed
    have "\<exists>e'. map_of (snd (set_inbox_loop now tid rid status ks t' n')) k = Some e' \<and> settled status e'"
      if "k \<in> set (x # ks)" "map_of t k = Some e" "ib_TenantID e = tid" "ib_RecipientID e = rid" for k e
    proof (cases "k \<in> set ks")
      case True
      with Cons.IH [of t' n'] t' that show ?thesis by (cases "k = x") auto
    next
      case False
      with that t' set_inbox_loop_frame [OF False] show ?thesis by auto
    qed
    with t'(1) Cons.IH [of t' n'] show ?thesis by auto
  qed
qed simp

text \<open>Marking keeps whose entry an entry is.\<close>

definition owner :: "inbox_row \<Rightarrow> string \<times> string" where
  "owner e = (ib_TenantID e, ib_RecipientID e)"

lemma set_inbox_loop_owner:
  "map_option owner (map_of (snd (set_inbox_loop now tid rid status ks t n)) k) = map_option owner (map_of t k)"
proof (rule set_inbox_loop_inv [where I = "\<lambda>t'. map_option owner (map_of t' k) = map_option owner (map_of t k)"])
  fix t' k' i i'
  assume "map_option owner (map_of t' k) = map_option owner (map_of t k)" "map_of t' k' = Some i"
    and tr: "inbox_transition now status i = Inr (Some i')"
  moreover from tr have "owner i' = owner i" by (cases rule: inbox_transitionE) (simp_all add: owner_def)
  ultimately show "map_option owner (map_of (AList.update k' (i'\<lparr>ib_UpdatedAt := now\<rparr>) t') k) = map_option owner (map_of t k)"
    by (auto simp: table_simps owner_def)
qed simp

lemma SetInboxStatus_marks:
  assumes "healthy m" and "status \<in> {''read'', ''deleted''}"
  shows "\<exists>n m'. SetInboxStatus tid rid ids status m = (Inr n, m') \<and> healthy m' \<and>
     (\<forall>k e. map_of (Inbox m') k = Some e \<longrightarrow> k \<in> set ids \<longrightarrow> ib_TenantID e = tid \<longrightarrow> ib_RecipientID e = rid \<longrightarrow>
         settled status e) \<and>
     (\<forall>k. k \<notin> set ids \<longrightarrow> map_of (Inbox m') k = map_of (Inbox m) k)"
proof -
  let ?r = "set_inbox_loop (Now m) tid rid status ids (Inbox m) 0"
  from set_inbox_loop_marks [OF assms(2), of "Now m" tid rid ids "Inbox m" 0]
  obtain n where n: "fst ?r = Inr n" and marks: "\<And>k e. k \<in> set ids \<Longrightarrow> map_of (Inbox m) k = Some e \<Longrightarrow>
      ib_TenantID e = tid \<Longrightarrow> ib_RecipientID e = rid \<Longrightarrow> \<exists>e'. map_of (snd ?r) k = Some e' \<and> settled status e'" by blast
  have "settled status e" if "map_of (snd ?r) k = Some e" "k \<in> set ids" "ib_TenantID e = tid" "ib_RecipientID e = rid" for k e
  proof -
    from that set_inbox_loop_owner [of "Now m" tid rid status ids "Inbox m" 0 k]
    obtain e0 where "map_of (Inbox m) k = Some e0" "ib_TenantID e0 = tid" "ib_RecipientID e0 = rid"
      by (cases "map_of (Inbox m) k") (auto simp: owner_def)
    with marks [OF that(2)] that(1) show ?thesis by auto
  qed
  moreover have "SetInboxStatus tid rid ids status m = (Inr n, m\<lparr>Inbox := snd ?r\<rparr>)"
    using n assms(1) by (cases ?r) (simp add: SetInboxStatus_def)
  moreover have "healthy (m\<lparr>Inbox := snd ?r\<rparr>)" using assms(1) by (simp add: healthy_def)
  ultimately show ?thesis using set_inbox_loop_frame [of _ ids "Now m" tid rid status "Inbox m" 0] by auto
qed

lemma InboxUnread_healthy:
  "healthy m \<Longrightarrow> InboxUnread (sj_TenantID subj) (sj_UserID subj) m = (Inr (int (unread_count subj m)), m)"
  by (simp add: InboxUnread_def unread_count_def)

text \<open>
  Marking entries read, or removing them, succeeds for one to 500 ids: afterwards no named entry
  of the caller is unread (or visible, when it was removed), other entries stay as they are, and the
  unread count in the answer is the one of the new state.
\<close>

theorem mark_and_remove:
  assumes "healthy (db s)" and "ids \<noteq> []" and "length ids \<le> 500"
  shows "(\<exists>n u s'. Inbox_SetStatus subj ids ''read'' s = (Inr (n, u), s') \<and> u = int (unread_count subj (db s')) \<and>
       (\<forall>k e'. map_of (Inbox (db s')) k = Some e' \<longrightarrow> k \<in> set ids \<longrightarrow>
          \<not> unread_of (sj_TenantID subj) (sj_UserID subj) e') \<and>
       (\<forall>k. k \<notin> set ids \<longrightarrow> map_of (Inbox (db s')) k = map_of (Inbox (db s)) k)) \<and>
     (\<exists>n u s'. Inbox_Remove subj ids s = (Inr (n, u), s') \<and> u = int (unread_count subj (db s')) \<and>
       (\<forall>k e'. map_of (Inbox (db s')) k = Some e' \<longrightarrow> k \<in> set ids \<longrightarrow> \<not> foreign subj e' \<longrightarrow> \<not> visible_entry e') \<and>
       (\<forall>k. k \<notin> set ids \<longrightarrow> map_of (Inbox (db s')) k = map_of (Inbox (db s)) k))"
proof (intro conjI)
  let ?tid = "sj_TenantID subj" and ?rid = "sj_UserID subj"
  from SetInboxStatus_marks [OF assms(1), of "''read''" ?tid ?rid ids]
  obtain n m' where m': "SetInboxStatus ?tid ?rid ids ''read'' (db s) = (Inr n, m')" "healthy m'"
    "\<And>k e. map_of (Inbox m') k = Some e \<Longrightarrow> k \<in> set ids \<Longrightarrow> ib_TenantID e = ?tid \<Longrightarrow> ib_RecipientID e = ?rid \<Longrightarrow>
         settled ''read'' e" "\<And>k. k \<notin> set ids \<Longrightarrow> map_of (Inbox m') k = map_of (Inbox (db s)) k" by auto
  obtain s' where "Inbox_SetStatus subj ids ''read'' s = (Inr (n, int (unread_count subj m')), s')" "db s' = m'"
    using assms(2,3) m'(1,2)
    by (cases "0 < n") (auto simp: Inbox_SetStatus_def bindE_def with_db_def refuseE_def emitE_def returnE_def InboxUnread_healthy)
  with m' show "\<exists>n u s'. Inbox_SetStatus subj ids ''read'' s = (Inr (n, u), s') \<and> u = int (unread_count subj (db s')) \<and>
       (\<forall>k e'. map_of (Inbox (db s')) k = Some e' \<longrightarrow> k \<in> set ids \<longrightarrow> \<not> unread_of ?tid ?rid e') \<and>
       (\<forall>k. k \<notin> set ids \<longrightarrow> map_of (Inbox (db s')) k = map_of (Inbox (db s)) k)"
    by (fastforce simp: unread_of_def settled_def)
next
  let ?tid = "sj_TenantID subj" and ?rid = "sj_UserID subj"
  from SetInboxStatus_marks [OF assms(1), of "''deleted''" ?tid ?rid ids]
  obtain n m' where m': "SetInboxStatus ?tid ?rid ids ''deleted'' (db s) = (Inr n, m')" "healthy m'"
    "\<And>k e. map_of (Inbox m') k = Some e \<Longrightarrow> k \<in> set ids \<Longrightarrow> ib_TenantID e = ?tid \<Longrightarrow> ib_RecipientID e = ?rid \<Longrightarrow>
         settled ''deleted'' e" "\<And>k. k \<notin> set ids \<Longrightarrow> map_of (Inbox m') k = map_of (Inbox (db s)) k" by auto
  obtain s' where "Inbox_Remove subj ids s = (Inr (n, int (unread_count subj m')), s')" "db s' = m'"
    using assms(2,3) m'(1,2)
    by (cases "0 < n") (auto simp: Inbox_Remove_def bindE_def with_db_def refuseE_def emitE_def returnE_def InboxUnread_healthy)
  with m' show "\<exists>n u s'. Inbox_Remove subj ids s = (Inr (n, u), s') \<and> u = int (unread_count subj (db s')) \<and>
       (\<forall>k e'. map_of (Inbox (db s')) k = Some e' \<longrightarrow> k \<in> set ids \<longrightarrow> \<not> foreign subj e' \<longrightarrow> \<not> visible_entry e') \<and>
       (\<forall>k. k \<notin> set ids \<longrightarrow> map_of (Inbox (db s')) k = map_of (Inbox (db s)) k)"
    by (fastforce simp: foreign_def settled_def visible_entry_def)
qed

section \<open>Revoking\<close>

lemma RevokeUnread_healthy:
  "healthy m \<Longrightarrow> RevokeUnread tid i m = (Inr (sort (map ib_RecipientID (filter (revocable tid i) (rows (Inbox m))))),
     m\<lparr>Inbox := map_rows (\<lambda>k e. if revocable tid i e then e\<lparr>ib_Status := ''revoked''\<rparr> else e) (Inbox m)\<rparr>)"
  by (simp add: RevokeUnread_def)

lemma revoke_events_run:
  "\<exists>evs. revoke_events tid i bs s = (Inr (), s\<lparr>live := live s @ evs\<rparr>) \<and> concat (map le_To evs) = concat bs \<and>
     (\<forall>e \<in> set evs. le_TenantID e = tid \<and> \<not> le_All e \<and> le_Type e = ''inbox.revoked'')"
proof (induction bs arbitrary: s)
  case Nil
  show ?case by (intro exI [of _ "[]"]) (simp add: returnE_def)
next
  case (Cons b bs)
  let ?e = "\<lparr> le_TenantID = tid, le_To = b, le_All = False, le_Type = ''inbox.revoked'', le_Data = [(''message_id'', VStr i)] \<rparr>"
  from Cons.IH [of "s\<lparr>live := live s @ [?e]\<rparr>"] obtain evs where
    "revoke_events tid i bs (s\<lparr>live := live s @ [?e]\<rparr>) = (Inr (), s\<lparr>live := live s @ (?e # evs)\<rparr>)"
    "concat (map le_To evs) = concat bs"
    "\<forall>e \<in> set evs. le_TenantID e = tid \<and> \<not> le_All e \<and> le_Type e = ''inbox.revoked''" by auto
  then show ?case by (intro exI [of _ "?e # evs"]) (simp add: bindE_liveE)
qed

lemma decorate_fields [simp]:
  "ms_Status (decorateMessage m x) = ms_Status x" "ms_ID (decorateMessage m x) = ms_ID x"
  "ms_TenantID (decorateMessage m x) = ms_TenantID x" "ms_ScheduledAt (decorateMessage m x) = ms_ScheduledAt x"
  "ms_SenderID (decorateMessage m x) = ms_SenderID x" "ms_SenderService (decorateMessage m x) = ms_SenderService x"
  "ms_Title (decorateMessage m x) = ms_Title x"
  by (auto simp: decorateMessage_def Let_def split: option.splits)

lemma canManage_sender:
  "ms_SenderID a = ms_SenderID b \<Longrightarrow> ms_SenderService a = ms_SenderService b \<Longrightarrow>
     canManage a subj manage = canManage b subj manage"
  by (simp add: canManage_def)

text \<open>A person's view of an entry after the unread entries of its message were revoked.\<close>

lemma revoked_entry:
  assumes "wf_store m" and "healthy m'" and "Inbox m' = map_rows (\<lambda>k e. if revocable tid i e then e\<lparr>ib_Status := ''revoked''\<rparr> else e) (Inbox m)"
    and "map_of (Inbox m) k = Some e" and "ib_MessageID e = i" and "ib_TenantID e = tid"
  shows "\<exists>r. GetInboxEntry (ib_TenantID e) (ib_RecipientID e) k m' = (r, m') \<and>
    (if ib_ReadAt e \<noteq> None \<and> ib_Status e \<noteq> ''deleted'' then \<not> isl r else r = Inl Store_ErrNotFound)"
proof -
  let ?e = "if revocable tid i e then e\<lparr>ib_Status := ''revoked''\<rparr> else e"
  have "map_of (Inbox m') k = Some ?e" using assms(3,4) by (simp add: table_simps)
  moreover have "visible_entry ?e \<longleftrightarrow> ib_ReadAt e \<noteq> None \<and> ib_Status e \<noteq> ''deleted''"
    using assms(4-6) wf_inbox_entry(3) [OF assms(1,4)]
    by (auto simp: visible_entry_def revocable_def active_entry_def inbox_ok_def)
  ultimately show ?thesis using GetInboxEntry_healthy [OF assms(2), of k ?e] by (simp add: visible_entry_def)
qed


text \<open>A published message with an entry bob has not read and one ada has.\<close>

definition sample_entry :: "string \<Rightarrow> string \<Rightarrow> string \<Rightarrow> time option \<Rightarrow> inbox_row" where
  "sample_entry k u st r = (inbox_entry k ''t1'' ''m1'' u)\<lparr>ib_Status := st, ib_ReadAt := r\<rparr>"

definition inbox_sys :: sys where
  "inbox_sys = \<lparr> db = empty_store\<lparr> Messages := [(''m1'', (sample_message ''m1'' ''published'')\<lparr>ms_SenderID := Some ''ada''\<rparr>)],
     Inbox := [(''e1'', sample_entry ''e1'' ''bob'' ''sent'' None), (''e2'', sample_entry ''e2'' ''ada'' ''read'' (Some 3))],
     Now := 10 \<rparr>, aud = None, live = [] \<rparr>"

lemma inbox_sys_ok: "healthy (db inbox_sys)" "wf_store (db inbox_sys)"
  by (simp_all add: inbox_sys_def healthy_def wf_store_def wf_defs wf_table_def rows_def categories_ok_def
      category_ok_def no_clash_def inbox_clash_def inbox_ok_def sample_entry_def inbox_entry_def
      sample_message_def zero_message_def empty_store_def)

lemma inbox_sys_rows:
  "map_of (Inbox (db inbox_sys)) ''e1'' = Some (sample_entry ''e1'' ''bob'' ''sent'' None)"
  "map_of (Inbox (db inbox_sys)) ''e2'' = Some (sample_entry ''e2'' ''ada'' ''read'' (Some 3))"
  "map_of (Messages (db inbox_sys)) ''m1'' = Some ((sample_message ''m1'' ''published'')\<lparr>ms_SenderID := Some ''ada''\<rparr>)"
  by (simp_all add: inbox_sys_def)

lemma sample_entry_fields [simp]:
  "ib_TenantID (sample_entry k u st r) = ''t1''" "ib_RecipientID (sample_entry k u st r) = u"
  "ib_Status (sample_entry k u st r) = st" "ib_ReadAt (sample_entry k u st r) = r"
  "ib_MessageID (sample_entry k u st r) = ''m1''"
  by (simp_all add: sample_entry_def inbox_entry_def)

theorem inbox_scoped_witness:
  "map_of (Inbox (db (snd (Inbox_Remove ada [''e1'', ''e2''] inbox_sys)))) ''e1'' =
     Some (sample_entry ''e1'' ''bob'' ''sent'' None)"
  using inbox_scoped [OF inbox_step.remove inbox_sys_rows(1), of ada "[''e1'', ''e2'']"]
  by (simp add: foreign_def ada_def)

theorem read_marks_read_witness:
  "\<exists>v s'. Inbox_Read bob ''e1'' inbox_sys = (Inr v, s') \<and> en_Status v = ''read'' \<and>
     int (unread_count bob (db s')) = int (unread_count bob (db inbox_sys)) - 1"
  using read_marks_read [OF inbox_sys_ok inbox_sys_rows(1), of bob]
  by (auto simp: foreign_def bob_def visible_entry_def)

theorem mark_and_remove_witness:
  "\<exists>n u s'. Inbox_SetStatus bob [''e1''] ''read'' inbox_sys = (Inr (n, u), s') \<and> u = int (unread_count bob (db s'))"
  using mark_and_remove [OF inbox_sys_ok(1), of "[''e1'']" bob] by auto


end
