(* ===== verification/Lifecycle.thy ===== *)
theory Lifecycle
  imports InboxSvc
begin

text \<open>
  The life cycle of a message: the changes a row may go through, shown for every operation of the
  messages service and the scheduler as a step relation, and what follows for all runs.
\<close>

section \<open>Changes of a row\<close>

text \<open>What recipients see of a message, and what decides who gets it.\<close>

definition same_body :: "message \<Rightarrow> message \<Rightarrow> bool" where
  "same_body a b \<longleftrightarrow> ms_ID a = ms_ID b \<and> ms_TenantID a = ms_TenantID b \<and> ms_Title a = ms_Title b \<and>
     ms_Content a = ms_Content b \<and> ms_Type a = ms_Type b \<and> ms_CategoryID a = ms_CategoryID b \<and>
     ms_Recipients a = ms_Recipients b \<and> ms_ScheduledAt a = ms_ScheduledAt b \<and>
     ms_SenderID a = ms_SenderID b \<and> ms_SenderService a = ms_SenderService b"

definition status_edges :: "(string \<times> string) list" where
  "status_edges = [(Draft, Scheduled), (Draft, Publishing), (Scheduled, Draft), (Scheduled, Publishing),
     (Publishing, Publishing), (Publishing, Published), (Published, Revoked), (Published, Archived),
     (Revoked, Archived)]"

inductive row_change :: "message option \<Rightarrow> message option \<Rightarrow> bool" where
  edited: "ms_Status a \<in> {Draft, Scheduled} \<Longrightarrow> ms_Status b \<in> {ms_Status a, Draft} \<Longrightarrow>
     ms_TenantID b = ms_TenantID a \<Longrightarrow> row_change (Some a) (Some b)"
| moved: "(ms_Status a, ms_Status b) \<in> set status_edges \<Longrightarrow> same_body a b \<Longrightarrow> row_change (Some a) (Some b)"
| deleted: "ms_Status a \<in> {Draft, Archived, Revoked} \<Longrightarrow> row_change (Some a) None"

text \<open>The rows of all messages changed along such edges.\<close>

definition rows_changed :: "memstore \<Rightarrow> memstore \<Rightarrow> bool" where
  "rows_changed m m' \<longleftrightarrow> (\<forall>k. row_change\<^sup>*\<^sup>* (map_of (Messages m) k) (map_of (Messages m') k))"

lemma rows_changed_refl [simp]: "rows_changed m m"
  by (simp add: rows_changed_def)

lemma rows_changed_same: "map_of (Messages m') = map_of (Messages m) \<Longrightarrow> rows_changed m m'"
  by (simp add: rows_changed_def)

lemma rows_changed_trans: "rows_changed a b \<Longrightarrow> rows_changed b c \<Longrightarrow> rows_changed a c"
  unfolding rows_changed_def by (meson rtranclp_trans)

lemma rows_changed_one:
  assumes "row_change (map_of (Messages m) i) x" and "map_of (Messages m') = (map_of (Messages m))(i := x)"
  shows "rows_changed m m'"
  using assms by (auto simp: rows_changed_def)

section \<open>The store operations under the service's guards\<close>

lemma GetMessage_Inr:
  "GetMessage tid i m = (Inr x, m') \<longleftrightarrow> m' = m \<and> Fail m ''GetMessage'' = None \<and>
     (\<exists>r. map_of (Messages m) i = Some r \<and> ms_TenantID r = tid \<and> x = decorateMessage m r)"
  by (auto simp: GetMessage_def with_fail_def split: option.splits if_splits)

lemma GetMessage_frame [frame_simps]: "snd (GetMessage tid i m) = m"
  by (auto simp: GetMessage_def with_fail_def split: option.splits)

lemma same_body_status:
  "same_body x (x\<lparr>ms_Status := st, ms_LeaseUntil := l, ms_UpdatedAt := u, ms_PublishedAt := p\<rparr>)"
  by (simp add: same_body_def)

lemma SetMessageStatus_changes:
  assumes "map_of (Messages m) i = Some x" and "(ms_Status x, st) \<in> set status_edges"
  shows "rows_changed m (snd (SetMessageStatus tid i st at m))"
proof (cases "Fail m ''SetMessageStatus'' = None \<and> ms_TenantID x = tid")
  case True
  let ?y = "x\<lparr> ms_Status := st, ms_LeaseUntil := None, ms_UpdatedAt := Now m,
                ms_PublishedAt := (if at \<noteq> None then at else ms_PublishedAt x) \<rparr>"
  have "row_change (Some x) (Some ?y)"
    using assms(2) same_body_status by (intro row_change.moved) auto
  moreover have "map_of (Messages (snd (SetMessageStatus tid i st at m))) = (map_of (Messages m))(i \<mapsto> ?y)"
    using True assms(1) by (simp add: SetMessageStatus_def with_fail_def Let_def update_conv')
  ultimately show ?thesis
    using assms(1) by (intro rows_changed_one) auto
next
  case False
  then have "snd (SetMessageStatus tid i st at m) = m"
    using assms(1) by (auto simp: SetMessageStatus_def with_fail_def split: option.splits)
  then show ?thesis by simp
qed

lemma UpdateMessage_changes:
  assumes "map_of (Messages m) (ms_ID y) = Some x" and "ms_Status x \<in> {Draft, Scheduled}"
    and "ms_Status y \<in> {ms_Status x, Draft}"
  shows "rows_changed m (snd (UpdateMessage y m))"
proof (cases "snd (UpdateMessage y m) = m")
  case False
  let ?z = "x\<lparr> ms_Title := ms_Title y, ms_Content := ms_Content y, ms_Type := ms_Type y,
     ms_CategoryID := ms_CategoryID y, ms_Recipients := ms_Recipients y, ms_ScheduledAt := ms_ScheduledAt y,
     ms_Status := ms_Status y, ms_UpdatedBy := ms_UpdatedBy y, ms_UpdatedAt := Now m \<rparr>"
  from False assms(1) have "map_of (Messages (snd (UpdateMessage y m))) = (map_of (Messages m))(ms_ID y \<mapsto> ?z)"
    by (auto simp: UpdateMessage_def with_fail_def Let_def update_conv' split: option.splits if_splits)
  moreover have "row_change (Some x) (Some ?z)"
    using assms(2,3) by (intro row_change.edited) auto
  ultimately show ?thesis
    using assms(1) by (intro rows_changed_one) auto
qed simp

lemma DeleteMessage_changes:
  assumes "map_of (Messages m) i = Some x" and "ms_Status x \<in> {Draft, Archived, Revoked}"
  shows "rows_changed m (snd (DeleteMessage tid i m))"
proof (cases "snd (DeleteMessage tid i m) = m")
  case False
  then have "map_of (Messages (snd (DeleteMessage tid i m))) = (map_of (Messages m))(i := None)"
    using assms(1) by (auto simp: DeleteMessage_def with_fail_def delete_conv' split: option.splits if_splits)
  with assms show ?thesis
    by (intro rows_changed_one) (auto intro: row_change.deleted)
qed simp

section \<open>The operations of the service\<close>

text \<open>An operation started in \<open>s\<close> changes rows along the edges only.\<close>

definition changes_at :: "'a sys_op \<Rightarrow> sys \<Rightarrow> bool" where
  "changes_at f s \<longleftrightarrow> rows_changed (db s) (db (snd (f s)))"

lemma changes_bind:
  assumes "changes_at f s" and "\<And>x s'. f s = (Inr x, s') \<Longrightarrow> changes_at (g x) s'"
  shows "changes_at (bindE f g) s"
  using assms rows_changed_trans
  by (fastforce simp: changes_at_def bindE_def split: prod.splits sum.splits)

lemma changes_same: "Messages (db (snd (f s))) = Messages (db s) \<Longrightarrow> changes_at f s"
  by (simp add: changes_at_def rows_changed_same)

lemma changes_basic [simp]:
  "changes_at (returnE x) s" "changes_at (failE e) s" "changes_at (refuseE c e) s" "changes_at (getE g) s"
  "changes_at (emitE ev) s" "changes_at (liveE l) s" "changes_at (liftSum r) s" "changes_at (checkE co) s"
  by (simp_all add: changes_at_def returnE_def failE_def refuseE_def getE_def emitE_def liveE_def liftSum_def
      checkE_def split: option.splits)

lemma changes_mapErrE [simp]: "changes_at (mapErrE h f) s = changes_at f s"
  by (simp add: changes_at_def mapErrE_def split: prod.splits sum.splits)

lemma changes_with_db: "rows_changed (db s) (snd (f (db s))) \<Longrightarrow> changes_at (with_db f) s"
  by (auto simp: changes_at_def with_db_def split: prod.splits)

lemma changes_SetMessageStatus:
  "map_of (Messages (db s)) i = Some x \<Longrightarrow> (ms_Status x, st) \<in> set status_edges \<Longrightarrow>
     changes_at (with_db (SetMessageStatus tid i st at)) s"
  by (intro changes_with_db SetMessageStatus_changes)

lemma changes_get [simp]: "changes_at (with_db (GetMessage tid i)) s"
  by (rule changes_with_db) (simp add: GetMessage_frame)

text \<open>Reading a message and refusing bring the row and the guard into the rest of the operation.\<close>

lemma changes_get_bind:
  assumes "\<And>x. map_of (Messages (db s)) i = Some x \<Longrightarrow> ms_TenantID x = tid \<Longrightarrow>
      changes_at (g (decorateMessage (db s) x)) s"
  shows "changes_at (bindE (with_db (GetMessage tid i)) g) s"
proof (rule changes_bind)
  fix x s' assume "with_db (GetMessage tid i) s = (Inr x, s')"
  then obtain r where "s' = s" "map_of (Messages (db s)) i = Some r" "ms_TenantID r = tid" "x = decorateMessage (db s) r"
    by (auto simp: with_db_Inr GetMessage_Inr)
  with assms show "changes_at (g x) s'" by blast
qed simp

lemma changes_refuse_bind:
  assumes "\<not> c \<Longrightarrow> changes_at (g ()) s"
  shows "changes_at (bindE (refuseE c e) g) s"
  using assms by (auto simp: changes_at_def bindE_refuseE)

lemma changes_clock_bind: "changes_at (g (clock s)) s \<Longrightarrow> changes_at (bindE (getE clock) g) s"
  by (simp add: changes_at_def bindE_getE)

lemma changes_Get [simp]: "changes_at (Messages_Get subj i manage) s"
  unfolding Messages_Get_def by (intro changes_get_bind changes_refuse_bind) simp

lemma changes_emit_bind: "changes_at (g ()) (emit e s) \<Longrightarrow> changes_at (bindE (emitE e) g) s"
  by (simp add: changes_at_def bindE_emitE)

lemma deliver_messages: "Messages (db (snd (deliver nid k tid i m ids s))) = Messages (db s)"
  by (auto simp: deliver_def bindE_def with_db_def liveE_def returnE_def InsertInboxBatch_def with_fail_def
      split: prod.splits sum.splits option.splits)

lemma fanout_messages: "Messages (db (snd (fanout nid k tid i m bs tot s))) = Messages (db s)"
proof (induction bs arbitrary: k tot s)
  case (Cons b bs)
  show ?case
  proof (cases "deliver nid k tid i m b s")
    case (Pair r s')
    then have "Messages (db s') = Messages (db s)" using deliver_messages by (metis snd_conv)
    with Pair Cons.IH show ?thesis by (cases r) (simp_all add: bindE_def)
  qed
qed (simp add: returnE_def)

lemma publish_status_changes:
  assumes "\<And>x. map_of (Messages (db s)) i = Some x \<Longrightarrow> ms_TenantID x = tid \<Longrightarrow> ms_Status x = Publishing"
  shows "changes_at (Messages_Publish dir nid tid i actor) s"
  unfolding Messages_Publish_def Let_def
proof (rule changes_get_bind, goal_cases)
  case (1 x)
  let ?dm = "decorateMessage (db s) x"
  let ?inner = "if rc_All (decode_recipients (ms_Recipients ?dm))
     then (case dr_Members dir tid of (pages, err) \<Rightarrow>
        bindE (fanout nid 0 tid i ?dm (concat (map (chunks FanoutBatch) pages)) 0) (\<lambda>tot.
          case err of Some e \<Rightarrow> failE e | None \<Rightarrow> returnE (tot, [])))
     else bindE (liftSum (dr_Lookup dir tid (rc_Users (decode_recipients (ms_Recipients ?dm))))) (\<lambda>active.
        bindE (fanout nid 0 tid i ?dm (chunks FanoutBatch active) 0) (\<lambda>tot.
          returnE (tot, sort (filter (\<lambda>u. u \<notin> set active) (rc_Users (decode_recipients (ms_Recipients ?dm)))))))"
  have same: "Messages (db (snd (?inner s))) = Messages (db s)"
    using fanout_messages [of nid 0 tid i ?dm _ 0 s]
    by (auto simp: bindE_def returnE_def failE_def liftSum_def split: prod.splits sum.splits option.splits)
      (metis snd_conv)+
  show ?case
  proof (rule changes_bind)
    show "changes_at ?inner s" using same by (rule changes_same)
  next
    fix y s' assume "?inner s = (Inr y, s')"
    with same have "Messages (db s') = Messages (db s)" by simp
    with 1 assms have st: "map_of (Messages (db s')) i = Some x" "(ms_Status x, Published) \<in> set status_edges"
      by (auto simp: status_edges_def)
    show "changes_at (case y of (tot, dropped) \<Rightarrow> bindE (getE clock) (\<lambda>now.
         bindE (with_db (SetMessageStatus tid i Published (Some now))) (\<lambda>_.
         bindE (emitE ((authz_event actor ''message_published'' ''message'' i ''ok'' []
           [(''recipients'', VInt tot), (''dropped'', VInt (int (length dropped))),
            (''all'', VBool (rc_All (decode_recipients (ms_Recipients ?dm))))])\<lparr>ev_TenantID := tid\<rparr>)) (\<lambda>_.
         returnE (tot, dropped))))) s'"
      by (cases y) (auto intro!: changes_clock_bind changes_bind [OF changes_SetMessageStatus [OF st]]
          changes_emit_bind)
  qed
qed

lemma SetMessageStatus_Inr:
  assumes "SetMessageStatus tid i st at m = (Inr u, m')"
  shows "\<exists>x. map_of (Messages m) i = Some x \<and> ms_TenantID x = tid \<and>
    map_of (Messages m') = (map_of (Messages m))(i \<mapsto> x\<lparr> ms_Status := st, ms_LeaseUntil := None,
       ms_UpdatedAt := Now m, ms_PublishedAt := (if at \<noteq> None then at else ms_PublishedAt x) \<rparr>)"
  using assms by (auto simp: SetMessageStatus_def with_fail_def Let_def update_conv' split: option.splits if_splits)

text \<open>Creating a message adds a draft under the new id and leaves the other rows alone.\<close>

lemma InsertMessage_row:
  "map_of (Messages (snd (InsertMessage x m))) k = map_of (Messages m) k \<or>
     (k = ms_ID x \<and> map_of (Messages (snd (InsertMessage x m))) k = Some (x\<lparr>ms_CreatedAt := Now m, ms_UpdatedAt := Now m\<rparr>))"
  by (auto simp: InsertMessage_def with_fail_def table_simps split: option.splits)

lemma keeps_Get: "keeps P (Messages_Get subj i manage)"
  unfolding Messages_Get_def by (intro keeps_bindE keeps_refuseE keeps_returnE) (simp add: keeps_def with_db_read GetMessage_frame)

lemma Create_row:
  "map_of (Messages (db (snd (Messages_Create newID subj inp s)))) k = map_of (Messages (db s)) k \<or>
     (k = newID \<and> (\<exists>m. map_of (Messages (db (snd (Messages_Create newID subj inp s)))) k = Some m \<and> ms_Status m = Draft))"
proof -
  let ?P = "\<lambda>s' :: sys. map_of (Messages (db s')) k = map_of (Messages (db s)) k \<or>
     (k = newID \<and> (\<exists>m. map_of (Messages (db s')) k = Some m \<and> ms_Status m = Draft))"
  have ins: "keeps ?P (with_db (InsertMessage x))" if "ms_ID x = newID" "ms_Status x = Draft" for x
    unfolding keeps_def
  proof (intro allI impI)
    fix s' assume "?P s'"
    with that InsertMessage_row [of x "db s'" k] show "?P (snd (with_db (InsertMessage x) s'))"
      by (auto simp: with_db_def split: prod.splits)
  qed
  have "keeps ?P (Messages_Create newID subj inp)"
    unfolding Messages_Create_def
    by (intro keeps_bindE keeps_liftSum keeps_mapErrE keeps_emitE ins keeps_Get) simp_all
  then show ?thesis by (simp add: keeps_def)
qed

lemma Update_changes:
  assumes "wf_store (db s)"
  shows "changes_at (Messages_Update subj i inp manage) s"
  unfolding Messages_Update_def
proof (rule changes_bind)
  fix inp' s' assume "liftSum (validate_message inp) s = (Inr inp', s')"
  then have s': "s' = s" by (simp add: liftSum_def)
  have idk: "ms_ID x = i" if "map_of (Messages (db s)) i = Some x" for x
    using assms that by (auto simp: wf_store_def wf_messages_def dest: wf_table_lookup)
  show "changes_at (bindE (with_db (GetMessage (sj_TenantID subj) i)) (\<lambda>m.
     bindE (refuseE (\<not> canManage m subj manage) Store_ErrNotFound) (\<lambda>_.
     bindE (refuseE (ms_Status m \<noteq> Draft \<and> ms_Status m \<noteq> Scheduled) Messages_ErrState) (\<lambda>_.
     bindE (getE clock) (\<lambda>now.
     let m1 = m\<lparr> ms_Title := mi_Title inp', ms_Content := mi_Content inp', ms_Type := mi_Type inp',
            ms_Recipients := Some (mi_Recipients inp'), ms_ScheduledAt := mi_ScheduledAt inp',
            ms_UpdatedBy := userPtr subj, ms_CategoryID := category_ref (mi_CategoryID inp') \<rparr>;
         m2 = (if ms_Status m1 = Scheduled \<and> (case mi_ScheduledAt inp' of None \<Rightarrow> True | Some t \<Rightarrow> \<not> t > now)
               then m1\<lparr>ms_Status := Draft\<rparr> else m1) in
     bindE (mapErrE unknown_category (with_db (UpdateMessage m2))) (\<lambda>_.
     bindE (emitE (authz_event subj ''message_updated'' ''message'' i ''ok'' '''' [])) (\<lambda>_.
     Messages_Get subj i manage))))))) s'"
    unfolding s' Let_def
    by (intro changes_get_bind changes_refuse_bind changes_clock_bind changes_bind)
      (auto intro!: changes_with_db UpdateMessage_changes simp: idk simp del: not_less)
qed simp

lemma transition_changes:
  assumes "\<And>f. f = from \<or> f \<in> set alsoFrom \<Longrightarrow> (f, to) \<in> set status_edges"
  shows "changes_at (transition subj i manage from to ev alsoFrom) s"
  unfolding transition_def
proof (intro changes_get_bind changes_refuse_bind, goal_cases)
  case (1 x)
  then have "(ms_Status x, to) \<in> set status_edges" using assms by (auto simp: list_ex_iff)
  then show ?case
    using 1 by (intro changes_bind changes_SetMessageStatus [of s i x]) simp_all
qed

lemma Cancel_changes: "changes_at (Messages_Cancel subj i manage) s"
  unfolding Messages_Cancel_def by (rule transition_changes) (auto simp: status_edges_def)

lemma Archive_changes: "changes_at (Messages_Archive subj i manage) s"
  unfolding Messages_Archive_def by (rule transition_changes) (auto simp: status_edges_def)

lemma Delete_changes: "changes_at (Messages_Delete subj i manage) s"
  unfolding Messages_Delete_def
proof (intro changes_get_bind changes_refuse_bind, goal_cases)
  case (1 x)
  then have "changes_at (with_db (DeleteMessage (sj_TenantID subj) i)) s"
    by (intro changes_with_db DeleteMessage_changes [of _ _ x]) auto
  then show ?case by (intro changes_bind) simp_all
qed

lemma Send_changes: "changes_at (Messages_Send dir nid subj i manage) s"
  unfolding Messages_Send_def
proof (intro changes_get_bind changes_refuse_bind changes_clock_bind, goal_cases)
  case (1 x)
  then have d: "(ms_Status x, Scheduled) \<in> set status_edges" "(ms_Status x, Publishing) \<in> set status_edges"
    by (auto simp: status_edges_def)
  have pub: "changes_at (bindE (with_db (SetMessageStatus (sj_TenantID subj) i Publishing None)) (\<lambda>_.
       bindE (Messages_Publish dir nid (sj_TenantID subj) i subj) (\<lambda>(n, dropped).
       returnE \<lparr> se_Status = Published, se_RecipientCount = n, se_DroppedRecipients = dropped \<rparr>))) s"
  proof (rule changes_bind [OF changes_SetMessageStatus [OF 1(1) d(2)]], goal_cases)
    case (1 u s')
    then have "\<And>y. map_of (Messages (db s')) i = Some y \<Longrightarrow> ms_Status y = Publishing"
      by (auto simp: with_db_Inr dest!: SetMessageStatus_Inr)
    then show ?case
      by (intro changes_bind [OF publish_status_changes]) (auto split: prod.splits)
  qed
  show ?case
    using pub 1 d(1)
    by (auto intro!: changes_bind [OF changes_SetMessageStatus [of s i x]] changes_emit_bind)
qed

end
