(* ===== verification/MessageRuns.thy ===== *)
theory MessageRuns
  imports Lifecycle
begin

text \<open>
  Runs of the messages service: the remaining operations change rows along the edges of the life
  cycle, every operation is a step of one relation, and what holds of every run follows: a message
  that has left the draft and scheduled states keeps its content and its recipients, and a message
  left \<open>publishing\<close> without a schedule stays so.
\<close>

section \<open>Revoking and the scheduler\<close>

lemma Atomic_changes:
  assumes "rows_changed m (snd (f m))"
  shows "rows_changed m (snd (Atomic f m))"
  using assms
  by (auto simp: Atomic_def with_fail_def restore_tables_def rows_changed_def split: option.splits prod.splits sum.splits)

lemma RevokeUnread_messages: "Messages (snd (RevokeUnread tid i m)) = Messages m"
  by (simp add: RevokeUnread_def with_fail_def split: option.splits)

lemma revoke_pair_changes:
  assumes "map_of (Messages m) i = Some x" and "ms_Status x = Published"
  shows "rows_changed m (snd (bindE (RevokeUnread tid i) (\<lambda>a. bindE (SetMessageStatus tid i Revoked None) (\<lambda>_. returnE a)) m))"
proof (cases "RevokeUnread tid i m")
  case (Pair r m1)
  then have same: "Messages m1 = Messages m" using RevokeUnread_messages by (metis snd_conv)
  with assms have "rows_changed m1 (snd (SetMessageStatus tid i Revoked None m1))"
    by (intro SetMessageStatus_changes [of _ _ x]) (auto simp: status_edges_def)
  with same have "rows_changed m (snd (SetMessageStatus tid i Revoked None m1))"
    by (simp add: rows_changed_def)
  with Pair same show ?thesis
    by (cases r) (auto simp: bindE_def returnE_def rows_changed_def split: prod.splits sum.splits)
qed

lemma Revoke_changes: "changes_at (Messages_Revoke subj i manage) s"
  unfolding Messages_Revoke_def
proof (intro changes_get_bind changes_refuse_bind, goal_cases)
  case (1 x)
  have ev: "changes_at (revoke_events tid j bs) s'" for tid j bs s'
    using revoke_events_run [of tid j bs s'] by (auto simp: changes_at_def)
  from 1 show ?case
    by (intro changes_bind changes_with_db Atomic_changes revoke_pair_changes) (auto intro: ev)
qed

text \<open>Publishing leaves the other messages alone.\<close>

lemma SetMessageStatus_other:
  "k \<noteq> i \<Longrightarrow> keeps (\<lambda>m. map_of (Messages m) k = v) (SetMessageStatus tid i st at)"
  by (auto simp: keeps_def SetMessageStatus_def with_fail_def Let_def table_simps split: option.splits)

lemma keeps_GetMessage: "keeps P (GetMessage tid i)"
  by (simp add: keeps_def GetMessage_frame)

lemma keeps_fanout: "keeps (\<lambda>s. map_of (Messages (db s)) k = v) (fanout nid j tid i m bs tot)"
  by (simp add: keeps_def fanout_messages)

lemma Publish_other:
  assumes "k \<noteq> i"
  shows "keeps (\<lambda>s. map_of (Messages (db s)) k = v) (Messages_Publish dir nid tid i actor)"
  unfolding Messages_Publish_def Let_def
  by (auto intro!: keeps_rules keeps_GetMessage keeps_fanout SetMessageStatus_other assms split: prod.splits option.splits)

lemma publish_due_other:
  "k \<notin> ms_ID ` set ms \<Longrightarrow> map_of (Messages (db (snd (publish_due dir nid ms n s)))) k = map_of (Messages (db s)) k"
proof (induction ms arbitrary: n s)
  case (Cons m ms)
  let ?p = "Messages_Publish dir (nid (ms_ID m)) (ms_TenantID m) (ms_ID m)
     \<lparr> sj_TenantID = ms_TenantID m, sj_UserID = '''', sj_Roles = [], sj_Service = ''system'' \<rparr>"
  have "map_of (Messages (db (snd (?p s)))) k = map_of (Messages (db s)) k"
    using Publish_other [of k "ms_ID m"] Cons.prems by (simp add: keeps_def)
  with Cons show ?case by (auto split: prod.splits sum.splits)
qed simp

lemma publish_due_changes:
  assumes "distinct (map ms_ID ms)"
    and "\<And>m x. m \<in> set ms \<Longrightarrow> map_of (Messages (db s)) (ms_ID m) = Some x \<Longrightarrow> ms_Status x = Publishing"
  shows "rows_changed (db s) (db (snd (publish_due dir nid ms n s)))"
  using assms
proof (induction ms arbitrary: n s)
  case (Cons m ms)
  let ?p = "Messages_Publish dir (nid (ms_ID m)) (ms_TenantID m) (ms_ID m)
     \<lparr> sj_TenantID = ms_TenantID m, sj_UserID = '''', sj_Roles = [], sj_Service = ''system'' \<rparr>"
  let ?s = "snd (?p s)"
  have "changes_at ?p s"
    by (rule publish_status_changes) (rule Cons.prems(2), simp_all)
  then have 1: "rows_changed (db s) (db ?s)"
    by (simp only: changes_at_def)
  have same: "map_of (Messages (db ?s)) (ms_ID y) = map_of (Messages (db s)) (ms_ID y)" if "y \<in> set ms" for y
  proof -
    have "ms_ID y \<noteq> ms_ID m" using Cons.prems(1) that by (metis distinct.simps(2) image_eqI list.simps(9) set_map)
    from Publish_other [OF this] show ?thesis by (simp add: keeps_def)
  qed
  have 2: "rows_changed (db ?s) (db (snd (publish_due dir nid ms n' ?s)))" for n'
  proof (rule Cons.IH)
    show "distinct (map ms_ID ms)" using Cons.prems(1) by simp
    fix y x assume y: "y \<in> set ms" and "map_of (Messages (db ?s)) (ms_ID y) = Some x"
    then have "map_of (Messages (db s)) (ms_ID y) = Some x" by (simp only: same)
    with y show "ms_Status x = Publishing" by (intro Cons.prems(2) [of y]) simp_all
  qed
  have "\<exists>n'. publish_due dir nid (m # ms) n s = publish_due dir nid ms n' ?s"
    by (cases "?p s"; cases "fst (?p s)") auto
  with rows_changed_trans [OF 1 2] show ?case by auto
qed simp

lemma claim_loop_change:
  "distinct (map fst t) \<Longrightarrow>
     map_of (fst (claim_loop now lease limit n t)) k = map_of t k \<or>
     (\<exists>x. map_of t k = Some x \<and> claimable now x \<and> map_of (fst (claim_loop now lease limit n t)) k = Some (claimed now lease x))"
  by (induction now lease limit n t rule: claim_loop.induct) (auto simp: Let_def split: prod.splits)

lemma claimed_change:
  assumes "claimable now x"
  shows "row_change (Some x) (Some (claimed now lease x))"
  using assms by (intro row_change.moved)
    (auto simp: claimable_def claimed_def same_body_def status_edges_def status_defs)

lemma claim_changes:
  assumes "wf_store m"
  shows "rows_changed m (m\<lparr>Messages := fst (claim_loop now lease limit n (Messages m))\<rparr>)"
  unfolding rows_changed_def
proof
  fix k
  have "distinct (map fst (Messages m))"
    using assms by (simp add: wf_store_def wf_messages_def wf_table_def)
  from claim_loop_change [OF this, of now lease limit n k] claimed_change
  show "row_change\<^sup>*\<^sup>* (map_of (Messages m) k) (map_of (Messages (m\<lparr>Messages := fst (claim_loop now lease limit n (Messages m))\<rparr>)) k)"
    by (auto intro: r_into_rtranclp)
qed

lemma claim_publishing:
  assumes "wf_store m" and "y \<in> set (snd (claim_loop now lease limit n (Messages m)))"
    and "map_of (fst (claim_loop now lease limit n (Messages m))) (ms_ID y) = Some x"
  shows "ms_Status x = Publishing" and "ms_ScheduledAt x \<noteq> None"
proof -
  have wf: "distinct (map fst (Messages m))" "\<And>k r. (k, r) \<in> set (Messages m) \<Longrightarrow> ms_ID r = k"
    using assms(1) by (auto simp: wf_store_def wf_messages_def wf_table_def list_all_iff)
  from claim_loop_out [OF assms(2)] obtain k msg where o: "(k, msg) \<in> set (Messages m)" "claimable now msg" "ms_ID y = ms_ID msg"
    "(k, claimed now lease msg) \<in> set (fst (claim_loop now lease limit n (Messages m)))" by blast
  have "distinct (map fst (fst (claim_loop now lease limit n (Messages m))))"
    using wf(1) by (simp add: claim_loop_keys)
  with o(4) wf(2) [OF o(1)] o(3) assms(3) have "x = claimed now lease msg" by (simp add: map_of_eq_Some_iff)
  with o(2) show "ms_Status x = Publishing" "ms_ScheduledAt x \<noteq> None"
    by (auto simp: claimed_def claimable_def status_defs split: option.splits)
qed

lemma Scheduler_Once_run:
  "snd (Scheduler_Once dir nid cfg s) =
     (case ClaimDueMessages (clock s) (sc_Lease cfg) (sc_Batch cfg) (db s) of
        (Inl e, m) \<Rightarrow> s\<lparr>db := m\<rparr>
      | (Inr due, m) \<Rightarrow> snd (publish_due dir nid due 0 (s\<lparr>db := m\<rparr>)))"
  by (auto simp: Scheduler_Once_def bindE_def getE_def with_db_def split: prod.splits sum.splits)

lemma Once_changes:
  assumes "wf_store (db s)"
  shows "rows_changed (db s) (db (snd (Scheduler_Once dir nid cfg s)))"
proof (cases "Fail (db s) ''ClaimDueMessages''")
  case None
  let ?c = "claim_loop (clock s) (sc_Lease cfg) (sc_Batch cfg) 0 (Messages (db s))"
  let ?m = "(db s)\<lparr>Messages := fst ?c\<rparr>"
  have wft: "wf_table ms_ID (Messages (db s))" using assms by (simp add: wf_store_def wf_messages_def)
  have r: "snd (Scheduler_Once dir nid cfg s) = snd (publish_due dir nid (sort_key ms_ID (snd ?c)) 0 (s\<lparr>db := ?m\<rparr>))"
    using None by (simp add: Scheduler_Once_run ClaimDueMessages_def with_fail_def case_prod_beta)
  have "rows_changed ?m (db (snd (publish_due dir nid (sort_key ms_ID (snd ?c)) 0 (s\<lparr>db := ?m\<rparr>))))"
    using publish_due_changes [OF claim_distinct [OF wft], where s = "s\<lparr>db := ?m\<rparr>"] claim_publishing(1) [OF assms]
    by simp
  then show ?thesis
    unfolding r by (rule rows_changed_trans [OF claim_changes [OF assms]])
next
  case (Some e)
  then show ?thesis by (simp add: Scheduler_Once_run ClaimDueMessages_def with_fail_def)
qed

section \<open>Operations that leave messages alone\<close>

lemma keeps_category_reads:
  "keeps P (GetCategory tid i)" "keeps P (ListCategories tid)" "keeps P (ListMessages tid f)" "keeps P (MessageRecipients tid i st a l)"
  by (auto simp: keeps_def GetCategory_def ListCategories_def ListMessages_def MessageRecipients_def with_fail_def
      Let_def split: option.splits)

lemma keeps_category_writes:
  "keeps (\<lambda>m. Messages m = M) (InsertCategory c)" "keeps (\<lambda>m. Messages m = M) (UpdateCategory c)"
  "keeps (\<lambda>m. Messages m = M) (DeleteCategory tid i)" "keeps (\<lambda>m. Messages m = M) (SetInboxStatus tid rid ids st)"
  by (auto simp: keeps_def InsertCategory_def UpdateCategory_def DeleteCategory_def SetInboxStatus_def with_fail_def
      Let_def split: option.splits prod.splits)

lemmas keeps_service = keeps_rules keeps_GetMessage keeps_category_reads

lemma CreateCategory_messages: "keeps (\<lambda>s. Messages (db s) = M) (Messages_CreateCategory newID subj inp)"
  unfolding Messages_CreateCategory_def
  by (intro keeps_service keeps_category_writes)

lemma UpdateCategory_messages: "keeps (\<lambda>s. Messages (db s) = M) (Messages_UpdateCategory subj i inp)"
  unfolding Messages_UpdateCategory_def
  by (intro keeps_service keeps_category_writes)

lemma DeleteCategory_messages: "keeps (\<lambda>s. Messages (db s) = M) (Messages_DeleteCategory subj i)"
  unfolding Messages_DeleteCategory_def
  by (intro keeps_service keeps_category_writes)

lemma changes_keeps: "(\<And>M. keeps (\<lambda>s. Messages (db s) = M) f) \<Longrightarrow> changes_at f s"
  by (rule changes_same) (simp add: keeps_def)

section \<open>The step relation\<close>

text \<open>
  A run of the service: operations by anyone, scheduler rounds, people's inbox calls, the passing of
  time and injected store failures. New rows come under new ids (\<open>store.NewID\<close>).
\<close>

inductive msg_step :: "sys \<Rightarrow> sys \<Rightarrow> bool" where
  create_category: "map_of (Categories (db s)) newID = None \<Longrightarrow>
     msg_step s (snd (Messages_CreateCategory newID subj cin s))"
| update_category: "msg_step s (snd (Messages_UpdateCategory subj i cin s))"
| delete_category: "msg_step s (snd (Messages_DeleteCategory subj i s))"
| create: "map_of (Messages (db s)) newID = None \<Longrightarrow> msg_step s (snd (Messages_Create newID subj inp s))"
| update: "msg_step s (snd (Messages_Update subj i inp manage s))"
| send: "msg_step s (snd (Messages_Send dir nid subj i manage s))"
| cancel: "msg_step s (snd (Messages_Cancel subj i manage s))"
| archive: "msg_step s (snd (Messages_Archive subj i manage s))"
| revoke: "msg_step s (snd (Messages_Revoke subj i manage s))"
| delete: "msg_step s (snd (Messages_Delete subj i manage s))"
| scheduler: "msg_step s (snd (Scheduler_Once sdir snid cfg s))"
| inbox: "inbox_step subj s s' \<Longrightarrow> msg_step s s'"
| tick: "msg_step s (s\<lparr>db := (db s)\<lparr>Now := t\<rparr>\<rparr>)"
| fail_on: "msg_step s (s\<lparr>db := FailOn opn err (db s)\<rparr>)"

lemmas change_rules =
  changes_keeps [OF CreateCategory_messages, unfolded changes_at_def]
  changes_keeps [OF UpdateCategory_messages, unfolded changes_at_def]
  changes_keeps [OF DeleteCategory_messages, unfolded changes_at_def]
  Update_changes [unfolded changes_at_def]
  Send_changes [unfolded changes_at_def] Cancel_changes [unfolded changes_at_def]
  Archive_changes [unfolded changes_at_def] Revoke_changes [unfolded changes_at_def]
  Delete_changes [unfolded changes_at_def] Once_changes

lemma msg_step_changes:
  assumes "msg_step s s'" and "wf_store (db s)"
  shows "row_change\<^sup>*\<^sup>* (map_of (Messages (db s)) k) (map_of (Messages (db s')) k) \<or>
    (map_of (Messages (db s)) k = None \<and> (\<exists>m. map_of (Messages (db s')) k = Some m \<and> ms_Status m = Draft))"
proof (cases "rows_changed (db s) (db s')")
  case True
  then show ?thesis by (simp add: rows_changed_def)
next
  case False
  from assms show ?thesis
  proof (cases rule: msg_step.cases)
    case (create newID subj inp)
    with Create_row [of newID subj inp s k] show ?thesis by auto
  next
    case (inbox subj)
    from inbox_step_keeps [OF this, where P = "\<lambda>m. Messages m = Messages (db s)", OF keeps_category_writes(4)]
    have "rows_changed (db s) (db s')" by (simp add: rows_changed_same)
    with False show ?thesis by simp
  qed (insert False assms(2), simp_all add: change_rules FailOn_def rows_changed_same)
qed

section \<open>The invariant of the store\<close>

lemma deliver_wf: "keeps (\<lambda>s. wf_store (db s)) (deliver nid k tid i m ids)"
  unfolding deliver_def
  by (intro keeps_rules InsertInboxBatch_wf) (auto simp: inbox_ok_def inbox_entry_def)

lemma fanout_wf: "keeps (\<lambda>s. wf_store (db s)) (fanout nid k tid i m bs tot)"
proof (induction bs arbitrary: k tot)
  case (Cons b bs)
  then show ?case by (auto intro!: keeps_bindE deliver_wf)
qed auto

lemma Publish_wf: "keeps (\<lambda>s. wf_store (db s)) (Messages_Publish dir nid tid i actor)"
  unfolding Messages_Publish_def Let_def
  by (auto intro!: keeps_service fanout_wf SetMessageStatus_wf split: prod.splits option.splits)

lemma publish_due_wf: "wf_store (db s) \<Longrightarrow> wf_store (db (snd (publish_due dir nid ms n s)))"
proof (induction ms arbitrary: n s)
  case (Cons m ms)
  let ?p = "Messages_Publish dir (nid (ms_ID m)) (ms_TenantID m) (ms_ID m)
     \<lparr> sj_TenantID = ms_TenantID m, sj_UserID = '''', sj_Roles = [], sj_Service = ''system'' \<rparr>"
  have "wf_store (db (snd (?p s)))" using Publish_wf Cons.prems by (simp add: keeps_def)
  moreover have "\<exists>n'. publish_due dir nid (m # ms) n s = publish_due dir nid ms n' (snd (?p s))"
    by (cases "?p s"; cases "fst (?p s)") auto
  ultimately show ?case using Cons.IH by auto
qed simp

lemma Once_wf: "wf_store (db s) \<Longrightarrow> wf_store (db (snd (Scheduler_Once dir nid cfg s)))"
  using ClaimDueMessages_wf [of "clock s" "sc_Lease cfg" "sc_Batch cfg"]
  by (auto simp: Scheduler_Once_run keeps_def intro!: publish_due_wf split: prod.splits sum.splits)

lemma transition_wf: "keeps (\<lambda>s. wf_store (db s)) (transition subj i manage from to ev also)"
  unfolding transition_def by (intro keeps_service SetMessageStatus_wf keeps_Get)

lemma revoke_events_wf: "keeps (\<lambda>s. wf_store (db s)) (revoke_events tid i bs)"
  unfolding keeps_def
proof (intro allI impI)
  fix s :: sys assume "wf_store (db s)"
  with revoke_events_run [of tid i bs s] show "wf_store (db (snd (revoke_events tid i bs s)))" by auto
qed

lemma service_wf:
  "keeps (\<lambda>s. wf_store (db s)) (Messages_UpdateCategory subj i cin)"
  "keeps (\<lambda>s. wf_store (db s)) (Messages_DeleteCategory subj i)"
  "keeps (\<lambda>s. wf_store (db s)) (Messages_Create newID subj inp)"
  "keeps (\<lambda>s. wf_store (db s)) (Messages_Update subj i inp manage)"
  "keeps (\<lambda>s. wf_store (db s)) (Messages_Send dir nid subj i manage)"
  "keeps (\<lambda>s. wf_store (db s)) (Messages_Cancel subj i manage)"
  "keeps (\<lambda>s. wf_store (db s)) (Messages_Archive subj i manage)"
  "keeps (\<lambda>s. wf_store (db s)) (Messages_Revoke subj i manage)"
  "keeps (\<lambda>s. wf_store (db s)) (Messages_Delete subj i manage)"
  unfolding Messages_UpdateCategory_def Messages_DeleteCategory_def Messages_Create_def Messages_Update_def
    Messages_Send_def Messages_Cancel_def Messages_Archive_def Messages_Revoke_def Messages_Delete_def Let_def
          apply (intro keeps_service UpdateCategory_wf)
         apply (intro keeps_service DeleteCategory_wf)
        apply (intro keeps_service InsertMessage_wf keeps_Get)
       apply (intro keeps_service UpdateMessage_wf keeps_Get)
      apply (auto intro!: keeps_service SetMessageStatus_wf Publish_wf split: prod.splits)[1]
     apply (rule transition_wf)
    apply (rule transition_wf)
   apply (intro keeps_service Atomic_wf RevokeUnread_wf SetMessageStatus_wf revoke_events_wf keeps_Get)
  apply (intro keeps_service DeleteMessage_wf)
  done

lemma CreateCategory_wf:
  assumes "wf_store (db s)" and "map_of (Categories (db s)) newID = None"
  shows "wf_store (db (snd (Messages_CreateCategory newID subj cin s)))"
proof (cases "validate_category cin")
  case None
  let ?c = "\<lparr> ca_ID = newID, ca_TenantID = sj_TenantID subj, ca_Name = ci_Name cin,
        ca_Description = ci_Description cin, ca_Sort = ci_Sort cin, ca_CreatedBy = userPtr subj,
        ca_UpdatedBy = userPtr subj, ca_CreatedAt = 0, ca_UpdatedAt = 0, ca_MessageCount = 0 \<rparr>"
  let ?rest = "\<lambda>_. bindE (emitE (authz_event subj ''category_created'' ''category'' newID ''ok'' '''' [(''name'', VStr (ci_Name cin))]))
      (\<lambda>_. bindE (with_db (GetCategory (sj_TenantID subj) newID)) (\<lambda>got. returnE (categoryView got)))"
  have "wf_store (snd (InsertCategory ?c (db s)))" using assms by (intro InsertCategory_wf) simp_all
  moreover have "keeps (\<lambda>s. wf_store (db s)) (?rest u)" for u by (intro keeps_service)
  ultimately have "wf_store (db (snd (bindE (with_db (InsertCategory ?c)) ?rest s)))"
    by (auto simp: bindE_def [of "with_db _"] with_db_def keeps_def split: prod.splits sum.splits)
  with None show ?thesis by (simp add: Messages_CreateCategory_def bindE_checkE)
next
  case (Some e)
  with assms(1) show ?thesis by (simp add: Messages_CreateCategory_def bindE_checkE)
qed

lemma msg_step_wf:
  assumes "msg_step s s'" and "wf_store (db s)"
  shows "wf_store (db s')"
  using assms
proof (cases rule: msg_step.cases)
  case (inbox subj)
  from inbox_step_keeps [OF this SetInboxStatus_wf assms(2)] show ?thesis .
next
  case tick
  with assms(2) show ?thesis by (simp add: wf_store_def wf_defs)
next
  case fail_on
  with assms(2) show ?thesis by (simp add: FailOn_def wf_store_def wf_defs)
qed (use service_wf Once_wf CreateCategory_wf assms(2) in \<open>simp_all add: keeps_def\<close>)

section \<open>Runs\<close>

text \<open>Runs in which the id of a message that is gone is not given out again.\<close>

inductive msg_run :: "string \<Rightarrow> sys \<Rightarrow> sys \<Rightarrow> bool" for k where
  start: "msg_run k s s"
| step: "msg_run k s s' \<Longrightarrow> msg_step s' s'' \<Longrightarrow>
     (map_of (Messages (db s')) k = None \<longrightarrow> map_of (Messages (db s'')) k = None) \<Longrightarrow> msg_run k s s''"

lemma msg_run_changes:
  assumes "msg_run k s s'" and "wf_store (db s)" and "map_of (Messages (db s)) k = Some a"
  shows "wf_store (db s') \<and> row_change\<^sup>*\<^sup>* (Some a) (map_of (Messages (db s')) k)"
  using assms
proof (induction rule: msg_run.induct)
  case (step s s' s'')
  then have ih: "wf_store (db s')" "row_change\<^sup>*\<^sup>* (Some a) (map_of (Messages (db s')) k)" by auto
  from msg_step_changes [OF step.hyps(2) ih(1), of k] step.hyps(3)
  have "row_change\<^sup>*\<^sup>* (map_of (Messages (db s')) k) (map_of (Messages (db s'')) k)" by auto
  with ih msg_step_wf [OF step.hyps(2)] show ?case by (auto intro: rtranclp_trans)
qed simp

lemma same_body_trans: "same_body a b \<Longrightarrow> same_body b c \<Longrightarrow> same_body a c"
  by (simp add: same_body_def)

lemma row_changes_tenant:
  assumes "row_change\<^sup>*\<^sup>* (Some a) y" and "y = Some b"
  shows "ms_TenantID b = ms_TenantID a"
  using assms
proof (induction arbitrary: b rule: rtranclp_induct)
  case (step y z)
  then show ?case by (cases y) (auto elim!: row_change.cases simp: same_body_def)
qed simp

lemma row_changes_frozen:
  assumes "row_change\<^sup>*\<^sup>* (Some a) y" and "ms_Status a \<notin> {Draft, Scheduled}" and "y = Some b"
  shows "same_body a b \<and> ms_Status b \<notin> {Draft, Scheduled} \<and> (ms_Status a, ms_Status b) \<in> (set status_edges)\<^sup>*"
  using assms
proof (induction arbitrary: b rule: rtranclp_induct)
  case (step y z)
  have "y \<noteq> None" using step.hyps(2) by (auto elim: row_change.cases)
  then obtain c where y: "y = Some c" by blast
  with step.hyps(2) step.prems(2) have c: "row_change (Some c) (Some b)" by simp
  from step.IH [OF step.prems(1) y] have ih: "same_body a c" "ms_Status c \<notin> {Draft, Scheduled}"
    "(ms_Status a, ms_Status c) \<in> (set status_edges)\<^sup>*" by auto
  from c ih(2) have e: "(ms_Status c, ms_Status b) \<in> set status_edges" "same_body c b"
    by (auto elim: row_change.cases)
  from e(1) ih(2) have "ms_Status b \<notin> {Draft, Scheduled}"
    by (auto simp: status_edges_def status_defs)
  moreover have "(ms_Status a, ms_Status b) \<in> (set status_edges)\<^sup>*"
    using ih(3) e(1) by (rule rtrancl_into_rtrancl)
  ultimately show ?case using same_body_trans [OF ih(1) e(2)] by blast
qed (simp add: same_body_def)



section \<open>Messages left publishing\<close>

lemma guarded_same:
  assumes "map_of (Messages (db s)) i = Some a" and "\<And>m. ms_Status m = ms_Status a \<Longrightarrow> bad m"
  shows "db (snd (bindE (with_db (GetMessage tid i)) (\<lambda>m. bindE (refuseE (c m) e1) (\<lambda>_. bindE (refuseE (bad m) e2) (g m))) s)) = db s"
  using assms
  by (auto simp: bindE_def with_db_def refuseE_def GetMessage_def with_fail_def split: option.splits)

lemma keeps_others:
  assumes "k \<noteq> i"
  shows "keeps (\<lambda>m. map_of (Messages m) k = v) (DeleteMessage tid i)"
    and "keeps (\<lambda>m. map_of (Messages m) k = v) (RevokeUnread tid i)"
  using assms
  by (auto simp: keeps_def DeleteMessage_def RevokeUnread_def with_fail_def Let_def table_simps split: option.splits)

lemma UpdateMessage_other:
  "k \<noteq> ms_ID y \<Longrightarrow> map_of (Messages (snd (UpdateMessage y m))) k = map_of (Messages m) k"
  by (auto simp: UpdateMessage_def with_fail_def Let_def table_simps split: option.splits)

lemma keeps_Atomic:
  assumes "keeps (\<lambda>m. map_of (Messages m) k = v) f"
  shows "keeps (\<lambda>m. map_of (Messages m) k = v) (Atomic f)"
  using assms by (auto simp: keeps_def Atomic_def with_fail_def restore_tables_def split: option.splits prod.splits sum.splits)

lemma revoke_events_row: "keeps (\<lambda>s. map_of (Messages (db s)) k = v) (revoke_events tid i bs)"
  unfolding keeps_def
proof (intro allI impI)
  fix s :: sys assume "map_of (Messages (db s)) k = v"
  with revoke_events_run [of tid i bs s] show "map_of (Messages (db (snd (revoke_events tid i bs s)))) k = v" by auto
qed

text \<open>An operation leaves a row alone that it would refuse to work on.\<close>

definition leaves :: "string \<Rightarrow> 'a sys_op \<Rightarrow> sys \<Rightarrow> bool" where
  "leaves k f s \<longleftrightarrow> map_of (Messages (db (snd (f s)))) k = map_of (Messages (db s)) k"

lemma leaves_keeps: "(\<And>v. keeps (\<lambda>s. map_of (Messages (db s)) k = v) f) \<Longrightarrow> leaves k f s"
  by (simp add: leaves_def keeps_def)

lemma leaves_guarded:
  assumes "map_of (Messages (db s)) k = Some a" and "ms_Status a = Publishing"
    and "\<And>m. ms_Status m = Publishing \<Longrightarrow> bad m"
    and "\<And>m v. i \<noteq> k \<Longrightarrow> keeps (\<lambda>s. map_of (Messages (db s)) k = v) (g m ())"
  shows "leaves k (bindE (with_db (GetMessage tid i)) (\<lambda>m. bindE (refuseE (c m) e1) (\<lambda>_. bindE (refuseE (bad m) e2) (g m)))) s"
proof (cases "i = k")
  case True
  show ?thesis
    unfolding leaves_def True
    by (rule arg_cong [where f = "\<lambda>m. map_of (Messages m) k"], rule guarded_same [OF assms(1)])
      (simp add: assms(2,3))
next
  case False
  show ?thesis
    by (rule leaves_keeps, intro keeps_service) (use assms(4) [OF False] in simp)
qed

lemma leaves_ops:
  assumes "map_of (Messages (db s)) k = Some a" and "ms_Status a = Publishing"
  shows "leaves k (Messages_Send dir nid subj i manage) s"
    and "leaves k (Messages_Cancel subj i manage) s"
    and "leaves k (Messages_Archive subj i manage) s"
    and "leaves k (Messages_Revoke subj i manage) s"
    and "leaves k (Messages_Delete subj i manage) s"
  unfolding Messages_Send_def Messages_Cancel_def Messages_Archive_def transition_def Messages_Revoke_def Messages_Delete_def
  by (rule leaves_guarded [OF assms]; auto simp: status_defs intro!: keeps_service SetMessageStatus_other
      Publish_other keeps_Get keeps_others keeps_Atomic revoke_events_row split: prod.splits)+

lemma leaves_bind:
  assumes "leaves k f s" and "\<And>x s'. f s = (Inr x, s') \<Longrightarrow> leaves k (g x) s'"
  shows "leaves k (bindE f g) s"
  using assms by (auto simp: leaves_def bindE_def split: prod.splits sum.splits)

lemma leaves_Update:
  assumes "wf_store (db s)" and "map_of (Messages (db s)) k = Some a" and "ms_Status a = Publishing"
  shows "leaves k (Messages_Update subj i inp manage) s"
proof (cases "i = k")
  case True
  have "leaves k (liftSum (validate_message inp)) s" by (simp add: leaves_def liftSum_def)
  then show ?thesis
    unfolding Messages_Update_def
    by (rule leaves_bind)
      (auto simp: liftSum_def status_defs True intro!: leaves_guarded [OF assms(2,3)])
next
  case False
  have other: "leaves k (with_db (UpdateMessage y)) s'" if "ms_ID y = i" for y s'
    using UpdateMessage_other [of k y "db s'"] that False by (auto simp: leaves_def with_db_def split: prod.splits)
  have basic: "leaves k (refuseE c e) s'" "leaves k (getE clock) s'" "leaves k (emitE ev) s'"
    "leaves k (with_db (GetMessage tid j)) s'" "leaves k (Messages_Get subj i manage) s'"
    "leaves k (liftSum r) s'" for c e ev tid j s' and r :: "goerr + message_input"
    by (rule leaves_keeps; intro keeps_service keeps_Get)+
  have err: "leaves k (mapErrE h f) s'" if "leaves k f s'" for h s' and f :: "unit sys_op"
    using that by (auto simp: leaves_def mapErrE_def split: prod.splits sum.splits)
  have idk: "ms_ID x = i" if "map_of (Messages (db s)) i = Some x" for x
    using assms(1) that by (auto simp: wf_store_def wf_messages_def dest: wf_table_lookup)
  show ?thesis
    unfolding Messages_Update_def Let_def
    by (intro leaves_bind basic err other)
      (auto simp: liftSum_def with_db_Inr GetMessage_Inr refuseE_def getE_def idk split: if_splits)
qed

text \<open>A message left \<open>publishing\<close> that was not scheduled.\<close>

definition stuck :: "message \<Rightarrow> bool" where
  "stuck m \<longleftrightarrow> ms_Status m = Publishing \<and> ms_ScheduledAt m = None"

lemma leaves_Once:
  assumes "wf_store (db s)" and "map_of (Messages (db s)) k = Some a" and "stuck a"
  shows "leaves k (Scheduler_Once dir nid cfg) s"
proof (cases "Fail (db s) ''ClaimDueMessages''")
  case None
  let ?c = "claim_loop (clock s) (sc_Lease cfg) (sc_Batch cfg) 0 (Messages (db s))"
  let ?m = "(db s)\<lparr>Messages := fst ?c\<rparr>"
  have keep: "map_of (fst ?c) k = Some a"
    using assms(2,3) by (intro claim_keeps) (auto simp: stuck_def claimable_def)
  have "k \<notin> ms_ID ` set (snd ?c)"
  proof
    assume "k \<in> ms_ID ` set (snd ?c)"
    then obtain y where y: "y \<in> set (snd ?c)" "k = ms_ID y" by blast
    from claim_publishing(2) [OF assms(1) y(1)] keep assms(3) show False by (simp add: y(2) stuck_def)
  qed
  then have "map_of (Messages (db (snd (publish_due dir nid (sort_key ms_ID (snd ?c)) 0 (s\<lparr>db := ?m\<rparr>))))) k = Some a"
    using keep by (subst publish_due_other) simp_all
  with None assms(2) show ?thesis
    by (simp add: leaves_def Scheduler_Once_run ClaimDueMessages_def with_fail_def case_prod_beta)
next
  case (Some e)
  then show ?thesis by (simp add: leaves_def Scheduler_Once_run ClaimDueMessages_def with_fail_def)
qed

lemma stuck_step:
  assumes "msg_step s s'" and "wf_store (db s)" and "map_of (Messages (db s)) k = Some a" and "stuck a"
  shows "map_of (Messages (db s')) k = Some a"
proof -
  have p: "ms_Status a = Publishing" using assms(4) by (simp add: stuck_def)
  note ops = leaves_ops [OF assms(3) p] leaves_Update [OF assms(2,3) p] leaves_Once [OF assms(2-4)]
  from assms(1) show ?thesis
  proof (cases rule: msg_step.cases)
    case (create newID subj inp)
    with Create_row [of newID subj inp s k] assms(3) show ?thesis by auto
  next
    case (inbox subj)
    from inbox_step_keeps [OF this, where P = "\<lambda>m. Messages m = Messages (db s)", OF keeps_category_writes(4)] assms(3)
    show ?thesis by simp
  next
    case (create_category newID subj cin)
    with CreateCategory_messages [of "Messages (db s)"] assms(3) show ?thesis by (auto simp: keeps_def)
  next
    case (update_category subj i cin)
    with UpdateCategory_messages [of "Messages (db s)"] assms(3) show ?thesis by (auto simp: keeps_def)
  next
    case (delete_category subj i)
    with DeleteCategory_messages [of "Messages (db s)"] assms(3) show ?thesis by (auto simp: keeps_def)
  qed (use ops assms(3) in \<open>auto simp: leaves_def FailOn_def\<close>)
qed

text \<open>
  C40. A message that is \<open>publishing\<close> without a schedule never leaves that state: nobody can send,
  edit, cancel, archive, revoke or delete it, and the scheduler does not claim it.
\<close>

theorem publishing_stuck:
  assumes "msg_run k s s'" and "wf_store (db s)" and "map_of (Messages (db s)) k = Some a" and "stuck a"
  shows "map_of (Messages (db s')) k = Some a"
  using assms
proof (induction rule: msg_run.induct)
  case (step s s' s'')
  from msg_run_changes [OF step.hyps(1) step.prems(1,2)] have "wf_store (db s')" ..
  from stuck_step [OF step.hyps(2) this] step.IH step.prems show ?case by blast
qed simp

section \<open>Witnesses\<close>

lemma inbox_sys_archive:
  "\<exists>b. map_of (Messages (db (snd (Messages_Archive ada ''m1'' False inbox_sys)))) ''m1'' = Some b \<and> ms_Status b = Archived"
  using inbox_sys_ok(1)
  by (simp add: Messages_Archive_def transition_def bindE_def with_db_def GetMessage_def inbox_sys_rows refuseE_def
      sample_message_def zero_message_def ada_def canManage_def strp_def status_defs SetMessageStatus_def Let_def
      table_simps emitE_def Messages_Get_def returnE_def healthy_def)

lemma one_step: "msg_step s s' \<Longrightarrow> map_of (Messages (db s)) k \<noteq> None \<Longrightarrow> msg_run k s s'"
  by (rule msg_run.step [OF msg_run.start]) auto



text \<open>A draft whose sending fails because the member directory does not answer.\<close>

definition draft_sys :: sys where
  "draft_sys = \<lparr> db = empty_store\<lparr> Messages := [(''m1'', (sample_message ''m1'' ''draft'')\<lparr>ms_SenderID := Some ''ada''\<rparr>)] \<rparr>,
     aud = None, live = [] \<rparr>"

definition failed_send :: "(goerr + send_result) \<times> sys" where
  "failed_send = Messages_Send (StaticDirectory [] (Some (Outside_Err ''unavailable''))) xs_id ada ''m1'' False draft_sys"

lemma failed_send_eval:
  "fst failed_send = Inl (Outside_Err ''unavailable'')"
  "db (snd failed_send) = (db draft_sys)\<lparr>Messages :=
     [(''m1'', (sample_message ''m1'' ''publishing'')\<lparr>ms_SenderID := Some ''ada''\<rparr>)]\<rparr>"
  by (simp_all add: failed_send_def draft_sys_def Messages_Send_def Messages_Publish_def bindE_def with_db_def
      GetMessage_def with_fail_def refuseE_def getE_def liftSum_def StaticDirectory_def SetMessageStatus_def Let_def
      sample_message_def zero_message_def empty_store_def ada_def canManage_def strp_def status_defs
      decode_recipients_def decorateMessage_def rows_def)

theorem publishing_stuck_witness:
  "fst failed_send = Inl (Outside_Err ''unavailable'') \<and>
   status_of (db (snd (Scheduler_Once sample_directory message_nid
     \<lparr>sc_Interval = 15, sc_Lease = 60, sc_Batch = 50\<rparr> (snd failed_send)))) ''m1'' = Some Publishing"
proof -
  let ?a = "(sample_message ''m1'' ''publishing'')\<lparr>ms_SenderID := Some ''ada''\<rparr>"
  have row: "map_of (Messages (db (snd failed_send))) ''m1'' = Some ?a" by (simp add: failed_send_eval)
  have wf: "wf_store (db (snd failed_send))"
    by (simp add: failed_send_eval draft_sys_def wf_store_def wf_defs wf_table_def rows_def categories_ok_def
        category_ok_def sample_message_def zero_message_def empty_store_def)
  have st: "stuck ?a" by (simp add: stuck_def sample_message_def zero_message_def status_defs)
  from publishing_stuck [OF one_step [OF msg_step.scheduler] wf row st] row st show ?thesis
    by (simp add: failed_send_eval(1) status_of_def stuck_def)
qed

end
