(* ===== verification/Paging.thy ===== *)
theory Paging
  imports InboxSvc
begin

text \<open>
  Keyset paging: the contract of a listing that hands out pages with a cursor, what following the
  cursors gives, and the listings of messages and of the inbox as instances.
\<close>

section \<open>The cursor\<close>

text \<open>What the cursor relies on of the time format: it can be read back and contains no bar.\<close>

definition time_format :: "(time \<Rightarrow> string) \<Rightarrow> (string \<Rightarrow> time option) \<Rightarrow> bool" where
  "time_format fmt prs \<longleftrightarrow> (\<forall>t. prs (fmt t) = Some t \<and> fmt t \<noteq> [] \<and> CHR ''|'' \<notin> set (fmt t))"

lemma EncodeCursor_nonempty [simp]: "EncodeCursor fmt ts i \<noteq> []"
  by (simp add: EncodeCursor_def)

lemma DecodeCursor_Nil [simp]: "DecodeCursor prs [] = Inr (0, [])"
  by (simp add: DecodeCursor_def)

lemma DecodeCursor_EncodeCursor:
  assumes "time_format fmt prs"
  shows "DecodeCursor prs (EncodeCursor fmt ts i) = Inr (ts, i)"
proof -
  from assms obtain x a where f: "fmt ts = x # a" "CHR ''|'' \<notin> set a" "prs (x # a) = Some ts"
    by (cases "fmt ts") (auto simp: time_format_def dest: spec [of _ ts])
  with Cut_append [of "CHR ''|''" a i] show ?thesis
    by (simp add: EncodeCursor_def DecodeCursor_def)
qed

section \<open>The contract of a paged listing\<close>

text \<open>A client that follows the cursors from the first page until none is given.\<close>

fun walk :: "nat \<Rightarrow> (string \<Rightarrow> 'r list \<times> string) \<Rightarrow> string \<Rightarrow> 'r list option" where
  "walk 0 page c = None"
| "walk (Suc n) page c = (case page c of (xs, nxt) \<Rightarrow>
     if nxt = '''' then Some xs else map_option ((@) xs) (walk n page nxt))"

locale cursor_pages =
  fixes ok :: "'s \<Rightarrow> bool"
    and every :: "'s \<Rightarrow> 'r list"
    and key :: "'r \<Rightarrow> 'k :: order"
    and enc :: "'s \<Rightarrow> 'k \<Rightarrow> string"
    and lim :: "'s \<Rightarrow> nat"
    and after :: "'s \<Rightarrow> string \<Rightarrow> 'r list"
    and page :: "'s \<Rightarrow> string \<Rightarrow> 'r list \<times> string"
  assumes after_first: "ok s \<Longrightarrow> after s [] = every s"
    and after_next: "ok s \<Longrightarrow> r \<in> set (every s) \<Longrightarrow> after s (enc s (key r)) = filter (\<lambda>x. key x < key r) (every s)"
    and page_slice: "ok s \<Longrightarrow> c = [] \<or> (\<exists>r \<in> set (every s). c = enc s (key r)) \<Longrightarrow>
      fst (page s c) = take (lim s) (after s c)"
    and page_end: "ok s \<Longrightarrow> c = [] \<or> (\<exists>r \<in> set (every s). c = enc s (key r)) \<Longrightarrow>
      snd (page s c) = [] \<Longrightarrow> length (after s c) \<le> lim s"
    and page_cursor: "ok s \<Longrightarrow> c = [] \<or> (\<exists>r \<in> set (every s). c = enc s (key r)) \<Longrightarrow>
      snd (page s c) \<noteq> [] \<Longrightarrow> fst (page s c) \<noteq> [] \<and> snd (page s c) = enc s (key (last (fst (page s c))))"
    and newest_order: "ok s \<Longrightarrow> sorted_wrt (\<lambda>a b. key b < key a) (every s)"
begin

lemma rest_of_page:
  assumes "sorted_wrt (\<lambda>a b. key b < key a) (as @ r # bs)"
  shows "filter (\<lambda>x. key x < key r) (as @ r # bs) = bs"
proof -
  have "\<not> key x < key r" if "x \<in> set as" for x
    using assms that by (auto simp: sorted_wrt_append dest: less_asym)
  moreover have "key x < key r" if "x \<in> set bs" for x
    using assms that by (auto simp: sorted_wrt_append)
  ultimately show ?thesis by (simp add: filter_empty_conv)
qed

text \<open>From a cursor behind which the rows \<open>rest\<close> are left, the walk returns exactly these.\<close>

lemma walk_rest:
  assumes "ok s" and "every s = done @ rest" and "length rest < n"
    and "if done = [] then c = [] else c = enc s (key (last done))"
  shows "walk n (page s) c = Some rest"
  using assms(2-)
proof (induction n arbitrary: "done" rest c)
  case (Suc n)
  have c: "c = [] \<or> (\<exists>r \<in> set (every s). c = enc s (key r))"
    using Suc.prems(1,3) by (auto split: if_splits)
  have a: "after s c = rest"
  proof (cases "done = []")
    case True
    with Suc.prems after_first [OF assms(1)] show ?thesis by simp
  next
    case False
    then have d: "every s = butlast done @ last done # rest" using Suc.prems(1) by simp
    with newest_order [OF assms(1)] have f: "filter (\<lambda>x. key x < key (last done)) (every s) = rest"
      by (metis rest_of_page)
    from d have "last done \<in> set (every s)" by simp
    from after_next [OF assms(1) this, unfolded f] False Suc.prems(3) show ?thesis by simp
  qed
  note p = page_slice [OF assms(1) c, unfolded a]
  show ?case
  proof (cases "snd (page s c) = []")
    case True
    with page_end [OF assms(1) c True] a p show ?thesis by (cases "page s c") simp
  next
    case False
    let ?xs = "take (lim s) rest"
    from page_cursor [OF assms(1) c False] p have ne: "?xs \<noteq> []" and nx: "snd (page s c) = enc s (key (last ?xs))" by simp_all
    have "walk n (page s) (enc s (key (last ?xs))) = Some (drop (lim s) rest)"
    proof (rule Suc.IH [of "done @ ?xs"])
      show "every s = (done @ ?xs) @ drop (lim s) rest" using Suc.prems(1) by simp
      from ne have "0 < length rest" "0 < lim s" by auto
      with Suc.prems(2) show "length (drop (lim s) rest) < n" by (simp, arith)
      show "if done @ ?xs = [] then enc s (key (last ?xs)) = []
            else enc s (key (last ?xs)) = enc s (key (last (done @ ?xs)))" using ne by simp
    qed
    with False p nx show ?thesis
      by (cases "page s c") (simp add: append_take_drop_id)
  qed
qed simp

lemma walk_complete: "ok s \<Longrightarrow> length (every s) < n \<Longrightarrow> walk n (page s) [] = Some (every s)"
  using walk_rest [of s "[]" "every s" n "[]"] by simp

end

section \<open>Sorted rows\<close>

lemma newest_first_take:
  "0 < limit \<Longrightarrow> newest_first key limit out = take (nat limit) (rev (sort_key key out))"
  by (simp add: newest_first_def)

lemma filter_newest: "filter P (rev (sort_key key out)) = rev (sort_key key (filter P out))"
  by (simp add: rev_filter [symmetric] filter_sort)

lemma sorted_newest:
  assumes "distinct (map key out)"
  shows "sorted_wrt (\<lambda>a b. key b < key a) (rev (sort_key key out))"
proof -
  have "sorted (map key (sort_key key out))" "distinct (map key (sort_key key out))"
    using assms by (simp_all add: distinct_map)
  then have "sorted_wrt (<) (map key (sort_key key out))" by (simp add: strict_sorted_iff)
  then show ?thesis by (simp add: sorted_wrt_rev sorted_wrt_map)
qed

lemma insort_key_map: "insort_key k (f x) (map f xs) = map f (insort_key (\<lambda>x. k (f x)) x xs)"
  by (induction xs) auto

lemma sort_key_map: "sort_key k (map f xs) = map f (sort_key (\<lambda>x. k (f x)) xs)"
  by (induction xs) (simp_all add: insort_key_map)

lemma newest_first_map: "newest_first k limit (map f xs) = map f (newest_first (\<lambda>x. k (f x)) limit xs)"
  by (simp add: newest_first_def sort_key_map rev_map take_map Let_def)

section \<open>Listings, newest first\<close>

text \<open>
  What the listings of the services have in common: the rows that match, newest first with ties by
  id, shown through a view, a page of them from the cursor on, and a next cursor when the page is full.
\<close>

definition listing :: "('x \<Rightarrow> time \<times> string) \<Rightarrow> 'x list \<Rightarrow> 'x list" where
  "listing kx out = rev (sort_key kx out)"

lemma before_cursor_iff: "\<not> IsZero cts \<Longrightarrow> before_cursor cts cid ts i \<longleftrightarrow> (ts, i) < (cts, cid)"
  by (auto simp: before_cursor_def less_prod_def)

definition page_from ::
  "('x \<Rightarrow> time \<times> string) \<Rightarrow> nat \<Rightarrow> ('x \<Rightarrow> 'r) \<Rightarrow> (time \<Rightarrow> string) \<Rightarrow> 'x list \<Rightarrow> time \<times> string \<Rightarrow> 'r list \<times> string" where
  "page_from kx lim vw fmt ms c =
     (let xs = newest_first kx (int lim) (filter (\<lambda>x. before_cursor (fst c) (snd c) (fst (kx x)) (snd (kx x))) ms)
      in (map vw xs, if length xs = lim then EncodeCursor fmt (fst (kx (last xs))) (snd (kx (last xs))) else []))"

locale newest_listing =
  fixes ok :: "'s \<Rightarrow> bool"
    and fmt :: "'s \<Rightarrow> time \<Rightarrow> string"
    and prs :: "'s \<Rightarrow> string \<Rightarrow> time option"
    and lim :: "'s \<Rightarrow> nat"
    and matching :: "'s \<Rightarrow> 'x list"
    and kx :: "'x \<Rightarrow> time \<times> string"
    and shown :: "'s \<Rightarrow> 'x \<Rightarrow> 'r"
    and key :: "'r \<Rightarrow> time \<times> string"
    and page :: "'s \<Rightarrow> string \<Rightarrow> 'r list \<times> string"
  assumes ok_format: "ok s \<Longrightarrow> time_format (fmt s) (prs s)"
    and ok_lim: "ok s \<Longrightarrow> 0 < lim s"
    and view_key: "key (shown s x) = kx x"
    and ok_distinct: "ok s \<Longrightarrow> distinct (map kx (matching s))"
    and ok_created: "ok s \<Longrightarrow> x \<in> set (matching s) \<Longrightarrow> \<not> IsZero (fst (kx x))"
    and page_at: "ok s \<Longrightarrow> DecodeCursor (prs s) c = Inr t \<Longrightarrow>
      page s c = page_from kx (lim s) (shown s) (fmt s) (matching s) t"
begin

lemma page_items:
  assumes "ok s" and "DecodeCursor (prs s) c = Inr t"
  shows "fst (page s c) = take (lim s) (map (shown s) (filter (\<lambda>x. before_cursor (fst t) (snd t) (fst (kx x)) (snd (kx x)))
     (listing kx (matching s))))"
  using page_at [OF assms] ok_lim [OF assms(1)]
  by (simp add: page_from_def newest_first_take listing_def filter_newest take_map Let_def)

lemma page_next_cursor:
  assumes "ok s" and "DecodeCursor (prs s) c = Inr t"
  shows "snd (page s c) = (if length (fst (page s c)) = lim s
     then EncodeCursor (fmt s) (fst (key (last (fst (page s c))))) (snd (key (last (fst (page s c))))) else [])"
proof -
  let ?xs = "newest_first kx (int (lim s)) (filter (\<lambda>x. before_cursor (fst t) (snd t) (fst (kx x)) (snd (kx x))) (matching s))"
  show ?thesis
    using page_at [OF assms] ok_lim [OF assms(1)]
    by (cases "?xs = []") (simp_all add: page_from_def last_map view_key Let_def)
qed

end

sublocale newest_listing \<subseteq>
  cursor_pages ok "\<lambda>s. map (shown s) (listing kx (matching s))" key "\<lambda>s k. EncodeCursor (fmt s) (fst k) (snd k)" lim
    "\<lambda>s c. case DecodeCursor (prs s) c of Inl _ \<Rightarrow> []
       | Inr t \<Rightarrow> map (shown s) (filter (\<lambda>x. before_cursor (fst t) (snd t) (fst (kx x)) (snd (kx x))) (listing kx (matching s)))"
    page
proof
  fix s assume ok: "ok s"
  show "(case DecodeCursor (prs s) [] of Inl _ \<Rightarrow> []
       | Inr t \<Rightarrow> map (shown s) (filter (\<lambda>x. before_cursor (fst t) (snd t) (fst (kx x)) (snd (kx x))) (listing kx (matching s)))) =
      map (shown s) (listing kx (matching s))"
    by (simp add: before_cursor_def IsZero_def)
  show "sorted_wrt (\<lambda>a b. key b < key a) (map (shown s) (listing kx (matching s)))"
    using sorted_newest [OF ok_distinct [OF ok]] by (simp add: listing_def sorted_wrt_map view_key)
next
  fix s r assume ok: "ok s" and r: "r \<in> set (map (shown s) (listing kx (matching s)))"
  then obtain x where x: "r = shown s x" "x \<in> set (matching s)" by (auto simp: listing_def)
  note d = DecodeCursor_EncodeCursor [OF ok_format [OF ok], of "fst (key r)" "snd (key r)"]
  show "(case DecodeCursor (prs s) (EncodeCursor (fmt s) (fst (key r)) (snd (key r))) of Inl _ \<Rightarrow> []
       | Inr t \<Rightarrow> map (shown s) (filter (\<lambda>x. before_cursor (fst t) (snd t) (fst (kx x)) (snd (kx x))) (listing kx (matching s)))) =
      filter (\<lambda>x. key x < key r) (map (shown s) (listing kx (matching s)))"
    using d ok_created [OF ok x(2)] by (simp add: before_cursor_iff filter_map comp_def view_key x(1))
next
  fix s c assume ok: "ok s" and
    "c = [] \<or> (\<exists>r \<in> set (map (shown s) (listing kx (matching s))). c = EncodeCursor (fmt s) (fst (key r)) (snd (key r)))"
  then obtain t where t: "DecodeCursor (prs s) c = Inr t"
    using DecodeCursor_EncodeCursor [OF ok_format [OF ok]] by auto
  let ?after = "case DecodeCursor (prs s) c of Inl _ \<Rightarrow> []
       | Inr t \<Rightarrow> map (shown s) (filter (\<lambda>x. before_cursor (fst t) (snd t) (fst (kx x)) (snd (kx x))) (listing kx (matching s)))"
  show p: "fst (page s c) = take (lim s) ?after"
    using page_items [OF ok t] by (simp add: t)
  note n = page_next_cursor [OF ok t]
  show "length ?after \<le> lim s" if "snd (page s c) = []"
    using that n p by (auto simp: min_def split: if_splits)
  show "fst (page s c) \<noteq> [] \<and> snd (page s c) = EncodeCursor (fmt s) (fst (key (last (fst (page s c))))) (snd (key (last (fst (page s c)))))"
    if "snd (page s c) \<noteq> []"
    using that n ok_lim [OF ok] by (auto split: if_splits)
qed

section \<open>The inbox\<close>

type_synonym inbox_listing = "sys \<times> (time \<Rightarrow> string) \<times> (string \<Rightarrow> time option) \<times> subjects \<times> string \<times> int"

definition inbox_pages :: "inbox_listing \<Rightarrow> string \<Rightarrow> entry_view list \<times> string" where
  "inbox_pages a c = (case a of (s, fmt, prs, subj, status, limit) \<Rightarrow>
     case fst (Inbox_List fmt prs subj status c limit s) of
       Inl e \<Rightarrow> ([], []) | Inr p \<Rightarrow> (pg_Items p, pg_NextCursor p))"

text \<open>The caller's entries under the filter, newest first.\<close>

definition inbox_entries :: "inbox_listing \<Rightarrow> entry_view list" where
  "inbox_entries a = (case a of (s, fmt, prs, subj, status, limit) \<Rightarrow>
     map inbox_view (map (withMessage (db s)) (listing (\<lambda>i. (ib_CreatedAt i, ib_ID i))
       (filter (inbox_matches (sj_TenantID subj) (sj_UserID subj) (if status = ''all'' then '''' else status))
         (rows (Inbox (db s)))))))"

definition inbox_listing_ok :: "inbox_listing \<Rightarrow> bool" where
  "inbox_listing_ok a = (case a of (s, fmt, prs, subj, status, limit) \<Rightarrow>
     healthy (db s) \<and> wf_store (db s) \<and> time_format fmt prs \<and> status \<in> {'''', ''all'', ''unread'', ''read''} \<and>
     (\<forall>i \<in> set (rows (Inbox (db s))). \<not> IsZero (ib_CreatedAt i)))"

lemma created_keys_distinct:
  assumes "wf_table idf t"
  shows "distinct (map (\<lambda>r. (f r, idf r)) (filter p (rows t)))"
proof -
  have "map idf (rows t) = map fst t" using assms by (auto simp: wf_table_def rows_def list_all_iff)
  then have "distinct (map idf (rows t))" using assms by (simp add: wf_table_def)
  then have "distinct (map (\<lambda>r. (f r, idf r)) (rows t))"
    by (auto simp: distinct_map inj_on_def)
  then show ?thesis by (rule distinct_map_filter)
qed

lemma clamp_pos: "0 < clamp_limit n"
  by (simp add: clamp_limit_def)

lemma length_clamp: "length xs = nat (clamp_limit n) \<longleftrightarrow> int (length xs) = clamp_limit n"
  using clamp_pos [of n] by auto

lemma Inbox_List_ok:
  assumes "healthy (db s)" and "status \<in> {'''', ''all'', ''unread'', ''read''}" and "DecodeCursor prs c = Inr t"
  shows "inbox_pages (s, fmt, prs, subj, status, limit) c =
    page_from (\<lambda>i. (ib_CreatedAt i, ib_ID i)) (nat (clamp_limit limit)) (\<lambda>i. inbox_view (withMessage (db s) i)) fmt
      (filter (inbox_matches (sj_TenantID subj) (sj_UserID subj) (if status = ''all'' then '''' else status))
         (rows (Inbox (db s)))) t"
proof -
  let ?st = "if status = ''all'' then '''' else status" and ?lim = "clamp_limit limit"
  let ?ms = "filter (inbox_matches (sj_TenantID subj) (sj_UserID subj) ?st) (rows (Inbox (db s)))"
  let ?xs = "newest_first (\<lambda>i. (ib_CreatedAt i, ib_ID i)) ?lim
     (filter (\<lambda>i. before_cursor (fst t) (snd t) (ib_CreatedAt i) (ib_ID i)) ?ms)"
  have pg: "InboxPage (sj_TenantID subj) (sj_UserID subj) ?st (fst t) (snd t) ?lim (db s) =
      (Inr (map (withMessage (db s)) ?xs), db s)"
    using assms(1) by (simp add: InboxPage_def newest_first_map Let_def conj_commute)
  have ne: "int (length ?xs) = ?lim \<Longrightarrow> ?xs \<noteq> []" using clamp_pos [of limit] by auto
  have "status \<in> {'''', ''all'', ''unread'', ''read''} = True" using assms(2) by simp
  then have "fst (Inbox_List fmt prs subj status c limit s) = Inr \<lparr> pg_Items = map inbox_view (map (withMessage (db s)) ?xs),
      pg_Unread = int (unread_count subj (db s)),
      pg_NextCursor = (if int (length ?xs) = ?lim then EncodeCursor fmt (ib_CreatedAt (last ?xs)) (ib_ID (last ?xs)) else []) \<rparr>"
    using pg InboxUnread_healthy [OF assms(1), of subj] assms(3) ne
    by (cases t) (simp add: Inbox_List_def bindE_def refuseE_def mapErrE_def liftSum_def with_db_def returnE_def Let_def last_map
        del: if_split)
  then show ?thesis
    using clamp_pos [of limit] by (simp add: inbox_pages_def page_from_def length_clamp Let_def)
qed

interpretation inbox: newest_listing inbox_listing_ok "\<lambda>(s, fmt, prs, subj, status, limit). fmt"
  "\<lambda>(s, fmt, prs, subj, status, limit). prs" "\<lambda>(s, fmt, prs, subj, status, limit). nat (clamp_limit limit)"
  "\<lambda>(s, fmt, prs, subj, status, limit). filter (inbox_matches (sj_TenantID subj) (sj_UserID subj)
     (if status = ''all'' then '''' else status)) (rows (Inbox (db s)))"
  "\<lambda>i. (ib_CreatedAt i, ib_ID i)" "\<lambda>(s, fmt, prs, subj, status, limit) i. inbox_view (withMessage (db s) i)"
  "\<lambda>e. (en_CreatedAt e, en_ID e)" inbox_pages
proof
  fix a :: inbox_listing assume ok: "inbox_listing_ok a"
  obtain s fmt prs subj status limit where a: "a = (s, fmt, prs, subj, status, limit)" by (cases a)
  fix c t
  assume "DecodeCursor ((\<lambda>(s, fmt, prs, subj, status, limit). prs) a) c = Inr t"
  then have d: "DecodeCursor prs c = Inr t" by (simp add: a)
  have "healthy (db s)" "status \<in> {'''', ''all'', ''unread'', ''read''}" using ok by (auto simp: a inbox_listing_ok_def)
  from Inbox_List_ok [OF this d]
  show "inbox_pages a c = page_from (\<lambda>i. (ib_CreatedAt i, ib_ID i)) ((\<lambda>(s, fmt, prs, subj, status, limit). nat (clamp_limit limit)) a)
     ((\<lambda>(s, fmt, prs, subj, status, limit) i. inbox_view (withMessage (db s) i)) a)
     ((\<lambda>(s, fmt, prs, subj, status, limit). fmt) a)
     ((\<lambda>(s, fmt, prs, subj, status, limit). filter (inbox_matches (sj_TenantID subj) (sj_UserID subj)
        (if status = ''all'' then '''' else status)) (rows (Inbox (db s)))) a) t"
    by (simp add: a)
qed (auto simp: inbox_listing_ok_def clamp_pos inbox_view_def wf_store_def wf_inbox_def intro!: created_keys_distinct)

lemma inbox_entries_listing:
  "inbox_entries (s, fmt, prs, subj, status, limit) = map (\<lambda>i. inbox_view (withMessage (db s) i))
     (listing (\<lambda>i. (ib_CreatedAt i, ib_ID i)) (filter (inbox_matches (sj_TenantID subj) (sj_UserID subj)
       (if status = ''all'' then '''' else status)) (rows (Inbox (db s)))))"
  by (simp add: inbox_entries_def)

text \<open>
  C38. Following the cursors of the inbox from the first page, a person gets every entry of theirs
  that is visible and matches the filter, exactly once and newest first, in at most one page more
  than there are entries, whatever the page size.
\<close>

theorem inbox_walk:
  assumes "inbox_listing_ok (s, fmt, prs, subj, status, limit)"
  shows "walk (Suc (length (rows (Inbox (db s))))) (inbox_pages (s, fmt, prs, subj, status, limit)) [] =
    Some (inbox_entries (s, fmt, prs, subj, status, limit))"
  using inbox.walk_complete [OF assms, of "Suc (length (rows (Inbox (db s))))"]
  by (simp add: inbox_entries_listing listing_def le_imp_less_Suc)

section \<open>Messages\<close>

type_synonym message_listing = "sys \<times> (time \<Rightarrow> string) \<times> (string \<Rightarrow> time option) \<times> subjects \<times> list_filter \<times> bool"

definition message_pages :: "message_listing \<Rightarrow> string \<Rightarrow> message_view list \<times> string" where
  "message_pages a c = (case a of (s, fmt, prs, subj, f, manage) \<Rightarrow>
     case fst (Messages_List fmt prs subj (f\<lparr>li_Cursor := c\<rparr>) manage s) of Inl e \<Rightarrow> ([], []) | Inr p \<Rightarrow> p)"

text \<open>The messages a person may list: all of the tenant for a manager, their own otherwise.\<close>

definition message_query :: "subjects \<Rightarrow> list_filter \<Rightarrow> bool \<Rightarrow> message \<Rightarrow> bool" where
  "message_query subj f manage x \<longleftrightarrow> ms_TenantID x = sj_TenantID subj \<and>
     (li_Status f = '''' \<or> ms_Status x = li_Status f) \<and>
     (li_CategoryID f = '''' \<or> strp (ms_CategoryID x) = li_CategoryID f) \<and>
     (li_Q f = '''' \<or> Contains (ToLower (ms_Title x)) (ToLower (li_Q f))) \<and>
     (manage \<or> strp (ms_SenderID x) = sj_UserID subj)"

definition message_listing_ok :: "message_listing \<Rightarrow> bool" where
  "message_listing_ok a = (case a of (s, fmt, prs, subj, f, manage) \<Rightarrow>
     healthy (db s) \<and> wf_store (db s) \<and> time_format fmt prs \<and> (manage \<or> sj_UserID subj \<noteq> '''') \<and>
     (\<forall>x \<in> set (rows (Messages (db s))). \<not> IsZero (ms_CreatedAt x)))"

lemma Messages_List_ok:
  assumes "healthy (db s)" and "manage \<or> sj_UserID subj \<noteq> ''''" and "DecodeCursor prs c = Inr t"
  shows "message_pages (s, fmt, prs, subj, f, manage) c =
    page_from (\<lambda>x. (ms_CreatedAt x, ms_ID x)) (nat (clamp_limit (li_Limit f))) (\<lambda>x. messageView (decorateMessage (db s) x)) fmt
      (filter (message_query subj f manage) (rows (Messages (db s)))) t"
proof -
  let ?lim = "clamp_limit (li_Limit f)"
  let ?mf = "\<lparr> mf_Status = li_Status f, mf_CategoryID = li_CategoryID f, mf_Q = li_Q f,
     mf_SenderID = (if \<not> manage then sj_UserID subj else []), mf_CursorTS = fst t, mf_CursorID = snd t, mf_Limit = ?lim \<rparr>"
  let ?xs = "newest_first (\<lambda>x. (ms_CreatedAt x, ms_ID x)) ?lim
     (filter (\<lambda>x. before_cursor (fst t) (snd t) (ms_CreatedAt x) (ms_ID x))
       (filter (message_query subj f manage) (rows (Messages (db s)))))"
  have q: "message_matches (sj_TenantID subj) ?mf = message_query subj f manage"
    using assms(2) by (auto simp: message_matches_def message_query_def fun_eq_iff)
  have k: "ms_CreatedAt (decorateMessage m x) = ms_CreatedAt x" for m x
    by (simp add: decorateMessage_def Let_def split: option.splits)
  have pg: "ListMessages (sj_TenantID subj) ?mf (db s) = (Inr (map (decorateMessage (db s)) ?xs), db s)"
    using assms(1) by (simp add: ListMessages_def q newest_first_map k Let_def conj_commute)
  have ne: "int (length ?xs) = ?lim \<Longrightarrow> ?xs \<noteq> []" using clamp_pos [of "li_Limit f"] by auto
  have "fst (Messages_List fmt prs subj (f\<lparr>li_Cursor := c\<rparr>) manage s) =
      Inr (map messageView (map (decorateMessage (db s)) ?xs),
        if int (length ?xs) = ?lim then EncodeCursor fmt (ms_CreatedAt (last ?xs)) (ms_ID (last ?xs)) else [])"
    using pg assms(2,3) ne k [of "db s" "last ?xs"]
    by (cases t) (auto simp: Messages_List_def bindE_def liftSum_def with_db_def returnE_def Let_def last_map)
  then show ?thesis
    using clamp_pos [of "li_Limit f"] by (simp add: message_pages_def page_from_def length_clamp Let_def)
qed

interpretation messages: newest_listing message_listing_ok "\<lambda>(s, fmt, prs, subj, f, manage). fmt"
  "\<lambda>(s, fmt, prs, subj, f, manage). prs" "\<lambda>(s, fmt, prs, subj, f, manage). nat (clamp_limit (li_Limit f))"
  "\<lambda>(s, fmt, prs, subj, f, manage). filter (message_query subj f manage) (rows (Messages (db s)))"
  "\<lambda>x. (ms_CreatedAt x, ms_ID x)" "\<lambda>(s, fmt, prs, subj, f, manage) x. messageView (decorateMessage (db s) x)"
  "\<lambda>v. (mv_CreatedAt v, mv_ID v)" message_pages
proof
  fix a :: message_listing assume ok: "message_listing_ok a"
  obtain s fmt prs subj f manage where a: "a = (s, fmt, prs, subj, f, manage)" by (cases a)
  fix c t
  assume "DecodeCursor ((\<lambda>(s, fmt, prs, subj, f, manage). prs) a) c = Inr t"
  then have d: "DecodeCursor prs c = Inr t" by (simp add: a)
  have "healthy (db s)" "manage \<or> sj_UserID subj \<noteq> ''''" using ok by (auto simp: a message_listing_ok_def)
  from Messages_List_ok [OF this d]
  show "message_pages a c = page_from (\<lambda>x. (ms_CreatedAt x, ms_ID x))
     ((\<lambda>(s, fmt, prs, subj, f, manage). nat (clamp_limit (li_Limit f))) a)
     ((\<lambda>(s, fmt, prs, subj, f, manage) x. messageView (decorateMessage (db s) x)) a)
     ((\<lambda>(s, fmt, prs, subj, f, manage). fmt) a)
     ((\<lambda>(s, fmt, prs, subj, f, manage). filter (message_query subj f manage) (rows (Messages (db s)))) a) t"
    by (simp add: a)
qed (auto simp: message_listing_ok_def clamp_pos messageView_def decorateMessage_def Let_def wf_store_def wf_messages_def
    intro!: created_keys_distinct split: option.splits)

text \<open>
  Following the cursors of the message listing gives every message the caller may list (all of
  the tenant for a manager, their own otherwise) that matches the filters, exactly once, newest first.
\<close>

theorem messages_walk:
  assumes "message_listing_ok (s, fmt, prs, subj, f, manage)"
  shows "walk (Suc (length (rows (Messages (db s))))) (message_pages (s, fmt, prs, subj, f, manage)) [] =
    Some (map (\<lambda>x. messageView (decorateMessage (db s) x))
      (listing (\<lambda>x. (ms_CreatedAt x, ms_ID x)) (filter (message_query subj f manage) (rows (Messages (db s))))))"
  using messages.walk_complete [OF assms, of "Suc (length (rows (Messages (db s))))"]
  by (simp add: listing_def le_imp_less_Suc)

section \<open>Witnesses\<close>

text \<open>A time format: a sign and a bar code of the number.\<close>

definition tally :: "time \<Rightarrow> string" where
  "tally t = (if 0 \<le> t then CHR ''p'' # replicate (nat t) (CHR ''1'') else CHR ''n'' # replicate (nat (- t)) (CHR ''1''))"

definition untally :: "string \<Rightarrow> time option" where
  "untally s = (case s of [] \<Rightarrow> None | c # r \<Rightarrow>
     Some (if c = CHR ''p'' then int (length r) else - int (length r)))"

lemma tally_format: "time_format tally untally"
  by (auto simp: time_format_def tally_def untally_def)

definition listed_sys :: sys where
  "listed_sys = inbox_sys\<lparr>db := (db inbox_sys)\<lparr>
     Inbox := map_rows (\<lambda>k e. e\<lparr>ib_CreatedAt := 4\<rparr>) (Inbox (db inbox_sys)),
     Messages := map_rows (\<lambda>k x. x\<lparr>ms_CreatedAt := 4\<rparr>) (Messages (db inbox_sys))\<rparr>\<rparr>"

lemma listed_sys_ok: "healthy (db listed_sys)" "wf_store (db listed_sys)"
  by (simp_all add: listed_sys_def inbox_sys_def healthy_def wf_store_def wf_defs wf_table_def rows_def categories_ok_def
      category_ok_def no_clash_def inbox_clash_def inbox_ok_def sample_entry_def inbox_entry_def map_rows_def
      sample_message_def zero_message_def empty_store_def)

lemma listed_sys_created:
  "\<forall>i \<in> set (rows (Inbox (db listed_sys))). \<not> IsZero (ib_CreatedAt i)"
  "\<forall>x \<in> set (rows (Messages (db listed_sys))). \<not> IsZero (ms_CreatedAt x)"
  by (simp_all add: listed_sys_def inbox_sys_def map_rows_def rows_def IsZero_def)

theorem inbox_walk_witness:
  "map_option (map en_ID) (walk 3 (inbox_pages (listed_sys, tally, untally, bob, ''all'', 1)) []) = Some [''e1'']"
proof -
  have ok: "inbox_listing_ok (listed_sys, tally, untally, bob, ''all'', 1)"
    using listed_sys_ok tally_format listed_sys_created(1) by (simp add: inbox_listing_ok_def)
  have n: "Suc (length (rows (Inbox (db listed_sys)))) = 3"
    by (simp add: listed_sys_def inbox_sys_def map_rows_def rows_def)
  show ?thesis
    using inbox_walk [OF ok, unfolded n]
    by (simp add: inbox_entries_listing listing_def listed_sys_def inbox_sys_def map_rows_def rows_def inbox_matches_def
        visible_entry_def bob_def sample_entry_def inbox_entry_def)
qed

theorem messages_walk_witness:
  "\<exists>vs. walk 2 (message_pages (listed_sys, tally, untally, ada,
      \<lparr>li_Status = [], li_CategoryID = [], li_Q = [], li_Cursor = [], li_Limit = 1\<rparr>, True)) [] = Some vs \<and> map mv_ID vs = [''m1'']"
proof -
  let ?f = "\<lparr>li_Status = [], li_CategoryID = [], li_Q = [], li_Cursor = [], li_Limit = 1\<rparr>"
  have ok: "message_listing_ok (listed_sys, tally, untally, ada, ?f, True)"
    using listed_sys_ok tally_format listed_sys_created(2) by (simp add: message_listing_ok_def)
  have n: "Suc (length (rows (Messages (db listed_sys)))) = 2"
    by (simp add: listed_sys_def inbox_sys_def map_rows_def rows_def)
  show ?thesis
    using messages_walk [OF ok, unfolded n]
    by (simp add: listing_def listed_sys_def inbox_sys_def map_rows_def rows_def message_query_def ada_def
        messageView_def sample_message_def zero_message_def)
qed

end
