(* ===== verification/StreamClient.thy ===== *)
theory StreamClient
  imports Models
begin

text \<open>
  \<open>internal/stream/client.go\<close>: stream ids and their order, the in-process client (\<open>Memory\<close>) and the
  rate limiter.
\<close>

section \<open>Numbers as text\<close>

text \<open>\<open>strconv.FormatInt(n, 10)\<close> and \<open>strconv.ParseInt(s, 10, 64)\<close>.\<close>

definition digit :: "nat \<Rightarrow> char" where
  "digit d = char_of (48 + d)"

fun nat_digits :: "nat \<Rightarrow> string" where
  "nat_digits n = (if n < 10 then [digit n] else nat_digits (n div 10) @ [digit (n mod 10)])"

declare nat_digits.simps [simp del]

definition FormatInt :: "int \<Rightarrow> string" where
  "FormatInt n = (if n < 0 then CHR ''-'' # nat_digits (nat (- n)) else nat_digits (nat n))"

definition digit_value :: "char \<Rightarrow> nat option" where
  "digit_value c = (let n = of_char c in if 48 \<le> n \<and> n \<le> 57 then Some (n - 48) else None)"

fun parse_digits :: "nat \<Rightarrow> string \<Rightarrow> nat option" where
  "parse_digits acc [] = Some acc"
| "parse_digits acc (c # s) = (case digit_value c of None \<Rightarrow> None | Some d \<Rightarrow> parse_digits (acc * 10 + d) s)"

text \<open>The value with the success flag: 0 for a syntax error, the bound of \<open>int64\<close> outside its range.\<close>

definition parse_unsigned :: "bool \<Rightarrow> string \<Rightarrow> int \<times> bool" where
  "parse_unsigned neg s = (case (if s = [] then None else parse_digits 0 s) of
      None \<Rightarrow> (0, False)
    | Some n \<Rightarrow> let v = (if neg then - int n else int n) in
        if v < MinInt64 then (MinInt64, False) else if v > MaxInt64 then (MaxInt64, False) else (v, True))"

definition ParseInt :: "string \<Rightarrow> int \<times> bool" where
  "ParseInt s = (case s of
      [] \<Rightarrow> (0, False)
    | c # r \<Rightarrow> if c = CHR ''-'' then parse_unsigned True r
              else if c = CHR ''+'' then parse_unsigned False r else parse_unsigned False s)"

lemma digit_value_digit [simp]: "d < 10 \<Longrightarrow> digit_value (digit d) = Some d"
  by (simp add: digit_value_def digit_def of_char_of)

lemma digit_not_sign [simp]: "d < 10 \<Longrightarrow> digit d \<noteq> CHR ''-''" "d < 10 \<Longrightarrow> digit d \<noteq> CHR ''+''"
  using digit_value_digit [of d] by (auto simp: digit_value_def)

lemma nat_digits_nonempty [simp]: "nat_digits n \<noteq> []"
  by (subst nat_digits.simps) simp

lemma nat_digits_set: "c \<in> set (nat_digits n) \<Longrightarrow> \<exists>d < 10. c = digit d"
proof (induction n rule: nat_digits.induct)
  case (1 n)
  from 1(2) have "n < 10 \<and> c = digit n \<or> \<not> n < 10 \<and> c \<in> set (nat_digits (n div 10)) \<or> c = digit (n mod 10)"
    by (subst (asm) nat_digits.simps) (auto split: if_splits)
  moreover have "\<exists>d < 10. digit (n mod 10) = digit d" by (intro exI [of _ "n mod 10"]) simp
  ultimately show ?case using 1(1) by blast
qed

lemma parse_digits_append:
  "parse_digits acc (s @ [digit d]) = map_option (\<lambda>n. n * 10 + d) (parse_digits acc s)" if "d < 10"
  using that by (induction s arbitrary: acc) (auto split: option.splits)

lemma parse_nat_digits: "parse_digits 0 (nat_digits n) = Some n"
proof (induction n rule: nat_digits.induct)
  case (1 n)
  show ?case
  proof (cases "n < 10")
    case True
    then show ?thesis by (subst nat_digits.simps) simp
  next
    case False
    with 1 show ?thesis by (subst nat_digits.simps) (simp add: parse_digits_append)
  qed
qed

lemma ParseInt_FormatInt:
  assumes "MinInt64 \<le> n" and "n \<le> MaxInt64"
  shows "ParseInt (FormatInt n) = (n, True)"
proof (cases "n < 0")
  case True
  with assms show ?thesis by (simp add: ParseInt_def FormatInt_def parse_unsigned_def parse_nat_digits Let_def)
next
  case False
  obtain c s where cs: "nat_digits (nat n) = c # s" by (cases "nat_digits (nat n)") auto
  with nat_digits_set [of c "nat n"] have "c \<noteq> CHR ''-''" "c \<noteq> CHR ''+''" by auto
  with False assms cs show ?thesis
    using parse_nat_digits [of "nat n"] by (simp add: ParseInt_def FormatInt_def parse_unsigned_def Let_def)
qed

section \<open>Stream ids\<close>

definition ID :: "time \<Rightarrow> int \<Rightarrow> string" where
  "ID at seq = FormatInt (UnixMilli at) @ ''-'' @ FormatInt seq"

definition ParseID :: "string \<Rightarrow> int \<times> int \<times> bool" where
  "ParseID i = (case Cut (CHR ''-'') i of (a, b, found) \<Rightarrow>
     if \<not> found then (0, 0, False)
     else let (ms, ok1) = ParseInt a; (seq, ok2) = ParseInt b in (ms, seq, ok1 \<and> ok2))"

definition Less :: "string \<Rightarrow> string \<Rightarrow> bool" where
  "Less a b = (let (am, as, ok1) = ParseID a; (bm, bs, ok2) = ParseID b in
     if am \<noteq> bm then am < bm else as < bs)"

lemma Less_pair: "Less a b \<longleftrightarrow> (fst (ParseID a), fst (snd (ParseID a))) < (fst (ParseID b), fst (snd (ParseID b)))"
  by (auto simp: Less_def less_prod_def split: prod.splits)

lemma Less_irrefl [simp]: "\<not> Less a a"
  by (simp add: Less_pair)

lemma Less_trans: "Less a b \<Longrightarrow> Less b c \<Longrightarrow> Less a c"
  unfolding Less_pair by (rule less_trans)

lemma ParseID_ID:
  assumes "0 \<le> UnixMilli at" and "UnixMilli at \<le> MaxInt64" and "MinInt64 \<le> seq" and "seq \<le> MaxInt64"
  shows "ParseID (ID at seq) = (UnixMilli at, seq, True)"
proof -
  have "CHR ''-'' \<notin> set (nat_digits k)" for k
  proof
    assume "CHR ''-'' \<in> set (nat_digits k)"
    then obtain d where "d < 10" "CHR ''-'' = digit d" using nat_digits_set by blast
    with digit_not_sign(1) [of d] show False by simp
  qed
  then have c: "Cut (CHR ''-'') (ID at seq) = (FormatInt (UnixMilli at), FormatInt seq, True)"
    using Cut_append assms(1) by (simp add: ID_def FormatInt_def)
  moreover have "MinInt64 \<le> UnixMilli at" using assms(1) by (simp add: MinInt64_def)
  ultimately show ?thesis
    using ParseInt_FormatInt assms by (simp add: ParseID_def)
qed

section \<open>The in-process client\<close>

record stream_entry =
  xe_ID :: string
  xe_Fields :: "string \<rightharpoonup> string"

record stream_mem =
  sm_streams :: "string \<Rightarrow> stream_entry list"
  sm_counters :: "string \<Rightarrow> int \<times> time"
  sm_seq :: int
  sm_Now :: time
  sm_Err :: "goerr option"

type_synonym 'a stream_op = "(stream_mem, goerr, 'a) op"

definition NewMemory :: "time \<Rightarrow> stream_mem" where
  "NewMemory now = \<lparr> sm_streams = (\<lambda>_. []), sm_counters = (\<lambda>_. (0, 0)), sm_seq = 0, sm_Now = now, sm_Err = None \<rparr>"

text \<open>\<open>if err := m.Err; err != nil { return err }\<close>\<close>

definition unless_down :: "'a stream_op \<Rightarrow> 'a stream_op" where
  "unless_down f m = (case sm_Err m of Some e \<Rightarrow> (Inl e, m) | None \<Rightarrow> f m)"

definition XAdd :: "string \<Rightarrow> (string \<rightharpoonup> string) \<Rightarrow> int \<Rightarrow> string stream_op" where
  "XAdd key flds maxLen = unless_down (\<lambda>m.
     let seq = sm_seq m + 1;
         i = ID (sm_Now m) seq;
         es = sm_streams m key @ [\<lparr> xe_ID = i, xe_Fields = flds \<rparr>];
         es' = (if maxLen > 0 \<and> int (length es) > maxLen then drop (length es - nat maxLen) es else es)
     in (Inr i, m\<lparr> sm_seq := seq, sm_streams := (sm_streams m)(key := es') \<rparr>))"

definition after :: "string \<Rightarrow> string \<Rightarrow> int \<Rightarrow> stream_mem \<Rightarrow> stream_entry list" where
  "after key afterID cnt m =
     (let out = filter (\<lambda>e. afterID = '''' \<or> Less afterID (xe_ID e)) (sm_streams m key)
      in if cnt > 0 then take (nat cnt) out else out)"

text \<open>
  A read that finds nothing waits: \<open>Inl\<close> when its context ends, \<open>None\<close> when the time is over, or
  the client's state when something was added.
\<close>

definition XRead ::
  "string \<Rightarrow> string \<Rightarrow> duration \<Rightarrow> int \<Rightarrow> goerr + stream_mem option \<Rightarrow> stream_mem \<Rightarrow> goerr + stream_entry list" where
  "XRead key afterID0 block cnt wake m = (case sm_Err m of
      Some e \<Rightarrow> Inl e
    | None \<Rightarrow>
        (let es = sm_streams m key;
             afterID = (if afterID0 = '''' \<or> afterID0 = ''$'' then (if es \<noteq> [] then xe_ID (last es) else ''0-0'') else afterID0);
             out = after key afterID cnt m in
         if out \<noteq> [] \<or> block \<le> 0 then Inr out
         else case wake of
             Inl e \<Rightarrow> Inl e
           | Inr None \<Rightarrow> Inr []
           | Inr (Some m') \<Rightarrow> (case sm_Err m' of Some e \<Rightarrow> Inl e | None \<Rightarrow> Inr (after key afterID cnt m'))))"

definition XRange :: "string \<Rightarrow> string \<Rightarrow> int \<Rightarrow> stream_entry list stream_op" where
  "XRange key afterID cnt = unless_down (\<lambda>m. (Inr (after key afterID cnt m), m))"

definition XLast :: "string \<Rightarrow> string stream_op" where
  "XLast key = unless_down (\<lambda>m. (Inr (if sm_streams m key \<noteq> [] then xe_ID (last (sm_streams m key)) else ''''), m))"

definition XTrimMinID :: "string \<Rightarrow> string \<Rightarrow> unit stream_op" where
  "XTrimMinID key minID = unless_down (\<lambda>m.
     (Inr (), m\<lparr>sm_streams := (sm_streams m)(key := filter (\<lambda>e. \<not> Less (xe_ID e) minID) (sm_streams m key))\<rparr>))"

definition Incr :: "string \<Rightarrow> duration \<Rightarrow> int stream_op" where
  "Incr key ttl = unless_down (\<lambda>m.
     let now = sm_Now m;
         (n, ex) = sm_counters m key;
         (n', ex') = (if n = 0 \<or> (\<not> IsZero ex \<and> \<not> now < ex) then (0, if ttl > 0 then now + ttl else 0) else (n, ex))
     in (Inr (n' + 1), m\<lparr>sm_counters := (sm_counters m)(key := (n' + 1, ex'))\<rparr>))"

definition Ping :: "unit stream_op" where
  "Ping = unless_down (\<lambda>m. (Inr (), m))"

definition Memory_Close :: "stream_mem \<Rightarrow> stream_mem" where
  "Memory_Close m = m\<lparr>sm_streams := (\<lambda>_. []), sm_counters := (\<lambda>_. (0, 0))\<rparr>"

section \<open>The rate limiter\<close>

definition RateKey :: "string \<Rightarrow> string \<Rightarrow> time \<Rightarrow> string" where
  "RateKey kind subject at = ''notif:rl:'' @ kind @ '':'' @ subject @ '':'' @ FormatInt (go_div (Unix at) 60)"

text \<open>The flag with the error, as the code returns both.\<close>

definition Limited :: "string \<Rightarrow> string \<Rightarrow> int \<Rightarrow> time \<Rightarrow> stream_mem \<Rightarrow> (bool \<times> goerr option) \<times> stream_mem" where
  "Limited kind subject limit at m =
     (if limit \<le> 0 then ((False, None), m)
      else case Incr (RateKey kind subject at) (2 * Minute) m of
          (Inl e, m') \<Rightarrow> ((True, Some e), m')
        | (Inr n, m') \<Rightarrow> ((n > limit, None), m'))"

text \<open>Calls of the limiter: the service's time and the counter's clock of each.\<close>

fun limited_calls :: "string \<Rightarrow> string \<Rightarrow> int \<Rightarrow> (time \<times> time) list \<Rightarrow> stream_mem \<Rightarrow> bool list" where
  "limited_calls kind subject limit [] m = []"
| "limited_calls kind subject limit ((at, now) # cs) m =
     (case Limited kind subject limit at (m\<lparr>sm_Now := now\<rparr>) of
        ((b, e), m') \<Rightarrow> b # limited_calls kind subject limit cs m')"

lemma limited_calls_down:
  "sm_Err m = Some e \<Longrightarrow> 0 < limit \<Longrightarrow> limited_calls kind subject limit cs m = replicate (length cs) True"
  by (induction kind subject limit cs m rule: limited_calls.induct)
    (auto simp: Limited_def Incr_def unless_down_def)

lemma limited_calls_from:
  assumes "0 < limit" and "sm_Err m = None" and "0 < n" and "sm_counters m (RateKey kind subject start) = (n, ex)" and "0 < ex"
    and "\<forall>(at, now) \<in> set cs. go_div (Unix at) 60 = go_div (Unix start) 60 \<and> now < ex"
  shows "limited_calls kind subject limit cs m =
    map (\<lambda>k. n + int k + 1 > limit) [0..<length cs]"
  using assms(2-6)
proof (induction cs arbitrary: m n)
  case (Cons c cs)
  obtain at now where c: "c = (at, now)" by (cases c)
  have key: "RateKey kind subject at = RateKey kind subject start" using Cons.prems(5) c by (simp add: RateKey_def)
  let ?m = "m\<lparr>sm_Now := now, sm_counters := (sm_counters m)(RateKey kind subject start := (n + 1, ex))\<rparr>"
  have l: "Limited kind subject limit at (m\<lparr>sm_Now := now\<rparr>) = ((n + 1 > limit, None), ?m)"
    using Cons.prems assms(1) c
    by (simp add: Limited_def key Incr_def unless_down_def IsZero_def)
  have "limited_calls kind subject limit cs ?m = map (\<lambda>k. (n + 1) + int k + 1 > limit) [0..<length cs]"
    using Cons.prems by (intro Cons.IH) auto
  also have "\<dots> = map (\<lambda>k. n + int k + 1 > limit) (map Suc [0..<length cs])"
    by (simp add: algebra_simps)
  finally show ?case
    by (simp add: c l map_Suc_upt upt_conv_Cons del: upt_Suc)
qed simp

text \<open>
  Within a minute window the limiter lets exactly the first \<open>limit\<close> calls of a subject through,
  however many there are, and none when its counter is down.
\<close>

theorem limiter_bound:
  assumes "0 < limit" and "0 \<le> t0" and "fst (sm_counters m (RateKey kind subject start)) = 0"
    and "\<forall>(at, now) \<in> set cs. go_div (Unix at) 60 = go_div (Unix start) 60 \<and> now < t0 + 2 * Minute"
  shows "limited_calls kind subject limit ((start, t0) # cs) m =
    (if sm_Err m = None then map (\<lambda>k. int k + 1 > limit) [0..<Suc (length cs)] else replicate (Suc (length cs)) True)"
proof (cases "sm_Err m")
  case None
  let ?m = "m\<lparr>sm_Now := t0, sm_counters := (sm_counters m)(RateKey kind subject start := (1, t0 + 2 * Minute))\<rparr>"
  have l: "Limited kind subject limit start (m\<lparr>sm_Now := t0\<rparr>) = ((1 > limit, None), ?m)"
    using None assms(1,3)
    by (cases "sm_counters m (RateKey kind subject start)") (simp add: Limited_def Incr_def unless_down_def Minute_def Second_def)
  have "limited_calls kind subject limit cs ?m = map (\<lambda>k. 1 + int k + 1 > limit) [0..<length cs]"
    using assms None by (intro limited_calls_from [where start = start and ex = "t0 + 2 * Minute"])
      (auto simp: Minute_def Second_def)
  also have "\<dots> = map (\<lambda>k. int k + 1 > limit) (map Suc [0..<length cs])" by (simp add: algebra_simps)
  finally show ?thesis
    using None by (auto simp: l map_Suc_upt upt_conv_Cons simp del: upt_Suc)
next
  case (Some e)
  with limited_calls_down [of m e limit kind subject "(start, t0) # cs"] assms(1) show ?thesis by simp
qed

theorem limiter_bound_witness:
  "limited_calls ''send'' ''u1'' 2 [(0, 5), (1, 6), (2, 7)] (NewMemory 5) = [False, False, True]"
  using limiter_bound [of 2 5 "NewMemory 5" "''send''" "''u1''" 0 "[(1, 6), (2, 7)]"]
  by (simp add: NewMemory_def Minute_def Second_def go_div_def Unix_def unix_epoch_def upt_conv_Cons)

text \<open>
  Stream ids made from times since 1970 are read back as their milliseconds and sequence
  number, so they are ordered by time and then by sequence.
\<close>

theorem stream_id_order:
  assumes "0 \<le> UnixMilli a" and "UnixMilli a \<le> MaxInt64" and "0 \<le> UnixMilli b" and "UnixMilli b \<le> MaxInt64"
    and "0 \<le> i" and "i \<le> MaxInt64" and "0 \<le> j" and "j \<le> MaxInt64"
  shows "ParseID (ID a i) = (UnixMilli a, i, True) \<and>
    (Less (ID a i) (ID b j) \<longleftrightarrow> UnixMilli a < UnixMilli b \<or> (UnixMilli a = UnixMilli b \<and> i < j))"
proof -
  have "MinInt64 \<le> i" "MinInt64 \<le> j" using assms by (simp_all add: MinInt64_def)
  with assms ParseID_ID [of a i] ParseID_ID [of b j] show ?thesis by (auto simp: Less_def)
qed

theorem stream_id_order_witness:
  "Less (ID unix_epoch 9) (ID unix_epoch 10)"
  using stream_id_order [of unix_epoch unix_epoch 9 10] by (simp add: UnixMilli_def MaxInt64_def)

end
