(* ===== verification/AuditQuery.thy ===== *)
theory AuditQuery
  imports Paging StreamClient
begin

text \<open>
  \<open>internal/audit/query.go\<close> and \<open>internal/stats/stats.go\<close>: reading the audit trail page by page and
  the counts for operators. Details are the value the JSON column holds.
\<close>

section \<open>Reading the trail\<close>

record audit_filter =
  af_ActorID :: string
  af_EventType :: string
  af_From :: time
  af_To :: time
  af_Cursor :: string
  af_Limit :: int

record item =
  it_TS :: time
  it_EventType :: string
  it_ActorKind :: string
  it_ActorID :: string
  it_SubjectKind :: string
  it_SubjectID :: string
  it_SubjectName :: string
  it_Outcome :: string
  it_Reason :: string
  it_CorrelationID :: string
  it_Details :: "(string \<times> any) list"

record audit_page =
  ap_Items :: "item list"
  ap_NextCursor :: string

definition Filter_check :: "audit_filter \<Rightarrow> goerr option" where
  "Filter_check f =
     (if af_EventType f \<noteq> '''' \<and> \<not> Known (af_EventType f) then Some Audit_ErrFilter
      else if \<not> IsZero (af_From f) \<and> \<not> IsZero (af_To f) \<and> af_To f < af_From f then Some Audit_ErrFilter
      else None)"

definition itemOf :: "audit_row \<Rightarrow> item" where
  "itemOf r = \<lparr> it_TS = au_TS r, it_EventType = au_EventType r, it_ActorKind = au_ActorKind r,
     it_ActorID = au_ActorID r, it_SubjectKind = au_SubjectKind r, it_SubjectID = au_SubjectID r,
     it_SubjectName = au_SubjectName r, it_Outcome = au_Outcome r, it_Reason = au_Reason r,
     it_CorrelationID = au_CorrelationID r, it_Details = au_Details r \<rparr>"

text \<open>\<open>time.Unix(0, n)\<close> and \<open>UnixNano\<close>, whose result is an \<open>int64\<close>.\<close>

definition from_UnixNano :: "int \<Rightarrow> time" where
  "from_UnixNano n = unix_epoch + n"

definition UnixNano :: "time \<Rightarrow> int" where
  "UnixNano t = (t - unix_epoch + 2 ^ 63) mod 2 ^ 64 - 2 ^ 63"

definition audit_limit :: "int \<Rightarrow> int" where
  "audit_limit n = (if n \<le> 0 \<or> n > 200 then 50 else n)"

definition audit_cursor :: "string \<Rightarrow> goerr + time" where
  "audit_cursor c = (if c = '''' then Inr 0
     else case ParseInt c of (n, ok) \<Rightarrow> if ok then Inr (from_UnixNano n) else Inl Audit_ErrFilter)"

text \<open>The loop over the rows: it stops at the row beyond the page, which only tells that there is one.\<close>

fun query_rows :: "nat \<Rightarrow> audit_row list \<Rightarrow> nat \<Rightarrow> audit_row list \<Rightarrow> audit_page \<Rightarrow> audit_page" where
  "query_rows limit all i [] p = p"
| "query_rows limit all i (r # rs) p =
     (if i = limit then p\<lparr>ap_NextCursor := FormatInt (UnixNano (au_TS (all ! (i - 1))))\<rparr>
      else query_rows limit all (Suc i) rs (p\<lparr>ap_Items := ap_Items p @ [itemOf r]\<rparr>))"

definition Audit_Query :: "string \<Rightarrow> audit_filter \<Rightarrow> audit_page sys_op" where
  "Audit_Query tenantID f =
     (let limit = audit_limit (af_Limit f) in
      bindE (checkE (Filter_check f)) (\<lambda>_.
      bindE (liftSum (audit_cursor (af_Cursor f))) (\<lambda>cursor.
      bindE (getE clock) (\<lambda>now.
      bindE (liftSum (Window (af_From f) (af_To f) now)) (\<lambda>(from, till).
      bindE (with_db (QueryAudit tenantID (af_EventType f) (af_ActorID f) from till cursor (nat (limit + 1)))) (\<lambda>rs.
      returnE (query_rows (nat limit) rs 0 rs \<lparr> ap_Items = [], ap_NextCursor = '''' \<rparr>)))))))"

section \<open>Counts (\<open>stats.go\<close>)\<close>

record stats_view =
  sv_Channels :: int
  sv_Templates :: int
  sv_Notifications :: "(string \<times> int) list"
  sv_Messages :: "(string \<times> int) list"
  sv_OpenStreams :: int
  sv_Operations24h :: int

text \<open>\<open>streams\<close> is what the hub reports, \<open>None\<close> without one.\<close>

definition Stats_Counts :: "int option \<Rightarrow> string \<Rightarrow> stats_view sys_op" where
  "Stats_Counts streams tenantID =
     bindE (getE clock) (\<lambda>now.
     bindE (with_db (TenantStats tenantID now)) (\<lambda>st.
     returnE \<lparr> sv_Channels = st_Channels st, sv_Templates = st_Templates st, sv_Notifications = st_Notifications st,
       sv_Messages = st_Messages st, sv_OpenStreams = (case streams of None \<Rightarrow> 0 | Some n \<Rightarrow> n),
       sv_Operations24h = st_Operations24h st \<rparr>))"

section \<open>Following the cursors\<close>

lemma query_rows_take:
  "i \<le> limit \<Longrightarrow> query_rows limit all i rs p = (if length rs \<le> limit - i
     then p\<lparr>ap_Items := ap_Items p @ map itemOf rs\<rparr>
     else p\<lparr>ap_Items := ap_Items p @ map itemOf (take (limit - i) rs),
            ap_NextCursor := FormatInt (UnixNano (au_TS (all ! (limit - 1))))\<rparr>)"
proof (induction rs arbitrary: i p)
  case (Cons r rs)
  show ?case
  proof (cases "i = limit")
    case False
    with Cons.prems have "Suc i \<le> limit" "limit - i = Suc (limit - Suc i)" by auto
    with False Cons.IH [of "Suc i" "p\<lparr>ap_Items := ap_Items p @ [itemOf r]\<rparr>"] show ?thesis by simp
  qed simp
qed simp

lemma UnixNano_int64:
  assumes "MinInt64 \<le> t - unix_epoch" and "t - unix_epoch \<le> MaxInt64"
  shows "UnixNano t = t - unix_epoch"
  using assms by (simp add: UnixNano_def MinInt64_def MaxInt64_def)

lemma name_subject_TS [simp]: "au_TS (name_subject m tid r) = au_TS r"
  by (simp add: name_subject_def split: option.splits)

type_synonym audit_listing = "sys \<times> string \<times> audit_filter"

definition audit_pages :: "audit_listing \<Rightarrow> string \<Rightarrow> item list \<times> string" where
  "audit_pages a c = (case a of (s, tid, f) \<Rightarrow>
     case fst (Audit_Query tid (f\<lparr>af_Cursor := c\<rparr>) s) of Inl _ \<Rightarrow> ([], []) | Inr p \<Rightarrow> (ap_Items p, ap_NextCursor p))"

text \<open>The events in the filter's window from a cursor on (the zero time for none), newest first.\<close>

definition audit_rows :: "audit_listing \<Rightarrow> time \<Rightarrow> audit_row list" where
  "audit_rows a cur = (case a of (s, tid, f) \<Rightarrow> case Window (af_From f) (af_To f) (clock s) of
      Inl _ \<Rightarrow> []
    | Inr (from, till) \<Rightarrow> sort_key (\<lambda>r. - au_TS r) (map (name_subject (db s) tid)
        (filter (audit_matches tid (af_EventType f) (af_ActorID f) from till cur) (AuditLog (db s)))))"

definition audit_listing_ok :: "audit_listing \<Rightarrow> bool" where
  "audit_listing_ok a = (case a of (s, tid, f) \<Rightarrow> healthy (db s) \<and> Filter_check f = None \<and>
     (\<exists>w. Window (af_From f) (af_To f) (clock s) = Inr w) \<and>
     distinct (map au_TS (audit_rows a 0)) \<and>
     (\<forall>r \<in> set (audit_rows a 0). MinInt64 \<le> au_TS r - unix_epoch \<and> au_TS r - unix_epoch \<le> MaxInt64))"

lemma audit_rows_from:
  assumes "\<not> IsZero cur"
  shows "audit_rows a cur = filter (\<lambda>r. au_TS r < cur) (audit_rows a 0)"
proof -
  have "filter (audit_matches tid et ac fr till cur) rs = filter (\<lambda>r. au_TS r < cur) (filter (audit_matches tid et ac fr till 0) rs)"
    for tid et ac fr till rs
    using assms by (auto simp: audit_matches_def IsZero_def intro: filter_cong)
  then show ?thesis
    by (auto simp: audit_rows_def filter_sort filter_map comp_def split: prod.splits sum.splits)
qed

lemma audit_pages_rows:
  assumes "healthy (db s)" and "Filter_check f = None" and "Window (af_From f) (af_To f) (clock s) = Inr w"
    and "audit_cursor c = Inr cur"
  shows "audit_pages (s, tid, f) c = (let rs = audit_rows (s, tid, f) cur; n = nat (audit_limit (af_Limit f)) in
     (map itemOf (take n rs), if length rs \<le> n then [] else FormatInt (UnixNano (au_TS (rs ! (n - 1))))))"
proof -
  obtain fr till where w: "w = (fr, till)" by (cases w)
  let ?n = "nat (audit_limit (af_Limit f))"
  have n: "0 < ?n" "nat (audit_limit (af_Limit f) + 1) = Suc ?n" by (auto simp: audit_limit_def)
  have fc: "Filter_check (f\<lparr>af_Cursor := c\<rparr>) = None" using assms(2) unfolding Filter_check_def by (auto split: if_splits)
  have q: "QueryAudit tid (af_EventType f) (af_ActorID f) fr till cur (Suc ?n) (db s) =
      (Inr (take (Suc ?n) (audit_rows (s, tid, f) cur)), db s)"
    using assms(1,3) by (simp add: QueryAudit_def audit_rows_def w)
  have "fst (Audit_Query tid (f\<lparr>af_Cursor := c\<rparr>) s) = Inr (query_rows ?n (take (Suc ?n) (audit_rows (s, tid, f) cur)) 0
      (take (Suc ?n) (audit_rows (s, tid, f) cur)) \<lparr> ap_Items = [], ap_NextCursor = [] \<rparr>)"
    using fc assms(3,4) q by (simp add: Audit_Query_def bindE_def checkE_def liftSum_def getE_def returnE_def with_db_def w n(2) Let_def)
  then show ?thesis
    using n(1) by (simp add: audit_pages_def query_rows_take Let_def)
qed

lemma audit_cursor_enc:
  assumes "MinInt64 \<le> t - unix_epoch" and "t - unix_epoch \<le> MaxInt64"
  shows "audit_cursor (FormatInt (UnixNano t)) = Inr t"
proof -
  have "FormatInt (UnixNano t) \<noteq> []" by (simp add: FormatInt_def)
  with ParseInt_FormatInt [OF assms] show ?thesis
    by (simp add: audit_cursor_def UnixNano_int64 [OF assms] from_UnixNano_def)
qed

definition audit_after :: "audit_listing \<Rightarrow> string \<Rightarrow> item list" where
  "audit_after a c = (case audit_cursor c of Inl _ \<Rightarrow> [] | Inr cur \<Rightarrow> map itemOf (audit_rows a cur))"

lemma epoch_not_zero: "MinInt64 \<le> t - unix_epoch \<Longrightarrow> \<not> IsZero t"
  by (auto simp: IsZero_def unix_epoch_def Second_def MinInt64_def)

lemma itemOf_TS [simp]: "it_TS (itemOf r) = au_TS r"
  by (simp add: itemOf_def)

interpretation audit: cursor_pages audit_listing_ok "\<lambda>a. map itemOf (audit_rows a 0)" it_TS "\<lambda>a k. FormatInt (UnixNano k)"
  "\<lambda>(s, tid, f). nat (audit_limit (af_Limit f))" audit_after audit_pages
proof
  fix a :: audit_listing assume ok: "audit_listing_ok a"
  show "audit_after a [] = map itemOf (audit_rows a 0)" by (simp add: audit_after_def audit_cursor_def)
  obtain s tid f where a: "a = (s, tid, f)" by (cases a)
  have "sorted (map (\<lambda>r. - au_TS r) (audit_rows a 0))"
    by (auto simp: a audit_rows_def split: sum.splits prod.splits)
  moreover have "distinct (map (\<lambda>r. - au_TS r) (audit_rows a 0))"
    using ok by (auto simp: audit_listing_ok_def a distinct_map inj_on_def)
  ultimately have "sorted_wrt (<) (map (\<lambda>r. - au_TS r) (audit_rows a 0))" by (simp add: strict_sorted_iff)
  then show "sorted_wrt (\<lambda>x y. it_TS y < it_TS x) (map itemOf (audit_rows a 0))" by (simp add: sorted_wrt_map)
next
  fix a :: audit_listing and r assume ok: "audit_listing_ok a" and "r \<in> set (map itemOf (audit_rows a 0))"
  then obtain x where x: "r = itemOf x" "x \<in> set (audit_rows a 0)" by auto
  have t: "MinInt64 \<le> au_TS x - unix_epoch" "au_TS x - unix_epoch \<le> MaxInt64"
    using ok x(2) by (auto simp: audit_listing_ok_def)
  show "audit_after a (FormatInt (UnixNano (it_TS r))) = filter (\<lambda>y. it_TS y < it_TS r) (map itemOf (audit_rows a 0))"
    by (simp add: audit_after_def x(1) audit_cursor_enc [OF t] audit_rows_from [OF epoch_not_zero [OF t(1)], of a] filter_map comp_def)
next
  fix a :: audit_listing and c
  assume ok: "audit_listing_ok a" and "c = [] \<or> (\<exists>r \<in> set (map itemOf (audit_rows a 0)). c = FormatInt (UnixNano (it_TS r)))"
  then obtain cur where cur: "audit_cursor c = Inr cur"
    by (auto simp: audit_listing_ok_def intro: audit_cursor_enc) (auto simp: audit_cursor_def)
  obtain s tid f where a: "a = (s, tid, f)" by (cases a)
  let ?n = "nat (audit_limit (af_Limit f))" and ?rs = "audit_rows (s, tid, f) cur"
  have n: "0 < ?n" by (auto simp: audit_limit_def)
  have p: "audit_pages (s, tid, f) c = (map itemOf (take ?n ?rs), if length ?rs \<le> ?n then [] else FormatInt (UnixNano (au_TS (?rs ! (?n - 1)))))"
    using ok audit_pages_rows [of s f _ c cur tid] cur by (auto simp: audit_listing_ok_def a Let_def)
  show "fst (audit_pages a c) = take ((\<lambda>(s, tid, f). nat (audit_limit (af_Limit f))) a) (audit_after a c)"
    by (simp add: p a audit_after_def cur take_map)
  show "length (audit_after a c) \<le> (\<lambda>(s, tid, f). nat (audit_limit (af_Limit f))) a" if "snd (audit_pages a c) = []"
    using that by (auto simp: p a audit_after_def cur FormatInt_def split: if_splits)
  show "fst (audit_pages a c) \<noteq> [] \<and> snd (audit_pages a c) = FormatInt (UnixNano (it_TS (last (fst (audit_pages a c)))))"
    if "snd (audit_pages a c) \<noteq> []"
  proof -
    from that p have l: "?n < length ?rs" by (auto simp: a split: if_splits)
    with n have ne: "take ?n ?rs \<noteq> []" by auto
    moreover have "last (take ?n ?rs) = ?rs ! (?n - 1)" using l n last_conv_nth [OF ne] by (simp add: min_def)
    ultimately have "take ?n ?rs \<noteq> []" "last (take ?n ?rs) = ?rs ! (?n - 1)" .
    with l show ?thesis by (simp add: a p last_map)
  qed
qed

text \<open>
  Following the cursors of the audit trail, an operator gets every event of the tenant that matches
  the filter and lies in its window exactly once, newest first, provided no two of them carry the same
  time: the cursor is the time alone.
\<close>

theorem audit_walk:
  assumes "audit_listing_ok (s, tid, f)"
  shows "walk (Suc (length (AuditLog (db s)))) (audit_pages (s, tid, f)) [] = Some (map itemOf (audit_rows (s, tid, f) 0))"
proof (rule audit.walk_complete [OF assms])
  show "length (map itemOf (audit_rows (s, tid, f) 0)) < Suc (length (AuditLog (db s)))"
    by (auto simp: audit_rows_def less_Suc_eq_le split: sum.splits prod.splits)
qed

section \<open>Examples\<close>

definition trail_row :: "time \<Rightarrow> string \<Rightarrow> audit_row" where
  "trail_row t i = \<lparr> au_TS = unix_epoch + t, au_TenantID = ''t1'', au_EventType = ''channel_created'', au_ActorKind = ''user'',
     au_ActorID = ''ada'', au_SubjectKind = ''inbox'', au_SubjectID = i, au_Outcome = ''ok'', au_Reason = '''', au_CorrelationID = '''',
     au_Details = [], au_SubjectName = '''' \<rparr>"

definition trail_sys :: "time list \<Rightarrow> sys" where
  "trail_sys ts = \<lparr> db = empty_store\<lparr>AuditLog := map (\<lambda>t. trail_row t ''i'') ts, Now := unix_epoch + 10\<rparr>, aud = None, live = [] \<rparr>"

definition any_event :: "int \<Rightarrow> audit_filter" where
  "any_event n = \<lparr> af_ActorID = '''', af_EventType = '''', af_From = 0, af_To = 0, af_Cursor = '''', af_Limit = n \<rparr>"

lemma trail_rows:
  "audit_rows (trail_sys ts, ''t1'', any_event n) 0 = sort_key (\<lambda>r. - au_TS r)
     (filter (\<lambda>r. au_TS r \<ge> unix_epoch + 10 + Minute - LogWindow \<and> au_TS r \<le> unix_epoch + 10 + Minute) (map (\<lambda>t. trail_row t ''i'') ts))"
  by (simp add: audit_rows_def any_event_def Window_def IsZero_def trail_sys_def clock_def Let_def audit_matches_def filter_map comp_def
      name_subject_def trail_row_def not_less conj_commute cong: filter_cong)

theorem audit_walk_witness:
  "map_option (map it_TS) (walk 3 (audit_pages (trail_sys [2, 7], ''t1'', any_event 1)) []) = Some [unix_epoch + 7, unix_epoch + 2]"
proof -
  have r: "audit_rows (trail_sys [2, 7], ''t1'', any_event 1) 0 = [trail_row 7 ''i'', trail_row 2 ''i'']"
    by (simp add: trail_rows trail_row_def Minute_def LogWindow_def Hour_def Second_def)
  have "audit_listing_ok (trail_sys [2, 7], ''t1'', any_event 1)"
    unfolding audit_listing_ok_def
    by (simp add: r) (simp add: trail_sys_def healthy_def empty_store_def Filter_check_def any_event_def Window_def IsZero_def
        trail_row_def MinInt64_def MaxInt64_def Let_def)
  moreover have "Suc (length (AuditLog (db (trail_sys [2, 7])))) = 3" by (simp add: trail_sys_def)
  ultimately have "walk 3 (audit_pages (trail_sys [2, 7], ''t1'', any_event 1)) [] =
      Some [itemOf (trail_row 7 ''i''), itemOf (trail_row 2 ''i'')]"
    using audit_walk [of "trail_sys [2, 7]" "''t1''" "any_event 1"] by (simp add: r)
  then show ?thesis by (simp add: trail_row_def)
qed

text \<open>
  Two events of one time at the end of a page: the second is never listed. With a page of one event
  and the events of the times 7 and 7, following the cursors gives one event.
\<close>

lemma audit_walk_ties:
  "map_option length (walk 3 (audit_pages (trail_sys [7, 7], ''t1'', any_event 1)) []) = Some 1"
proof -
  let ?a = "(trail_sys [7, 7], ''t1'', any_event 1)"
  have h: "healthy (db (trail_sys [7, 7]))" "Filter_check (any_event 1) = None"
      "Window (af_From (any_event 1)) (af_To (any_event 1)) (clock (trail_sys [7, 7])) =
         Inr (unix_epoch + 10 + Minute - LogWindow, unix_epoch + 10 + Minute)"
    by (simp_all add: trail_sys_def healthy_def empty_store_def Filter_check_def any_event_def Window_def IsZero_def clock_def Let_def)
  have t: "MinInt64 \<le> (unix_epoch + 7) - unix_epoch" "(unix_epoch + 7) - unix_epoch \<le> MaxInt64"
    by (simp_all add: MinInt64_def MaxInt64_def)
  have r: "audit_rows ?a 0 = [trail_row 7 ''i'', trail_row 7 ''i'']"
    by (simp add: trail_rows trail_row_def Minute_def LogWindow_def Hour_def Second_def)
  have r7: "audit_rows ?a (unix_epoch + 7) = []"
    using audit_rows_from [OF epoch_not_zero [OF t(1)], of ?a] by (simp add: r trail_row_def)
  have n: "nat (audit_limit (af_Limit (any_event 1))) = 1" by (simp add: audit_limit_def any_event_def)
  have "audit_pages ?a [] = ([itemOf (trail_row 7 ''i'')], FormatInt (UnixNano (unix_epoch + 7)))"
    using audit_pages_rows [OF h, of "[]" 0] by (simp add: audit_cursor_def r n Let_def trail_row_def)
  moreover have "audit_pages ?a (FormatInt (UnixNano (unix_epoch + 7))) = ([], [])"
    using audit_pages_rows [OF h audit_cursor_enc [OF t]] by (simp add: r7 Let_def)
  ultimately show ?thesis by (simp add: numeral_3_eq_3 FormatInt_def)
qed

end
