(* ===== verification/StreamHub.thy ===== *)
theory StreamHub
  imports StreamClient
begin

text \<open>
  \<open>internal/stream/hub.go\<close> and \<open>sse.go\<close>: publishing, the subscriptions of a tenant with their
  buffers, replay, fan-out, and the text frames of a stream. A pointer to a subscription is a number;
  the loop of a tenant is its position in the stream. Every operation of the hub runs under its locks,
  so a run of the hub is a sequence of operations.
\<close>

section \<open>Limits and requests\<close>

definition MaxPayload :: nat where "MaxPayload = 16 * 1024"
definition MaxTargets :: nat where "MaxTargets = 1000"
definition DefaultMaxLen :: int where "DefaultMaxLen = 10000"
definition connBuffer :: nat where "connBuffer = 32"

definition Reserved :: "string list" where
  "Reserved = [''inbox'', ''inbox.revoked'', ''reset'', ''bye'']"

definition is_lower :: "char \<Rightarrow> bool" where
  "is_lower c \<longleftrightarrow> 97 \<le> (of_char c :: nat) \<and> (of_char c :: nat) \<le> 122"

definition type_char :: "char \<Rightarrow> bool" where
  "type_char c \<longleftrightarrow> is_lower c \<or> (48 \<le> (of_char c :: nat) \<and> (of_char c :: nat) \<le> 57) \<or> c \<in> set ''._-''"

text \<open>\<open>^[a-z][a-z0-9._-]{0,63}$\<close>\<close>

definition typeRE :: "string \<Rightarrow> bool" where
  "typeRE s = (case s of [] \<Rightarrow> False | c # r \<Rightarrow> is_lower c \<and> list_all type_char r \<and> length r \<le> 63)"

definition ValidateType :: "string \<Rightarrow> bool \<Rightarrow> goerr option" where
  "ValidateType typ module =
     (if \<not> typeRE typ then Some Stream_ErrType
      else if module \<and> typ \<in> set Reserved then Some Stream_ErrReserved else None)"

record hub_config =
  hc_ReplayWindow :: duration
  hc_StreamsPerUser :: int
  hc_StreamsPerTenant :: int
  hc_MaxLen :: int

definition NewHub_config :: "hub_config \<Rightarrow> hub_config" where
  "NewHub_config cfg = \<lparr>
     hc_ReplayWindow = (if hc_ReplayWindow cfg \<le> 0 then 5 * Minute else hc_ReplayWindow cfg),
     hc_StreamsPerUser = (if hc_StreamsPerUser cfg \<le> 0 then 5 else hc_StreamsPerUser cfg),
     hc_StreamsPerTenant = (if hc_StreamsPerTenant cfg \<le> 0 then 2000 else hc_StreamsPerTenant cfg),
     hc_MaxLen = (if hc_MaxLen cfg \<le> 0 then DefaultMaxLen else hc_MaxLen cfg) \<rparr>"

record stream_event =
  se_ID :: string
  se_Type :: string
  se_Data :: string

definition Key :: "string \<Rightarrow> string" where
  "Key tenantID = ''notif:events:'' @ tenantID"

section \<open>The hub\<close>

record subscription =
  ss_tenant :: string
  ss_user :: string
  ss_ch :: "stream_event list"
  ss_last :: string
  ss_closed :: bool

record tenant_sub =
  ts_conns :: "nat list"
  ts_byUser :: "string \<Rightarrow> int"
  ts_pos :: string

record hub =
  hb_c :: stream_mem
  hb_cfg :: hub_config
  hb_now :: time
  hb_subs :: "nat \<Rightarrow> subscription"
  hb_next :: nat
  hb_tenants :: "string \<rightharpoonup> tenant_sub"
  hb_done :: bool

type_synonym 'a hub_op = "(hub, goerr, 'a) op"

definition empty_subscription :: subscription where
  "empty_subscription = \<lparr> ss_tenant = [], ss_user = [], ss_ch = [], ss_last = [], ss_closed = True \<rparr>"

definition NewHub :: "stream_mem \<Rightarrow> hub_config \<Rightarrow> time \<Rightarrow> hub" where
  "NewHub c cfg now = \<lparr> hb_c = c, hb_cfg = NewHub_config cfg, hb_now = now, hb_subs = (\<lambda>_. empty_subscription),
     hb_next = 0, hb_tenants = (\<lambda>_. None), hb_done = False \<rparr>"

definition with_client :: "'a stream_op \<Rightarrow> 'a hub_op" where
  "with_client f h = (case f (hb_c h) of (r, c) \<Rightarrow> (r, h\<lparr>hb_c := c\<rparr>))"

text \<open>
  The data of an event: nothing, bytes or text as they are, or a value that is marshalled. The JSON
  package's check and encoder are arguments.
\<close>

datatype event_data = NoData | RawData string | AnyData any

definition raw_data :: "(any \<Rightarrow> string option) \<Rightarrow> event_data \<Rightarrow> string option" where
  "raw_data marshal d = (case d of NoData \<Rightarrow> Some ''{}'' | RawData r \<Rightarrow> Some r | AnyData v \<Rightarrow> marshal v)"

definition PublishID ::
  "(string \<Rightarrow> bool) \<Rightarrow> (any \<Rightarrow> string option) \<Rightarrow> string \<Rightarrow> string list \<Rightarrow> bool \<Rightarrow> string \<Rightarrow> event_data \<Rightarrow> bool \<Rightarrow> string hub_op" where
  "PublishID valid marshal tenantID to all typ data module =
     (case ValidateType typ module of Some e \<Rightarrow> failE e | None \<Rightarrow>
      bindE (refuseE (all = (length to > 0) \<or> length to > MaxTargets) Stream_ErrTargets) (\<lambda>_.
      case raw_data marshal data of None \<Rightarrow> failE Stream_ErrPayload | Some raw \<Rightarrow>
      bindE (refuseE (length raw > MaxPayload \<or> \<not> valid raw \<or> ContainsAny raw [CHR 0x0A, CHR 0x0D]) Stream_ErrPayload) (\<lambda>_.
      bindE (refuseE (\<not> all \<and> list_ex (\<lambda>u. u = '''' \<or> ContainsAny u [CHR '','', CHR '' '', CHR 0x0A]) to) Stream_ErrTargets) (\<lambda>_.
      bindE (getE (\<lambda>h. (hb_now h, hc_MaxLen (hb_cfg h)))) (\<lambda>(now, maxLen).
      with_client (XAdd (Key tenantID) [''to'' \<mapsto> (if all then ''*'' else Join to (CHR '','')), ''type'' \<mapsto> typ,
        ''data'' \<mapsto> raw, ''at'' \<mapsto> FormatInt (UnixMilli now)] maxLen))))))"

definition targets :: "string \<Rightarrow> string \<Rightarrow> bool" where
  "targets to user \<longleftrightarrow> to = ''*'' \<or> list_ex (\<lambda>u. u = user) (Split (CHR '','') to)"

text \<open>\<open>e.Fields["to"]\<close> reads "" when the field is missing.\<close>

definition field :: "stream_entry \<Rightarrow> string \<Rightarrow> string" where
  "field e k = strp (xe_Fields e k)"

definition event_of :: "stream_entry \<Rightarrow> stream_event" where
  "event_of e = \<lparr> se_ID = xe_ID e, se_Type = field e ''type'', se_Data = field e ''data'' \<rparr>"

section \<open>Subscriptions\<close>

definition push :: "stream_event \<Rightarrow> subscription \<Rightarrow> bool \<times> subscription" where
  "push ev s =
     (if ss_closed s \<or> (se_ID ev \<noteq> '''' \<and> ss_last s \<noteq> '''' \<and> \<not> Less (ss_last s) (se_ID ev)) then (True, s)
      else
        let s' = (if se_ID ev \<noteq> '''' then s\<lparr>ss_last := se_ID ev\<rparr> else s) in
        if length (ss_ch s') < connBuffer then (True, s'\<lparr>ss_ch := ss_ch s' @ [ev]\<rparr>) else (False, s'))"

text \<open>The reader takes the oldest event.\<close>

definition receive :: "subscription \<Rightarrow> stream_event option \<times> subscription" where
  "receive s = (case ss_ch s of [] \<Rightarrow> (None, s) | ev # rest \<Rightarrow> (Some ev, s\<lparr>ss_ch := rest\<rparr>))"

definition close_sub :: "nat \<Rightarrow> hub \<Rightarrow> hub" where
  "close_sub k h =
     (let s = hb_subs h k in
      if ss_closed s then h
      else
        let h1 = h\<lparr>hb_subs := (hb_subs h)(k := s\<lparr>ss_closed := True\<rparr>)\<rparr> in
        case hb_tenants h (ss_tenant s) of
          None \<Rightarrow> h1
        | Some t \<Rightarrow>
            let conns = removeAll k (ts_conns t);
                n = ts_byUser t (ss_user s) - 1;
                t' = t\<lparr>ts_conns := conns, ts_byUser := (ts_byUser t)(ss_user s := (if n \<le> 0 then 0 else n))\<rparr> in
            h1\<lparr>hb_tenants := (hb_tenants h)(ss_tenant s := (if conns = [] then None else Some t'))\<rparr>)"

definition replay_reset :: "string \<Rightarrow> stream_event" where
  "replay_reset reason = \<lparr> se_ID = '''', se_Type = ''reset'', se_Data = ''{\"reason\":\"'' @ reason @ ''\"}'' \<rparr>"

text \<open>The replay: the result of a push is not looked at.\<close>

definition time_UnixMilli :: "int \<Rightarrow> time" where
  "time_UnixMilli ms = unix_epoch + ms * 1000000"

definition replay :: "nat \<Rightarrow> string \<Rightarrow> hub \<Rightarrow> hub" where
  "replay k lastID h =
     (let s = hb_subs h k;
          put = (\<lambda>s'. h\<lparr>hb_subs := (hb_subs h)(k := s')\<rparr>);
          (ms, seq, ok) = ParseID lastID in
      if \<not> ok \<or> time_UnixMilli ms < hb_now h - hc_ReplayWindow (hb_cfg h)
      then put (snd (push (replay_reset ''replay_window'') s))
      else case fst (XRange (Key (ss_tenant s)) lastID (hc_MaxLen (hb_cfg h)) (hb_c h)) of
          Inl e \<Rightarrow> put (snd (push (replay_reset ''replay_unavailable'') s))
        | Inr es \<Rightarrow> put (fold (\<lambda>e s'. if targets (field e ''to'') (ss_user s') then snd (push (event_of e) s') else s') es s))"

definition Subscribe :: "string \<Rightarrow> string \<Rightarrow> string \<Rightarrow> nat hub_op" where
  "Subscribe tenantID userID lastID =
     bindE (getE hb_done) (\<lambda>done.
     bindE (refuseE done Stream_HubClosed) (\<lambda>_.
     bindE (getE (\<lambda>h. hb_tenants h tenantID)) (\<lambda>found.
     bindE (case found of
         Some t \<Rightarrow> returnE t
       | None \<Rightarrow> bindE (with_client (XLast (Key tenantID))) (\<lambda>start.
           let t = \<lparr> ts_conns = [], ts_byUser = (\<lambda>_. 0), ts_pos = (if start = '''' then ''0-0'' else start) \<rparr> in
           bindE (modifyE (\<lambda>h. h\<lparr>hb_tenants := (hb_tenants h)(tenantID \<mapsto> t)\<rparr>)) (\<lambda>_. returnE t))) (\<lambda>t.
     bindE (getE hb_cfg) (\<lambda>cfg.
     bindE (refuseE (ts_byUser t userID \<ge> hc_StreamsPerUser cfg \<or> int (length (ts_conns t)) \<ge> hc_StreamsPerTenant cfg)
        Stream_ErrTooMany) (\<lambda>_.
     bindE (getE hb_next) (\<lambda>k.
     bindE (modifyE (\<lambda>h. h\<lparr> hb_next := k + 1,
        hb_subs := (hb_subs h)(k := \<lparr> ss_tenant = tenantID, ss_user = userID, ss_ch = [], ss_last = [], ss_closed = False \<rparr>),
        hb_tenants := (hb_tenants h)(tenantID \<mapsto> t\<lparr> ts_conns := ts_conns t @ [k],
          ts_byUser := (ts_byUser t)(userID := ts_byUser t userID + 1) \<rparr>) \<rparr>)) (\<lambda>_.
     bindE (modifyE (\<lambda>h. if lastID \<noteq> '''' then replay k lastID h else h)) (\<lambda>_.
     returnE k)))))))))"

section \<open>Fan-out\<close>

definition dispatch_one :: "stream_event \<Rightarrow> nat \<Rightarrow> hub \<Rightarrow> hub" where
  "dispatch_one ev k h = (case push ev (hb_subs h k) of (ok, s') \<Rightarrow>
     let h' = h\<lparr>hb_subs := (hb_subs h)(k := s')\<rparr> in if ok then h' else close_sub k h')"

definition dispatch :: "string \<Rightarrow> stream_entry \<Rightarrow> hub \<Rightarrow> hub" where
  "dispatch tenantID e h = (case hb_tenants h tenantID of
      None \<Rightarrow> h
    | Some t \<Rightarrow> fold (dispatch_one (event_of e))
        (filter (\<lambda>k. targets (field e ''to'') (ss_user (hb_subs h k))) (ts_conns t)) h)"

definition set_pos :: "string \<Rightarrow> string \<Rightarrow> hub \<Rightarrow> hub" where
  "set_pos tenantID p h = (case hb_tenants h tenantID of
      None \<Rightarrow> h | Some t \<Rightarrow> h\<lparr>hb_tenants := (hb_tenants h)(tenantID \<mapsto> t\<lparr>ts_pos := p\<rparr>)\<rparr>)"

text \<open>One turn of the tenant's loop, trimming first when the ticker fired; a read that fails or finds nothing changes nothing.\<close>

definition loop_turn :: "string \<Rightarrow> bool \<Rightarrow> goerr + stream_mem option \<Rightarrow> hub \<Rightarrow> hub" where
  "loop_turn tenantID trim wake h0 =
     (let h = (if trim then snd (with_client (XTrimMinID (Key tenantID) (ID (hb_now h0 - hc_ReplayWindow (hb_cfg h0)) 0)) h0) else h0) in
      case hb_tenants h tenantID of
        None \<Rightarrow> h
      | Some t \<Rightarrow> (case XRead (Key tenantID) (ts_pos t) (5 * Second) 100 wake (hb_c h) of
            Inl e \<Rightarrow> h
          | Inr es \<Rightarrow> fold (\<lambda>e h. dispatch tenantID e (set_pos tenantID (xe_ID e) h)) es h))"

definition Hub_Close :: "hub \<Rightarrow> hub" where
  "Hub_Close h = fold close_sub [0..<hb_next h] (h\<lparr>hb_done := True\<rparr>)"

text \<open>The frame of an event.\<close>

definition Frame :: "stream_event \<Rightarrow> string" where
  "Frame ev = (if se_ID ev \<noteq> '''' then ''id: '' @ se_ID ev @ [CHR 0x0A] else []) @
     ''event: '' @ se_Type ev @ [CHR 0x0A] @
     ''data: '' @ filter (\<lambda>c. c \<noteq> CHR 0x0D \<and> c \<noteq> CHR 0x0A) (se_Data ev) @ [CHR 0x0A, CHR 0x0A]"

text \<open>
  Serving a stream: what the loop waits for, in the order it comes, gives the text that is written;
  it ends when the client has gone, the time is up or the stream is closed.
\<close>

datatype sse_signal = ClientGone | DeadlinePassed | PingTick | Delivered stream_event | StreamClosed

fun sse_loop :: "sse_signal list \<Rightarrow> string" where
  "sse_loop [] = []"
| "sse_loop (ClientGone # r) = []"
| "sse_loop (DeadlinePassed # r) = ''event: bye'' @ [CHR 0x0A] @ ''data: {}'' @ [CHR 0x0A, CHR 0x0A]"
| "sse_loop (PingTick # r) = '': ping'' @ [CHR 0x0A, CHR 0x0A] @ sse_loop r"
| "sse_loop (Delivered ev # r) = Frame ev @ sse_loop r"
| "sse_loop (StreamClosed # r) = []"

definition ServeSSE :: "string \<Rightarrow> sse_signal list \<Rightarrow> string" where
  "ServeSSE instance_name signals = ''retry: 3000'' @ [CHR 0x0A] @ '': connected '' @ instance_name @ [CHR 0x0A, CHR 0x0A]
     @ sse_loop signals"

section \<open>The invariant\<close>

definition user_conns :: "hub \<Rightarrow> nat list \<Rightarrow> string \<Rightarrow> nat list" where
  "user_conns h ks u = filter (\<lambda>k. ss_user (hb_subs h k) = u) ks"

definition tenant_ok :: "hub \<Rightarrow> string \<Rightarrow> tenant_sub \<Rightarrow> bool" where
  "tenant_ok h tid t \<longleftrightarrow> distinct (ts_conns t) \<and> int (length (ts_conns t)) \<le> hc_StreamsPerTenant (hb_cfg h) \<and>
     (\<forall>k \<in> set (ts_conns t). k < hb_next h \<and> \<not> ss_closed (hb_subs h k) \<and> ss_tenant (hb_subs h k) = tid) \<and>
     (\<forall>u. ts_byUser t u = int (length (user_conns h (ts_conns t) u)) \<and>
        int (length (user_conns h (ts_conns t) u)) \<le> hc_StreamsPerUser (hb_cfg h))"

definition hub_ok :: "hub \<Rightarrow> bool" where
  "hub_ok h \<longleftrightarrow> 0 < hc_StreamsPerUser (hb_cfg h) \<and> 0 < hc_StreamsPerTenant (hb_cfg h) \<and>
     (\<forall>tid t. hb_tenants h tid = Some t \<longrightarrow> ts_conns t \<noteq> [] \<and> tenant_ok h tid t) \<and>
     (\<forall>k. \<not> ss_closed (hb_subs h k) \<longrightarrow>
        (\<exists>t. hb_tenants h (ss_tenant (hb_subs h k)) = Some t \<and> k \<in> set (ts_conns t))) \<and>
     (\<forall>k. length (ss_ch (hb_subs h k)) \<le> connBuffer)"

lemma NewHub_ok: "hub_ok (NewHub c cfg now)"
  by (simp add: hub_ok_def NewHub_def NewHub_config_def empty_subscription_def)

lemma hub_ok_client [simp]: "hub_ok (h\<lparr>hb_c := c\<rparr>) = hub_ok h" "hub_ok (h\<lparr>hb_now := n\<rparr>) = hub_ok h"
  "hub_ok (h\<lparr>hb_done := d\<rparr>) = hub_ok h"
  by (simp_all add: hub_ok_def tenant_ok_def user_conns_def)

lemma push_frame:
  "ss_tenant (snd (push ev s)) = ss_tenant s" "ss_user (snd (push ev s)) = ss_user s"
  "ss_closed (snd (push ev s)) = ss_closed s"
  "length (ss_ch s) \<le> connBuffer \<Longrightarrow> length (ss_ch (snd (push ev s))) \<le> connBuffer"
  by (auto simp: push_def Let_def)

text \<open>Changing what a subscription holds, not whose it is.\<close>

lemma hub_ok_put:
  assumes "hub_ok h" and "ss_tenant s = ss_tenant (hb_subs h k)" and "ss_user s = ss_user (hb_subs h k)"
    and "ss_closed s = ss_closed (hb_subs h k)" and "length (ss_ch s) \<le> connBuffer"
  shows "hub_ok (h\<lparr>hb_subs := (hb_subs h)(k := s)\<rparr>)"
proof -
  have same: "ss_tenant (((hb_subs h)(k := s)) j) = ss_tenant (hb_subs h j)"
    "ss_user (((hb_subs h)(k := s)) j) = ss_user (hb_subs h j)"
    "ss_closed (((hb_subs h)(k := s)) j) = ss_closed (hb_subs h j)" for j
    using assms(2-4) by simp_all
  have "length (ss_ch (((hb_subs h)(k := s)) j)) \<le> connBuffer" for j
    using assms(1,5) by (simp add: hub_ok_def)
  with assms(1) show ?thesis
    by (simp add: hub_ok_def tenant_ok_def user_conns_def same del: fun_upd_apply)
qed

lemma hub_ok_push: "hub_ok h \<Longrightarrow> hub_ok (h\<lparr>hb_subs := (hb_subs h)(k := snd (push ev (hb_subs h k)))\<rparr>)"
  by (rule hub_ok_put) (auto simp: push_frame hub_ok_def)

lemma count_remove:
  assumes "distinct xs" and "k \<in> set xs"
  shows "length (filter p xs) = length (filter p (removeAll k xs)) + (if p k then 1 else 0)"
proof -
  from split_list [OF assms(2)] obtain as bs where xs: "xs = as @ k # bs" by blast
  with assms(1) have "removeAll k as = as" "removeAll k bs = bs" by (auto simp: removeAll_id)
  with xs show ?thesis by (simp del: removeAll_filter_not_eq)
qed

lemma close_sub_ok:
  assumes "hub_ok h"
  shows "hub_ok (close_sub k h)"
proof (cases "ss_closed (hb_subs h k)")
  case True
  with assms show ?thesis by (simp add: close_sub_def)
next
  case False
  let ?s = "hb_subs h k"
  from assms False obtain t where t: "hb_tenants h (ss_tenant ?s) = Some t" "k \<in> set (ts_conns t)"
    by (auto simp: hub_ok_def)
  let ?tid = "ss_tenant ?s" and ?u = "ss_user ?s"
  let ?conns = "removeAll k (ts_conns t)"
  let ?t = "t\<lparr>ts_conns := ?conns, ts_byUser := (ts_byUser t)(?u := (if ts_byUser t ?u - 1 \<le> 0 then 0 else ts_byUser t ?u - 1))\<rparr>"
  let ?h = "close_sub k h"
  have tok: "tenant_ok h ?tid t" using assms t(1) by (simp add: hub_ok_def)
  have h: "hb_tenants ?h = (hb_tenants h)(?tid := (if ?conns = [] then None else Some ?t))"
    "hb_subs ?h = (hb_subs h)(k := ?s\<lparr>ss_closed := True\<rparr>)" "hb_cfg ?h = hb_cfg h" "hb_next ?h = hb_next h"
    using False t(1) by (simp_all add: close_sub_def Let_def)
  have same: "ss_tenant (hb_subs ?h j) = ss_tenant (hb_subs h j)" "ss_user (hb_subs ?h j) = ss_user (hb_subs h j)"
    "ss_ch (hb_subs ?h j) = ss_ch (hb_subs h j)" for j by (simp_all add: h)
  have uc: "user_conns ?h ks u = user_conns h ks u" for ks u by (simp add: user_conns_def same)
  have cnt: "int (length (user_conns h ?conns u)) = ts_byUser t u - (if u = ?u then 1 else 0)" for u
  proof -
    have "k \<in> set (user_conns h (ts_conns t) ?u)" using t(2) by (simp add: user_conns_def)
    then have "0 < length (user_conns h (ts_conns t) ?u)" by (cases "user_conns h (ts_conns t) ?u") auto
    then show ?thesis
      using tok t(2) count_remove [of "ts_conns t" k "\<lambda>k. ss_user (hb_subs h k) = u"]
      by (auto simp: tenant_ok_def user_conns_def)
  qed
  have new: "tenant_ok ?h ?tid ?t"
    unfolding tenant_ok_def uc h(3,4)
  proof (intro conjI ballI allI)
    note parts = tok [unfolded tenant_ok_def]
    have lim: "ts_byUser t u \<le> hc_StreamsPerUser (hb_cfg h)" for u using parts by simp
    fix u
    show "ts_byUser ?t u = int (length (user_conns h (ts_conns ?t) u))"
      using cnt [of u] cnt [of ?u] by (auto simp del: removeAll_filter_not_eq)
    show "int (length (user_conns h (ts_conns ?t) u)) \<le> hc_StreamsPerUser (hb_cfg h)"
      using cnt [of u] lim [of u] by (cases "u = ?u") (simp_all del: removeAll_filter_not_eq)
  next
    note parts = tok [unfolded tenant_ok_def]
    show "distinct (ts_conns ?t)" using parts by (simp add: distinct_removeAll)
    have l: "int (length (ts_conns ?t)) \<le> int (length (ts_conns t))" by (simp add: length_removeAll_less_eq)
    have m: "int (length (ts_conns t)) \<le> hc_StreamsPerTenant (hb_cfg h)" using parts by blast
    show "int (length (ts_conns ?t)) \<le> hc_StreamsPerTenant (hb_cfg h)" by (rule order_trans [OF l m])
    fix j assume j: "j \<in> set (ts_conns ?t)"
    then have "j \<noteq> k" "j \<in> set (ts_conns t)" by auto
    with parts show "j < hb_next h" "\<not> ss_closed (hb_subs ?h j)" "ss_tenant (hb_subs ?h j) = ?tid"
      by (auto simp: h(2))
  qed
  have old: "tenant_ok ?h tid t'" if "hb_tenants h tid = Some t'" "tid \<noteq> ?tid" for tid t'
  proof -
    have ok: "tenant_ok h tid t'" using assms that(1) by (simp add: hub_ok_def)
    then have "k \<notin> set (ts_conns t')" using that(2) by (auto simp: tenant_ok_def)
    with ok show ?thesis by (auto simp: tenant_ok_def uc h)
  qed
  have "\<exists>t'. hb_tenants ?h (ss_tenant (hb_subs ?h j)) = Some t' \<and> j \<in> set (ts_conns t')"
    if "\<not> ss_closed (hb_subs ?h j)" for j
  proof -
    from that have j: "j \<noteq> k" "\<not> ss_closed (hb_subs h j)" by (auto simp: h split: if_splits)
    then obtain t' where "hb_tenants h (ss_tenant (hb_subs h j)) = Some t'" "j \<in> set (ts_conns t')"
      using assms by (auto simp: hub_ok_def)
    with j t(1) show ?thesis by (auto simp: same h filter_empty_conv removeAll_filter_not_eq)
  qed
  with assms new old show ?thesis
    unfolding hub_ok_def by (auto simp: same h split: if_splits)
qed

lemma dispatch_one_ok: "hub_ok h \<Longrightarrow> hub_ok (dispatch_one ev k h)"
  using hub_ok_push [of h k ev] by (auto simp: dispatch_one_def Let_def close_sub_ok split: prod.splits)

lemma fold_ok: "(\<And>x h. hub_ok h \<Longrightarrow> hub_ok (f x h)) \<Longrightarrow> hub_ok h \<Longrightarrow> hub_ok (fold f xs h)"
  by (induction xs arbitrary: h) auto

lemma dispatch_ok: "hub_ok h \<Longrightarrow> hub_ok (dispatch tid e h)"
  by (auto simp: dispatch_def intro!: fold_ok dispatch_one_ok split: option.splits)

lemma tenant_ok_pos [simp]:
  "tenant_ok h tid (t\<lparr>ts_pos := p\<rparr>) = tenant_ok h tid t" "tenant_ok (h\<lparr>hb_tenants := T\<rparr>) tid t = tenant_ok h tid t"
  by (simp_all add: tenant_ok_def user_conns_def)

lemma set_pos_ok:
  assumes "hub_ok h"
  shows "hub_ok (set_pos tid p h)"
proof (cases "hb_tenants h tid")
  case (Some t)
  let ?h = "h\<lparr>hb_tenants := (hb_tenants h)(tid \<mapsto> t\<lparr>ts_pos := p\<rparr>)\<rparr>"
  have "ts_conns t' \<noteq> [] \<and> tenant_ok ?h tid' t'" if "hb_tenants ?h tid' = Some t'" for tid' t'
    using assms Some that by (auto simp: hub_ok_def split: if_splits)
  moreover have "\<exists>t'. hb_tenants ?h (ss_tenant (hb_subs h k)) = Some t' \<and> k \<in> set (ts_conns t')"
    if "\<not> ss_closed (hb_subs h k)" for k
    using assms Some that by (force simp: hub_ok_def)
  ultimately have "hub_ok ?h"
    using assms by (simp add: hub_ok_def del: fun_upd_apply)
  with Some show ?thesis by (simp add: set_pos_def)
qed (use assms in \<open>simp add: set_pos_def\<close>)

lemma loop_turn_ok: "hub_ok h \<Longrightarrow> hub_ok (loop_turn tid trim wake h)"
  unfolding loop_turn_def Let_def with_client_def
  by (auto intro!: fold_ok dispatch_ok set_pos_ok split: option.splits sum.splits prod.splits)

lemma Hub_Close_ok: "hub_ok h \<Longrightarrow> hub_ok (Hub_Close h)"
  by (auto simp: Hub_Close_def intro!: fold_ok close_sub_ok)

lemma fold_push_frame:
  "ss_tenant (fold (\<lambda>e s'. if p e s' then snd (push (f e) s') else s') es s) = ss_tenant s \<and>
   ss_user (fold (\<lambda>e s'. if p e s' then snd (push (f e) s') else s') es s) = ss_user s \<and>
   ss_closed (fold (\<lambda>e s'. if p e s' then snd (push (f e) s') else s') es s) = ss_closed s \<and>
   (length (ss_ch s) \<le> connBuffer \<longrightarrow>
      length (ss_ch (fold (\<lambda>e s'. if p e s' then snd (push (f e) s') else s') es s)) \<le> connBuffer)"
  by (induction es arbitrary: s) (auto simp: push_frame)

lemma replay_ok: "hub_ok h \<Longrightarrow> hub_ok (replay k lastID h)"
proof -
  assume ok: "hub_ok h"
  then have "length (ss_ch (hb_subs h k)) \<le> connBuffer" by (simp add: hub_ok_def)
  with ok show ?thesis
    unfolding replay_def Let_def
    by (auto intro!: hub_ok_push hub_ok_put simp: fold_push_frame split: sum.splits prod.splits)
qed

text \<open>Registering a new subscription below the limits.\<close>

definition add_conn :: "string \<Rightarrow> string \<Rightarrow> tenant_sub \<Rightarrow> hub \<Rightarrow> hub" where
  "add_conn tid u t h = h\<lparr> hb_next := hb_next h + 1,
     hb_subs := (hb_subs h)(hb_next h := \<lparr> ss_tenant = tid, ss_user = u, ss_ch = [], ss_last = [], ss_closed = False \<rparr>),
     hb_tenants := (hb_tenants h)(tid \<mapsto> t\<lparr> ts_conns := ts_conns t @ [hb_next h],
        ts_byUser := (ts_byUser t)(u := ts_byUser t u + 1) \<rparr>) \<rparr>"

lemma add_conn_ok:
  assumes ok: "hub_ok h" and t: "ts_conns t = [] \<and> ts_byUser t = (\<lambda>_. 0) \<or> tenant_ok h tid t"
    and reg: "\<And>k. \<not> ss_closed (hb_subs h k) \<Longrightarrow> ss_tenant (hb_subs h k) = tid \<Longrightarrow> k \<in> set (ts_conns t)"
    and lim: "ts_byUser t u < hc_StreamsPerUser (hb_cfg h)" "int (length (ts_conns t)) < hc_StreamsPerTenant (hb_cfg h)"
  shows "hub_ok (add_conn tid u t h)"
proof -
  let ?k = "hb_next h" and ?h = "add_conn tid u t h"
  have tok: "tenant_ok h tid t"
    using t ok by (auto simp: tenant_ok_def user_conns_def hub_ok_def)
  have h: "hb_cfg ?h = hb_cfg h" "hb_next ?h = Suc ?k"
    "hb_subs ?h = (hb_subs h)(?k := \<lparr> ss_tenant = tid, ss_user = u, ss_ch = [], ss_last = [], ss_closed = False \<rparr>)"
    "hb_tenants ?h = (hb_tenants h)(tid \<mapsto> t\<lparr> ts_conns := ts_conns t @ [?k], ts_byUser := (ts_byUser t)(u := ts_byUser t u + 1) \<rparr>)"
    by (simp_all add: add_conn_def)
  have old: "?k \<notin> set (ts_conns t')" "user_conns ?h (ts_conns t') u' = user_conns h (ts_conns t') u'"
    if "tenant_ok h tid' t'" for tid' t' u'
  proof -
    show "?k \<notin> set (ts_conns t')" using that by (auto simp: tenant_ok_def)
    then show "user_conns ?h (ts_conns t') u' = user_conns h (ts_conns t') u'"
      by (auto simp: user_conns_def h(3) intro!: filter_cong)
  qed
  have "tenant_ok ?h tid' t'" if "tenant_ok h tid' t'" for tid' t'
    using that old [OF that] by (auto simp: tenant_ok_def h(1,2,3))
  moreover have "tenant_ok ?h tid (t\<lparr> ts_conns := ts_conns t @ [?k], ts_byUser := (ts_byUser t)(u := ts_byUser t u + 1) \<rparr>)"
  proof -
    have uc: "user_conns ?h (ts_conns t @ [?k]) u' = user_conns h (ts_conns t) u' @ (if u' = u then [?k] else [])" for u'
      using old(2) [OF tok, of u'] by (simp add: user_conns_def h(3))
    have "ts_byUser t u' = int (length (user_conns h (ts_conns t) u'))" for u' using tok by (simp add: tenant_ok_def)
    with tok lim old(1) [OF tok] show ?thesis
      by (auto simp: tenant_ok_def uc h(1,2,3))
  qed
  moreover have "\<exists>t'. hb_tenants ?h (ss_tenant (hb_subs ?h k)) = Some t' \<and> k \<in> set (ts_conns t')"
    if "\<not> ss_closed (hb_subs ?h k)" for k
    using that ok reg [of k] by (auto simp: h hub_ok_def split: if_splits)
  ultimately show ?thesis
    using ok unfolding hub_ok_def by (auto simp: h split: if_splits)
qed

lemma XLast_frame: "snd (XLast key m) = m"
  by (simp add: XLast_def unless_down_def split: option.splits)

text \<open>The tenant's entry a subscription joins: the one there is, or a new one after the tail.\<close>

definition joined :: "string \<Rightarrow> hub \<Rightarrow> goerr + tenant_sub" where
  "joined tid h = (case hb_tenants h tid of
      Some t \<Rightarrow> Inr t
    | None \<Rightarrow> (case fst (XLast (Key tid) (hb_c h)) of
         Inl e \<Rightarrow> Inl e
       | Inr start \<Rightarrow> Inr \<lparr> ts_conns = [], ts_byUser = (\<lambda>_. 0), ts_pos = (if start = '''' then ''0-0'' else start) \<rparr>))"

lemma Subscribe_cases:
  assumes "0 < hc_StreamsPerUser (hb_cfg h)" and "0 < hc_StreamsPerTenant (hb_cfg h)"
  shows "Subscribe tid u lastID h =
    (if hb_done h then (Inl Stream_HubClosed, h)
     else case joined tid h of
         Inl e \<Rightarrow> (Inl e, h)
       | Inr t \<Rightarrow>
           if ts_byUser t u \<ge> hc_StreamsPerUser (hb_cfg h) \<or> int (length (ts_conns t)) \<ge> hc_StreamsPerTenant (hb_cfg h)
           then (Inl Stream_ErrTooMany, h)
           else (Inr (hb_next h), if lastID \<noteq> '''' then replay (hb_next h) lastID (add_conn tid u t h) else add_conn tid u t h))"
proof (cases "hb_tenants h tid")
  case None
  obtain r where x: "XLast (Key tid) (hb_c h) = (r, hb_c h)"
    using XLast_frame [of "Key tid" "hb_c h"] by (cases "XLast (Key tid) (hb_c h)") auto
  show ?thesis
    using assms by (cases r) (simp_all add: None x Subscribe_def bindE_def getE_def refuseE_def modifyE_def returnE_def
      with_client_def joined_def add_conn_def Let_def)
next
  case (Some t)
  then show ?thesis
    by (simp add: Subscribe_def bindE_def getE_def refuseE_def modifyE_def returnE_def joined_def add_conn_def)
qed

lemma joined_ok:
  assumes "hub_ok h" and "joined tid h = Inr t"
  shows "ts_conns t = [] \<and> ts_byUser t = (\<lambda>_. 0) \<or> tenant_ok h tid t"
    and "\<not> ss_closed (hb_subs h k) \<Longrightarrow> ss_tenant (hb_subs h k) = tid \<Longrightarrow> k \<in> set (ts_conns t)"
  using assms by (auto simp: joined_def hub_ok_def split: option.splits sum.splits)

lemma Subscribe_ok:
  assumes "hub_ok h"
  shows "hub_ok (snd (Subscribe tid u lastID h))"
proof -
  have lim: "0 < hc_StreamsPerUser (hb_cfg h)" "0 < hc_StreamsPerTenant (hb_cfg h)" using assms by (auto simp: hub_ok_def)
  have "hub_ok (add_conn tid u t h)" if "joined tid h = Inr t" "ts_byUser t u < hc_StreamsPerUser (hb_cfg h)"
    "int (length (ts_conns t)) < hc_StreamsPerTenant (hb_cfg h)" for t
    using joined_ok [OF assms that(1)] that(2,3) by (intro add_conn_ok [OF assms]) auto
  with assms show ?thesis
    unfolding Subscribe_cases [OF lim] by (auto simp: replay_ok not_le split: sum.splits)
qed

section \<open>Runs of the hub\<close>

inductive hub_step :: "hub \<Rightarrow> hub \<Rightarrow> bool" where
  publish: "hub_step h (snd (PublishID valid marshal tid to all typ data module h))"
| subscribe: "hub_step h (snd (Subscribe tid u lastID h))"
| turn: "hub_step h (loop_turn tid trim wake h)"
| receive: "hub_step h (h\<lparr>hb_subs := (hb_subs h)(k := snd (receive (hb_subs h k)))\<rparr>)"
| close: "hub_step h (close_sub k h)"
| close_hub: "hub_step h (Hub_Close h)"
| clock: "hub_step h (h\<lparr>hb_now := n, hb_c := (hb_c h)\<lparr>sm_Now := n'\<rparr>\<rparr>)"
| outage: "hub_step h (h\<lparr>hb_c := (hb_c h)\<lparr>sm_Err := e\<rparr>\<rparr>)"

lemma receive_frame:
  "ss_tenant (snd (receive s)) = ss_tenant s" "ss_user (snd (receive s)) = ss_user s"
  "ss_closed (snd (receive s)) = ss_closed s" "length (ss_ch (snd (receive s))) \<le> length (ss_ch s)"
  by (auto simp: receive_def split: list.splits)

lemma Publish_frame: "\<exists>c. snd (PublishID valid marshal tid to all typ data module h) = h\<lparr>hb_c := c\<rparr>"
proof -
  have "\<exists>c. h = h\<lparr>hb_c := c\<rparr>" by (intro exI [of _ "hb_c h"]) simp
  then show ?thesis
    by (auto simp: PublishID_def bindE_def refuseE_def getE_def failE_def with_client_def split: option.splits prod.splits)
qed

lemma hub_step_ok:
  assumes "hub_step h h'" and "hub_ok h"
  shows "hub_ok h'"
  using assms
proof (cases rule: hub_step.cases)
  case publish
  then show ?thesis using Publish_frame assms(2) by (metis hub_ok_client(1))
next
  case (receive k)
  have "length (ss_ch (snd (receive (hb_subs h k)))) \<le> connBuffer"
    using receive_frame(4) [of "hb_subs h k"] assms(2) by (auto simp: hub_ok_def intro: order_trans)
  with receive assms(2) show ?thesis by (auto intro!: hub_ok_put simp: receive_frame)
qed (use assms(2) in \<open>auto simp: Subscribe_ok loop_turn_ok close_sub_ok Hub_Close_ok\<close>)

text \<open>
  C34. In every run of the hub the limits hold: a person has at most \<open>StreamsPerUser\<close> open streams of
  a tenant, a tenant at most \<open>StreamsPerTenant\<close>, no buffer holds more than 32 events; every open
  stream is registered with its tenant and counted for its user, and a tenant is kept only while it
  has open streams.
\<close>

theorem hub_limits:
  assumes "hub_step\<^sup>*\<^sup>* (NewHub c cfg now) h"
  shows "hub_ok h"
  using assms by (induction rule: rtranclp_induct) (auto simp: NewHub_ok intro: hub_step_ok)

theorem hub_limits_witness:
  "hub_ok (snd (Subscribe ''t1'' ''ada'' [] (NewHub (NewMemory 5) \<lparr> hc_ReplayWindow = 0, hc_StreamsPerUser = 1,
     hc_StreamsPerTenant = 1, hc_MaxLen = 0 \<rparr> 5)))"
  by (rule hub_limits, rule r_into_rtranclp, rule hub_step.subscribe)

section \<open>Order and repetition within a stream\<close>

datatype sub_action = Push stream_event | Receive

fun sub_run :: "sub_action list \<Rightarrow> subscription \<Rightarrow> subscription \<times> stream_event list" where
  "sub_run [] s = (s, [])"
| "sub_run (Push ev # as) s = sub_run as (snd (push ev s))"
| "sub_run (Receive # as) s = (case receive s of (got, s') \<Rightarrow>
     (case sub_run as s' of (s'', rest) \<Rightarrow> (s'', (case got of None \<Rightarrow> [] | Some ev \<Rightarrow> [ev]) @ rest)))"

text \<open>The ids of the events that have one: the module's own \<open>reset\<close> events have none.\<close>

definition ids_of :: "stream_event list \<Rightarrow> string list" where
  "ids_of evs = filter (\<lambda>i. i \<noteq> '''') (map se_ID evs)"

lemma ids_of_append [simp]: "ids_of (a @ b) = ids_of a @ ids_of b" "ids_of (ev # b) = (if se_ID ev = [] then [] else [se_ID ev]) @ ids_of b"
    "ids_of [] = []"
  by (simp_all add: ids_of_def)

definition behind :: "string \<Rightarrow> string list \<Rightarrow> bool" where
  "behind l ids \<longleftrightarrow> sorted_wrt Less ids \<and> (\<forall>i \<in> set ids. l \<noteq> '''' \<and> (i = l \<or> Less i l))"

lemma push_behind:
  assumes "behind (ss_last s) (ids_of (got @ ss_ch s))"
  shows "behind (ss_last (snd (push ev s))) (ids_of (got @ ss_ch (snd (push ev s))))"
proof (cases "ss_closed s \<or> (se_ID ev \<noteq> '''' \<and> ss_last s \<noteq> '''' \<and> \<not> Less (ss_last s) (se_ID ev))")
  case True
  with assms show ?thesis by (auto simp: push_def)
next
  case False
  show ?thesis
  proof (cases "se_ID ev = ''''")
    case True
    with False assms show ?thesis by (auto simp: push_def Let_def ids_of_def)
  next
    case new: False
    have below: "Less i (se_ID ev)" if "i \<in> set (ids_of (got @ ss_ch s))" for i
    proof -
      from that assms have "ss_last s \<noteq> ''''" "i = ss_last s \<or> Less i (ss_last s)" unfolding behind_def by blast+
      moreover from this False new have "Less (ss_last s) (se_ID ev)" by simp
      ultimately show ?thesis using Less_trans by blast
    qed
    with False new assms show ?thesis
      by (auto simp: push_def Let_def behind_def sorted_wrt_append ids_of_def)
  qed
qed

lemma sub_run_behind:
  assumes "behind (ss_last s) (ids_of (got @ ss_ch s))"
  shows "case sub_run as s of (s', rest) \<Rightarrow> behind (ss_last s') (ids_of ((got @ rest) @ ss_ch s'))"
  using assms
proof (induction as s arbitrary: got rule: sub_run.induct)
  case (2 ev as s)
  from push_behind [OF 2(2)] 2(1) [of got] show ?case by simp
next
  case (3 as s)
  show ?case
  proof (cases "ss_ch s")
    case Nil
    then have r: "receive s = (None, s)" by (simp add: receive_def)
    from 3(1) [OF r [symmetric], of got] 3(2) r show ?thesis by (auto split: prod.splits)
  next
    case (Cons ev rest)
    then have r: "receive s = (Some ev, s\<lparr>ss_ch := rest\<rparr>)" by (simp add: receive_def)
    have "behind (ss_last (s\<lparr>ss_ch := rest\<rparr>)) (ids_of ((got @ [ev]) @ ss_ch (s\<lparr>ss_ch := rest\<rparr>)))"
      using 3(2) Cons by simp
    from 3(1) [OF r [symmetric] this] r show ?thesis by (auto split: prod.splits)
  qed
qed simp

text \<open>
  C35. A stream never repeats or reorders events: whatever is pushed to it, by the replay and by the
  live loop in any interleaving with the reader, the ids of the events the reader has got and of
  those still in the buffer are strictly increasing.
\<close>

theorem stream_increasing:
  "case sub_run as \<lparr> ss_tenant = tid, ss_user = u, ss_ch = [], ss_last = [], ss_closed = False \<rparr> of (s, got) \<Rightarrow>
     sorted_wrt Less (ids_of (got @ ss_ch s))"
  using sub_run_behind [of "\<lparr> ss_tenant = tid, ss_user = u, ss_ch = [], ss_last = [], ss_closed = False \<rparr>" "[]" as]
  by (auto simp: behind_def ids_of_def split: prod.splits)

section \<open>Replay\<close>

lemma push_new:
  assumes "\<not> ss_closed s" and "se_ID ev \<noteq> ''''" and "ss_last s = '''' \<or> Less (ss_last s) (se_ID ev)"
    and "length (ss_ch s) \<le> connBuffer"
  shows "snd (push ev s) = s\<lparr>ss_last := se_ID ev, ss_ch := take connBuffer (ss_ch s @ [ev])\<rparr>"
  using assms by (auto simp: push_def Let_def)

lemma fold_push_new:
  assumes "\<not> ss_closed s" and "length (ss_ch s) \<le> connBuffer" and "\<forall>ev \<in> set evs. se_ID ev \<noteq> ''''"
    and "sorted_wrt Less (map se_ID evs)" and "ss_last s = '''' \<or> (\<forall>ev \<in> set evs. Less (ss_last s) (se_ID ev))"
  shows "fold (\<lambda>ev s. snd (push ev s)) evs s =
    s\<lparr>ss_last := (if evs = [] then ss_last s else se_ID (last evs)), ss_ch := take connBuffer (ss_ch s @ evs)\<rparr>"
  using assms
proof (induction evs arbitrary: s)
  case (Cons ev evs)
  let ?s = "s\<lparr>ss_last := se_ID ev, ss_ch := take connBuffer (ss_ch s @ [ev])\<rparr>"
  have p: "snd (push ev s) = ?s" using Cons.prems by (intro push_new) auto
  have "fold (\<lambda>ev s. snd (push ev s)) evs ?s =
      ?s\<lparr>ss_last := (if evs = [] then ss_last ?s else se_ID (last evs)), ss_ch := take connBuffer (ss_ch ?s @ evs)\<rparr>"
    using Cons.prems by (intro Cons.IH) auto
  moreover have "take connBuffer (take connBuffer (ss_ch s @ [ev]) @ evs) = take connBuffer (ss_ch s @ ev # evs)"
    using Cons.prems(2) by (cases "length (ss_ch s) < connBuffer") (auto simp: not_less min_def)
  ultimately show ?case by (simp add: p)
qed simp

text \<open>The events of a user among stream entries.\<close>

definition events_for :: "string \<Rightarrow> stream_entry list \<Rightarrow> stream_event list" where
  "events_for u es = map event_of (filter (\<lambda>e. targets (field e ''to'') u) es)"

lemma replay_fold:
  "fold (\<lambda>e s'. if targets (field e ''to'') (ss_user s') then snd (push (event_of e) s') else s') es s =
     fold (\<lambda>ev s'. snd (push ev s')) (events_for (ss_user s) es) s"
proof (induction es arbitrary: s)
  case (Cons e es)
  show ?case
    using Cons [of s] Cons [of "snd (push (event_of e) s)"] by (simp add: events_for_def push_frame)
qed (simp add: events_for_def)

lemma subseq_set: "subseq xs ys \<Longrightarrow> set xs \<subseteq> set ys"
  by (induction xs ys rule: list_emb.induct) auto

lemma subseq_sorted: "subseq xs ys \<Longrightarrow> sorted_wrt P ys \<Longrightarrow> sorted_wrt P xs"
  by (induction xs ys rule: list_emb.induct) (auto dest: subseq_set)

definition ordered_stream :: "stream_entry list \<Rightarrow> bool" where
  "ordered_stream es \<longleftrightarrow> sorted_wrt Less (map xe_ID es) \<and> (\<forall>e \<in> set es. xe_ID e \<noteq> '''')"


section \<open>Publishing and fan-out\<close>

lemma targets_Join:
  assumes "to \<noteq> []" and "\<forall>w \<in> set to. w \<noteq> '''' \<and> CHR '','' \<notin> set w"
  shows "targets (Join to (CHR '','')) u \<longleftrightarrow> u \<in> set to \<or> to = [''*'']"
proof -
  have sp: "Split (CHR '','') (Join to (CHR '','')) = to" using assms by (intro Split_Join) auto
  have "Join to (CHR '','') = ''*'' \<longleftrightarrow> to = [''*'']"
  proof
    assume "Join to (CHR '','') = ''*''"
    with sp have "to = Split (CHR '','') ''*''" by simp
    then show "to = [''*'']" by simp
  qed simp
  with sp show ?thesis by (auto simp: targets_def list_ex_iff)
qed

text \<open>
  A published event is the newest entry of the tenant's stream, its id is the answer, and it
  reaches exactly the people it was published for: everyone for \<open>all\<close> (or for the single name \<open>*\<close>),
  otherwise those listed, between 1 and 1000 of them; the module's own types are refused to others.
\<close>

theorem publish_reaches:
  assumes "PublishID valid marshal tid to all typ data module h = (Inr i, h')" and "0 < hc_MaxLen (hb_cfg h)"
  shows "\<exists>e es. sm_streams (hb_c h') (Key tid) = es @ [e] \<and> xe_ID e = i \<and> field e ''type'' = typ \<and>
    (\<forall>u. targets (field e ''to'') u \<longleftrightarrow> all \<or> u \<in> set to \<or> to = [''*'']) \<and>
    int (length (es @ [e])) \<le> max (hc_MaxLen (hb_cfg h)) (int (length (sm_streams (hb_c h) (Key tid)))) \<and>
    (all \<or> (1 \<le> length to \<and> length to \<le> 1000)) \<and> (module \<longrightarrow> typ \<notin> set Reserved)"
proof -
  from assms(1) obtain raw where v: "ValidateType typ module = None" and n: "all \<noteq> (length to > 0)" "length to \<le> MaxTargets"
    and ok: "all \<or> (\<forall>u \<in> set to. u \<noteq> '''' \<and> \<not> ContainsAny u [CHR '','', CHR '' '', CHR 0x0A])"
    and add: "with_client (XAdd (Key tid) [''to'' \<mapsto> (if all then ''*'' else Join to (CHR '','')), ''type'' \<mapsto> typ,
        ''data'' \<mapsto> raw, ''at'' \<mapsto> FormatInt (UnixMilli (hb_now h))] (hc_MaxLen (hb_cfg h))) h = (Inr i, h')"
    by (auto simp: PublishID_def bindE_def refuseE_def getE_def failE_def list_ex_iff split: option.splits if_splits)
  let ?e = "\<lparr> xe_ID = i, xe_Fields = [''to'' \<mapsto> (if all then ''*'' else Join to (CHR '','')), ''type'' \<mapsto> typ,
        ''data'' \<mapsto> raw, ''at'' \<mapsto> FormatInt (UnixMilli (hb_now h))] \<rparr>"
  let ?old = "sm_streams (hb_c h) (Key tid)"
  let ?m = "hc_MaxLen (hb_cfg h)"
  have s: "sm_streams (hb_c h') (Key tid) =
      (if int (length (?old @ [?e])) > ?m then drop (length (?old @ [?e]) - nat ?m) (?old @ [?e]) else ?old @ [?e])"
    using add assms(2) by (auto simp: with_client_def XAdd_def unless_down_def Let_def split: option.splits prod.splits if_splits)
  have "\<exists>es. sm_streams (hb_c h') (Key tid) = es @ [?e]"
    using assms(2) by (auto simp: s)
  moreover have "int (length (sm_streams (hb_c h') (Key tid))) \<le> max ?m (int (length ?old))"
    using assms(2) by (auto simp: s)
  moreover have "targets (field ?e ''to'') u \<longleftrightarrow> all \<or> u \<in> set to \<or> to = [''*'']" for u
  proof (cases all)
    case True
    then show ?thesis by (simp add: field_def targets_def)
  next
    case False
    with n ok have "to \<noteq> []" "\<forall>w \<in> set to. w \<noteq> '''' \<and> CHR '','' \<notin> set w"
      by (auto simp: ContainsAny_def list_ex_iff)
    with False targets_Join [of to u] show ?thesis by (simp add: field_def)
  qed
  moreover have "module \<longrightarrow> typ \<notin> set Reserved" using v by (auto simp: ValidateType_def split: if_splits)
  moreover have "all \<or> (1 \<le> length to \<and> length to \<le> 1000)" using n by (auto simp: MaxTargets_def Suc_le_eq)
  ultimately show ?thesis
    by (elim exE, intro exI [of _ ?e] exI conjI) (auto simp: field_def)
qed

text \<open>What an event does to a stream it is for: queued, skipped when it was delivered before, or the stream is closed when its buffer is full.\<close>

definition delivery :: "stream_event \<Rightarrow> subscription \<Rightarrow> subscription" where
  "delivery ev s = (case push ev s of (ok, s') \<Rightarrow> if ok then s' else s'\<lparr>ss_closed := True\<rparr>)"

lemma close_sub_subs:
  "hb_subs (close_sub k h) = (hb_subs h)(k := (hb_subs h k)\<lparr>ss_closed := True\<rparr>)"
  by (auto simp: close_sub_def Let_def fun_eq_iff split: option.splits)

lemma dispatch_one_subs: "hb_subs (dispatch_one ev k h) = (hb_subs h)(k := delivery ev (hb_subs h k))"
  by (auto simp: dispatch_one_def delivery_def Let_def close_sub_subs split: prod.splits)

lemma fold_dispatch_subs:
  "distinct ks \<Longrightarrow> hb_subs (fold (dispatch_one ev) ks h) j =
     (if j \<in> set ks then delivery ev (hb_subs h j) else hb_subs h j)"
  by (induction ks arbitrary: h) (auto simp: dispatch_one_subs)

text \<open>
  C36. The fan-out of an entry touches exactly the open streams of its tenant whose user it is for:
  each gets the event unless it already had it, a stream whose buffer is full is closed, and every
  other stream, of that tenant and of the others, stays as it is.
\<close>

theorem fanout_exact:
  assumes "hub_ok h"
  shows "hb_subs (dispatch tid e h) k =
    (if \<not> ss_closed (hb_subs h k) \<and> ss_tenant (hb_subs h k) = tid \<and> targets (field e ''to'') (ss_user (hb_subs h k))
     then delivery (event_of e) (hb_subs h k) else hb_subs h k)"
proof (cases "hb_tenants h tid")
  case None
  with assms show ?thesis by (auto simp: dispatch_def hub_ok_def)
next
  case (Some t)
  then have t: "tenant_ok h tid t" using assms by (simp add: hub_ok_def)
  have "k \<in> set (ts_conns t) \<longleftrightarrow> \<not> ss_closed (hb_subs h k) \<and> ss_tenant (hb_subs h k) = tid"
  proof
    assume "\<not> ss_closed (hb_subs h k) \<and> ss_tenant (hb_subs h k) = tid"
    moreover from this obtain t' where "hb_tenants h (ss_tenant (hb_subs h k)) = Some t'" "k \<in> set (ts_conns t')"
      using assms unfolding hub_ok_def by blast
    ultimately show "k \<in> set (ts_conns t)" using Some by simp
  qed (use t in \<open>auto simp: tenant_ok_def\<close>)
  moreover have "distinct (ts_conns t)" using t by (simp add: tenant_ok_def)
  ultimately show ?thesis
    using Some by (simp add: dispatch_def fold_dispatch_subs)
qed

section \<open>Frames\<close>

lemma newline_free: "CHR 0x0A \<notin> set (filter (\<lambda>c. c \<noteq> CHR 0x0D \<and> c \<noteq> CHR 0x0A) s)"
  by simp

text \<open>
  The frame of an event has the lines it should and no others: the data cannot add a line, so it
  cannot forge an id, a type or another event.
\<close>

theorem frame_lines:
  assumes "CHR 0x0A \<notin> set (se_ID ev)" and "CHR 0x0A \<notin> set (se_Type ev)"
  shows "Split (CHR 0x0A) (Frame ev) = (if se_ID ev \<noteq> '''' then [''id: '' @ se_ID ev] else []) @
    [''event: '' @ se_Type ev, ''data: '' @ filter (\<lambda>c. c \<noteq> CHR 0x0D \<and> c \<noteq> CHR 0x0A) (se_Data ev), [], []]"
proof -
  let ?d = "filter (\<lambda>c. c \<noteq> CHR 0x0D \<and> c \<noteq> CHR 0x0A) (se_Data ev)"
  have d: "Split (CHR 0x0A) ((''data: '' @ ?d) @ CHR 0x0A # [CHR 0x0A]) = [''data: '' @ ?d, [], []]"
    by (subst Split_append) simp_all
  have e: "Split (CHR 0x0A) ((''event: '' @ se_Type ev) @ CHR 0x0A # (''data: '' @ ?d) @ CHR 0x0A # [CHR 0x0A]) =
      [''event: '' @ se_Type ev, ''data: '' @ ?d, [], []]"
    using assms(2) d by (subst Split_append) simp_all
  have i: "Split (CHR 0x0A) ((''id: '' @ se_ID ev) @ CHR 0x0A # (''event: '' @ se_Type ev) @ CHR 0x0A # (''data: '' @ ?d) @ CHR 0x0A # [CHR 0x0A]) =
      (''id: '' @ se_ID ev) # [''event: '' @ se_Type ev, ''data: '' @ ?d, [], []]"
    using assms(1) e by (subst Split_append) simp_all
  show ?thesis
    using e i by (cases "se_ID ev = ''''") (simp_all add: Frame_def)
qed

theorem frame_lines_witness:
  "Split (CHR 0x0A) (Frame \<lparr> se_ID = ''1-1'', se_Type = ''inbox'', se_Data = ''a'' @ [CHR 0x0A] @ ''event: x'' \<rparr>) =
     [''id: 1-1'', ''event: inbox'', ''data: aevent: x'', [], []]"
  using frame_lines [of "\<lparr> se_ID = ''1-1'', se_Type = ''inbox'', se_Data = ''a'' @ [CHR 0x0A] @ ''event: x'' \<rparr>"] by simp

section \<open>Witnesses\<close>

definition sample_hub :: hub where
  "sample_hub = NewHub (NewMemory unix_epoch) \<lparr> hc_ReplayWindow = 0, hc_StreamsPerUser = 0,
     hc_StreamsPerTenant = 0, hc_MaxLen = 0 \<rparr> unix_epoch"

definition published :: "(goerr + string) \<times> hub" where
  "published = PublishID (\<lambda>_. True) (\<lambda>_. None) ''t1'' [''ada''] False ''note'' NoData True sample_hub"

lemma published_eval: "fst published = Inr ''0-1''" "hb_cfg (snd published) = hb_cfg sample_hub"
  "sm_streams (hb_c (snd published)) (Key ''t1'') = [\<lparr> xe_ID = ''0-1'', xe_Fields =
     [''to'' \<mapsto> ''ada'', ''type'' \<mapsto> ''note'', ''data'' \<mapsto> ''{}'', ''at'' \<mapsto> ''0''] \<rparr>]"
proof -
  have f: "FormatInt 0 = ''0''" "FormatInt 1 = ''1''" by code_simp+
  have t: "typeRE ''note''" by code_simp
  show "fst published = Inr ''0-1''" "hb_cfg (snd published) = hb_cfg sample_hub"
    "sm_streams (hb_c (snd published)) (Key ''t1'') = [\<lparr> xe_ID = ''0-1'', xe_Fields =
     [''to'' \<mapsto> ''ada'', ''type'' \<mapsto> ''note'', ''data'' \<mapsto> ''{}'', ''at'' \<mapsto> ''0''] \<rparr>]"
    by (simp_all add: published_def PublishID_def ValidateType_def t Reserved_def bindE_def refuseE_def MaxTargets_def raw_data_def
        MaxPayload_def ContainsAny_def getE_def with_client_def XAdd_def unless_down_def sample_hub_def NewHub_def NewMemory_def
        NewHub_config_def DefaultMaxLen_def ID_def UnixMilli_def f Let_def)
qed

theorem publish_reaches_witness:
  "\<exists>e es. sm_streams (hb_c (snd published)) (Key ''t1'') = es @ [e] \<and> xe_ID e = ''0-1'' \<and>
     targets (field e ''to'') ''ada'' \<and> \<not> targets (field e ''to'') ''bob''"
proof -
  have "PublishID (\<lambda>_. True) (\<lambda>_. None) ''t1'' [''ada''] False ''note'' NoData True sample_hub = (Inr ''0-1'', snd published)"
    using published_eval(1) by (simp add: published_def prod_eq_iff)
  moreover have "0 < hc_MaxLen (hb_cfg sample_hub)"
    by (simp add: sample_hub_def NewHub_def NewHub_config_def DefaultMaxLen_def)
  ultimately show ?thesis using publish_reaches by fastforce
qed

lemma published_ok: "hub_ok (snd published)"
  using Publish_frame [of "\<lambda>_. True" "\<lambda>_. None" "''t1''" "[''ada'']" False "''note''" NoData True sample_hub] NewHub_ok
  by (auto simp: published_def sample_hub_def)

lemma subscribed:
  "\<exists>h'. Subscribe ''t1'' ''ada'' lastID (snd published) = (Inr 0, h') \<and>
     (lastID = [] \<longrightarrow> hb_subs h' 0 = \<lparr> ss_tenant = ''t1'', ss_user = ''ada'', ss_ch = [], ss_last = [], ss_closed = False \<rparr>)"
proof -
  let ?h = "snd published"
  obtain c where c: "?h = sample_hub\<lparr>hb_c := c\<rparr>"
    using Publish_frame [of "\<lambda>_. True" "\<lambda>_. None" "''t1''" "[''ada'']" False "''note''" NoData True sample_hub]
    by (auto simp: published_def)
  have e: "sm_Err (hb_c ?h) = None"
    using published_eval(1) by (auto simp: published_def PublishID_def bindE_def with_client_def XAdd_def unless_down_def refuseE_def
        getE_def failE_def Let_def split: option.splits if_splits)
  then have j: "\<exists>t. joined ''t1'' ?h = Inr t \<and> ts_conns t = [] \<and> ts_byUser t = (\<lambda>_. 0)"
    by (simp add: joined_def c sample_hub_def NewHub_def XLast_def unless_down_def)
  have lim: "0 < hc_StreamsPerUser (hb_cfg ?h)" "0 < hc_StreamsPerTenant (hb_cfg ?h)"
    by (simp_all add: c sample_hub_def NewHub_def NewHub_config_def)
  have "\<not> hb_done ?h" "hb_next ?h = 0" by (simp_all add: c sample_hub_def NewHub_def)
  with j lim show ?thesis
    unfolding Subscribe_cases [OF lim] by (auto simp: add_conn_def)
qed

theorem fanout_exact_witness:
  "\<exists>h'. Subscribe ''t1'' ''ada'' [] (snd published) = (Inr 0, h') \<and>
     map se_ID (ss_ch (hb_subs (dispatch ''t1'' \<lparr> xe_ID = ''0-2'', xe_Fields = [''to'' \<mapsto> ''*''] \<rparr> h') 0)) = [''0-2'']"
proof -
  obtain h' where h: "Subscribe ''t1'' ''ada'' [] (snd published) = (Inr 0, h')"
    "hb_subs h' 0 = \<lparr> ss_tenant = ''t1'', ss_user = ''ada'', ss_ch = [], ss_last = [], ss_closed = False \<rparr>"
    using subscribed [of "[]"] by auto
  have "hub_ok h'" using Subscribe_ok [OF published_ok, of "''t1''" "''ada''" "[]"] h(1) by simp
  from fanout_exact [OF this, of "''t1''" _ 0] h show ?thesis
    by (simp add: delivery_def push_def event_of_def field_def targets_def connBuffer_def)
qed


end
