(* ===== verification/Marking.thy ===== *)
theory Marking
  imports Prelude
begin

text \<open>
  Texts in which secrets are replaced by a marker in brackets, as the error texts of the sealed
  settings and the stored renders of notifications do: what such a replacement removes, and that a
  later one does not bring it back.
\<close>

definition bracketed :: "string \<Rightarrow> string" where
  "bracketed mid = CHR ''['' # mid @ [CHR '']'']"

text \<open>A secret that cannot be told from the marker itself is out of reach of a replacement.\<close>

definition apart :: "string \<Rightarrow> string \<Rightarrow> bool" where
  "apart mid v \<longleftrightarrow> v \<noteq> '''' \<and> CHR ''['' \<notin> set v \<and> CHR '']'' \<notin> set v \<and> \<not> sublist v mid"

lemma apart_nonempty: "apart mid v \<Longrightarrow> v \<noteq> []"
  by (simp add: apart_def)

lemma sublist_split:
  assumes "d \<notin> set v" and "sublist v (a @ d # b)"
  shows "sublist v a \<or> sublist v b"
proof -
  from assms(2) consider "sublist v a" | "sublist v (d # b)"
    | v1 v2 where "v = v1 @ v2" "suffix v1 a" "prefix v2 (d # b)" by (auto simp: sublist_append)
  then show ?thesis
  proof cases
    case 2
    with assms(1) show ?thesis by (cases v) (auto simp: sublist_Cons_right)
  next
    case 3
    with assms(1) show ?thesis by (cases v2) auto
  qed simp
qed

lemma sublist_bracketed:
  assumes "apart mid v" and "sublist v (bracketed mid @ rest)"
  shows "sublist v rest"
proof -
  have r: "bracketed mid @ rest = [] @ CHR ''['' # mid @ CHR '']'' # rest" by (simp add: bracketed_def)
  from assms have "sublist v [] \<or> sublist v (mid @ CHR '']'' # rest)"
    unfolding r by (intro sublist_split) (auto simp: apart_def)
  with assms(1) sublist_split [of "CHR '']''" v mid rest] show ?thesis
    by (auto simp: apart_def)
qed

lemma prefix_ReplaceAll:
  assumes "w \<noteq> []" and "CHR ''['' \<notin> set v" and "prefix v (ReplaceAll t w (bracketed mid))"
  shows "prefix v t"
  using assms(2,3)
proof (induction t arbitrary: v)
  case Nil
  then show ?case using assms(1) by (simp add: ReplaceAll_Nil)
next
  case (Cons c t)
  show ?case
  proof (cases "prefix w (c # t)")
    case True
    with Cons.prems assms(1) show ?thesis
      by (cases v) (auto simp: ReplaceAll_match bracketed_def)
  next
    case False
    with Cons assms(1) show ?thesis by (cases v) (auto simp: ReplaceAll_skip)
  qed
qed

lemma ReplaceAll_keeps_out:
  assumes "w \<noteq> []" and "apart mid v" and "\<not> sublist v t"
  shows "\<not> sublist v (ReplaceAll t w (bracketed mid))"
  using assms(3)
proof (induction "length t" arbitrary: t rule: less_induct)
  case less
  show ?case
  proof (cases t)
    case Nil
    with less.prems assms(1) show ?thesis by (simp add: ReplaceAll_Nil)
  next
    case (Cons c t')
    show ?thesis
    proof (cases "prefix w t")
      case True
      have "\<not> sublist v (drop (length w) t)" using less.prems by (metis sublist_drop sublist_order.order.trans)
      with less.hyps [of "drop (length w) t"] assms(1) Cons have "\<not> sublist v (ReplaceAll (drop (length w) t) w (bracketed mid))" by simp
      with True assms(1,2) show ?thesis using sublist_bracketed by (auto simp: ReplaceAll_match)
    next
      case False
      then have r: "ReplaceAll t w (bracketed mid) = c # ReplaceAll t' w (bracketed mid)" using assms(1) Cons by (simp add: ReplaceAll_skip)
      have "\<not> sublist v t'" "\<not> prefix v t" using less.prems Cons by (auto simp: sublist_Cons_right)
      with less.hyps [of t'] Cons prefix_ReplaceAll [OF assms(1), of v t mid] assms(2) show ?thesis
        unfolding r sublist_Cons_right by (auto simp: apart_def r)
    qed
  qed
qed

lemma ReplaceAll_removes:
  assumes "apart mid v"
  shows "\<not> sublist v (ReplaceAll t v (bracketed mid))"
proof (induction "length t" arbitrary: t rule: less_induct)
  case less
  have v: "v \<noteq> []" using assms by (simp add: apart_def)
  show ?case
  proof (cases t)
    case Nil
    with v show ?thesis by (simp add: ReplaceAll_Nil)
  next
    case (Cons c t')
    show ?thesis
    proof (cases "prefix v t")
      case True
      with less.hyps [of "drop (length v) t"] v Cons sublist_bracketed [OF assms] show ?thesis
        by (auto simp: ReplaceAll_match)
    next
      case False
      then have r: "ReplaceAll t v (bracketed mid) = c # ReplaceAll t' v (bracketed mid)" using v Cons by (simp add: ReplaceAll_skip)
      with less.hyps [of t'] Cons prefix_ReplaceAll [OF v, of v t mid] False assms show ?thesis
        unfolding r sublist_Cons_right by (auto simp: apart_def r)
    qed
  qed
qed

lemma set_ReplaceAll: "w \<noteq> [] \<Longrightarrow> set (ReplaceAll t w n) \<subseteq> set t \<union> set n"
proof (induction "length t" arbitrary: t rule: less_induct)
  case less
  show ?case
  proof (cases t)
    case Nil
    with less.prems show ?thesis by (simp add: ReplaceAll_Nil)
  next
    case (Cons c t')
    show ?thesis
    proof (cases "prefix w t")
      case True
      with less Cons have "set (ReplaceAll (drop (length w) t) w n) \<subseteq> set (drop (length w) t) \<union> set n" by simp
      with True less.prems show ?thesis by (auto simp: ReplaceAll_match dest: in_set_dropD)
    next
      case False
      with less Cons show ?thesis by (auto simp: ReplaceAll_skip)
    qed
  qed
qed

text \<open>Replacing a list of texts one after the other.\<close>

definition replace_each :: "string list \<Rightarrow> string \<Rightarrow> string \<Rightarrow> string" where
  "replace_each vs new t = fold (\<lambda>v t. ReplaceAll t v new) vs t"

lemma replace_each_clean:
  assumes "apart mid v" and "v \<in> set vs \<or> \<not> sublist v t" and "[] \<notin> set vs"
  shows "\<not> sublist v (replace_each vs (bracketed mid) t)"
  using assms(2,3)
proof (induction vs arbitrary: t)
  case (Cons w vs)
  have "\<not> sublist v (ReplaceAll t w (bracketed mid))" if "w = v \<or> \<not> sublist v t"
    using that Cons.prems(2) ReplaceAll_removes [OF assms(1)] ReplaceAll_keeps_out [of w, OF _ assms(1)] by auto
  with Cons show ?case by (cases "w = v") (auto simp: replace_each_def)
qed (simp add: replace_each_def)

end
