(* ===== verification/Sealed.thy ===== *)
theory Sealed
  imports Models Marking
begin

text \<open>
  \<open>internal/sealed/sealed.go\<close>: the envelope around channel settings, the redaction of credential
  fields in reads, the merge of an update with the stored settings and the scrubbing of error texts.
  The authenticated cipher of \<open>crypto/cipher\<close> and the random source are arguments, base64 is
  modelled.
\<close>

section \<open>Base64\<close>

definition b64_alphabet :: string where
  "b64_alphabet = ''ABCDEFGHIJKLMNOPQRSTUVWXYZabcdefghijklmnopqrstuvwxyz0123456789+/''"

definition b64_char :: "nat \<Rightarrow> char" where
  "b64_char n = b64_alphabet ! n"

fun find_index :: "char \<Rightarrow> string \<Rightarrow> nat option" where
  "find_index c [] = None"
| "find_index c (d # s) = (if c = d then Some 0 else map_option Suc (find_index c s))"

definition b64_value :: "char \<Rightarrow> nat option" where
  "b64_value c = find_index c b64_alphabet"

fun b64_encode :: "string \<Rightarrow> string" where
  "b64_encode [] = []"
| "b64_encode [a] = (let x = of_char a in [b64_char (x div 4), b64_char (x mod 4 * 16), CHR ''='', CHR ''=''])"
| "b64_encode [a, b] = (let x = of_char a; y = of_char b in
     [b64_char (x div 4), b64_char (x mod 4 * 16 + y div 16), b64_char (y mod 16 * 4), CHR ''=''])"
| "b64_encode (a # b # c # s) = (let x = of_char a; y = of_char b; z = of_char c in
     b64_char (x div 4) # b64_char (x mod 4 * 16 + y div 16) # b64_char (y mod 16 * 4 + z div 64) # b64_char (z mod 64)
     # b64_encode s)"

text \<open>
  Decoding: line breaks are skipped, a last group may be padded (\<open>StdEncoding\<close>) or, without padding,
  short (\<open>RawStdEncoding\<close>); the bits of a short group that make no byte are ignored.
\<close>

definition byte1 :: "nat \<Rightarrow> nat \<Rightarrow> char" where "byte1 p q = char_of (p * 4 + q div 16)"
definition byte2 :: "nat \<Rightarrow> nat \<Rightarrow> char" where "byte2 q r = char_of (q mod 16 * 16 + r div 4)"
definition byte3 :: "nat \<Rightarrow> nat \<Rightarrow> char" where "byte3 r t = char_of (r mod 4 * 64 + t)"

fun b64_groups :: "bool \<Rightarrow> string \<Rightarrow> string option" where
  "b64_groups pad [] = Some []"
| "b64_groups pad (a # b # c # d # s) =
     (if pad \<and> s = [] \<and> d = CHR ''='' then
        (if c = CHR ''='' then
           (case (b64_value a, b64_value b) of (Some p, Some q) \<Rightarrow> Some [byte1 p q] | _ \<Rightarrow> None)
         else (case (b64_value a, b64_value b, b64_value c) of
             (Some p, Some q, Some r) \<Rightarrow> Some [byte1 p q, byte2 q r] | _ \<Rightarrow> None))
      else (case (b64_value a, b64_value b, b64_value c, b64_value d) of
          (Some p, Some q, Some r, Some t) \<Rightarrow>
            map_option (\<lambda>rest. byte1 p q # byte2 q r # byte3 r t # rest) (b64_groups pad s)
        | _ \<Rightarrow> None))"
| "b64_groups pad [a, b, c] = (if pad then None else
     (case (b64_value a, b64_value b, b64_value c) of
        (Some p, Some q, Some r) \<Rightarrow> Some [byte1 p q, byte2 q r] | _ \<Rightarrow> None))"
| "b64_groups pad [a, b] = (if pad then None else
     (case (b64_value a, b64_value b) of (Some p, Some q) \<Rightarrow> Some [byte1 p q] | _ \<Rightarrow> None))"
| "b64_groups pad [a] = None"

definition b64_decode :: "bool \<Rightarrow> string \<Rightarrow> string option" where
  "b64_decode pad s = b64_groups pad (filter (\<lambda>c. c \<noteq> CHR 0x0A \<and> c \<noteq> CHR 0x0D) s)"

lemma b64_value_char: "n < 64 \<Longrightarrow> b64_value (b64_char n) = Some n"
proof -
  have "list_all (\<lambda>n. b64_value (b64_char n) = Some n) [0..<64]" by code_simp
  then show "n < 64 \<Longrightarrow> ?thesis" by (simp add: list_all_iff)
qed

lemma b64_char_plain:
  "n < 64 \<Longrightarrow> b64_char n \<notin> {CHR ''='', CHR 0x0A, CHR 0x0D, CHR '' '', CHR 0x09, CHR 0x0B, CHR 0x0C, CHR ''['', CHR '']''}"
proof -
  have "list_all (\<lambda>n. b64_char n \<notin> {CHR ''='', CHR 0x0A, CHR 0x0D, CHR '' '', CHR 0x09, CHR 0x0B, CHR 0x0C, CHR ''['', CHR '']''}) [0..<64]"
    by code_simp
  then show "n < 64 \<Longrightarrow> ?thesis" by (auto simp: list_all_iff)
qed

lemma of_char_less [simp]: "(of_char c :: nat) < 256"
  using of_char_mod_256 [of c, where ?'a = nat] mod_less_divisor [of 256 "of_char c"] by simp

lemma b64_group_bytes:
  fixes x y z :: nat
  assumes "x < 256" "y < 256" "z < 256"
  shows "x div 4 < 64" "x mod 4 * 16 + y div 16 < 64" "y mod 16 * 4 + z div 64 < 64" "z mod 64 < 64"
    "x mod 4 * 16 < 64" "y mod 16 * 4 < 64"
    "x div 4 * 4 + (x mod 4 * 16 + y div 16) div 16 = x"
    "(x mod 4 * 16 + y div 16) mod 16 * 16 + (y mod 16 * 4 + z div 64) div 4 = y"
    "(y mod 16 * 4 + z div 64) mod 4 * 64 + z mod 64 = z"
proof -
  have b: "x div 4 < 64" "y div 16 < 16" "z div 64 < 4" using assms by (simp_all add: less_mult_imp_div_less)
  have m: "x mod 4 < 4" "y mod 16 < 16" "z mod 64 < 64" by simp_all
  show "x div 4 < 64" "x mod 4 * 16 + y div 16 < 64" "y mod 16 * 4 + z div 64 < 64" "z mod 64 < 64"
    "x mod 4 * 16 < 64" "y mod 16 * 4 < 64" using b m by linarith+
  have "(x mod 4 * 16 + y div 16) div 16 = x mod 4" "(x mod 4 * 16 + y div 16) mod 16 = y div 16"
    "(y mod 16 * 4 + z div 64) div 4 = y mod 16" "(y mod 16 * 4 + z div 64) mod 4 = z div 64"
    using b by simp_all
  then show "x div 4 * 4 + (x mod 4 * 16 + y div 16) div 16 = x"
    "(x mod 4 * 16 + y div 16) mod 16 * 16 + (y mod 16 * 4 + z div 64) div 4 = y"
    "(y mod 16 * 4 + z div 64) mod 4 * 64 + z mod 64 = z"
    by simp_all
qed

lemma b64_chars:
  "set (b64_encode s) \<subseteq> b64_char ` {..<64} \<union> {CHR ''=''}"
proof (induction s rule: b64_encode.induct)
  case (2 a)
  show ?case using b64_group_bytes(1-6) [of "of_char a" 0 0] by (auto simp: Let_def)
next
  case (3 a b)
  show ?case using b64_group_bytes(1-6) [of "of_char a" "of_char b" 0] by (auto simp: Let_def)
next
  case (4 a b c s)
  then show ?case
    using b64_group_bytes(1-6) [of "of_char a" "of_char b" "of_char c"] by (auto simp: Let_def)
qed simp

lemma b64_filter: "filter (\<lambda>c. c \<noteq> CHR 0x0A \<and> c \<noteq> CHR 0x0D) (b64_encode s) = b64_encode s"
proof (rule filter_True, intro ballI conjI)
  fix c assume "c \<in> set (b64_encode s)"
  then consider n where "n < 64" "c = b64_char n" | "c = CHR ''=''" using b64_chars by blast
  then show "c \<noteq> CHR 0x0A" "c \<noteq> CHR 0x0D" using b64_char_plain by (cases; auto)+
qed

lemma b64_groups_encode: "b64_groups True (b64_encode s) = Some s"
proof (induction s rule: b64_encode.induct)
  case (2 a)
  then show ?case
    using b64_group_bytes [of "of_char a" 0 0]
    by (simp add: Let_def b64_value_char byte1_def)
next
  case (3 a b)
  have "b64_char (of_char b mod 16 * 4) \<noteq> CHR ''=''"
    using b64_char_plain [of "of_char b mod 16 * 4"] b64_group_bytes(6) [of "of_char a" "of_char b" 0] by auto
  then show ?case
    using b64_group_bytes [of "of_char a" "of_char b" 0]
    by (simp add: Let_def b64_value_char byte1_def byte2_def)
next
  case (4 a b c s)
  have "b64_char (of_char c mod 64) \<noteq> CHR ''=''" using b64_char_plain [of "of_char c mod 64"] by auto
  moreover have "(of_char b :: nat) div 16 < 16" "(of_char c :: nat) div 64 < 4" by (simp_all add: less_mult_imp_div_less)
  ultimately show ?case
    using 4 b64_group_bytes [of "of_char a" "of_char b" "of_char c"]
    by (simp add: Let_def b64_value_char byte1_def byte2_def byte3_def)
qed simp

lemma b64_decode_encode: "b64_decode True (b64_encode s) = Some s"
  by (simp add: b64_decode_def b64_filter b64_groups_encode)

section \<open>The envelope\<close>

definition Marker :: string where "Marker = ''__set__''"

definition MaxSettingsBytes :: nat where "MaxSettingsBytes = 8 * 1024"

text \<open>
  AES-256-GCM: key, nonce, text and associated data give the sealed text; opening gives the text
  back or refuses. Nonces have 12 bytes, and a sealed text is 16 bytes longer.
\<close>

record aead =
  ae_Seal :: "string \<Rightarrow> string \<Rightarrow> string \<Rightarrow> string \<Rightarrow> string"
  ae_Open :: "string \<Rightarrow> string \<Rightarrow> string \<Rightarrow> string \<Rightarrow> string option"

definition NonceSize :: nat where "NonceSize = 12"
definition Overhead :: nat where "Overhead = 16"

definition NewEnvelope :: "string \<Rightarrow> goerr + string" where
  "NewEnvelope kek = (if length kek \<noteq> 32 then Inl Sealed_ErrKEK else Inr kek)"

text \<open>\<open>strings.TrimSpace\<close> on ASCII white space.\<close>

definition is_space :: "char \<Rightarrow> bool" where
  "is_space c \<longleftrightarrow> c \<in> {CHR '' '', CHR 0x09, CHR 0x0A, CHR 0x0B, CHR 0x0C, CHR 0x0D}"

definition TrimSpace :: "string \<Rightarrow> string" where
  "TrimSpace s = rev (dropWhile is_space (rev (dropWhile is_space s)))"

definition decodeKEK :: "string \<Rightarrow> goerr + string" where
  "decodeKEK raw = (let trimmed = TrimSpace raw;
       key = (\<lambda>pad. case b64_decode pad trimmed of Some b \<Rightarrow> if length b = 32 then Some b else None | None \<Rightarrow> None) in
     case key True of
       Some b \<Rightarrow> Inr b
     | None \<Rightarrow> (case key False of
           Some b \<Rightarrow> Inr b
         | None \<Rightarrow> if length raw = 32 then Inr raw else Inl Sealed_ErrKEK))"

text \<open>The outcomes of the three reads of the random source are arguments.\<close>

definition Seal ::
  "aead \<Rightarrow> goerr + string \<Rightarrow> goerr + string \<Rightarrow> goerr + string \<Rightarrow> string \<Rightarrow> string \<Rightarrow> string \<Rightarrow> goerr + string" where
  "Seal cr rdek rn1 rn2 kek plaintext ad =
     (if length plaintext > MaxSettingsBytes then Inl Sealed_ErrTooLarge
      else case rdek of Inl e \<Rightarrow> Inl e | Inr dek \<Rightarrow>
        (case rn1 of Inl e \<Rightarrow> Inl e | Inr n1 \<Rightarrow>
        (case rn2 of Inl e \<Rightarrow> Inl e | Inr n2 \<Rightarrow>
          Inr (n1 @ ae_Seal cr kek n1 dek ad @ n2 @ ae_Seal cr dek n2 plaintext ad))))"

definition Open :: "aead \<Rightarrow> string \<Rightarrow> string \<Rightarrow> string \<Rightarrow> goerr + string" where
  "Open cr kek blob ad =
     (let ns = NonceSize; wrapLen = 32 + Overhead in
      if length blob < ns + wrapLen + ns + 16 then Inl Sealed_ErrTampered
      else case ae_Open cr kek (take ns blob) (take wrapLen (drop ns blob)) ad of
          None \<Rightarrow> Inl Sealed_ErrTampered
        | Some dek \<Rightarrow>
            (let rest = drop (ns + wrapLen) blob in
             case ae_Open cr dek (take ns rest) (drop ns rest) ad of
               None \<Rightarrow> Inl Sealed_ErrTampered
             | Some pt \<Rightarrow> Inr pt))"

definition AD :: "string \<Rightarrow> string" where
  "AD channelID = ''channel:'' @ channelID"

text \<open>
  What the cipher promises: sealed texts open under the same key, nonce and associated data, are
  longer by the tag, and nothing else opens.
\<close>

definition aead_correct :: "aead \<Rightarrow> bool" where
  "aead_correct cr \<longleftrightarrow>
     (\<forall>k n p a. ae_Open cr k n (ae_Seal cr k n p a) a = Some p \<and> length (ae_Seal cr k n p a) = length p + Overhead)"

definition aead_authentic :: "aead \<Rightarrow> bool" where
  "aead_authentic cr \<longleftrightarrow> (\<forall>k n c p a. ae_Open cr k n c a = Some p \<longrightarrow> c = ae_Seal cr k n p a)"

section \<open>Settings\<close>

type_synonym settings = "string \<rightharpoonup> any"

text \<open>The JSON package is an argument: parsing gives no settings for a text that is not an object.\<close>

definition Decode :: "(string \<Rightarrow> settings option) \<Rightarrow> string \<Rightarrow> goerr + settings" where
  "Decode unmarshal raw =
     (if length raw > MaxSettingsBytes then Inl Sealed_ErrTooLarge
      else case unmarshal raw of
          None \<Rightarrow> Inl (Outside_Err ''sealed: settings must be a JSON object'')
        | Some s \<Rightarrow> Inr s)"

definition Encode :: "(settings \<Rightarrow> goerr + string) \<Rightarrow> settings \<Rightarrow> goerr + string" where
  "Encode marshal s = (case marshal s of
      Inl e \<Rightarrow> Inl e
    | Inr b \<Rightarrow> if length b > MaxSettingsBytes then Inl Sealed_ErrTooLarge else Inr b)"

text \<open>\<open>str, _ := v.(string)\<close>\<close>

definition as_string :: "any \<Rightarrow> string" where
  "as_string v = (case v of VStr s \<Rightarrow> s | _ \<Rightarrow> '''')"

definition redact_field :: "string \<Rightarrow> settings \<Rightarrow> settings" where
  "redact_field f out = (case out f of
      None \<Rightarrow> out
    | Some v \<Rightarrow> if as_string v \<noteq> '''' then out(f \<mapsto> VStr Marker) else out(f := None))"

definition Redact :: "settings \<Rightarrow> string list \<Rightarrow> settings" where
  "Redact s secretFields = fold redact_field secretFields s"

definition Public :: "settings \<Rightarrow> string list \<Rightarrow> settings" where
  "Public s secretFields = fold (\<lambda>f out. out(f := None)) secretFields s"

definition merge_field :: "settings \<Rightarrow> settings \<Rightarrow> string \<Rightarrow> settings \<Rightarrow> settings" where
  "merge_field stored incoming f out =
     (if incoming f = None \<or> as_string (the (incoming f)) = Marker then
        (case stored f of Some old \<Rightarrow> out(f \<mapsto> old) | None \<Rightarrow> out(f := None))
      else if as_string (the (incoming f)) = '''' then out(f := None)
      else out)"

definition Merge :: "settings \<Rightarrow> settings \<Rightarrow> string list \<Rightarrow> settings" where
  "Merge stored incoming secretFields = fold (merge_field stored incoming) secretFields incoming"

definition Redacted :: string where "Redacted = ''[REDACTED]''"

definition scrub_field :: "settings \<Rightarrow> string \<Rightarrow> string \<Rightarrow> string" where
  "scrub_field stored f text = (case stored f of
      Some (VStr v) \<Rightarrow>
        if v \<noteq> '''' then
          (let t = ReplaceAll text v Redacted in
           if b64_encode v \<noteq> '''' then ReplaceAll t (b64_encode v) Redacted else t)
        else text
    | _ \<Rightarrow> text)"

definition first_line :: "string \<Rightarrow> string" where
  "first_line text = takeWhile (\<lambda>c. c \<noteq> CHR 0x0D \<and> c \<noteq> CHR 0x0A) text"

definition Scrub :: "string \<Rightarrow> settings \<Rightarrow> string list \<Rightarrow> string" where
  "Scrub text stored secretFields = take 1024 (fold (scrub_field stored) secretFields (first_line text))"

section \<open>Sealing and opening\<close>

text \<open>
  C33. Settings up to 8 KiB seal, whatever the random source gave, and open again under the same key
  and channel to the same text; longer ones are refused.
\<close>

theorem seal_open:
  assumes "aead_correct cr" and "length dek = 32" and "length n1 = NonceSize" and "length n2 = NonceSize"
  shows "if length pt \<le> MaxSettingsBytes
    then \<exists>blob. Seal cr (Inr dek) (Inr n1) (Inr n2) kek pt ad = Inr blob \<and> Open cr kek blob ad = Inr pt
    else Seal cr (Inr dek) (Inr n1) (Inr n2) kek pt ad = Inl Sealed_ErrTooLarge"
proof -
  have l: "length (ae_Seal cr k n p a) = length p + Overhead" "ae_Open cr k n (ae_Seal cr k n p a) a = Some p" for k n p a
    using assms(1) by (auto simp: aead_correct_def)
  show ?thesis
    using assms(2-4) by (simp add: Seal_def Open_def l Overhead_def NonceSize_def)
qed

text \<open>
  Opening accepts nothing but what sealing made: a blob that opens for a key and a channel is
  the two nonces, the data key sealed under that key and the text sealed under the data key, all for
  that channel.
\<close>

theorem open_authentic:
  assumes "aead_authentic cr" and "Open cr kek blob ad = Inr pt"
  shows "\<exists>dek n1 n2. blob = n1 @ ae_Seal cr kek n1 dek ad @ n2 @ ae_Seal cr dek n2 pt ad \<and>
     length n1 = NonceSize \<and> length n2 = NonceSize"
proof -
  let ?w = "32 + Overhead"
  let ?rest = "drop (NonceSize + ?w) blob"
  from assms(2) obtain dek where len: "\<not> length blob < NonceSize + ?w + NonceSize + 16"
    and d: "ae_Open cr kek (take NonceSize blob) (take ?w (drop NonceSize blob)) ad = Some dek"
    and p: "ae_Open cr dek (take NonceSize ?rest) (drop NonceSize ?rest) ad = Some pt"
    by (auto simp: Open_def Let_def split: if_splits option.splits)
  have "take ?w (drop NonceSize blob) = ae_Seal cr kek (take NonceSize blob) dek ad"
    and "drop NonceSize ?rest = ae_Seal cr dek (take NonceSize ?rest) pt ad"
    using d p assms(1) by (auto simp: aead_authentic_def)
  moreover have "blob = take NonceSize blob @ take ?w (drop NonceSize blob) @ take NonceSize ?rest @ drop NonceSize ?rest"
    by (metis append_take_drop_id drop_drop add.commute)
  ultimately show ?thesis
    using len by (intro exI [of _ dek] exI [of _ "take NonceSize blob"] exI [of _ "take NonceSize ?rest"]) auto
qed

text \<open>A cipher with these laws, for the examples: the text and a fixed tag.\<close>

definition plain_aead :: aead where
  "plain_aead = \<lparr> ae_Seal = (\<lambda>k n p a. p @ replicate 16 (CHR ''x'')),
     ae_Open = (\<lambda>k n c a. if drop (length c - 16) c = replicate 16 (CHR ''x'') then Some (take (length c - 16) c) else None) \<rparr>"

lemma plain_aead_ok: "aead_correct plain_aead" "aead_authentic plain_aead"
  by (auto simp: aead_correct_def aead_authentic_def plain_aead_def Overhead_def) (metis append_take_drop_id)

theorem seal_open_witness:
  "\<exists>blob. Seal plain_aead (Inr (replicate 32 (CHR ''k''))) (Inr (replicate 12 (CHR ''n''))) (Inr (replicate 12 (CHR ''m'')))
       ''kek'' ''{}'' (AD ''c1'') = Inr blob \<and> Open plain_aead ''kek'' blob (AD ''c1'') = Inr ''{}''"
  using seal_open [OF plain_aead_ok(1), of "replicate 32 (CHR ''k'')" "replicate 12 (CHR ''n'')" "replicate 12 (CHR ''m'')" "''{}''"]
  by (simp add: NonceSize_def MaxSettingsBytes_def)

theorem open_authentic_witness:
  "\<exists>dek n1 n2. replicate 12 (CHR ''n'') @ replicate 32 (CHR ''k'') @ replicate 16 (CHR ''x'') @ replicate 12 (CHR ''m'') @ ''{}''
        @ replicate 16 (CHR ''x'') = n1 @ ae_Seal plain_aead ''kek'' n1 dek (AD ''c1'') @ n2 @ ae_Seal plain_aead dek n2 ''{}'' (AD ''c1'') \<and>
     length n1 = NonceSize \<and> length n2 = NonceSize"
  by (rule open_authentic [OF plain_aead_ok(2), of "''kek''"]) code_simp

section \<open>Keys\<close>

lemma dropWhile_all: "\<forall>c \<in> set xs. P c \<Longrightarrow> dropWhile P (xs @ ys) = dropWhile P ys"
  by (induction xs) auto

lemma TrimSpace_plain:
  assumes "\<forall>c \<in> set a. is_space c" and "\<forall>c \<in> set b. is_space c" and "\<forall>c \<in> set s. \<not> is_space c"
  shows "TrimSpace (a @ s @ b) = s"
proof -
  have keep: "dropWhile is_space (s' @ r) = s' @ r" if "\<forall>c \<in> set s'. \<not> is_space c" "s' \<noteq> []" for s' r
    using that by (cases s') auto
  show ?thesis
  proof (cases "s = []")
    case True
    then show ?thesis using assms by (auto simp: TrimSpace_def dropWhile_all dest: set_dropWhileD)
  next
    case False
    with assms keep [of s b] keep [of "rev s" "[]"] show ?thesis
      by (simp add: TrimSpace_def dropWhile_all)
  qed
qed

text \<open>
  The base64 text of a 32-byte key, with any white space around it (the newline of a key file),
  is read as that key.
\<close>

theorem kek_roundtrip:
  assumes "length k = 32" and "\<forall>c \<in> set a. is_space c" and "\<forall>c \<in> set b. is_space c"
  shows "decodeKEK (a @ b64_encode k @ b) = Inr k"
proof -
  have "\<not> is_space c" if "c \<in> set (b64_encode k)" for c
  proof -
    from that consider n where "n < 64" "c = b64_char n" | "c = CHR ''=''" using b64_chars by blast
    then show ?thesis using b64_char_plain by cases (auto simp: is_space_def)
  qed
  then have "TrimSpace (a @ b64_encode k @ b) = b64_encode k" using assms by (intro TrimSpace_plain) auto
  with assms(1) show ?thesis by (simp add: decodeKEK_def b64_decode_encode Let_def)
qed

theorem kek_roundtrip_witness:
  "decodeKEK (b64_encode (replicate 32 (CHR ''k'')) @ [CHR 0x0A]) = Inr (replicate 32 (CHR ''k''))"
  using kek_roundtrip [of "replicate 32 (CHR ''k'')" "[]" "[CHR 0x0A]"] by (simp add: is_space_def)

section \<open>Redaction and merge\<close>

lemma fold_field:
  assumes "\<And>f out g. g \<noteq> f \<Longrightarrow> upd f out g = out g" and "\<And>out. upd g (upd g out) g = upd g out g"
    and "\<And>out out'. out g = out' g \<Longrightarrow> upd g out g = upd g out' g"
  shows "fold upd fs s g = (if g \<in> set fs then upd g s g else s g)"
proof (induction fs arbitrary: s)
  case (Cons f fs)
  show ?case
  proof (cases "f = g")
    case True
    with Cons assms(2) show ?thesis by simp
  next
    case False
    then have "upd f s g = s g" using assms(1) by simp
    with Cons assms(3) [of "upd f s" s] False show ?thesis by simp
  qed
qed simp

lemma Redact_field:
  "Redact s fs g = (if g \<in> set fs then (case s g of None \<Rightarrow> None
     | Some v \<Rightarrow> if as_string v \<noteq> '''' then Some (VStr Marker) else None) else s g)"
proof -
  have "Redact s fs g = (if g \<in> set fs then redact_field g s g else s g)"
    unfolding Redact_def
    by (rule fold_field) (auto simp: redact_field_def as_string_def Marker_def split: option.splits)
  then show ?thesis by (auto simp: redact_field_def split: option.splits)
qed

lemma Merge_field:
  "Merge stored incoming fs g = (if g \<in> set fs then (case incoming g of
       None \<Rightarrow> stored g
     | Some v \<Rightarrow> if as_string v = Marker then stored g else if as_string v = '''' then None else Some v)
     else incoming g)"
proof -
  have "Merge stored incoming fs g = (if g \<in> set fs then merge_field stored incoming g incoming g else incoming g)"
    unfolding Merge_def by (rule fold_field) (auto simp: merge_field_def split: option.splits)
  then show ?thesis by (auto simp: merge_field_def split: option.splits)
qed

text \<open>
  Clients see a marker in place of every credential that is set, nothing in place of an empty
  one, and the other fields as they are; and sending back what they see changes nothing.
\<close>

theorem redact_merge:
  "(\<forall>f. Redact s fs f = (if f \<notin> set fs then s f
       else if \<exists>v. s f = Some (VStr v) \<and> v \<noteq> '''' then Some (VStr Marker) else None)) \<and>
   Merge s (Redact s fs) fs = s \<and> Merge s (Public s fs) fs = s"
proof (intro conjI allI)
  fix f
  show "Redact s fs f = (if f \<notin> set fs then s f
       else if \<exists>v. s f = Some (VStr v) \<and> v \<noteq> '''' then Some (VStr Marker) else None)"
    by (auto simp: Redact_field as_string_def split: option.splits any.splits)
next
  show "Merge s (Redact s fs) fs = s"
    by (rule ext) (auto simp: Merge_field Redact_field as_string_def Marker_def split: option.splits)
  have "Public s fs f = (if f \<in> set fs then None else s f)" for f
    unfolding Public_def by (rule trans, rule fold_field [where upd = "\<lambda>f out. out(f := None)"]) auto
  then show "Merge s (Public s fs) fs = s"
    by (intro ext) (auto simp: Merge_field split: option.splits)
qed

text \<open>
  An update sets the credential fields as documented: a field left out or sent as the marker
  keeps the stored value, another text replaces it, everything else clears it; the fields that are no
  credentials are those of the update.
\<close>

theorem merge_fields:
  "Merge stored incoming fs f = (if f \<notin> set fs then incoming f else
     (case incoming f of
        None \<Rightarrow> stored f
      | Some (VStr v) \<Rightarrow> if v = Marker then stored f else if v = '''' then None else Some (VStr v)
      | Some _ \<Rightarrow> None))"
  by (simp add: Merge_field as_string_def Marker_def split: option.splits any.splits)

section \<open>Scrubbing\<close>

text \<open>A credential that cannot be confused with the replacement text.\<close>

definition recognisable :: "string \<Rightarrow> bool" where
  "recognisable v \<longleftrightarrow> apart ''REDACTED'' v"

lemma Redacted_bracketed: "Redacted = bracketed ''REDACTED''"
  by (simp add: Redacted_def bracketed_def)

lemma scrub_field_keeps_out:
  "recognisable v \<Longrightarrow> \<not> sublist v t \<Longrightarrow> \<not> sublist v (scrub_field stored f t)"
  by (simp add: scrub_field_def Let_def ReplaceAll_keeps_out Redacted_bracketed recognisable_def split: option.splits any.splits)

lemma scrub_field_removes:
  "recognisable v \<Longrightarrow> stored f = Some (VStr v) \<Longrightarrow> \<not> sublist v (scrub_field stored f t)"
  by (simp add: scrub_field_def Let_def ReplaceAll_keeps_out ReplaceAll_removes Redacted_bracketed
      recognisable_def apart_nonempty)

lemma fold_scrub:
  assumes "recognisable v" and "stored f = Some (VStr v)"
  shows "f \<in> set fs \<or> \<not> sublist v t \<Longrightarrow> \<not> sublist v (fold (scrub_field stored) fs t)"
proof (induction fs arbitrary: t)
  case (Cons g fs)
  show ?case
  proof (cases "g = f")
    case True
    with Cons.IH scrub_field_removes [of v stored f t, OF assms] show ?thesis by simp
  next
    case False
    with Cons scrub_field_keeps_out [OF assms(1), of t stored g] show ?thesis by auto
  qed
qed simp

lemma set_scrub: "set (fold (scrub_field stored) fs t) \<subseteq> set t \<union> set Redacted"
proof (induction fs arbitrary: t)
  case (Cons f fs)
  have "set (scrub_field stored f t) \<subseteq> set t \<union> set Redacted"
  proof (cases "\<exists>v. stored f = Some (VStr v) \<and> v \<noteq> []")
    case True
    then obtain v where v: "stored f = Some (VStr v)" "v \<noteq> []" by blast
    have "set (ReplaceAll t v Redacted) \<subseteq> set t \<union> set Redacted" using v(2) by (rule set_ReplaceAll)
    then show ?thesis
      using v set_ReplaceAll [of "b64_encode v" "ReplaceAll t v Redacted" Redacted]
      by (auto simp: scrub_field_def Let_def)
  next
    case False
    then show ?thesis by (auto simp: scrub_field_def split: option.splits any.splits)
  qed
  with Cons.IH [of "scrub_field stored f t"] show ?case by auto
qed simp

text \<open>
  A scrubbed error text is one line of at most 1024 bytes that contains no stored credential
  (short of one that has a bracket or is a part of the replacement text itself).
\<close>

theorem scrub_clean:
  assumes "f \<in> set fs" and "stored f = Some (VStr v)" and "recognisable v"
  shows "\<not> Contains (Scrub text stored fs) v \<and> length (Scrub text stored fs) \<le> 1024 \<and>
    CHR 0x0A \<notin> set (Scrub text stored fs) \<and> CHR 0x0D \<notin> set (Scrub text stored fs)"
proof -
  let ?t = "fold (scrub_field stored) fs (first_line text)"
  have "\<not> sublist v ?t" using fold_scrub [of v stored f fs, OF assms(3,2)] assms(1) by blast
  then have "\<not> sublist v (take 1024 ?t)" by (metis sublist_order.order.trans sublist_take)
  moreover have "set (take 1024 ?t) \<subseteq> set (first_line text) \<union> set Redacted"
    using set_scrub set_take_subset by (metis subset_trans)
  moreover have "CHR 0x0A \<notin> set (first_line text) \<union> set Redacted" "CHR 0x0D \<notin> set (first_line text) \<union> set Redacted"
    by (auto simp: first_line_def Redacted_def dest: set_takeWhileD)
  ultimately show ?thesis by (auto simp: Scrub_def Contains_sublist)
qed

theorem scrub_clean_witness:
  "\<not> Contains (Scrub ''535 bad password hunter2'' [''password'' \<mapsto> VStr ''hunter2''] [''password'']) ''hunter2''"
  using scrub_clean [of "''password''" "[''password'']" "[''password'' \<mapsto> VStr ''hunter2'']" "''hunter2''"]
  by (simp add: recognisable_def apart_def Contains_sublist [symmetric])

end
