(* ===== verification/Providers.thy ===== *)
theory Providers
  imports Sealed
begin

text \<open>
  \<open>internal/channel/channel.go\<close> and \<open>internal/channel/email\<close>: channel types, the registry of
  providers, the settings and the delivery of the email provider, and the classification of its
  failures. The address parser (\<open>mail.ParseAddress\<close>), the assembly of the message (\<open>Build\<close>) and
  the relay are arguments. The numbers of settings are integers.
\<close>

section \<open>Messages and failures\<close>

record out_message =
  om_To :: string
  om_Subject :: string
  om_HTMLBody :: string
  om_TextBody :: string

text \<open>
  Failures of a delivery: those with a sentinel of their own, replies of the relay with their code,
  certificates that do not verify, and any other failure. A text is the text of the whole error.
\<close>

datatype send_err =
    NoProvider string
  | Email_ErrSettings string
  | Email_ErrHeader
  | Email_ErrPlaintext string
  | Email_ErrAuthTLS
  | Email_ErrRecipient string
  | Smtp_Reply int string
  | Bad_Certificate string
  | Other_Failure string

definition Send_Error :: "send_err \<Rightarrow> string" where
  "Send_Error e = (case e of
      NoProvider k \<Rightarrow> ''channel: no provider for this type: '' @ k
    | Email_ErrSettings t \<Rightarrow> ''email: invalid settings: '' @ t
    | Email_ErrHeader \<Rightarrow> ''email: header contains a line break or control character''
    | Email_ErrPlaintext t \<Rightarrow> ''email: plaintext delivery is not allowed: '' @ t
    | Email_ErrAuthTLS \<Rightarrow> ''email: credentials require TLS''
    | Email_ErrRecipient t \<Rightarrow> ''email: recipient: '' @ t
    | Smtp_Reply _ t \<Rightarrow> t
    | Bad_Certificate t \<Rightarrow> t
    | Other_Failure t \<Rightarrow> t)"

definition email_Retryable :: "send_err option \<Rightarrow> bool" where
  "email_Retryable err = (case err of
      None \<Rightarrow> False
    | Some (Smtp_Reply code _) \<Rightarrow> code \<ge> 400 \<and> code < 500
    | Some (Email_ErrPlaintext _) \<Rightarrow> False
    | Some (Email_ErrSettings _) \<Rightarrow> False
    | Some Email_ErrHeader \<Rightarrow> False
    | Some Email_ErrAuthTLS \<Rightarrow> False
    | Some (Email_ErrRecipient _) \<Rightarrow> False
    | Some (Bad_Certificate _) \<Rightarrow> False
    | Some _ \<Rightarrow> True)"

definition is_no_provider :: "send_err \<Rightarrow> bool" where
  "is_no_provider e = (case e of NoProvider _ \<Rightarrow> True | _ \<Rightarrow> False)"

definition Retryable :: "send_err \<Rightarrow> bool" where
  "Retryable e = (if is_no_provider e then False else email_Retryable (Some e))"

section \<open>Types and recipients\<close>

definition TypeEmail :: string where "TypeEmail = ''email''"
definition TypeSMS :: string where "TypeSMS = ''sms''"
definition TypeSlack :: string where "TypeSlack = ''slack''"
definition TypeSSE :: string where "TypeSSE = ''sse''"

definition Types :: "string list" where "Types = [TypeEmail, TypeSMS, TypeSlack, TypeSSE]"

definition ValidType :: "string \<Rightarrow> bool" where
  "ValidType t \<longleftrightarrow> list_ex (\<lambda>x. x = t) Types"

text \<open>The address parser gives the bare address, or the text of its error.\<close>

type_synonym mail_parser = "string \<Rightarrow> string + string"

definition ValidateRecipient :: "mail_parser \<Rightarrow> string \<Rightarrow> string \<Rightarrow> bool" where
  "ValidateRecipient parse_mail typ recipient \<longleftrightarrow>
     \<not> (recipient = '''' \<or> length recipient > 512 \<or> ContainsAny recipient [CHR 0x0D, CHR 0x0A, CHR 0x00])
     \<and> (typ = TypeEmail \<longrightarrow> (case parse_mail recipient of Inl _ \<Rightarrow> False | Inr _ \<Rightarrow> True))"

section \<open>Providers\<close>

record provider =
  pv_Type :: string
  pv_Validate :: "settings \<Rightarrow> send_err option"
  pv_Secret :: "string list"
  pv_Send :: "settings \<Rightarrow> out_message \<Rightarrow> send_err option"

type_synonym registry = "string \<rightharpoonup> provider"

definition NewRegistry :: "provider list \<Rightarrow> registry" where
  "NewRegistry ps = fold (\<lambda>p r. r(pv_Type p \<mapsto> p)) ps Map.empty"

definition Registry_Get :: "registry \<Rightarrow> string \<Rightarrow> goerr + provider" where
  "Registry_Get r typ = (case r typ of None \<Rightarrow> Inl Channel_ErrType | Some p \<Rightarrow> Inr p)"

definition Registry_SecretFields :: "registry \<Rightarrow> string \<Rightarrow> string list" where
  "Registry_SecretFields r typ = (case r typ of Some p \<Rightarrow> pv_Secret p | None \<Rightarrow> [])"

definition Nop :: "string \<Rightarrow> provider" where
  "Nop k = \<lparr> pv_Type = k, pv_Validate = (\<lambda>_. None), pv_Secret = [''api_key'', ''token'', ''password''],
     pv_Send = (\<lambda>_ _. Some (NoProvider k)) \<rparr>"

section \<open>Email settings\<close>

record email_settings =
  es_Host :: string
  es_Port :: int
  es_TLS :: string
  es_Username :: string
  es_Password :: string
  es_From :: string
  es_FromAddr :: string
  es_ReplyTo :: string

definition SecretFields :: "string list" where "SecretFields = [''password'']"

definition HeaderSafe :: "string \<Rightarrow> bool" where
  "HeaderSafe v \<longleftrightarrow> list_all (\<lambda>r. \<not> (r = CHR 0x0D \<or> r = CHR 0x0A \<or> r = CHR 0x00
     \<or> (r < CHR 0x20 \<and> r \<noteq> CHR 0x09) \<or> r = CHR 0x7F)) v"

text \<open>\<open>str(k)\<close>: the value with a flag for its presence.\<close>

definition str_setting :: "settings \<Rightarrow> string \<Rightarrow> send_err + (string \<times> bool)" where
  "str_setting s k = (case s k of
      None \<Rightarrow> Inr ('''', False)
    | Some VNil \<Rightarrow> Inr ('''', False)
    | Some (VStr v) \<Rightarrow> Inr (v, True)
    | Some _ \<Rightarrow> Inl (Email_ErrSettings (k @ '' must be a string'')))"

definition bind_err :: "'e + 'a \<Rightarrow> ('a \<Rightarrow> 'e + 'b) \<Rightarrow> 'e + 'b" where
  "bind_err x f = (case x of Inl e \<Rightarrow> Inl e | Inr a \<Rightarrow> f a)"

definition check_err :: "bool \<Rightarrow> 'e \<Rightarrow> 'e + unit" where
  "check_err bad e = (if bad then Inl e else Inr ())"

definition parse_port :: "settings \<Rightarrow> send_err + int" where
  "parse_port s = (case s ''port'' of
      Some (VInt v) \<Rightarrow> Inr v
    | _ \<Rightarrow> Inl (Email_ErrSettings ''port is required''))"

definition check_tls :: "bool \<Rightarrow> string \<Rightarrow> send_err + unit" where
  "check_tls allowPlaintext t =
     (if t = ''implicit'' \<or> t = ''starttls'' then Inr ()
      else if t = ''none'' then check_err (\<not> allowPlaintext) (Email_ErrSettings ''tls none is not allowed'')
      else Inl (Email_ErrSettings ''tls must be implicit, starttls or none''))"

definition one_address :: "mail_parser \<Rightarrow> string \<Rightarrow> string \<Rightarrow> send_err + string" where
  "one_address parse_mail k v = (case parse_mail v of
      Inl _ \<Rightarrow> Inl (Email_ErrSettings (k @ '' must be one address''))
    | Inr a \<Rightarrow> if length v > 320 then Inl (Email_ErrSettings (k @ '' must be one address'')) else Inr a)"

definition email_Parse :: "mail_parser \<Rightarrow> bool \<Rightarrow> settings \<Rightarrow> send_err + email_settings" where
  "email_Parse parse_mail allowPlaintext s =
     bind_err (str_setting s ''host'') (\<lambda>(host, _).
     bind_err (check_err (host = '''' \<or> length host > 253 \<or> ContainsAny host ('' /'' @ [CHR 0x5C, CHR 0x0D, CHR 0x0A]))
        (Email_ErrSettings ''host is required'')) (\<lambda>_.
     bind_err (parse_port s) (\<lambda>port.
     bind_err (check_err (port < 1 \<or> port > 65535) (Email_ErrSettings ''port out of range'')) (\<lambda>_.
     bind_err (str_setting s ''tls'') (\<lambda>(v, ok).
     let tls = (if ok \<and> v \<noteq> '''' then v else ''starttls'') in
     bind_err (check_tls allowPlaintext tls) (\<lambda>_.
     bind_err (str_setting s ''username'') (\<lambda>(username, _).
     bind_err (str_setting s ''password'') (\<lambda>(password, _).
     bind_err (check_err ((username = '''') \<noteq> (password = '''')) (Email_ErrSettings ''username and password go together'')) (\<lambda>_.
     bind_err (check_err (username \<noteq> '''' \<and> tls = ''none'') Email_ErrAuthTLS) (\<lambda>_.
     bind_err (str_setting s ''from'') (\<lambda>(from, _).
     bind_err (one_address parse_mail ''from'' from) (\<lambda>fromAddr.
     bind_err (str_setting s ''reply_to'') (\<lambda>(replyTo, _).
     bind_err (if replyTo \<noteq> '''' then bind_err (one_address parse_mail ''reply_to'' replyTo) (\<lambda>_. Inr ()) else Inr ()) (\<lambda>_.
     bind_err (check_err (\<not> list_all HeaderSafe [host, username, from, replyTo]) Email_ErrHeader) (\<lambda>_.
     Inr \<lparr> es_Host = host, es_Port = port, es_TLS = tls, es_Username = username, es_Password = password,
       es_From = from, es_FromAddr = fromAddr, es_ReplyTo = replyTo \<rparr>)))))))))))))))"

section \<open>The conversation with the relay\<close>

text \<open>
  What the provider does on the connection. The relay's answer to each is an argument: a function of
  everything done so far, the last of it included, that gives the failure if there is one. Whether
  the relay offers the extension is asked in the step \<open>AskSTARTTLS\<close>.
\<close>

datatype smtp_act =
    Dial string int
  | TLSClient string
  | Greeting
  | AskSTARTTLS
  | StartTLS string
  | Auth string string
  | MailFrom string
  | RcptTo string
  | DataCmd
  | DataBody string
  | Quit

type_synonym relay = "smtp_act list \<Rightarrow> send_err option"

text \<open>
  Wrapping by \<open>fmt.Errorf\<close> with the verb \<open>%w\<close> keeps the code of a reply and the kind of a
  certificate failure; these and unclassified failures are what a relay answers with.
\<close>

definition wrap :: "string \<Rightarrow> send_err \<Rightarrow> send_err" where
  "wrap pre e = (case e of
      Smtp_Reply c t \<Rightarrow> Smtp_Reply c (pre @ t)
    | Bad_Certificate t \<Rightarrow> Bad_Certificate (pre @ t)
    | _ \<Rightarrow> Other_Failure (pre @ Send_Error e))"

definition act :: "relay \<Rightarrow> smtp_act \<Rightarrow> (send_err \<Rightarrow> send_err) \<Rightarrow> (smtp_act list, send_err, unit) op" where
  "act rl a h done = (let done' = done @ [a] in
     case rl done' of Some e \<Rightarrow> (Inl (h e), done') | None \<Rightarrow> (Inr (), done'))"

definition converse ::
  "relay \<Rightarrow> email_settings \<Rightarrow> string \<Rightarrow> string \<Rightarrow> (smtp_act list, send_err, unit) op" where
  "converse rl cfg to body =
     bindE (act rl (Dial (es_Host cfg) (es_Port cfg)) (wrap ''email: dial: '')) (\<lambda>_.
     bindE (if es_TLS cfg = ''implicit'' then modifyE (\<lambda>d. d @ [TLSClient (es_Host cfg)]) else returnE ()) (\<lambda>_.
     bindE (act rl Greeting (wrap ''email: greeting: '')) (\<lambda>_.
     bindE (if es_TLS cfg = ''starttls''
        then bindE (act rl AskSTARTTLS (\<lambda>_. Email_ErrPlaintext ''relay offers no STARTTLS'')) (\<lambda>_.
             act rl (StartTLS (es_Host cfg)) (wrap ''email: starttls: ''))
        else returnE ()) (\<lambda>_.
     bindE (if es_Username cfg \<noteq> ''''
        then act rl (Auth (es_Username cfg) (es_Password cfg)) (wrap ''email: auth: '')
        else returnE ()) (\<lambda>_.
     bindE (act rl (MailFrom (es_FromAddr cfg)) (wrap ''email: from: '')) (\<lambda>_.
     bindE (act rl (RcptTo to) (wrap ''email: recipient: '')) (\<lambda>_.
     bindE (act rl DataCmd (wrap ''email: data: '')) (\<lambda>_.
     bindE (act rl (DataBody body) (wrap ''email: send: '')) (\<lambda>_.
     act rl Quit (\<lambda>e. e))))))))))"

text \<open>Everything outside the repository an email provider works with.\<close>

record email_env =
  ee_Mail :: mail_parser
  ee_Build :: "string \<Rightarrow> string \<Rightarrow> string \<Rightarrow> string \<Rightarrow> string \<Rightarrow> string \<Rightarrow> string"
  ee_Relay :: relay
  ee_AllowPlaintext :: bool

definition email_Send :: "email_env \<Rightarrow> settings \<Rightarrow> out_message \<Rightarrow> (send_err + unit) \<times> smtp_act list" where
  "email_Send ee s msg = (case email_Parse (ee_Mail ee) (ee_AllowPlaintext ee) s of
      Inl e \<Rightarrow> (Inl e, [])
    | Inr cfg \<Rightarrow>
        if \<not> HeaderSafe (om_To msg) \<or> \<not> HeaderSafe (om_Subject msg) then (Inl Email_ErrHeader, [])
        else case ee_Mail ee (om_To msg) of
            Inl t \<Rightarrow> (Inl (Email_ErrRecipient t), [])
          | Inr to \<Rightarrow> converse (ee_Relay ee) cfg to
              (ee_Build ee (es_From cfg) (om_To msg) (es_ReplyTo cfg) (om_Subject msg) (om_TextBody msg) (om_HTMLBody msg)) [])"

definition failure_of :: "(send_err + unit) \<times> smtp_act list \<Rightarrow> send_err option" where
  "failure_of r = (case fst r of Inl e \<Rightarrow> Some e | Inr _ \<Rightarrow> None)"

definition email_provider :: "email_env \<Rightarrow> provider" where
  "email_provider ee = \<lparr> pv_Type = TypeEmail,
     pv_Validate = (\<lambda>s. case email_Parse (ee_Mail ee) (ee_AllowPlaintext ee) s of Inl e \<Rightarrow> Some e | Inr _ \<Rightarrow> None),
     pv_Secret = SecretFields,
     pv_Send = (\<lambda>s msg. failure_of (email_Send ee s msg)) \<rparr>"

definition Builtin :: "email_env \<Rightarrow> registry" where
  "Builtin ee = NewRegistry [email_provider ee, Nop TypeSMS, Nop TypeSlack, Nop TypeSSE]"

section \<open>What reaches the relay\<close>

text \<open>An operation that performs a prefix of a script, and all of it when it succeeds.\<close>

definition follows :: "smtp_act list \<Rightarrow> (smtp_act list, send_err, unit) op \<Rightarrow> bool" where
  "follows xs f \<longleftrightarrow> (\<forall>d. \<exists>ys. snd (f d) = d @ ys \<and> prefix ys xs \<and> (fst (f d) = Inr () \<longrightarrow> ys = xs))"

lemma follows_returnE: "follows [] (returnE ())"
  by (simp add: follows_def returnE_def)

lemma follows_modifyE: "follows [a] (modifyE (\<lambda>d. d @ [a]))"
  by (simp add: follows_def modifyE_def)

lemma follows_act: "follows [a] (act rl a h)"
  by (simp add: follows_def act_def Let_def split: option.splits)

lemma follows_if: "(c \<Longrightarrow> follows xs f) \<Longrightarrow> (\<not> c \<Longrightarrow> follows ys g) \<Longrightarrow>
    follows (if c then xs else ys) (if c then f else g)"
  by simp

lemma follows_bindE:
  assumes "follows xs f" and "\<And>u. follows ys (g u)"
  shows "follows (xs @ ys) (bindE f g)"
  unfolding follows_def
proof
  fix d
  from assms(1) obtain as where a: "snd (f d) = d @ as" "prefix as xs" "fst (f d) = Inr () \<longrightarrow> as = xs"
    by (auto simp: follows_def)
  show "\<exists>zs. snd (bindE f g d) = d @ zs \<and> prefix zs (xs @ ys) \<and> (fst (bindE f g d) = Inr () \<longrightarrow> zs = xs @ ys)"
  proof (cases "fst (f d)")
    case (Inl e)
    then have "bindE f g d = (Inl e, d @ as)" using a(1) by (cases "f d") (simp add: bindE_def)
    with a(2) show ?thesis by (intro exI [of _ as]) (simp add: prefix_order.order_trans [OF a(2)])
  next
    case (Inr u)
    then have b: "bindE f g d = g () (d @ xs)" using a by (cases "f d") (simp add: bindE_def)
    from assms(2) [of "()"] obtain bs where "snd (g () (d @ xs)) = (d @ xs) @ bs" "prefix bs ys"
      "fst (g () (d @ xs)) = Inr () \<longrightarrow> bs = ys" unfolding follows_def by blast
    with b show ?thesis by (intro exI [of _ "xs @ bs"]) simp
  qed
qed

definition script :: "email_settings \<Rightarrow> string \<Rightarrow> string \<Rightarrow> smtp_act list" where
  "script cfg to body = [Dial (es_Host cfg) (es_Port cfg)]
     @ (if es_TLS cfg = ''implicit'' then [TLSClient (es_Host cfg)] else []) @ [Greeting]
     @ (if es_TLS cfg = ''starttls'' then [AskSTARTTLS] @ [StartTLS (es_Host cfg)] else [])
     @ (if es_Username cfg \<noteq> '''' then [Auth (es_Username cfg) (es_Password cfg)] else [])
     @ [MailFrom (es_FromAddr cfg)] @ [RcptTo to] @ [DataCmd] @ [DataBody body] @ [Quit]"

lemma converse_follows: "follows (script cfg to body) (converse rl cfg to body)"
  unfolding script_def converse_def
  by (intro follows_bindE follows_if follows_act follows_modifyE follows_returnE)

text \<open>The connection is encrypted from the start or since a StartTLS that was answered.\<close>

definition secured :: "smtp_act list \<Rightarrow> bool" where
  "secured acts \<longleftrightarrow> list_ex (\<lambda>a. case a of TLSClient _ \<Rightarrow> True | StartTLS _ \<Rightarrow> True | _ \<Rightarrow> False) acts"

definition confidential :: "bool \<Rightarrow> smtp_act \<Rightarrow> bool" where
  "confidential allowPlaintext a = (case a of
      Auth _ _ \<Rightarrow> True
    | MailFrom _ \<Rightarrow> \<not> allowPlaintext
    | RcptTo _ \<Rightarrow> \<not> allowPlaintext
    | DataBody _ \<Rightarrow> \<not> allowPlaintext
    | _ \<Rightarrow> False)"

fun secure_order :: "bool \<Rightarrow> bool \<Rightarrow> smtp_act list \<Rightarrow> bool" where
  "secure_order ap sec [] \<longleftrightarrow> True"
| "secure_order ap sec (a # as) \<longleftrightarrow> (confidential ap a \<longrightarrow> sec) \<and> secure_order ap (sec \<or> secured [a]) as"

lemma secure_order_split:
  "secure_order ap sec (pre @ a # post) \<Longrightarrow> confidential ap a \<Longrightarrow> sec \<or> secured pre"
  by (induction pre arbitrary: sec) (auto simp: secured_def)

lemma bind_err_Inr: "bind_err x f = Inr y \<longleftrightarrow> (\<exists>a. x = Inr a \<and> f a = Inr y)"
  by (simp add: bind_err_def split: sum.splits)

lemma check_err_Inr: "check_err bad e = Inr u \<longleftrightarrow> \<not> bad"
  by (simp add: check_err_def)

lemma email_Parse_tls:
  assumes "email_Parse pm ap s = Inr cfg"
  shows "es_TLS cfg = ''implicit'' \<or> es_TLS cfg = ''starttls'' \<or> (es_TLS cfg = ''none'' \<and> ap \<and> es_Username cfg = '''')"
proof -
  from assms obtain u where "check_tls ap (es_TLS cfg) = Inr u" and "\<not> (es_Username cfg \<noteq> '''' \<and> es_TLS cfg = ''none'')"
    unfolding email_Parse_def bind_err_Inr check_err_Inr Let_def case_prod_beta by force
  then show ?thesis by (auto simp: check_tls_def check_err_def split: if_splits)
qed

lemma script_secure:
  assumes "email_Parse pm ap s = Inr cfg"
  shows "secure_order ap False (script cfg to body)"
  using email_Parse_tls [OF assms]
  by (elim disjE conjE) (simp_all add: script_def confidential_def secured_def)


text \<open>A relay that answers everything, reached with credentials over STARTTLS.\<close>

definition sample_env :: email_env where
  "sample_env = \<lparr> ee_Mail = (\<lambda>a. if CHR ''@'' \<in> set a then Inr a else Inl ''mail: missing @''),
     ee_Build = (\<lambda>from to reply subject text html. subject @ text @ html), ee_Relay = (\<lambda>_. None),
     ee_AllowPlaintext = False \<rparr>"

definition sample_settings :: settings where
  "sample_settings = [''host'' \<mapsto> VStr ''mx.example'', ''port'' \<mapsto> VInt 587, ''username'' \<mapsto> VStr ''u'',
     ''password'' \<mapsto> VStr ''hunter2hunter2'', ''from'' \<mapsto> VStr ''a@b'']"

definition sample_mail :: out_message where
  "sample_mail = \<lparr> om_To = ''x@y'', om_Subject = ''Hi'', om_HTMLBody = ''<p>'', om_TextBody = '''' \<rparr>"

lemma sample_delivery:
  "email_Send sample_env sample_settings sample_mail = (Inr (),
     [Dial ''mx.example'' 587, Greeting, AskSTARTTLS, StartTLS ''mx.example''] @ Auth ''u'' ''hunter2hunter2'' #
     [MailFrom ''a@b'', RcptTo ''x@y'', DataCmd, DataBody ''Hi<p>'', Quit])"
  by code_simp


end
