(* ===== verification/ChannelsSvc.thy ===== *)
theory ChannelsSvc
  imports MessagesSvc Providers
begin

text \<open>
  \<open>internal/notify/notify.go\<close>, \<open>channels.go\<close> and \<open>platform.go\<close>: channels with sealed settings, the
  default of a type and its tenant-wide grant, and the channel that configuration manages. Ids drawn
  from \<open>store.NewID\<close> and the draws of the random source are arguments.
\<close>

section \<open>The service\<close>

text \<open>The cipher with its key, the JSON package, the registry and the provider of the managed channel.\<close>

record channels_env =
  ce_Cipher :: aead
  ce_KEK :: string
  ce_Marshal :: "settings \<Rightarrow> goerr + string"
  ce_Unmarshal :: "string \<Rightarrow> settings option"
  ce_Registry :: registry
  ce_Platform :: "provider option"

record draws =
  dr_DEK :: "goerr + string"
  dr_N1 :: "goerr + string"
  dr_N2 :: "goerr + string"

definition notify_invalid :: "string \<Rightarrow> (string \<times> any) list \<Rightarrow> goerr" where
  "notify_invalid msg detail = Notify_Validation msg detail"

abbreviation in_field :: "string \<Rightarrow> string \<Rightarrow> goerr" where
  "in_field msg f \<equiv> notify_invalid msg [(''field'', VStr f)]"

record channel_input =
  cn_Name :: string
  cn_Type :: string
  cn_Settings :: "settings option"
  cn_Enabled :: bool
  cn_IsDefault :: bool

record channel_view =
  cw_ID :: string
  cw_Name :: string
  cw_Type :: string
  cw_Settings :: settings
  cw_Enabled :: bool
  cw_IsDefault :: bool
  cw_Managed :: bool
  cw_TemplateCount :: nat
  cw_CreatedBy :: string
  cw_UpdatedBy :: string
  cw_CreatedAt :: time
  cw_UpdatedAt :: time
  cw_Permissions :: permissions

definition channelView :: "channel \<Rightarrow> settings \<Rightarrow> permissions \<Rightarrow> channel_view" where
  "channelView row public p =
     (let p' = (if ch_Managed row then p\<lparr> pm_Write := False, pm_Delete := False, pm_Share := False \<rparr> else p) in
      \<lparr> cw_ID = ch_ID row, cw_Name = ch_Name row, cw_Type = ch_Type row, cw_Settings = public,
        cw_Enabled = ch_Enabled row, cw_IsDefault = ch_IsDefault row, cw_Managed = ch_Managed row,
        cw_TemplateCount = ch_TemplateCount row, cw_CreatedBy = strp (ch_CreatedBy row),
        cw_UpdatedBy = strp (ch_UpdatedBy row), cw_CreatedAt = ch_CreatedAt row,
        cw_UpdatedAt = ch_UpdatedAt row, cw_Permissions = p' \<rparr>)"

definition redacted :: "channels_env \<Rightarrow> channel \<Rightarrow> settings" where
  "redacted ce row = (case Decode (ce_Unmarshal ce) (strp (ch_SettingsPublic row)) of
      Inl _ \<Rightarrow> Map.empty
    | Inr public \<Rightarrow> public)"

definition Channels_validate :: "channels_env \<Rightarrow> channel_input \<Rightarrow> goerr option" where
  "Channels_validate ce inp =
     (if length (cn_Name inp) = 0 \<or> length (cn_Name inp) > 100 then Some (in_field ''name must be 1-100 characters'' ''name'')
      else if \<not> ValidType (cn_Type inp) then Some (in_field ''unknown channel type'' ''type'')
      else case cn_Settings inp of
          None \<Rightarrow> Some (in_field ''settings are required'' ''settings'')
        | Some st \<Rightarrow> (case Registry_Get (ce_Registry ce) (cn_Type inp) of
              Inl _ \<Rightarrow> Some (in_field ''unknown channel type'' ''type'')
            | Inr p \<Rightarrow> (case pv_Validate p st of
                  Some e \<Rightarrow> Some (in_field (Send_Error e) ''settings'')
                | None \<Rightarrow> None)))"

text \<open>The sealed settings and what listings show of them.\<close>

definition Channels_seal ::
  "channels_env \<Rightarrow> draws \<Rightarrow> string \<Rightarrow> string \<Rightarrow> settings \<Rightarrow> goerr + (string \<times> string)" where
  "Channels_seal ce dr i typ s = (case Encode (ce_Marshal ce) s of
      Inl _ \<Rightarrow> Inl (in_field ''settings exceed 8 KiB'' ''settings'')
    | Inr clear \<Rightarrow> (case Seal (ce_Cipher ce) (dr_DEK dr) (dr_N1 dr) (dr_N2 dr) (ce_KEK ce) clear (AD i) of
          Inl e \<Rightarrow> Inl e
        | Inr blob \<Rightarrow> (case Encode (ce_Marshal ce) (Redact s (Registry_SecretFields (ce_Registry ce) typ)) of
              Inl e \<Rightarrow> Inl e
            | Inr public \<Rightarrow> Inr (blob, public))))"

definition Channels_open :: "channels_env \<Rightarrow> channel \<Rightarrow> goerr + settings" where
  "Channels_open ce row = (case Open (ce_Cipher ce) (ce_KEK ce) (ch_SettingsSealed row) (AD (ch_ID row)) of
      Inl e \<Rightarrow> Inl e
    | Inr clear \<Rightarrow> Decode (ce_Unmarshal ce) clear)"

definition Channels_provider :: "channels_env \<Rightarrow> channel \<Rightarrow> goerr + provider" where
  "Channels_provider ce row = (case ce_Platform ce of
      Some p \<Rightarrow> if ch_Managed row \<and> ch_Type row = TypeEmail then Inr p
                else Registry_Get (ce_Registry ce) (ch_Type row)
    | None \<Rightarrow> Registry_Get (ce_Registry ce) (ch_Type row))"

section \<open>The default channel\<close>

fun clear_uses :: "string \<Rightarrow> string \<Rightarrow> channel list \<Rightarrow> unit store_op" where
  "clear_uses tenantID newID [] = returnE ()"
| "clear_uses tenantID newID (p # prev) =
     (if ch_IsDefault p \<and> ch_ID p \<noteq> newID
      then bindE (SetTenantUse '''' tenantID (ch_ID p) False) (\<lambda>_. clear_uses tenantID newID prev)
      else clear_uses tenantID newID prev)"

definition moveDefault :: "string \<Rightarrow> string \<Rightarrow> string \<Rightarrow> unit store_op" where
  "moveDefault tenantID typ newID =
     bindE (ListChannels tenantID typ '''' 1000) (\<lambda>prev.
     bindE (clear_uses tenantID newID prev) (\<lambda>_.
     ClearDefaultChannel tenantID typ newID))"

section \<open>Operations\<close>

definition Channels_Get :: "channels_env \<Rightarrow> subjects \<Rightarrow> string \<Rightarrow> channel_view sys_op" where
  "Channels_Get ce s i =
     bindE (Require s Channel i Read) (\<lambda>d.
     bindE (with_db (GetChannel (sj_TenantID s) i)) (\<lambda>row.
     returnE (channelView row (redacted ce row) (dc_Permissions d))))"

definition new_channel :: "string \<Rightarrow> subjects \<Rightarrow> channel_input \<Rightarrow> string \<Rightarrow> string \<Rightarrow> channel" where
  "new_channel i s inp blob public = \<lparr> ch_ID = i, ch_TenantID = sj_TenantID s, ch_Name = cn_Name inp,
     ch_Type = cn_Type inp, ch_SettingsSealed = blob, ch_SettingsPublic = Some public,
     ch_Enabled = cn_Enabled inp, ch_IsDefault = cn_IsDefault inp, ch_Managed = False,
     ch_CreatedBy = userPtr s, ch_UpdatedBy = userPtr s, ch_CreatedAt = 0, ch_UpdatedAt = 0, ch_TemplateCount = 0 \<rparr>"

definition create_tx :: "string \<Rightarrow> string \<Rightarrow> subjects \<Rightarrow> channel \<Rightarrow> unit store_op" where
  "create_tx gid uid s row = Atomic (
     bindE (if ch_IsDefault row then moveDefault (sj_TenantID s) (ch_Type row) (ch_ID row) else returnE ()) (\<lambda>_.
     bindE (InsertChannel row) (\<lambda>_.
     bindE (GrantOwner gid (sj_TenantID s) Channel (ch_ID row) (sj_UserID s)) (\<lambda>_.
     if ch_IsDefault row then SetTenantUse uid (sj_TenantID s) (ch_ID row) True else returnE ()))))"

definition Channels_Create ::
  "channels_env \<Rightarrow> draws \<Rightarrow> string \<Rightarrow> string \<Rightarrow> string \<Rightarrow> subjects \<Rightarrow> channel_input \<Rightarrow> channel_view sys_op" where
  "Channels_Create ce dr newID gid uid s inp =
     bindE (checkE (Channels_validate ce inp)) (\<lambda>_.
     bindE (liftSum (Channels_seal ce dr newID (cn_Type inp) (the (cn_Settings inp)))) (\<lambda>(blob, public).
     bindE (with_db (create_tx gid uid s (new_channel newID s inp blob public))) (\<lambda>_.
     bindE (emitE (authz_event s ''channel_created'' ''channel'' newID ''ok'' ''''
        [(''name'', VStr (cn_Name inp)), (''type'', VStr (cn_Type inp)),
         (''enabled'', VBool (cn_Enabled inp)), (''is_default'', VBool (cn_IsDefault inp))])) (\<lambda>_.
     Channels_Get ce s newID))))"

text \<open>
  The loop both listings by name share: read a page after a name, keep what may be read until the
  page is full, go on from the last name seen. \<open>page_rows\<close> is the loop over the rows of one read.
\<close>

fun page_rows ::
  "('r \<Rightarrow> string) \<Rightarrow> ('r \<Rightarrow> bool) \<Rightarrow> ('r \<Rightarrow> 'v sys_op) \<Rightarrow> nat \<Rightarrow> 'r list \<Rightarrow> string \<Rightarrow> 'v list \<Rightarrow> (string \<times> 'v list) sys_op" where
  "page_rows nm ok mk limit [] after out = returnE (after, out)"
| "page_rows nm ok mk limit (row # rs) after out =
     (if \<not> ok row then page_rows nm ok mk limit rs (nm row) out
      else bindE (mk row) (\<lambda>v.
        if length (out @ [v]) = limit then returnE (nm row, out @ [v])
        else page_rows nm ok mk limit rs (nm row) (out @ [v])))"

fun page_loop ::
  "nat \<Rightarrow> (string \<Rightarrow> 'r list sys_op) \<Rightarrow> ('r \<Rightarrow> string) \<Rightarrow> ('r \<Rightarrow> bool) \<Rightarrow> ('r \<Rightarrow> 'v sys_op) \<Rightarrow> nat \<Rightarrow> string \<Rightarrow> 'v list \<Rightarrow> 'v list sys_op" where
  "page_loop 0 fetch nm ok mk limit after out = returnE out"
| "page_loop (Suc fuel) fetch nm ok mk limit after out =
     (if \<not> length out < limit then returnE out
      else bindE (fetch after) (\<lambda>rs.
        if length rs = 0 then returnE out
        else bindE (page_rows nm ok mk limit rs after out) (\<lambda>(after', out').
          if length rs < limit then returnE out'
          else page_loop fuel fetch nm ok mk limit after' out')))"

definition page_limit :: "int \<Rightarrow> nat" where
  "page_limit limit = (if limit \<le> 0 \<or> limit > 100 then 50 else nat limit)"

definition page_next :: "('v \<Rightarrow> string) \<Rightarrow> nat \<Rightarrow> 'v list \<Rightarrow> string" where
  "page_next nm limit out = (if length out = limit then nm (last out) else '''')"

definition Channels_List ::
  "channels_env \<Rightarrow> subjects \<Rightarrow> string \<Rightarrow> string \<Rightarrow> int \<Rightarrow> (channel_view list \<times> string) sys_op" where
  "Channels_List ce s typ cursor limit =
     bindE (refuseE (typ \<noteq> '''' \<and> \<not> ValidType typ) (in_field ''unknown channel type'' ''type'')) (\<lambda>_.
     bindE (ReadableIDs s Channel) (\<lambda>(ids, all).
     bindE (getE (\<lambda>st. Suc (length (Channels (db st))))) (\<lambda>fuel.
     bindE (page_loop fuel (\<lambda>after. with_db (ListChannels (sj_TenantID s) typ after (page_limit limit)))
        ch_Name (\<lambda>row. all \<or> ch_ID row \<in> set ids)
        (\<lambda>row. bindE (PermissionsOn s Channel (ch_ID row)) (\<lambda>p. returnE (channelView row (redacted ce row) p)))
        (page_limit limit) cursor []) (\<lambda>out.
     returnE (out, page_next cw_Name (page_limit limit) out)))))"

definition update_tx :: "string \<Rightarrow> string \<Rightarrow> bool \<Rightarrow> channel \<Rightarrow> unit store_op" where
  "update_tx uid tenantID wasDefault row = Atomic (
     bindE (if ch_IsDefault row \<and> \<not> wasDefault then moveDefault tenantID (ch_Type row) (ch_ID row) else returnE ()) (\<lambda>_.
     bindE (UpdateChannel row) (\<lambda>_.
     if ch_IsDefault row \<noteq> wasDefault then SetTenantUse uid tenantID (ch_ID row) (ch_IsDefault row) else returnE ())))"

definition Channels_Update ::
  "channels_env \<Rightarrow> draws \<Rightarrow> string \<Rightarrow> subjects \<Rightarrow> string \<Rightarrow> channel_input \<Rightarrow> channel_view sys_op" where
  "Channels_Update ce dr uid s i inp =
     bindE (Require s Channel i Write) (\<lambda>_.
     bindE (with_db (GetChannel (sj_TenantID s) i)) (\<lambda>row.
     bindE (refuseE (ch_Managed row) Notify_ErrManagedChannel) (\<lambda>_.
     bindE (refuseE (cn_Type inp \<noteq> '''' \<and> cn_Type inp \<noteq> ch_Type row) (in_field ''the channel type cannot change'' ''type'')) (\<lambda>_.
     bindE (liftSum (Channels_open ce row)) (\<lambda>stored.
     let merged = Merge stored (case cn_Settings inp of None \<Rightarrow> Map.empty | Some x \<Rightarrow> x)
           (Registry_SecretFields (ce_Registry ce) (ch_Type row));
         inp' = inp\<lparr> cn_Type := ch_Type row, cn_Settings := Some merged \<rparr> in
     bindE (checkE (Channels_validate ce inp')) (\<lambda>_.
     bindE (liftSum (Channels_seal ce dr i (ch_Type row) merged)) (\<lambda>(blob, public).
     bindE (with_db (update_tx uid (sj_TenantID s) (ch_IsDefault row)
        (row\<lparr> ch_Name := cn_Name inp, ch_SettingsSealed := blob, ch_SettingsPublic := Some public,
           ch_Enabled := cn_Enabled inp, ch_IsDefault := cn_IsDefault inp, ch_UpdatedBy := userPtr s \<rparr>))) (\<lambda>_.
     bindE (emitE (authz_event s ''channel_updated'' ''channel'' i ''ok'' ''''
        [(''name'', VStr (cn_Name inp)), (''enabled'', VBool (cn_Enabled inp)), (''is_default'', VBool (cn_IsDefault inp))])) (\<lambda>_.
     Channels_Get ce s i)))))))))"

definition Channels_Delete :: "subjects \<Rightarrow> string \<Rightarrow> unit sys_op" where
  "Channels_Delete s i =
     bindE (Require s Channel i Delete) (\<lambda>_.
     bindE (with_db (GetChannel (sj_TenantID s) i)) (\<lambda>row.
     bindE (refuseE (ch_Managed row) Notify_ErrManagedChannel) (\<lambda>_.
     bindE (refuseE (ch_TemplateCount row > 0) (Notify_InUse ''templates'' (ch_TemplateCount row))) (\<lambda>_.
     bindE (with_db (Atomic (
        bindE (mapErrE (\<lambda>e. if errors_Is e Store_ErrConflict then Notify_InUse ''templates'' 1 else e)
           (DeleteChannel (sj_TenantID s) i)) (\<lambda>_.
        DropResource (sj_TenantID s) Channel i)))) (\<lambda>_.
     emitE (authz_event s ''channel_deleted'' ''channel'' i ''ok'' '''' [(''name'', VStr (ch_Name row))]))))))"

definition Channels_Resolve :: "channels_env \<Rightarrow> string \<Rightarrow> string \<Rightarrow> (channel \<times> settings \<times> provider) sys_op" where
  "Channels_Resolve ce tenantID i =
     bindE (with_db (GetChannel tenantID i)) (\<lambda>row.
     bindE (liftSum (Channels_open ce row)) (\<lambda>st.
     bindE (liftSum (Channels_provider ce row)) (\<lambda>p.
     returnE (row, st, p))))"

section \<open>The managed channel (\<open>platform.go\<close>)\<close>

definition PlatformChannelName :: string where "PlatformChannelName = ''Platform email''"

record platform_email =
  pe_Host :: string
  pe_Port :: int
  pe_TLS :: string
  pe_Username :: string
  pe_Password :: string
  pe_From :: string
  pe_ReplyTo :: string

definition platform_settings :: "platform_email \<Rightarrow> settings" where
  "platform_settings p =
     (let s = [''host'' \<mapsto> VStr (pe_Host p), ''port'' \<mapsto> VInt (pe_Port p), ''tls'' \<mapsto> VStr (pe_TLS p), ''from'' \<mapsto> VStr (pe_From p)];
          s = (if pe_TLS p = '''' then s(''tls'' \<mapsto> VStr ''starttls'') else s);
          s = (if pe_Username p \<noteq> '''' then s(''username'' \<mapsto> VStr (pe_Username p), ''password'' \<mapsto> VStr (pe_Password p)) else s)
      in if pe_ReplyTo p \<noteq> '''' then s(''reply_to'' \<mapsto> VStr (pe_ReplyTo p)) else s)"

definition sameSettings :: "channels_env \<Rightarrow> channel \<Rightarrow> settings \<Rightarrow> bool" where
  "sameSettings ce row want = (case Channels_open ce row of
      Inl _ \<Rightarrow> False
    | Inr stored \<Rightarrow> (case (Encode (ce_Marshal ce) stored, Encode (ce_Marshal ce) want) of
          (Inr a, Inr b) \<Rightarrow> a = b
        | _ \<Rightarrow> False))"

definition system_event :: "string \<Rightarrow> string \<Rightarrow> string \<Rightarrow> (string \<times> any) list \<Rightarrow> event" where
  "system_event t tenantID i details = \<lparr> ev_Type = t, ev_TenantID = tenantID, ev_ActorKind = ''system'',
     ev_ActorID = ''platform_email'', ev_SubjectKind = ''channel'', ev_SubjectID = i, ev_Outcome = ''ok'',
     ev_Reason = '''', ev_CorrelationID = '''', ev_Details = details \<rparr>"

datatype platform_result = PlatformCreated | PlatformUpdated | PlatformUnchanged | PlatformDisabled | PlatformAbsent

text \<open>\<open>row, err := ManagedChannel(...)\<close> with any error but \<open>ErrNotFound\<close> returned.\<close>

definition found_or_absent :: "'a sys_op \<Rightarrow> 'a option sys_op" where
  "found_or_absent f s = (case f s of
      (Inr x, s') \<Rightarrow> (Inr (Some x), s')
    | (Inl e, s') \<Rightarrow> if errors_Is e Store_ErrNotFound then (Inr None, s') else (Inl e, s'))"

definition platform_row :: "string \<Rightarrow> string \<Rightarrow> string \<Rightarrow> string \<Rightarrow> channel" where
  "platform_row i tenantID blob public = \<lparr> ch_ID = i, ch_TenantID = tenantID, ch_Name = PlatformChannelName,
     ch_Type = TypeEmail, ch_SettingsSealed = blob, ch_SettingsPublic = Some public, ch_Enabled = True,
     ch_IsDefault = True, ch_Managed = True, ch_CreatedBy = None, ch_UpdatedBy = None, ch_CreatedAt = 0,
     ch_UpdatedAt = 0, ch_TemplateCount = 0 \<rparr>"

definition platform_disable :: "string \<Rightarrow> channel option \<Rightarrow> platform_result sys_op" where
  "platform_disable tenantID found = (case found of
      None \<Rightarrow> returnE PlatformAbsent
    | Some row \<Rightarrow>
        if \<not> ch_Enabled row then returnE PlatformAbsent
        else bindE (with_db (UpdateChannel (row\<lparr>ch_Enabled := False\<rparr>))) (\<lambda>_.
             bindE (emitE (system_event ''channel_updated'' tenantID (ch_ID row)
                [(''name'', VStr (ch_Name row)), (''enabled'', VBool False), (''managed'', VBool True)])) (\<lambda>_.
             returnE PlatformDisabled)))"

definition platform_create :: "channels_env \<Rightarrow> draws \<Rightarrow> string \<Rightarrow> string \<Rightarrow> string \<Rightarrow> settings \<Rightarrow> platform_result sys_op" where
  "platform_create ce dr newID uid tenantID want =
     bindE (liftSum (Channels_seal ce dr newID TypeEmail want)) (\<lambda>(blob, public).
     bindE (with_db (Atomic (
        bindE (moveDefault tenantID TypeEmail newID) (\<lambda>_.
        bindE (InsertChannel (platform_row newID tenantID blob public)) (\<lambda>_.
        SetTenantUse uid tenantID newID True))))) (\<lambda>_.
     bindE (emitE (system_event ''channel_created'' tenantID newID [(''name'', VStr PlatformChannelName),
        (''type'', VStr TypeEmail), (''enabled'', VBool True), (''is_default'', VBool True), (''managed'', VBool True)])) (\<lambda>_.
     returnE PlatformCreated)))"

definition platform_update :: "channels_env \<Rightarrow> draws \<Rightarrow> string \<Rightarrow> string \<Rightarrow> channel \<Rightarrow> settings \<Rightarrow> platform_result sys_op" where
  "platform_update ce dr uid tenantID row want =
     (if sameSettings ce row want \<and> ch_Enabled row \<and> ch_IsDefault row \<and> ch_Name row = PlatformChannelName
      then returnE PlatformUnchanged
      else
        bindE (liftSum (Channels_seal ce dr (ch_ID row) TypeEmail want)) (\<lambda>(blob, public).
        bindE (with_db (Atomic (
           bindE (if \<not> ch_IsDefault row then moveDefault tenantID TypeEmail (ch_ID row) else returnE ()) (\<lambda>_.
           bindE (UpdateChannel (row\<lparr> ch_Name := PlatformChannelName, ch_SettingsSealed := blob,
              ch_SettingsPublic := Some public, ch_Enabled := True, ch_IsDefault := True, ch_UpdatedBy := None \<rparr>)) (\<lambda>_.
           if \<not> ch_IsDefault row then SetTenantUse uid tenantID (ch_ID row) True else returnE ()))))) (\<lambda>_.
        bindE (emitE (system_event ''channel_updated'' tenantID (ch_ID row) [(''name'', VStr PlatformChannelName),
           (''enabled'', VBool True), (''is_default'', VBool True), (''managed'', VBool True)])) (\<lambda>_.
        returnE PlatformUpdated))))"

definition EnsurePlatformChannel ::
  "channels_env \<Rightarrow> draws \<Rightarrow> string \<Rightarrow> string \<Rightarrow> string \<Rightarrow> platform_email option \<Rightarrow> platform_result sys_op" where
  "EnsurePlatformChannel ce dr newID uid tenantID pe =
     bindE (found_or_absent (with_db (ManagedChannel tenantID))) (\<lambda>found.
     case pe of
       None \<Rightarrow> platform_disable tenantID found
     | Some p \<Rightarrow>
         let want = platform_settings p in
         bindE (liftSum (Channels_provider ce (platform_row '''' '''' '''' ''''))) (\<lambda>prov.
         bindE (checkE (map_option (\<lambda>e. Outside_Err (''notify: platform_email: '' @ Send_Error e)) (pv_Validate prov want))) (\<lambda>_.
         case found of
           None \<Rightarrow> platform_create ce dr newID uid tenantID want
         | Some row \<Rightarrow> platform_update ce dr uid tenantID row want)))"

end
