(* ===== verification/Rotation.thy ===== *)
theory Rotation
  imports ChannelsSvc
begin

text \<open>
  \<open>internal/app/rotate.go\<close>: re-sealing every channel's settings under a new key. The content of the
  key file, the channels of all tenants read by the database (\<open>AllChannelsSystem\<close>) and the random
  draws for a channel are arguments.
\<close>

section \<open>The operation\<close>

text \<open>The count so far and the error, as the function returns both.\<close>

fun rotate_loop ::
  "aead \<Rightarrow> string \<Rightarrow> string \<Rightarrow> (string \<Rightarrow> draws) \<Rightarrow> channel list \<Rightarrow> nat \<Rightarrow> memstore \<Rightarrow> (nat \<times> goerr option) \<times> memstore" where
  "rotate_loop cr kek nkek dr [] n m = ((n, None), m)"
| "rotate_loop cr kek nkek dr (c # cs) n m = (case Open cr kek (ch_SettingsSealed c) (AD (ch_ID c)) of
      Inl e \<Rightarrow> ((n, Some e), m)
    | Inr clear \<Rightarrow>
        (let d = dr (ch_ID c) in
         case Seal cr (dr_DEK d) (dr_N1 d) (dr_N2 d) nkek clear (AD (ch_ID c)) of
           Inl e \<Rightarrow> ((n, Some e), m)
         | Inr blob \<Rightarrow> (case UpdateChannel (c\<lparr>ch_SettingsSealed := blob\<rparr>) m of
               (Inl e, m') \<Rightarrow> ((n, Some e), m')
             | (Inr _, m') \<Rightarrow> rotate_loop cr kek nkek dr cs (Suc n) m')))"

definition RotateKEK ::
  "aead \<Rightarrow> string \<Rightarrow> goerr + string \<Rightarrow> goerr + channel list \<Rightarrow> (string \<Rightarrow> draws) \<Rightarrow> memstore \<Rightarrow> (nat \<times> goerr option) \<times> memstore" where
  "RotateKEK cr kek newfile channels dr m = (case newfile of
      Inl e \<Rightarrow> ((0, Some e), m)
    | Inr raw \<Rightarrow> (case decodeKEK raw of
          Inl e \<Rightarrow> ((0, Some e), m)
        | Inr k \<Rightarrow> (case NewEnvelope k of
              Inl e \<Rightarrow> ((0, Some e), m)
            | Inr nkek \<Rightarrow> (case channels of
                  Inl e \<Rightarrow> ((0, Some e), m)
                | Inr cs \<Rightarrow> rotate_loop cr kek nkek dr cs 0 m))))"

section \<open>What it does\<close>

text \<open>The settings of a channel as they open under a key.\<close>

definition opens :: "aead \<Rightarrow> string \<Rightarrow> channel \<Rightarrow> string option" where
  "opens cr kek c = (case Open cr kek (ch_SettingsSealed c) (AD (ch_ID c)) of Inl _ \<Rightarrow> None | Inr pt \<Rightarrow> Some pt)"

definition good_draws :: "draws \<Rightarrow> bool" where
  "good_draws d \<longleftrightarrow> (\<exists>dek n1 n2. d = \<lparr>dr_DEK = Inr dek, dr_N1 = Inr n1, dr_N2 = Inr n2\<rparr> \<and>
     length dek = 32 \<and> length n1 = NonceSize \<and> length n2 = NonceSize)"

text \<open>A channel whose settings open and are within the bound every sealed text has.\<close>

definition resealable :: "aead \<Rightarrow> string \<Rightarrow> channel \<Rightarrow> bool" where
  "resealable cr kek c \<longleftrightarrow> (\<exists>pt. opens cr kek c = Some pt \<and> length pt \<le> MaxSettingsBytes)"

lemma reseal:
  assumes "aead_correct cr" and "good_draws d" and "length pt \<le> MaxSettingsBytes"
  obtains blob where "Seal cr (dr_DEK d) (dr_N1 d) (dr_N2 d) kek pt ad = Inr blob" and "Open cr kek blob ad = Inr pt"
proof -
  from assms(2) obtain dek n1 n2 where d: "d = \<lparr>dr_DEK = Inr dek, dr_N1 = Inr n1, dr_N2 = Inr n2\<rparr>"
    and l: "length dek = 32" "length n1 = NonceSize" "length n2 = NonceSize" by (auto simp: good_draws_def)
  have "ae_Open cr k n (ae_Seal cr k n p a) a = Some p" "length (ae_Seal cr k n p a) = length p + Overhead" for k n p a
    using assms(1) by (auto simp: aead_correct_def)
  with assms(3) l that d show ?thesis by (simp add: Seal_def Open_def Overhead_def NonceSize_def)
qed

text \<open>Writing a row back with other sealed settings is not a conflict and changes nothing else.\<close>

lemma UpdateChannel_sealed:
  assumes "wf_store m" and "healthy m" and "map_of (Channels m) i = Some c"
  shows "UpdateChannel (c\<lparr>ch_SettingsSealed := blob\<rparr>) m = (Inr (), m\<lparr>Channels :=
     AList.update i (c\<lparr>ch_SettingsSealed := blob, ch_UpdatedAt := Now m\<rparr>) (Channels m)\<rparr>)"
proof -
  have t: "wf_table ch_ID (Channels m)" "no_clash channel_clash (Channels m)"
    using assms(1) by (auto simp: wf_store_def wf_defs)
  have i: "ch_ID c = i" using wf_table_lookup [OF t(1) assms(3)] .
  have "\<not> (k \<noteq> i \<and> ch_TenantID x = ch_TenantID c \<and> (ToLower (ch_Name x) = ToLower (ch_Name c)
      \<or> (ch_IsDefault c \<and> ch_IsDefault x \<and> ch_Type x = ch_Type c)))" if "(k, x) \<in> set (Channels m)" for k x
    using no_clashD [OF t(2) that map_of_SomeD [OF assms(3)]] by (auto simp: channel_clash_def)
  then have "\<not> list_ex (\<lambda>(k, x). k \<noteq> i \<and> ch_TenantID x = ch_TenantID c \<and> (ToLower (ch_Name x) = ToLower (ch_Name c)
      \<or> (ch_IsDefault c \<and> ch_IsDefault x \<and> ch_Type x = ch_Type c))) (Channels m)"
    by (auto simp: list_ex_iff)
  then show ?thesis
    using assms(2,3) by (simp add: UpdateChannel_def i Let_def)
qed

lemma rotate_loop_all:
  assumes "aead_correct cr" and "\<And>i. good_draws (dr i)"
  shows "wf_store m \<Longrightarrow> healthy m \<Longrightarrow> distinct (map ch_ID cs) \<Longrightarrow>
      (\<And>c. c \<in> set cs \<Longrightarrow> map_of (Channels m) (ch_ID c) = Some c \<and> resealable cr kek c) \<Longrightarrow>
    \<exists>m'. rotate_loop cr kek nkek dr cs n m = ((n + length cs, None), m') \<and>
      (\<forall>c \<in> set cs. \<exists>blob. map_of (Channels m') (ch_ID c) = Some (c\<lparr>ch_SettingsSealed := blob, ch_UpdatedAt := Now m\<rparr>) \<and>
         Open cr nkek blob (AD (ch_ID c)) = Inr (the (opens cr kek c))) \<and>
      (\<forall>i. i \<notin> ch_ID ` set cs \<longrightarrow> map_of (Channels m') i = map_of (Channels m) i)"
proof (induction cs arbitrary: n m)
  case (Cons c cs)
  have c: "map_of (Channels m) (ch_ID c) = Some c" "resealable cr kek c" using Cons.prems(4) by auto
  from c(2) obtain pt where o: "Open cr kek (ch_SettingsSealed c) (AD (ch_ID c)) = Inr pt" "length pt \<le> MaxSettingsBytes"
    by (auto simp: resealable_def opens_def split: sum.splits)
  let ?d = "dr (ch_ID c)"
  obtain blob where b: "Seal cr (dr_DEK ?d) (dr_N1 ?d) (dr_N2 ?d) nkek pt (AD (ch_ID c)) = Inr blob"
      "Open cr nkek blob (AD (ch_ID c)) = Inr pt"
    using reseal [OF assms(1) assms(2) o(2)] by metis
  let ?m = "m\<lparr>Channels := AList.update (ch_ID c) (c\<lparr>ch_SettingsSealed := blob, ch_UpdatedAt := Now m\<rparr>) (Channels m)\<rparr>"
  have u: "UpdateChannel (c\<lparr>ch_SettingsSealed := blob\<rparr>) m = (Inr (), ?m)"
    using UpdateChannel_sealed [OF Cons.prems(1,2) c(1)] .
  have w: "wf_store ?m" using UpdateChannel_wf u Cons.prems(1) by (metis keeps_def snd_conv)
  have fresh: "ch_ID c \<notin> ch_ID ` set cs" using Cons.prems(3) by auto
  have h: "healthy ?m" using Cons.prems(2) by (simp add: healthy_def)
  have rest: "map_of (Channels ?m) (ch_ID x) = Some x \<and> resealable cr kek x" if "x \<in> set cs" for x
  proof -
    from fresh that have "ch_ID x \<noteq> ch_ID c" by (metis imageI)
    with Cons.prems(4) [of x] that show ?thesis by (simp add: table_simps)
  qed
  have "distinct (map ch_ID cs)" using Cons.prems(3) by simp
  from Cons.IH [OF w h this rest, of "Suc n"] obtain m' where r:
    "rotate_loop cr kek nkek dr cs (Suc n) ?m = ((Suc n + length cs, None), m')"
    "\<forall>c \<in> set cs. \<exists>blob. map_of (Channels m') (ch_ID c) = Some (c\<lparr>ch_SettingsSealed := blob, ch_UpdatedAt := Now m\<rparr>) \<and>
         Open cr nkek blob (AD (ch_ID c)) = Inr (the (opens cr kek c))"
    "\<forall>i. i \<notin> ch_ID ` set cs \<longrightarrow> map_of (Channels m') i = map_of (Channels ?m) i"
    by auto
  have "map_of (Channels m') (ch_ID c) = Some (c\<lparr>ch_SettingsSealed := blob, ch_UpdatedAt := Now m\<rparr>)"
    using r(3) fresh by (simp add: table_simps)
  moreover have "the (opens cr kek c) = pt" using o(1) by (simp add: opens_def)
  ultimately show ?case
    using r b o(1) u by (auto simp: table_simps Let_def)
qed simp

lemma rows_lookup:
  assumes "wf_store m" and "set cs = set (rows (Channels m))" and "c \<in> set cs"
  shows "map_of (Channels m) (ch_ID c) = Some c"
  using assms wf_table_mem [of ch_ID "Channels m" c] by (simp add: wf_store_def wf_defs)

text \<open>
  C18. Rotating the key with every channel of the store, on a working store and random source, gives
  the number of channels, and every channel keeps its settings: what opened under the old key opens
  under the new one, and nothing else of the row but its time of change is touched.
\<close>

theorem rotate_reseals:
  assumes "aead_correct cr" and "\<And>i. good_draws (dr i)" and "wf_store m" and "healthy m"
    and "decodeKEK raw = Inr nkek" and "length nkek = 32"
    and "set cs = set (rows (Channels m))" and "distinct (map ch_ID cs)"
    and "\<And>c. c \<in> set cs \<Longrightarrow> resealable cr kek c"
  shows "\<exists>m'. RotateKEK cr kek (Inr raw) (Inr cs) dr m = ((length cs, None), m') \<and>
    (\<forall>i. rel_option (\<lambda>c c'. opens cr nkek c' = opens cr kek c \<and>
          c' = c\<lparr>ch_SettingsSealed := ch_SettingsSealed c', ch_UpdatedAt := Now m\<rparr>)
       (map_of (Channels m) i) (map_of (Channels m') i))"
proof -
  have "map_of (Channels m) (ch_ID c) = Some c \<and> resealable cr kek c" if "c \<in> set cs" for c
    using rows_lookup [OF assms(3,7) that] assms(9) that by simp
  from rotate_loop_all [where dr = dr and nkek = nkek and n = 0, OF assms(1-4,8) this] obtain m' where
    r: "rotate_loop cr kek nkek dr cs 0 m = ((length cs, None), m')"
    and each: "\<forall>c \<in> set cs. \<exists>blob. map_of (Channels m') (ch_ID c) = Some (c\<lparr>ch_SettingsSealed := blob, ch_UpdatedAt := Now m\<rparr>) \<and>
         Open cr nkek blob (AD (ch_ID c)) = Inr (the (opens cr kek c))"
    and others: "\<forall>i. i \<notin> ch_ID ` set cs \<longrightarrow> map_of (Channels m') i = map_of (Channels m) i"
    by auto
  have "rel_option (\<lambda>c c'. opens cr nkek c' = opens cr kek c \<and>
          c' = c\<lparr>ch_SettingsSealed := ch_SettingsSealed c', ch_UpdatedAt := Now m\<rparr>)
       (map_of (Channels m) i) (map_of (Channels m') i)" for i
  proof (cases "map_of (Channels m) i")
    case None
    have "i \<notin> ch_ID ` set cs" using None rows_lookup [OF assms(3,7)] by fastforce
    with others None show ?thesis by simp
  next
    case (Some c)
    have t: "wf_table ch_ID (Channels m)" using assms(3) by (simp add: wf_store_def wf_defs)
    have i: "ch_ID c = i" "c \<in> set cs"
      using wf_table_lookup [OF t Some] wf_table_mem [OF t, of c] Some assms(7) by auto
    from each i(2) obtain blob where "map_of (Channels m') i = Some (c\<lparr>ch_SettingsSealed := blob, ch_UpdatedAt := Now m\<rparr>)"
      "Open cr nkek blob (AD i) = Inr (the (opens cr kek c))" using i(1) by auto
    moreover have "opens cr kek c = Some (the (opens cr kek c))"
      using assms(9) [OF i(2)] by (auto simp: resealable_def)
    ultimately show ?thesis using Some i(1) by (simp add: opens_def)
  qed
  with r assms(5,6) show ?thesis by (simp add: RotateKEK_def NewEnvelope_def)
qed

lemma rotate_loop_append:
  "rotate_loop cr kek nkek dr (as @ bs) n m = (case rotate_loop cr kek nkek dr as n m of
      ((n', None), m') \<Rightarrow> rotate_loop cr kek nkek dr bs n' m'
    | ((n', Some e), m') \<Rightarrow> ((n', Some e), m'))"
  by (induction as arbitrary: n m) (auto simp: Let_def split: sum.splits prod.splits)

text \<open>
  C19. A rotation that meets a channel whose settings do not open stops there and reports how many
  channels it re-sealed: exactly the channels before it are under the new key, the others are as they
  were. The rotation is not one transaction: what it leaves behind opens under no single key.
\<close>

theorem rotate_stops:
  assumes "aead_correct cr" and "\<And>i. good_draws (dr i)" and "wf_store m" and "healthy m"
    and "decodeKEK raw = Inr nkek" and "length nkek = 32"
    and "set (as @ c # bs) = set (rows (Channels m))" and "distinct (map ch_ID (as @ c # bs))"
    and "\<And>x. x \<in> set as \<Longrightarrow> resealable cr kek x"
    and "Open cr kek (ch_SettingsSealed c) (AD (ch_ID c)) = Inl e"
  shows "\<exists>m'. RotateKEK cr kek (Inr raw) (Inr (as @ c # bs)) dr m = ((length as, Some e), m') \<and>
    (\<forall>x \<in> set as. \<exists>x'. map_of (Channels m') (ch_ID x) = Some x' \<and> opens cr nkek x' = opens cr kek x) \<and>
    (\<forall>x \<in> set (c # bs). map_of (Channels m') (ch_ID x) = Some x)"
proof -
  have look: "map_of (Channels m) (ch_ID x) = Some x" if "x \<in> set (as @ c # bs)" for x
    using rows_lookup [OF assms(3,7) that] .
  have known: "map_of (Channels m) (ch_ID x) = Some x \<and> resealable cr kek x" if "x \<in> set as" for x
    using look [of x] assms(9) that by simp
  have "distinct (map ch_ID as)" using assms(8) by simp
  from rotate_loop_all [where dr = dr and nkek = nkek and n = 0, OF assms(1-4) this known] obtain m' where
    r: "rotate_loop cr kek nkek dr as 0 m = ((length as, None), m')"
    and each: "\<forall>x \<in> set as. \<exists>blob. map_of (Channels m') (ch_ID x) = Some (x\<lparr>ch_SettingsSealed := blob, ch_UpdatedAt := Now m\<rparr>) \<and>
         Open cr nkek blob (AD (ch_ID x)) = Inr (the (opens cr kek x))"
    and others: "\<forall>i. i \<notin> ch_ID ` set as \<longrightarrow> map_of (Channels m') i = map_of (Channels m) i"
    by auto
  have "\<exists>x'. map_of (Channels m') (ch_ID x) = Some x' \<and> opens cr nkek x' = opens cr kek x" if x: "x \<in> set as" for x
    using each [rule_format, OF x] assms(9) [OF x] by (auto simp: opens_def resealable_def)
  moreover have "map_of (Channels m') (ch_ID x) = Some x" if x: "x \<in> set (c # bs)" for x
  proof -
    have "ch_ID x \<notin> ch_ID ` set as" using assms(8) x by (auto simp: image_iff)
    with others look [of x] x show ?thesis by auto
  qed
  ultimately show ?thesis
    using r assms(5,6,10) by (simp add: RotateKEK_def NewEnvelope_def rotate_loop_append)
qed

section \<open>Examples\<close>

definition some_draws :: draws where
  "some_draws = \<lparr> dr_DEK = Inr (replicate 32 (CHR ''k'')), dr_N1 = Inr (replicate 12 (CHR ''n'')), dr_N2 = Inr (replicate 12 (CHR ''m'')) \<rparr>"

lemma some_draws_good: "good_draws some_draws"
  by (simp add: good_draws_def some_draws_def NonceSize_def)

text \<open>A sealed text under the cipher of the examples, and a store with two channels.\<close>

definition sealed_text :: "string \<Rightarrow> string" where
  "sealed_text t = replicate 12 (CHR ''n'') @ replicate 32 (CHR ''k'') @ replicate 16 (CHR ''x'') @ replicate 12 (CHR ''m'') @ t
     @ replicate 16 (CHR ''x'')"

lemma Open_sealed_text: "Open plain_aead kek (sealed_text t) ad = Inr t"
  by (simp add: Open_def plain_aead_def sealed_text_def NonceSize_def Overhead_def)

definition two_channels :: "string \<Rightarrow> memstore" where
  "two_channels blob = empty_store\<lparr>Channels := [
     (''c1'', (platform_row ''c1'' ''t1'' (sealed_text ''{}'') ''{}'')\<lparr>ch_Managed := False\<rparr>),
     (''c2'', (platform_row ''c2'' ''t2'' blob ''{}'')\<lparr>ch_Managed := False\<rparr>)]\<rparr>"

lemma two_channels_ok: "wf_store (two_channels blob)" "healthy (two_channels blob)"
  by (simp_all add: two_channels_def empty_store_def healthy_def wf_store_def wf_defs wf_table_def no_clash_def
      channel_clash_def platform_row_def rows_def categories_ok_def)

definition new_key :: string where "new_key = replicate 32 (CHR ''!'')"

lemma new_key_decodes: "decodeKEK new_key = Inr new_key" "length new_key = 32"
  by (code_simp, simp add: new_key_def)

theorem rotate_reseals_witness:
  "\<exists>m'. RotateKEK plain_aead ''old'' (Inr new_key) (Inr (rows (Channels (two_channels (sealed_text ''[]''))))) (\<lambda>_. some_draws)
     (two_channels (sealed_text ''[]'')) = ((2, None), m') \<and>
   map_option (opens plain_aead new_key) (map_of (Channels m') ''c2'') = Some (Some ''[]'')"
proof -
  let ?m = "two_channels (sealed_text ''[]'')"
  have "resealable plain_aead ''old'' c" if "c \<in> set (rows (Channels ?m))" for c
    using that by (auto simp: two_channels_def rows_def resealable_def opens_def platform_row_def Open_sealed_text MaxSettingsBytes_def)
  moreover have "distinct (map ch_ID (rows (Channels ?m)))" by (simp add: two_channels_def rows_def platform_row_def)
  ultimately obtain m' where rot: "RotateKEK plain_aead ''old'' (Inr new_key) (Inr (rows (Channels ?m))) (\<lambda>_. some_draws) ?m =
      ((length (rows (Channels ?m)), None), m')"
    and each: "\<forall>i. rel_option (\<lambda>c c'. opens plain_aead new_key c' = opens plain_aead ''old'' c \<and>
          c' = c\<lparr>ch_SettingsSealed := ch_SettingsSealed c', ch_UpdatedAt := Now ?m\<rparr>) (map_of (Channels ?m) i) (map_of (Channels m') i)"
    using rotate_reseals [where dr = "\<lambda>_. some_draws", OF plain_aead_ok(1) some_draws_good two_channels_ok new_key_decodes refl]
    by blast
  have "map_option (opens plain_aead new_key) (map_of (Channels m') ''c2'') = Some (Some ''[]'')"
    using each [rule_format, of "''c2''"]
    by (auto simp: two_channels_def option_rel_Some1 opens_def platform_row_def Open_sealed_text)
  moreover have "length (rows (Channels ?m)) = 2" by (simp add: two_channels_def rows_def)
  ultimately show ?thesis using rot by auto
qed

theorem rotate_stops_witness:
  "\<exists>m'. RotateKEK plain_aead ''old'' (Inr new_key) (Inr (rows (Channels (two_channels ''torn'')))) (\<lambda>_. some_draws)
     (two_channels ''torn'') = ((1, Some Sealed_ErrTampered), m') \<and>
   map_option ch_SettingsSealed (map_of (Channels m') ''c2'') = Some ''torn''"
proof -
  let ?m = "two_channels ''torn''"
  let ?c1 = "(platform_row ''c1'' ''t1'' (sealed_text ''{}'') ''{}'')\<lparr>ch_Managed := False\<rparr>"
  let ?c2 = "(platform_row ''c2'' ''t2'' ''torn'' ''{}'')\<lparr>ch_Managed := False\<rparr>"
  have rs: "rows (Channels ?m) = [?c1] @ ?c2 # []" by (simp add: two_channels_def rows_def)
  have "resealable plain_aead ''old'' x" if "x \<in> set [?c1]" for x
    using that by (auto simp: resealable_def opens_def platform_row_def Open_sealed_text MaxSettingsBytes_def)
  moreover have "distinct (map ch_ID ([?c1] @ ?c2 # []))" by (simp add: platform_row_def)
  moreover have "Open plain_aead ''old'' (ch_SettingsSealed ?c2) (AD (ch_ID ?c2)) = Inl Sealed_ErrTampered"
    by (simp add: platform_row_def Open_def NonceSize_def)
  ultimately show ?thesis
    using rotate_stops [where dr = "\<lambda>_. some_draws" and as = "[?c1]" and bs = "[]", OF plain_aead_ok(1) some_draws_good two_channels_ok new_key_decodes, of ?c2 "''torn''" "''old''"]
    unfolding rs by (auto simp: rs platform_row_def)
qed

end
