(* ===== verification/Rendering.thy ===== *)
theory Rendering
  imports Sealed
begin

text \<open>
  \<open>internal/render/render.go\<close> and \<open>redact.go\<close>: parsing and validation of templates, rendering under
  the bounds of time and size, and the second render that keeps secret values out of the log. The
  engines (\<open>text/template\<close>, \<open>html/template\<close>) are an argument: what they parse a source to, and
  what they write for given data.
\<close>

section \<open>Limits, kinds and errors\<close>

datatype kind = KindHTML | KindText

definition MaxSubject :: nat where "MaxSubject = 998"
definition MaxBody :: nat where "MaxBody = 256 * 1024"
definition MaxOutput :: nat where "MaxOutput = 1024 * 1024"

datatype render_err =
    Render_ErrTooLarge
  | Render_ErrTimeout
  | Render_ErrOutputSize
  | Render_ErrVariable string
  | Render_Syntax string string string
  | Render_Undeclared string string
  | Render_Exec string

section \<open>The template engines\<close>

text \<open>
  The nodes of a parse tree as far as the walk for field references tells them apart; a list or
  pipe that may be nil is an option.
\<close>

datatype node =
    ListNode "node list"
  | ActionNode "node option"
  | PipeNode "node list"
  | CommandNode "node list"
  | FieldNode "string list"
  | ChainNode node
  | IfNode "node option" "node option" "node option"
  | RangeNode "node option" "node option" "node option"
  | WithNode "node option" "node option" "node option"
  | TemplateNode "node option"
  | OtherNode

text \<open>
  \<open>en_Parse kind name source\<close> is the text of the parse error or the tree (nil for a source that
  only defines others). \<open>en_Exec kind name source now data\<close> is what executing the parsed source
  writes, piece by piece, and the text of the error it ends with; \<open>now\<close> is what the function
  \<open>date\<close> reads. \<open>en_Quote\<close> is the verb \<open>%q\<close>.
\<close>

record engine =
  en_Parse :: "kind \<Rightarrow> string \<Rightarrow> string \<Rightarrow> string + node option"
  en_Exec :: "kind \<Rightarrow> string \<Rightarrow> string \<Rightarrow> time \<Rightarrow> (string \<rightharpoonup> string) \<Rightarrow> string list \<times> string option"
  en_Quote :: "string \<Rightarrow> string"

definition Render_Error :: "engine \<Rightarrow> render_err \<Rightarrow> string" where
  "Render_Error en e = (case e of
      Render_ErrTooLarge \<Rightarrow> ''render: template too large''
    | Render_ErrTimeout \<Rightarrow> ''render: rendering exceeded the deadline''
    | Render_ErrOutputSize \<Rightarrow> ''render: output exceeds 1 MiB''
    | Render_ErrVariable d \<Rightarrow> ''render: variable name '' @ en_Quote en d
    | Render_Syntax wh pos msg \<Rightarrow> ''render: '' @ wh @ '' '' @ pos @ '': '' @ msg
    | Render_Undeclared wh v \<Rightarrow> ''render: '' @ wh @ '' references undeclared variable '' @ v
    | Render_Exec msg \<Rightarrow> ''render: '' @ msg)"

section \<open>Names\<close>

definition is_lower :: "char \<Rightarrow> bool" where "is_lower c \<longleftrightarrow> CHR ''a'' \<le> c \<and> c \<le> CHR ''z''"
definition is_upper :: "char \<Rightarrow> bool" where "is_upper c \<longleftrightarrow> CHR ''A'' \<le> c \<and> c \<le> CHR ''Z''"
definition is_digit :: "char \<Rightarrow> bool" where "is_digit c \<longleftrightarrow> CHR ''0'' \<le> c \<and> c \<le> CHR ''9''"

text \<open>\<open>^[A-Za-z][A-Za-z0-9_]{0,63}$\<close>\<close>

definition ValidName :: "string \<Rightarrow> bool" where
  "ValidName n = (case n of
      [] \<Rightarrow> False
    | c # r \<Rightarrow> (is_lower c \<or> is_upper c) \<and> length r \<le> 63
        \<and> list_all (\<lambda>x. is_lower x \<or> is_upper x \<or> is_digit x \<or> x = CHR ''_'') r)"

section \<open>Parsing\<close>

fun collect :: "node \<Rightarrow> string list" where
  "collect (ListNode ns) = concat (map collect ns)"
| "collect (ActionNode p) = (case p of None \<Rightarrow> [] | Some n \<Rightarrow> collect n)"
| "collect (PipeNode cs) = concat (map collect cs)"
| "collect (CommandNode as) = concat (map collect as)"
| "collect (FieldNode ident) = (case ident of [] \<Rightarrow> [] | i # _ \<Rightarrow> [i])"
| "collect (ChainNode n) = collect n"
| "collect (IfNode p l e) = (case p of None \<Rightarrow> [] | Some n \<Rightarrow> collect n)
     @ (case l of None \<Rightarrow> [] | Some n \<Rightarrow> collect n) @ (case e of None \<Rightarrow> [] | Some n \<Rightarrow> collect n)"
| "collect (RangeNode p l e) = (case p of None \<Rightarrow> [] | Some n \<Rightarrow> collect n)
     @ (case l of None \<Rightarrow> [] | Some n \<Rightarrow> collect n) @ (case e of None \<Rightarrow> [] | Some n \<Rightarrow> collect n)"
| "collect (WithNode p l e) = (case p of None \<Rightarrow> [] | Some n \<Rightarrow> collect n)
     @ (case l of None \<Rightarrow> [] | Some n \<Rightarrow> collect n) @ (case e of None \<Rightarrow> [] | Some n \<Rightarrow> collect n)"
| "collect (TemplateNode p) = (case p of None \<Rightarrow> [] | Some n \<Rightarrow> collect n)"
| "collect OtherNode = []"

definition collect_tree :: "node option \<Rightarrow> string list" where
  "collect_tree t = (case t of None \<Rightarrow> [] | Some root \<Rightarrow> collect root)"

text \<open>A parsed template is known by its source.\<close>

record compiled =
  cp_Subject :: string
  cp_Body :: string
  cp_Kind :: kind
  cp_Refs :: "string list"

text \<open>The position \<open>\d+(:\d+)?\<close> after \<open>template: subject:\<close> or \<open>template: body:\<close>, and the rest.\<close>

definition span_digits :: "string \<Rightarrow> string \<times> string" where
  "span_digits s = (takeWhile is_digit s, dropWhile is_digit s)"

definition after_colon_space :: "string \<Rightarrow> string option" where
  "after_colon_space s = (if prefix '': '' s \<and> CHR 0x0A \<notin> set (drop 2 s) then Some (drop 2 s) else None)"

definition match_pos :: "string \<Rightarrow> (string \<times> string) option" where
  "match_pos s = (case span_digits s of (d, r) \<Rightarrow>
     if d = [] then None
     else case r of
         c # r' \<Rightarrow>
           (case span_digits r' of (d', r2) \<Rightarrow>
              if c = CHR '':'' \<and> d' \<noteq> [] \<and> after_colon_space r2 \<noteq> None
              then map_option (\<lambda>msg. (d @ '':'' @ d', msg)) (after_colon_space r2)
              else map_option (\<lambda>msg. (d, msg)) (after_colon_space r))
       | [] \<Rightarrow> None)"

definition posRE :: "string \<Rightarrow> (string \<times> string) option" where
  "posRE s = (case CutPrefix s ''template: subject:'' of
      (r, True) \<Rightarrow> match_pos r
    | (_, False) \<Rightarrow> (case CutPrefix s ''template: body:'' of
          (r, True) \<Rightarrow> match_pos r
        | (_, False) \<Rightarrow> None))"

definition syntaxErr :: "string \<Rightarrow> string \<Rightarrow> render_err" where
  "syntaxErr wh msg = (case posRE msg of
      None \<Rightarrow> Render_Syntax wh '''' msg
    | Some (pos, rest) \<Rightarrow> Render_Syntax wh pos rest)"

definition Render_Parse :: "engine \<Rightarrow> string \<Rightarrow> string \<Rightarrow> kind \<Rightarrow> render_err + compiled" where
  "Render_Parse en subject body kind =
     (if length subject > MaxSubject \<or> length body > MaxBody then Inl Render_ErrTooLarge
      else case en_Parse en KindText ''subject'' subject of
          Inl msg \<Rightarrow> Inl (syntaxErr ''subject'' msg)
        | Inr st \<Rightarrow> (case en_Parse en kind ''body'' body of
              Inl msg \<Rightarrow> Inl (syntaxErr ''body'' msg)
            | Inr bt \<Rightarrow> Inr \<lparr> cp_Subject = subject, cp_Body = body, cp_Kind = kind,
                cp_Refs = sort (remdups (collect_tree st @ collect_tree bt)) \<rparr>))"

definition Compiled_Validate :: "compiled \<Rightarrow> string list \<Rightarrow> render_err option" where
  "Compiled_Validate c declared = (case find (\<lambda>d. \<not> ValidName d) declared of
      Some d \<Rightarrow> Some (Render_ErrVariable d)
    | None \<Rightarrow> (case find (\<lambda>r. r \<notin> set declared) (cp_Refs c) of
          Some r \<Rightarrow> Some (Render_Undeclared ''template'' r)
        | None \<Rightarrow> None))"

section \<open>Rendering\<close>

type_synonym vars = "(string \<times> string) list"

record limited_writer =
  lw_buf :: string
  lw_n :: nat

definition lw_Write :: "string \<Rightarrow> (limited_writer, render_err, nat) op" where
  "lw_Write p w = (if lw_n w + length p > MaxOutput then (Inl Render_ErrOutputSize, w)
     else (Inr (length p), w\<lparr> lw_n := lw_n w + length p, lw_buf := lw_buf w @ p \<rparr>))"

definition new_writer :: limited_writer where
  "new_writer = \<lparr> lw_buf = '''', lw_n = 0 \<rparr>"

text \<open>An engine stops at the first write that fails.\<close>

fun write_all :: "string list \<Rightarrow> (limited_writer, render_err, unit) op" where
  "write_all [] = returnE ()"
| "write_all (p # ps) = bindE (lw_Write p) (\<lambda>_. write_all ps)"

definition TrimPrefix :: "string \<Rightarrow> string \<Rightarrow> string" where
  "TrimPrefix s p = fst (CutPrefix s p)"

definition execErr :: "string \<Rightarrow> render_err" where
  "execErr text = Render_Exec (TrimPrefix text ''template: '')"

definition execute ::
  "engine \<Rightarrow> kind \<Rightarrow> string \<Rightarrow> string \<Rightarrow> time \<Rightarrow> (string \<rightharpoonup> string) \<Rightarrow> render_err + string" where
  "execute en kind name source now data = (case en_Exec en kind name source now data of (pieces, err) \<Rightarrow>
     (case write_all pieces new_writer of
        (Inl e, _) \<Rightarrow> Inl e
      | (Inr _, w) \<Rightarrow> (case err of Some text \<Rightarrow> Inl (execErr text) | None \<Rightarrow> Inr (lw_buf w))))"

text \<open>What a render meets: the time \<open>date\<close> reads, and whether the deadline passes first.\<close>

record render_run =
  rr_Now :: time
  rr_Late :: bool

definition Compiled_Render ::
  "engine \<Rightarrow> render_run \<Rightarrow> compiled \<Rightarrow> vars \<Rightarrow> render_err + (string \<times> string)" where
  "Compiled_Render en rr c values =
     (case find (\<lambda>r. map_of values r = None) (cp_Refs c) of
        Some r \<Rightarrow> Inl (Render_Exec (''missing variable '' @ r))
      | None \<Rightarrow>
          if rr_Late rr then Inl Render_ErrTimeout
          else case execute en KindText ''subject'' (cp_Subject c) (rr_Now rr) (map_of values) of
              Inl e \<Rightarrow> Inl e
            | Inr sw \<Rightarrow> (case execute en (cp_Kind c) ''body'' (cp_Body c) (rr_Now rr) (map_of values) of
                  Inl e \<Rightarrow> Inl e
                | Inr bw \<Rightarrow> Inr (TrimSpace sw, bw)))"

definition Render_Preview ::
  "engine \<Rightarrow> render_run \<Rightarrow> string \<Rightarrow> string \<Rightarrow> kind \<Rightarrow> string list \<Rightarrow> vars \<Rightarrow> render_err + (string \<times> string)" where
  "Render_Preview en rr subject body kind declared values = (case Render_Parse en subject body kind of
      Inl e \<Rightarrow> Inl e
    | Inr c \<Rightarrow> (case Compiled_Validate c declared of
          Some e \<Rightarrow> Inl e
        | None \<Rightarrow> Compiled_Render en rr c values))"

section \<open>Redaction (\<open>redact.go\<close>)\<close>

definition Render_Redacted :: string where "Render_Redacted = ''[redacted]''"
definition minScrub :: nat where "minScrub = 8"

text \<open>\<open>html.EscapeString\<close>\<close>

definition escape_char :: "char \<Rightarrow> string" where
  "escape_char c = (if c = CHR ''&'' then ''&amp;'' else if c = CHR 0x27 then ''&#39;''
     else if c = CHR ''<'' then ''&lt;'' else if c = CHR ''>'' then ''&gt;''
     else if c = CHR 0x22 then ''&#34;'' else [c])"

definition EscapeString :: "string \<Rightarrow> string" where
  "EscapeString s = concat (map escape_char s)"

text \<open>\<open>values[name]\<close>, "" when absent.\<close>

definition value_of :: "vars \<Rightarrow> string \<Rightarrow> string" where
  "value_of values n = strp (map_of values n)"

record render_output =
  op_Subject :: string
  op_Body :: string

definition no_output :: render_output where
  "no_output = \<lparr> op_Subject = '''', op_Body = '''' \<rparr>"

definition placed :: "vars \<Rightarrow> string list \<Rightarrow> string list" where
  "placed values secret = filter (\<lambda>n. value_of values n \<noteq> '''') secret"

definition masked_values :: "vars \<Rightarrow> string list \<Rightarrow> vars" where
  "masked_values values secret = fold (\<lambda>n m. AList.update n Render_Redacted m) (placed values secret) values"

definition scrub_list :: "vars \<Rightarrow> string list \<Rightarrow> string list" where
  "scrub_list values secret = concat (map (\<lambda>n. let v = value_of values n in
     if length v \<ge> minScrub then [v, EscapeString v] else []) (placed values secret))"

definition Compiled_RenderRedacted ::
  "engine \<Rightarrow> render_run \<Rightarrow> render_run \<Rightarrow> compiled \<Rightarrow> vars \<Rightarrow> string list \<Rightarrow> render_err + (render_output \<times> render_output)" where
  "Compiled_RenderRedacted en rr1 rr2 c values secret = (case Compiled_Render en rr1 c values of
      Inl e \<Rightarrow> Inl e
    | Inr (s, b) \<Rightarrow>
        let sent = \<lparr> op_Subject = s, op_Body = b \<rparr> in
        if placed values secret = [] then Inr (sent, sent)
        else case Compiled_Render en rr2 c (masked_values values secret) of
            Inl e \<Rightarrow> Inl e
          | Inr (s2, b2) \<Rightarrow> Inr (sent,
              \<lparr> op_Subject = replace_each (scrub_list values secret) Render_Redacted s2,
                op_Body = replace_each (scrub_list values secret) Render_Redacted b2 \<rparr>))"

section \<open>What a render gives\<close>

lemma Redacted_bracketed': "Render_Redacted = bracketed ''redacted''"
  by (simp add: Render_Redacted_def bracketed_def)

lemma write_all_Inr:
  "write_all ps w = (Inr u, w') \<Longrightarrow> lw_n w = length (lw_buf w) \<Longrightarrow> lw_n w \<le> MaxOutput \<Longrightarrow>
     lw_buf w' = lw_buf w @ concat ps \<and> length (lw_buf w') \<le> MaxOutput"
proof (induction ps arbitrary: w)
  case (Cons p ps)
  from Cons.prems(1) have le: "lw_n w + length p \<le> MaxOutput"
    and w: "write_all ps (w\<lparr> lw_n := lw_n w + length p, lw_buf := lw_buf w @ p \<rparr>) = (Inr u, w')"
    by (auto simp: bindE_def lw_Write_def split: if_splits)
  have "lw_buf w' = (lw_buf w @ p) @ concat ps \<and> length (lw_buf w') \<le> MaxOutput"
    using Cons.IH [OF w] Cons.prems(2) le by auto
  then show ?case by auto
qed (simp add: returnE_def)

lemma execute_Inr:
  assumes "execute en k n src now data = Inr out"
  shows "length out \<le> MaxOutput \<and> en_Exec en k n src now data = (fst (en_Exec en k n src now data), None)
    \<and> out = concat (fst (en_Exec en k n src now data))"
proof -
  obtain ps err where e: "en_Exec en k n src now data = (ps, err)" by fastforce
  with assms obtain u w where w: "write_all ps new_writer = (Inr u, w)" and "err = None" "out = lw_buf w"
    by (auto simp: execute_def split: sum.splits option.splits prod.splits)
  moreover have "lw_buf w = concat ps \<and> length (lw_buf w) \<le> MaxOutput"
    using write_all_Inr [OF w] by (auto simp: new_writer_def)
  ultimately show ?thesis using e by auto
qed

lemma EscapeString_nonempty: "v \<noteq> [] \<Longrightarrow> EscapeString v \<noteq> []"
  by (cases v) (simp_all add: EscapeString_def escape_char_def)

lemma scrub_list_nonempty: "[] \<notin> set (scrub_list values secret)"
proof
  assume "[] \<in> set (scrub_list values secret)"
  then obtain n where "length (value_of values n) \<ge> minScrub" "[] \<in> {value_of values n, EscapeString (value_of values n)}"
    by (auto simp: scrub_list_def Let_def split: if_splits)
  then show False using EscapeString_nonempty [of "value_of values n"] by (cases "value_of values n") (auto simp: minScrub_def)
qed

lemma scrub_list_mem:
  assumes "n \<in> set secret" and "length (value_of values n) \<ge> minScrub"
  shows "value_of values n \<in> set (scrub_list values secret) \<and> EscapeString (value_of values n) \<in> set (scrub_list values secret)"
proof -
  have "value_of values n \<noteq> ''''" using assms(2) by (auto simp: minScrub_def)
  with assms have "n \<in> set (placed values secret)" by (simp add: placed_def)
  with assms(2) show ?thesis by (force simp: scrub_list_def Let_def)
qed

lemma render_redacted_clean:
  assumes "Compiled_RenderRedacted en rr1 rr2 c values secret = Inr (sent, stored)"
    and "n \<in> set secret" and "length (value_of values n) \<ge> minScrub"
    and "v = value_of values n \<or> v = EscapeString (value_of values n)" and "apart ''redacted'' v"
  shows "\<not> Contains (op_Subject stored) v \<and> \<not> Contains (op_Body stored) v"
proof -
  have "scrub_list values secret \<noteq> []" using scrub_list_mem [OF assms(2,3)] by auto
  then have "placed values secret \<noteq> []" by (auto simp: scrub_list_def)
  with assms(1) obtain s2 b2 where st: "stored = \<lparr> op_Subject = replace_each (scrub_list values secret) Render_Redacted s2,
       op_Body = replace_each (scrub_list values secret) Render_Redacted b2 \<rparr>"
    by (auto simp: Compiled_RenderRedacted_def Let_def split: sum.splits prod.splits if_splits)
  have "v \<in> set (scrub_list values secret)" using scrub_list_mem [OF assms(2,3)] assms(4) by auto
  with replace_each_clean [OF assms(5) _ scrub_list_nonempty] show ?thesis
    unfolding st by (simp add: Contains_sublist Redacted_bracketed')
qed

end
