(* ===== verification/TemplatesSvc.thy ===== *)
theory TemplatesSvc
  imports ChannelsSvc Rendering
begin

text \<open>
  \<open>internal/notify/templates.go\<close> and the seeding of \<open>systemtemplates.go\<close>: templates validated
  against their declared variables when saved, system templates whose wording alone may change, and
  previews. The engine is an argument, as are the ids drawn and what a render meets.
\<close>

section \<open>Requests and views\<close>

text \<open>\<open>Variables\<close> of a request may be nil, which differs from empty for system templates.\<close>

record template_input =
  tn_Name :: string
  tn_ChannelID :: string
  tn_Subject :: string
  tn_Body :: string
  tn_Variables :: "string list option"
  tn_IsDefault :: bool

definition tn_vars :: "template_input \<Rightarrow> string list" where
  "tn_vars inp = (case tn_Variables inp of None \<Rightarrow> [] | Some vs \<Rightarrow> vs)"

record template_view =
  tw_ID :: string
  tw_Name :: string
  tw_ChannelID :: "string option"
  tw_ChannelName :: string
  tw_ChannelType :: string
  tw_Subject :: string
  tw_Body :: string
  tw_Variables :: "string list"
  tw_IsDefault :: bool
  tw_CreatedBy :: string
  tw_UpdatedBy :: string
  tw_CreatedAt :: time
  tw_UpdatedAt :: time
  tw_Permissions :: permissions
  tw_SystemKey :: "string option"
  tw_RequiredVariables :: "string list"
  tw_SecretVariables :: "string list"
  tw_Edited :: bool

definition templateView :: "template \<Rightarrow> permissions \<Rightarrow> template_view" where
  "templateView row p =
     (let v = \<lparr> tw_ID = tp_ID row, tw_Name = tp_Name row, tw_ChannelID = tp_ChannelID row,
           tw_ChannelName = tp_ChannelName row, tw_ChannelType = tp_ChannelType row, tw_Subject = tp_Subject row,
           tw_Body = tp_Body row, tw_Variables = tp_Variables row, tw_IsDefault = tp_IsDefault row,
           tw_CreatedBy = strp (tp_CreatedBy row), tw_UpdatedBy = strp (tp_UpdatedBy row),
           tw_CreatedAt = tp_CreatedAt row, tw_UpdatedAt = tp_UpdatedAt row, tw_Permissions = p,
           tw_SystemKey = tp_SystemKey row, tw_RequiredVariables = tp_RequiredVariables row,
           tw_SecretVariables = tp_SecretVariables row, tw_Edited = False \<rparr>
      in if tp_SystemKey row = None then v
         else v\<lparr> tw_Edited := (tp_Subject row \<noteq> tp_BuiltinSubject row \<or> tp_Body row \<noteq> tp_BuiltinBody row),
                tw_Permissions := p\<lparr>pm_Delete := False\<rparr> \<rparr>)"

definition KindFor :: "string \<Rightarrow> kind" where
  "KindFor channelType = (if channelType = TypeEmail then KindHTML else KindText)"

definition validationError :: "engine \<Rightarrow> render_err \<Rightarrow> goerr" where
  "validationError en err = (case err of
      Render_Syntax wh pos msg \<Rightarrow> notify_invalid ''template syntax error''
        [(''where'', VStr wh), (''position'', VStr pos), (''message'', VStr msg)]
    | Render_Undeclared _ v \<Rightarrow> notify_invalid ''template references an undeclared variable'' [(''variable'', VStr v)]
    | Render_Exec msg \<Rightarrow> notify_invalid ''template failed to render'' [(''message'', VStr msg)]
    | _ \<Rightarrow> notify_invalid (Render_Error en err) [(''message'', VStr (Render_Error en err))])"

text \<open>\<open>render.Parse\<close> followed by \<open>Validate\<close>: the parsed template or the mapped error.\<close>

definition parse_checked :: "engine \<Rightarrow> string \<Rightarrow> string \<Rightarrow> kind \<Rightarrow> string list \<Rightarrow> goerr + compiled" where
  "parse_checked en subject body kind declared = (case Render_Parse en subject body kind of
      Inl e \<Rightarrow> Inl (validationError en e)
    | Inr c \<Rightarrow> (case Compiled_Validate c declared of
          Some e \<Rightarrow> Inl (validationError en e)
        | None \<Rightarrow> Inr c))"

definition Templates_validate :: "engine \<Rightarrow> template_input \<Rightarrow> string \<Rightarrow> goerr option" where
  "Templates_validate en inp channelType =
     (if length (tn_Name inp) = 0 \<or> length (tn_Name inp) > 100 then Some (in_field ''name must be 1-100 characters'' ''name'')
      else if length (tn_vars inp) > 50 then Some (in_field ''at most 50 variables'' ''variables'')
      else case parse_checked en (tn_Subject inp) (tn_Body inp) (KindFor channelType) (tn_vars inp) of
          Inl e \<Rightarrow> Some e
        | Inr _ \<Rightarrow> None)"

section \<open>Operations\<close>

definition Templates_Get :: "subjects \<Rightarrow> string \<Rightarrow> template_view sys_op" where
  "Templates_Get s i =
     bindE (Require s Template i Read) (\<lambda>d.
     bindE (with_db (GetTemplate (sj_TenantID s) i)) (\<lambda>row.
     returnE (templateView row (dc_Permissions d))))"

definition new_template :: "string \<Rightarrow> subjects \<Rightarrow> template_input \<Rightarrow> string \<Rightarrow> template" where
  "new_template i s inp channelType = \<lparr> tp_ID = i, tp_TenantID = sj_TenantID s, tp_Name = tn_Name inp,
     tp_ChannelID = Some (tn_ChannelID inp), tp_ChannelType = channelType, tp_Subject = tn_Subject inp,
     tp_Body = tn_Body inp, tp_Variables = tn_vars inp, tp_IsDefault = tn_IsDefault inp,
     tp_CreatedBy = userPtr s, tp_UpdatedBy = userPtr s, tp_CreatedAt = 0, tp_UpdatedAt = 0,
     tp_ChannelName = '''', tp_SystemKey = None, tp_BuiltinSubject = '''', tp_BuiltinBody = '''',
     tp_RequiredVariables = [], tp_SecretVariables = [] \<rparr>"

definition Templates_Create :: "engine \<Rightarrow> string \<Rightarrow> string \<Rightarrow> subjects \<Rightarrow> template_input \<Rightarrow> template_view sys_op" where
  "Templates_Create en newID gid s inp =
     bindE (refuseE (tn_ChannelID inp = '''') (in_field ''channel_id is required'' ''channel_id'')) (\<lambda>_.
     bindE (Require s Channel (tn_ChannelID inp) Read) (\<lambda>_.
     bindE (with_db (GetChannel (sj_TenantID s) (tn_ChannelID inp))) (\<lambda>ch.
     bindE (checkE (Templates_validate en inp (ch_Type ch))) (\<lambda>_.
     bindE (with_db (Atomic (
        bindE (if tn_IsDefault inp then ClearDefaultTemplate (sj_TenantID s) (tn_ChannelID inp) newID else returnE ()) (\<lambda>_.
        bindE (InsertTemplate (new_template newID s inp (ch_Type ch))) (\<lambda>_.
        GrantOwner gid (sj_TenantID s) Template newID (sj_UserID s)))))) (\<lambda>_.
     bindE (emitE (authz_event s ''template_created'' ''template'' newID ''ok'' ''''
        [(''name'', VStr (tn_Name inp)), (''channel_id'', VStr (tn_ChannelID inp)),
         (''is_default'', VBool (tn_IsDefault inp)), (''variables'', VInt (int (length (tn_vars inp))))])) (\<lambda>_.
     Templates_Get s newID))))))"

definition Templates_List ::
  "subjects \<Rightarrow> string option \<Rightarrow> string \<Rightarrow> string \<Rightarrow> int \<Rightarrow> (template_view list \<times> string) sys_op" where
  "Templates_List s channelID q cursor limit =
     bindE (ReadableIDs s Template) (\<lambda>(ids, all).
     bindE (getE (\<lambda>st. Suc (length (Templates (db st))))) (\<lambda>fuel.
     bindE (page_loop fuel (\<lambda>after. with_db (ListTemplates (sj_TenantID s) channelID q after (page_limit limit)))
        tp_Name (\<lambda>row. all \<or> tp_ID row \<in> set ids)
        (\<lambda>row. bindE (PermissionsOn s Template (tp_ID row)) (\<lambda>p. returnE (templateView row p)))
        (page_limit limit) cursor []) (\<lambda>out.
     returnE (out, page_next tw_Name (page_limit limit) out))))"

definition sameSet :: "string list \<Rightarrow> string list \<Rightarrow> bool" where
  "sameSet a b \<longleftrightarrow> sort a = sort b"

definition updateSystem :: "engine \<Rightarrow> subjects \<Rightarrow> template \<Rightarrow> template_input \<Rightarrow> template_view sys_op" where
  "updateSystem en s row inp =
     bindE (refuseE ((tn_Name inp \<noteq> '''' \<and> tn_Name inp \<noteq> tp_Name row) \<or> tn_ChannelID inp \<noteq> '''' \<or> tn_IsDefault inp
        \<or> (case tn_Variables inp of None \<Rightarrow> False | Some vs \<Rightarrow> \<not> sameSet vs (tp_Variables row))) Notify_ErrSystemTemplateField) (\<lambda>_.
     bindE (liftSum (parse_checked en (tn_Subject inp) (tn_Body inp) (KindFor (tp_ChannelType row)) (tp_Variables row))) (\<lambda>c.
     bindE (checkE (map_option Notify_MissingRequired (find (\<lambda>r. r \<notin> set (cp_Refs c)) (tp_RequiredVariables row)))) (\<lambda>_.
     bindE (with_db (UpdateTemplate (row\<lparr> tp_Subject := tn_Subject inp, tp_Body := tn_Body inp, tp_UpdatedBy := userPtr s \<rparr>))) (\<lambda>_.
     bindE (emitE (authz_event s ''template_updated'' ''template'' (tp_ID row) ''ok'' ''''
        [(''name'', VStr (tp_Name row)), (''system_key'', VStr (strp (tp_SystemKey row)))])) (\<lambda>_.
     Templates_Get s (tp_ID row))))))"

definition Templates_Update :: "engine \<Rightarrow> subjects \<Rightarrow> string \<Rightarrow> template_input \<Rightarrow> template_view sys_op" where
  "Templates_Update en s i inp =
     bindE (Require s Template i Write) (\<lambda>_.
     bindE (with_db (GetTemplate (sj_TenantID s) i)) (\<lambda>row.
     if tp_SystemKey row \<noteq> None then updateSystem en s row inp
     else
       bindE (refuseE (tn_ChannelID inp = '''') (in_field ''channel_id is required'' ''channel_id'')) (\<lambda>_.
       bindE (if tn_ChannelID inp \<noteq> strp (tp_ChannelID row)
          then bindE (Require s Channel (tn_ChannelID inp) Read) (\<lambda>_. returnE ()) else returnE ()) (\<lambda>_.
       bindE (with_db (GetChannel (sj_TenantID s) (tn_ChannelID inp))) (\<lambda>ch.
       bindE (checkE (Templates_validate en inp (ch_Type ch))) (\<lambda>_.
       bindE (with_db (Atomic (
          bindE (if tn_IsDefault inp then ClearDefaultTemplate (sj_TenantID s) (tn_ChannelID inp) i else returnE ()) (\<lambda>_.
          UpdateTemplate (row\<lparr> tp_Name := tn_Name inp, tp_ChannelID := Some (tn_ChannelID inp), tp_ChannelType := ch_Type ch,
             tp_Subject := tn_Subject inp, tp_Body := tn_Body inp, tp_Variables := tn_vars inp,
             tp_IsDefault := tn_IsDefault inp, tp_UpdatedBy := userPtr s \<rparr>))))) (\<lambda>_.
       bindE (emitE (authz_event s ''template_updated'' ''template'' i ''ok'' ''''
          [(''name'', VStr (tn_Name inp)), (''channel_id'', VStr (tn_ChannelID inp)), (''is_default'', VBool (tn_IsDefault inp))])) (\<lambda>_.
       Templates_Get s i))))))))"

definition Templates_Restore :: "subjects \<Rightarrow> string \<Rightarrow> template_view sys_op" where
  "Templates_Restore s i =
     bindE (Require s Template i Write) (\<lambda>_.
     bindE (with_db (GetTemplate (sj_TenantID s) i)) (\<lambda>row.
     bindE (refuseE (tp_SystemKey row = None) Notify_ErrNotSystemTemplate) (\<lambda>_.
     bindE (with_db (UpdateTemplate (row\<lparr> tp_Subject := tp_BuiltinSubject row, tp_Body := tp_BuiltinBody row,
        tp_UpdatedBy := userPtr s \<rparr>))) (\<lambda>_.
     bindE (emitE (authz_event s ''template_updated'' ''template'' i ''ok'' ''''
        [(''name'', VStr (tp_Name row)), (''system_key'', VStr (strp (tp_SystemKey row))), (''restored'', VBool True)])) (\<lambda>_.
     Templates_Get s i)))))"

definition Templates_Delete :: "subjects \<Rightarrow> string \<Rightarrow> unit sys_op" where
  "Templates_Delete s i =
     bindE (Require s Template i Delete) (\<lambda>_.
     bindE (with_db (GetTemplate (sj_TenantID s) i)) (\<lambda>row.
     bindE (refuseE (tp_SystemKey row \<noteq> None) Notify_ErrSystemTemplate) (\<lambda>_.
     bindE (with_db (Atomic (
        bindE (DeleteTemplate (sj_TenantID s) i) (\<lambda>_.
        DropResource (sj_TenantID s) Template i)))) (\<lambda>_.
     emitE (authz_event s ''template_deleted'' ''template'' i ''ok'' '''' [(''name'', VStr (tp_Name row))])))))"

section \<open>Previews\<close>

record preview_input =
  pi_TemplateID :: string
  pi_ChannelType :: string
  pi_Subject :: string
  pi_Body :: string
  pi_Variables :: "string list option"
  pi_Values :: vars

text \<open>What a preview renders: kind, subject, body and declared variables.\<close>

definition preview_source :: "subjects \<Rightarrow> preview_input \<Rightarrow> (kind \<times> string \<times> string \<times> string list) sys_op" where
  "preview_source s inp =
     (if pi_TemplateID inp = ''''
      then returnE (KindFor (pi_ChannelType inp), pi_Subject inp, pi_Body inp, case pi_Variables inp of None \<Rightarrow> [] | Some vs \<Rightarrow> vs)
      else
        bindE (Require s Template (pi_TemplateID inp) Read) (\<lambda>_.
        bindE (with_db (GetTemplate (sj_TenantID s) (pi_TemplateID inp))) (\<lambda>row.
        let (subject, body) = (if pi_Subject inp = '''' \<and> pi_Body inp = '''' then (tp_Subject row, tp_Body row)
              else (pi_Subject inp, pi_Body inp)) in
        returnE (KindFor (tp_ChannelType row), subject, body,
          case pi_Variables inp of None \<Rightarrow> tp_Variables row | Some vs \<Rightarrow> vs))))"

definition with_defaults :: "string list \<Rightarrow> vars \<Rightarrow> vars" where
  "with_defaults declared values =
     fold (\<lambda>v m. if map_of m v = None then AList.update v '''' m else m) declared values"

definition Templates_Preview ::
  "engine \<Rightarrow> render_run \<Rightarrow> subjects \<Rightarrow> preview_input \<Rightarrow> (string \<times> string) sys_op" where
  "Templates_Preview en rr s inp =
     bindE (preview_source s inp) (\<lambda>(kind, subject, body, declared).
     bindE (refuseE (length declared > 50) (in_field ''at most 50 variables'' ''variables'')) (\<lambda>_.
     bindE (liftSum (case Render_Preview en rr subject body kind declared (with_defaults declared (pi_Values inp)) of
        Inl e \<Rightarrow> Inl (validationError en e) | Inr out \<Rightarrow> Inr out)) (\<lambda>out.
     bindE (emitE (authz_event s ''template_previewed'' ''template'' (pi_TemplateID inp) ''ok'' '''' [])) (\<lambda>_.
     returnE out))))"

section \<open>System templates (\<open>systemtemplates.go\<close>)\<close>

record system_template =
  sy_Key :: string
  sy_Subject :: string
  sy_Body :: string
  sy_Variables :: "string list"
  sy_Required :: "string list"
  sy_Secret :: "string list"

definition seed_row :: "string \<Rightarrow> string \<Rightarrow> system_template \<Rightarrow> template" where
  "seed_row i tenantID st = \<lparr> tp_ID = i, tp_TenantID = tenantID, tp_Name = sy_Key st, tp_ChannelID = None,
     tp_ChannelType = TypeEmail, tp_Subject = sy_Subject st, tp_Body = sy_Body st, tp_Variables = sy_Variables st,
     tp_IsDefault = False, tp_CreatedBy = None, tp_UpdatedBy = None, tp_CreatedAt = 0, tp_UpdatedAt = 0,
     tp_ChannelName = '''', tp_SystemKey = Some (sy_Key st), tp_BuiltinSubject = sy_Subject st,
     tp_BuiltinBody = sy_Body st, tp_RequiredVariables = sy_Required st, tp_SecretVariables = sy_Secret st \<rparr>"

definition outdated :: "template \<Rightarrow> system_template \<Rightarrow> bool" where
  "outdated row st \<longleftrightarrow> tp_BuiltinSubject row \<noteq> sy_Subject st \<or> tp_BuiltinBody row \<noteq> sy_Body st
     \<or> tp_Variables row \<noteq> sy_Variables st \<or> tp_RequiredVariables row \<noteq> sy_Required st
     \<or> tp_SecretVariables row \<noteq> sy_Secret st"

record seed_result =
  sd_Created :: nat
  sd_Refreshed :: nat
  sd_Errors :: "(string \<times> goerr) list"

definition seed_event :: "string \<Rightarrow> string \<Rightarrow> string \<Rightarrow> event" where
  "seed_event tenantID i key = \<lparr> ev_Type = ''template_created'', ev_TenantID = tenantID, ev_ActorKind = ''system'',
     ev_ActorID = ''system_templates'', ev_SubjectKind = ''template'', ev_SubjectID = i, ev_Outcome = ''ok'',
     ev_Reason = '''', ev_CorrelationID = '''', ev_Details = [(''name'', VStr key), (''system_key'', VStr key)] \<rparr>"

text \<open>One turn of the loop; a failure is noted under its key and the loop goes on.\<close>

definition seed_one :: "string \<Rightarrow> string \<Rightarrow> system_template \<Rightarrow> seed_result \<Rightarrow> sys \<Rightarrow> seed_result \<times> sys" where
  "seed_one newID tenantID st res y = (case with_db (TemplateByKey tenantID (sy_Key st)) y of
      (Inl e, y1) \<Rightarrow>
        if errors_Is e Store_ErrNotFound then
          (case with_db (InsertTemplate (seed_row newID tenantID st)) y1 of
             (Inl e', y2) \<Rightarrow> (res\<lparr>sd_Errors := sd_Errors res @ [(sy_Key st, e')]\<rparr>, y2)
           | (Inr _, y2) \<Rightarrow> (res\<lparr>sd_Created := sd_Created res + 1\<rparr>, emit (seed_event tenantID newID (sy_Key st)) y2))
        else (res\<lparr>sd_Errors := sd_Errors res @ [(sy_Key st, e)]\<rparr>, y1)
    | (Inr row, y1) \<Rightarrow>
        if outdated row st then
          (case with_db (SetTemplateBuiltin (row\<lparr> tp_BuiltinSubject := sy_Subject st, tp_BuiltinBody := sy_Body st,
             tp_Variables := sy_Variables st, tp_RequiredVariables := sy_Required st, tp_SecretVariables := sy_Secret st \<rparr>)) y1 of
             (Inl e', y2) \<Rightarrow> (res\<lparr>sd_Errors := sd_Errors res @ [(sy_Key st, e')]\<rparr>, y2)
           | (Inr _, y2) \<Rightarrow> (res\<lparr>sd_Refreshed := sd_Refreshed res + 1\<rparr>, y2))
        else (res, y1))"

text \<open>The id drawn for a key is \<open>fresh key\<close>; \<open>builtins\<close> is the built-in set \<open>SystemTemplates\<close>.\<close>

fun seed_loop :: "(string \<Rightarrow> string) \<Rightarrow> string \<Rightarrow> system_template list \<Rightarrow> seed_result \<Rightarrow> sys \<Rightarrow> seed_result \<times> sys" where
  "seed_loop fresh tenantID [] res y = (res, y)"
| "seed_loop fresh tenantID (st # sts) res y =
     (case seed_one (fresh (sy_Key st)) tenantID st res y of (res', y') \<Rightarrow> seed_loop fresh tenantID sts res' y')"

definition EnsureSystemTemplates ::
  "(string \<Rightarrow> string) \<Rightarrow> system_template list \<Rightarrow> string \<Rightarrow> sys \<Rightarrow> seed_result \<times> sys" where
  "EnsureSystemTemplates fresh builtins tenantID =
     seed_loop fresh tenantID builtins \<lparr> sd_Created = 0, sd_Refreshed = 0, sd_Errors = [] \<rparr>"

end
