(* ===== verification/SendSvc.thy ===== *)
theory SendSvc
  imports TemplatesSvc StreamClient
begin

text \<open>
  \<open>internal/notify/send.go\<close> and \<open>systemkey.go\<close>: the send pipeline (checks, channel, render, delivery,
  log entry), system templates sent by key, tests and custom mails, and the reading of the log. What
  providers were handed is part of the state, so that properties can speak about it.
\<close>

section \<open>Keys of system templates (\<open>systemkey.go\<close>)\<close>

text \<open>\<open>^[a-z][a-z0-9]*$\<close>\<close>

definition serviceRE :: "string \<Rightarrow> bool" where
  "serviceRE n = (case n of [] \<Rightarrow> False | c # r \<Rightarrow> is_lower c \<and> list_all (\<lambda>x. is_lower x \<or> is_digit x) r)"

text \<open>\<open>^[a-z][a-z0-9]*\.[a-z][a-z0-9_]{0,62}$\<close>\<close>

definition ValidKey :: "string \<Rightarrow> bool" where
  "ValidKey key = (case Cut (CHR ''.'') key of (svc, nm, found) \<Rightarrow>
     found \<and> serviceRE svc \<and>
     (case nm of [] \<Rightarrow> False | c # r \<Rightarrow> is_lower c \<and> length r \<le> 62 \<and>
        list_all (\<lambda>x. is_lower x \<or> is_digit x \<or> x = CHR ''_'') r))"

definition KeyService :: "string \<Rightarrow> string" where
  "KeyService key = (if \<not> ValidKey key then '''' else fst (Cut (CHR ''.'') key))"

definition ServiceFromSPIFFE :: "string \<Rightarrow> string \<times> bool" where
  "ServiceFromSPIFFE i = (case CutPrefix i ''spiffe://'' of (rest, ok) \<Rightarrow>
     if \<not> ok then ('''', False)
     else case Cut (CHR ''/'') rest of (td, path, ok2) \<Rightarrow>
       if \<not> ok2 \<or> td = '''' then ('''', False)
       else case CutPrefix path ''svc/'' of (nm, ok3) \<Rightarrow>
         if \<not> ok3 \<or> \<not> serviceRE nm then ('''', False) else (nm, True))"

section \<open>The pipeline's state\<close>

record send_state =
  ss_sys :: sys
  ss_kv :: stream_mem
  ss_sent :: "(settings \<times> out_message) list"    \<comment> \<open>what providers were handed\<close>

type_synonym 'a send_op = "(send_state, goerr, 'a) op"

definition with_sys :: "'a sys_op \<Rightarrow> 'a send_op" where
  "with_sys f s = (case f (ss_sys s) of (r, y) \<Rightarrow> (r, s\<lparr>ss_sys := y\<rparr>))"

record send_env =
  sn_Channels :: channels_env
  sn_Engine :: engine
  sn_Mail :: mail_parser
  sn_Limiter :: bool                   \<comment> \<open>whether there is one\<close>
  sn_PerTenant :: int
  sn_PerSender :: int
  sn_System :: int
  sn_PlatformTenant :: string
  sn_RFC3339 :: "time \<Rightarrow> string"

record log_view =
  lv_ID :: string
  lv_ChannelID :: string
  lv_ChannelType :: string
  lv_TemplateID :: "string option"
  lv_TemplateKey :: "string option"
  lv_Recipient :: string
  lv_RenderedSubject :: string
  lv_RenderedBody :: string
  lv_Status :: string
  lv_Error :: string
  lv_SenderKind :: string
  lv_SenderID :: string
  lv_Test :: bool
  lv_CreatedAt :: time
  lv_SentAt :: "time option"
  lv_Retryable :: bool

definition logView :: "log_row \<Rightarrow> log_view" where
  "logView l = \<lparr> lv_ID = lg_ID l, lv_ChannelID = lg_ChannelID l, lv_ChannelType = lg_ChannelType l,
     lv_TemplateID = lg_TemplateID l, lv_TemplateKey = lg_TemplateKey l, lv_Recipient = lg_Recipient l,
     lv_RenderedSubject = lg_RenderedSubject l, lv_RenderedBody = lg_RenderedBody l, lv_Status = lg_Status l,
     lv_Error = lg_Error l, lv_SenderKind = lg_SenderKind l, lv_SenderID = lg_SenderID l, lv_Test = lg_Test l,
     lv_CreatedAt = lg_CreatedAt l, lv_SentAt = lg_SentAt l, lv_Retryable = False \<rparr>"

section \<open>Checks\<close>

definition MaxVariablesBytes :: nat where "MaxVariablesBytes = 64 * 1024"

definition checkVariables :: "vars \<Rightarrow> goerr option" where
  "checkVariables vs =
     (if length vs > 50 then Some (in_field ''at most 50 variables'' ''variables'')
      else case find (\<lambda>(k, v). \<not> ValidName k) vs of
          Some (k, _) \<Rightarrow> Some (notify_invalid ''variable name'' [(''variable'', VStr k)])
        | None \<Rightarrow> if sum_list (map (\<lambda>(k, v). length k + length v) vs) > MaxVariablesBytes
                 then Some (in_field ''variables exceed 64 KiB'' ''variables'') else None)"

text \<open>\<open>if limited, err := Limited(...); err != nil || limited { return ErrRateLimited }\<close>\<close>

definition limited_by :: "string \<Rightarrow> string \<Rightarrow> int \<Rightarrow> unit send_op" where
  "limited_by kind subject limit s =
     (case Limited kind subject limit (clock (ss_sys s)) (ss_kv s) of ((limited, err), kv) \<Rightarrow>
        (if err \<noteq> None \<or> limited then Inl Notify_ErrRateLimited else Inr (), s\<lparr>ss_kv := kv\<rparr>))"

definition limit_send :: "send_env \<Rightarrow> subjects \<Rightarrow> unit send_op" where
  "limit_send ev subj =
     (if \<not> sn_Limiter ev then returnE ()
      else bindE (limited_by ''tenant'' (sj_TenantID subj) (sn_PerTenant ev)) (\<lambda>_.
           limited_by ''sender'' (ActorID subj) (sn_PerSender ev)))"

definition secretValues :: "string list \<Rightarrow> vars \<Rightarrow> string list" where
  "secretValues names values = map (value_of values) (placed values names)"

text \<open>\<open>url.QueryEscape\<close>\<close>

definition hex_digit :: "nat \<Rightarrow> char" where
  "hex_digit n = ''0123456789ABCDEF'' ! n"

definition query_char :: "char \<Rightarrow> string" where
  "query_char c = (if is_lower c \<or> is_upper c \<or> is_digit c \<or> c \<in> set ''-_.~'' then [c]
     else if c = CHR '' '' then ''+''
     else [CHR 0x25, hex_digit (of_char c div 16), hex_digit (of_char c mod 16)])"

definition QueryEscape :: "string \<Rightarrow> string" where
  "QueryEscape s = concat (map query_char s)"

definition scrubSecrets :: "string \<Rightarrow> string list \<Rightarrow> string" where
  "scrubSecrets reason secrets =
     replace_each (concat (map (\<lambda>v. [v, EscapeString v, QueryEscape v]) secrets)) Render_Redacted reason"

definition shortReason :: "string \<Rightarrow> string" where
  "shortReason r = take 120 (TrimSpace r)"

section \<open>Delivery\<close>

record delivery =
  dl_Channel :: channel
  dl_Settings :: settings
  dl_Provider :: provider
  dl_TemplateID :: "string option"
  dl_TemplateKey :: "string option"
  dl_Recipient :: string
  dl_Test :: bool
  dl_CorrelationID :: string
  dl_Secrets :: "string list"
  dl_Render :: "render_err + (render_output \<times> render_output)"

datatype delivery_err = RenderFailed render_err | SendFailed send_err

definition delivery_Error :: "engine \<Rightarrow> delivery_err \<Rightarrow> string" where
  "delivery_Error en e = (case e of RenderFailed r \<Rightarrow> Render_Error en r | SendFailed f \<Rightarrow> Send_Error f)"

text \<open>\<open>channel.Retryable\<close>: a failed render is none of the failures known to be permanent.\<close>

definition delivery_Retryable :: "delivery_err \<Rightarrow> bool" where
  "delivery_Retryable e = (case e of RenderFailed _ \<Rightarrow> True | SendFailed f \<Rightarrow> Retryable f)"

definition log_row_of :: "string \<Rightarrow> subjects \<Rightarrow> time \<Rightarrow> delivery \<Rightarrow> log_row" where
  "log_row_of newID subj now d = \<lparr> lg_ID = newID, lg_TenantID = sj_TenantID subj, lg_CreatedAt = now,
     lg_ChannelID = ch_ID (dl_Channel d), lg_ChannelType = ch_Type (dl_Channel d), lg_TemplateID = dl_TemplateID d,
     lg_TemplateKey = dl_TemplateKey d, lg_Recipient = dl_Recipient d, lg_RenderedSubject = '''',
     lg_RenderedBody = '''', lg_Status = ''pending'', lg_Error = '''', lg_SenderKind = ActorKind subj,
     lg_SenderID = ActorID subj, lg_Test = dl_Test d, lg_SentAt = None \<rparr>"

definition message_of :: "delivery \<Rightarrow> render_output \<Rightarrow> out_message" where
  "message_of d sent = (let html = ch_Type (dl_Channel d) = TypeEmail in
     \<lparr> om_To = dl_Recipient d, om_Subject = op_Subject sent,
       om_HTMLBody = (if html then op_Body sent else ''''), om_TextBody = (if html then '''' else op_Body sent) \<rparr>)"

text \<open>Render and hand over: the failure if there is one, and what the log stores.\<close>

definition attempt :: "delivery \<Rightarrow> send_state \<Rightarrow> (delivery_err option \<times> render_output) \<times> send_state" where
  "attempt d s = (case dl_Render d of
      Inl e \<Rightarrow> ((Some (RenderFailed e), no_output), s)
    | Inr (sent, stored) \<Rightarrow>
        let msg = message_of d sent in
        ((map_option SendFailed (pv_Send (dl_Provider d) (dl_Settings d) msg), stored),
         s\<lparr>ss_sent := ss_sent s @ [(dl_Settings d, msg)]\<rparr>))"

definition delivery_details :: "delivery \<Rightarrow> (string \<times> any) list" where
  "delivery_details d = [(''channel_id'', VStr (ch_ID (dl_Channel d))), (''template_id'', VStr (strp (dl_TemplateID d))),
     (''test'', VBool (dl_Test d))] @ (case dl_TemplateKey d of None \<Rightarrow> [] | Some k \<Rightarrow> [(''template_key'', VStr k)])"

definition send_event :: "subjects \<Rightarrow> string \<Rightarrow> string \<Rightarrow> string \<Rightarrow> string \<Rightarrow> delivery \<Rightarrow> event" where
  "send_event subj typ i outcome reason d =
     (authz_event subj typ ''notification'' i outcome reason (delivery_details d))\<lparr>ev_CorrelationID := dl_CorrelationID d\<rparr>"

definition failure_reason :: "send_env \<Rightarrow> delivery \<Rightarrow> delivery_err \<Rightarrow> string" where
  "failure_reason ev d e =
     (if (case e of SendFailed f \<Rightarrow> is_no_provider f | RenderFailed _ \<Rightarrow> False) then ''no_provider''
      else scrubSecrets (Scrub (delivery_Error (sn_Engine ev) e) (dl_Settings d)
             (Registry_SecretFields (ce_Registry (sn_Channels ev)) (ch_Type (dl_Channel d)))) (dl_Secrets d))"

definition deliver :: "send_env \<Rightarrow> string \<Rightarrow> subjects \<Rightarrow> delivery \<Rightarrow> log_view send_op" where
  "deliver ev newID subj d =
     bindE (getE (\<lambda>s. clock (ss_sys s))) (\<lambda>now.
     let row = log_row_of newID subj now d in
     bindE (with_sys (with_db (InsertLog row))) (\<lambda>_.
     bindE (\<lambda>s. case attempt d s of (r, s') \<Rightarrow> (Inr r, s')) (\<lambda>(err, stored).
     case err of
       Some e \<Rightarrow>
         let reason = failure_reason ev d e in
         bindE (with_sys (with_db (SetLogOutcome (sj_TenantID subj) newID ''failed'' reason
            (op_Subject stored) (op_Body stored) None))) (\<lambda>_.
         bindE (with_sys (emitE (send_event subj ''notification_failed'' newID ''failed'' (shortReason reason) d))) (\<lambda>_.
         returnE ((logView (row\<lparr> lg_Status := ''failed'', lg_Error := reason, lg_RenderedSubject := op_Subject stored,
            lg_RenderedBody := op_Body stored \<rparr>))\<lparr>lv_Retryable := delivery_Retryable e\<rparr>)))
     | None \<Rightarrow>
         bindE (getE (\<lambda>s. clock (ss_sys s))) (\<lambda>at.
         bindE (with_sys (with_db (SetLogOutcome (sj_TenantID subj) newID ''sent'' ''''
            (op_Subject stored) (op_Body stored) (Some at)))) (\<lambda>_.
         bindE (with_sys (emitE (send_event subj ''notification_sent'' newID ''ok'' '''' d))) (\<lambda>_.
         returnE (logView (row\<lparr> lg_Status := ''sent'', lg_RenderedSubject := op_Subject stored,
            lg_RenderedBody := op_Body stored, lg_SentAt := Some at \<rparr>))))))))"

section \<open>Sending\<close>

record send_input =
  si_TemplateID :: string
  si_ChannelID :: string
  si_Recipient :: string
  si_Variables :: vars
  si_CorrelationID :: string

definition parse_template :: "send_env \<Rightarrow> template \<Rightarrow> string \<Rightarrow> goerr + compiled" where
  "parse_template ev tpl typ = (case Render_Parse (sn_Engine ev) (tp_Subject tpl) (tp_Body tpl) (KindFor typ) of
      Inl e \<Rightarrow> Inl (validationError (sn_Engine ev) e)
    | Inr c \<Rightarrow> Inr c)"

abbreviation bad_recipient :: goerr where
  "bad_recipient \<equiv> in_field ''recipient is not valid for the channel type'' ''recipient''"

text \<open>\<open>rr1\<close> and \<open>rr2\<close> are what the two renders meet.\<close>

definition template_delivery ::
  "send_env \<Rightarrow> render_run \<Rightarrow> render_run \<Rightarrow> send_input \<Rightarrow> template \<Rightarrow> compiled \<Rightarrow> channel \<times> settings \<times> provider \<Rightarrow> delivery" where
  "template_delivery ev rr1 rr2 inp tpl c = (\<lambda>(ch, st, p).
     \<lparr> dl_Channel = ch, dl_Settings = st, dl_Provider = p, dl_TemplateID = Some (tp_ID tpl),
       dl_TemplateKey = None, dl_Recipient = si_Recipient inp, dl_Test = False, dl_CorrelationID = si_CorrelationID inp,
       dl_Secrets = secretValues (tp_SecretVariables tpl) (si_Variables inp),
       dl_Render = Compiled_RenderRedacted (sn_Engine ev) rr1 rr2 c (si_Variables inp) (tp_SecretVariables tpl) \<rparr>)"

definition Sender_Send ::
  "send_env \<Rightarrow> string \<Rightarrow> render_run \<Rightarrow> render_run \<Rightarrow> subjects \<Rightarrow> send_input \<Rightarrow> log_view send_op" where
  "Sender_Send ev newID rr1 rr2 subj inp =
     bindE (refuseE (si_TemplateID inp = '''') (in_field ''template_id is required'' ''template_id'')) (\<lambda>_.
     bindE (checkE (checkVariables (si_Variables inp))) (\<lambda>_.
     bindE (with_sys (Require subj Template (si_TemplateID inp) Use)) (\<lambda>_.
     bindE (with_sys (with_db (GetTemplate (sj_TenantID subj) (si_TemplateID inp)))) (\<lambda>tpl.
     let channelID = (if si_ChannelID inp = '''' then strp (tp_ChannelID tpl) else si_ChannelID inp) in
     bindE (refuseE (channelID = '''') (in_field ''the template has no channel'' ''channel_id'')) (\<lambda>_.
     bindE (with_sys (Require subj Channel channelID Use)) (\<lambda>_.
     bindE (with_sys (Channels_Resolve (sn_Channels ev) (sj_TenantID subj) channelID)) (\<lambda>(ch, st, p).
     bindE (refuseE (ch_Type ch \<noteq> tp_ChannelType tpl) Notify_ErrTypeMismatch) (\<lambda>_.
     bindE (refuseE (\<not> ch_Enabled ch) Notify_ErrChannelDisabled) (\<lambda>_.
     bindE (refuseE (\<not> ValidateRecipient (sn_Mail ev) (ch_Type ch) (si_Recipient inp)) bad_recipient) (\<lambda>_.
     bindE (liftSum (parse_template ev tpl (ch_Type ch))) (\<lambda>c.
     bindE (checkE (map_option (\<lambda>r. notify_invalid ''missing variable'' [(''variable'', VStr r)])
        (find (\<lambda>r. map_of (si_Variables inp) r = None) (cp_Refs c)))) (\<lambda>_.
     bindE (limit_send ev subj) (\<lambda>_.
     deliver ev newID subj (template_delivery ev rr1 rr2 inp tpl c (ch, st, p)))))))))))))))"

definition systemChannel :: "send_env \<Rightarrow> string \<Rightarrow> (channel \<times> settings \<times> provider) send_op" where
  "systemChannel ev tenantID =
     bindE (with_sys (found_or_absent (with_db (DefaultEmailChannel tenantID)))) (\<lambda>own.
     if (case own of Some c \<Rightarrow> ch_Enabled c | None \<Rightarrow> False)
     then with_sys (Channels_Resolve (sn_Channels ev) tenantID (ch_ID (the own)))
     else
       bindE (with_sys (found_or_absent (with_db (ManagedChannel (sn_PlatformTenant ev))))) (\<lambda>platform.
       if (case platform of Some c \<Rightarrow> ch_Enabled c | None \<Rightarrow> False)
       then with_sys (Channels_Resolve (sn_Channels ev) (sn_PlatformTenant ev) (ch_ID (the platform)))
       else failE Notify_ErrEmailNotConfigured))"

record key_input =
  ki_Key :: string
  ki_Recipient :: string
  ki_Variables :: vars
  ki_CorrelationID :: string

definition key_refusal :: "subjects \<Rightarrow> key_input \<Rightarrow> event" where
  "key_refusal subj inp =
     (authz_event subj ''access_refused'' ''template'' (ki_Key inp) ''refused'' ''key_namespace''
        [(''template_key'', VStr (ki_Key inp))])\<lparr>ev_CorrelationID := ki_CorrelationID inp\<rparr>"

text \<open>The declared variables empty, overwritten by the given values.\<close>

definition key_values :: "string list \<Rightarrow> vars \<Rightarrow> vars" where
  "key_values declared given = fold (\<lambda>(k, v) m. AList.update k v m) given (fold (\<lambda>v m. AList.update v '''' m) declared [])"

definition key_delivery ::
  "send_env \<Rightarrow> render_run \<Rightarrow> render_run \<Rightarrow> key_input \<Rightarrow> template \<Rightarrow> compiled \<Rightarrow> channel \<times> settings \<times> provider \<Rightarrow> delivery" where
  "key_delivery ev rr1 rr2 inp tpl c = (\<lambda>(ch, st, p).
     let values = key_values (tp_Variables tpl) (ki_Variables inp) in
     \<lparr> dl_Channel = ch, dl_Settings = st, dl_Provider = p, dl_TemplateID = Some (tp_ID tpl),
       dl_TemplateKey = Some (ki_Key inp), dl_Recipient = ki_Recipient inp, dl_Test = False,
       dl_CorrelationID = ki_CorrelationID inp, dl_Secrets = secretValues (tp_SecretVariables tpl) values,
       dl_Render = Compiled_RenderRedacted (sn_Engine ev) rr1 rr2 c values (tp_SecretVariables tpl) \<rparr>)"

definition Sender_SendKey ::
  "send_env \<Rightarrow> string \<Rightarrow> render_run \<Rightarrow> render_run \<Rightarrow> subjects \<Rightarrow> string \<Rightarrow> key_input \<Rightarrow> log_view send_op" where
  "Sender_SendKey ev newID rr1 rr2 subj service inp =
     bindE (refuseE (\<not> ValidKey (ki_Key inp)) (in_field ''template_key'' ''template_key'')) (\<lambda>_.
     if service = '''' \<or> KeyService (ki_Key inp) \<noteq> service
     then bindE (with_sys (emitE (key_refusal subj inp))) (\<lambda>_. failE Notify_ErrKeyNamespace)
     else
       bindE (checkE (checkVariables (ki_Variables inp))) (\<lambda>_.
       bindE (mapErrE (\<lambda>e. if errors_Is e Store_ErrNotFound then Notify_ErrUnknownKey else e)
          (with_sys (with_db (TemplateByKey (sn_PlatformTenant ev) (ki_Key inp))))) (\<lambda>tpl.
       bindE (checkE (map_option (\<lambda>r. notify_invalid (''missing_variable:'' @ r) [(''variable'', VStr r)])
          (find (\<lambda>r. map_of (ki_Variables inp) r = None) (tp_RequiredVariables tpl)))) (\<lambda>_.
       bindE (refuseE (\<not> ValidateRecipient (sn_Mail ev) TypeEmail (ki_Recipient inp)) bad_recipient) (\<lambda>_.
       bindE (liftSum (parse_template ev tpl (tp_ChannelType tpl))) (\<lambda>c.
       bindE (systemChannel ev (sj_TenantID subj)) (\<lambda>target.
       bindE (if sn_Limiter ev then limited_by ''system'' service (sn_System ev) else returnE ()) (\<lambda>_.
       deliver ev newID subj (key_delivery ev rr1 rr2 inp tpl c target)))))))))"

definition testSubject :: string where "testSubject = ''Tangra notification test''"
definition testBody :: string where
  "testBody = ''<p>This is a test message from the Tangra notification service. If you can read it, the channel works.</p>''"

definition fixed_render :: "string \<Rightarrow> string \<Rightarrow> render_err + (render_output \<times> render_output)" where
  "fixed_render subject body = Inr (\<lparr> op_Subject = subject, op_Body = body \<rparr>, \<lparr> op_Subject = subject, op_Body = body \<rparr>)"

definition Sender_SendTest :: "send_env \<Rightarrow> string \<Rightarrow> subjects \<Rightarrow> string \<Rightarrow> string \<Rightarrow> string \<Rightarrow> log_view send_op" where
  "Sender_SendTest ev newID subj channelID recipient correlationID =
     bindE (with_sys (Require subj Channel channelID Write)) (\<lambda>_.
     bindE (with_sys (Channels_Resolve (sn_Channels ev) (sj_TenantID subj) channelID)) (\<lambda>(ch, st, p).
     bindE (refuseE (\<not> ValidateRecipient (sn_Mail ev) (ch_Type ch) recipient) bad_recipient) (\<lambda>_.
     bindE (limit_send ev subj) (\<lambda>_.
     deliver ev newID subj \<lparr> dl_Channel = ch, dl_Settings = st, dl_Provider = p, dl_TemplateID = None,
       dl_TemplateKey = None, dl_Recipient = recipient, dl_Test = True, dl_CorrelationID = correlationID,
       dl_Secrets = [], dl_Render = fixed_render testSubject testBody \<rparr>))))"

section \<open>Custom mails\<close>

text \<open>The number of bytes of the first rune; a byte that begins none counts for itself.\<close>

definition in_range :: "nat \<Rightarrow> nat \<Rightarrow> char \<Rightarrow> bool" where
  "in_range lo hi c \<longleftrightarrow> lo \<le> of_char c \<and> of_char c \<le> hi"

abbreviation cont :: "char \<Rightarrow> bool" where "cont \<equiv> in_range 0x80 0xBF"

definition rune_size :: "string \<Rightarrow> nat" where
  "rune_size s = (case s of
      b0 # b1 # rest \<Rightarrow>
        if in_range 0xC2 0xDF b0 \<and> cont b1 then 2
        else (case rest of
            b2 # rest' \<Rightarrow>
              if cont b2 \<and> (of_char b0 = (0xE0 :: nat) \<and> in_range 0xA0 0xBF b1
                 \<or> (in_range 0xE1 0xEC b0 \<or> in_range 0xEE 0xEF b0) \<and> cont b1
                 \<or> of_char b0 = (0xED :: nat) \<and> in_range 0x80 0x9F b1) then 3
              else (case rest' of
                  b3 # _ \<Rightarrow>
                    if cont b2 \<and> cont b3 \<and> (of_char b0 = (0xF0 :: nat) \<and> in_range 0x90 0xBF b1
                       \<or> in_range 0xF1 0xF3 b0 \<and> cont b1
                       \<or> of_char b0 = (0xF4 :: nat) \<and> in_range 0x80 0x8F b1) then 4 else 1
                | [] \<Rightarrow> 1)
          | [] \<Rightarrow> 1)
    | _ \<Rightarrow> 1)"

function RuneCount :: "string \<Rightarrow> nat" where
  "RuneCount s = (if s = [] then 0 else Suc (RuneCount (drop (rune_size s) s)))"
  by pat_completeness auto
termination
  by (relation "measure length") (auto simp: rune_size_def split: list.splits)

declare RuneCount.simps [simp del]

definition is_hex :: "char \<Rightarrow> bool" where
  "is_hex c \<longleftrightarrow> is_digit c \<or> (CHR ''a'' \<le> c \<and> c \<le> CHR ''f'') \<or> (CHR ''A'' \<le> c \<and> c \<le> CHR ''F'')"

definition uuidRE :: "string \<Rightarrow> bool" where
  "uuidRE s \<longleftrightarrow> map length (Split (CHR ''-'') s) = [8, 4, 4, 4, 12] \<and> list_all (list_all is_hex) (Split (CHR ''-'') s)"

definition DefaultCustomSubject :: string where "DefaultCustomSubject = ''[GoTangra] Scheduled test email''"
definition MaxCustomSubject :: nat where "MaxCustomSubject = 200"
definition MaxCustomBody :: nat where "MaxCustomBody = 10000"

record custom_input =
  cs_ChannelID :: string
  cs_Recipient :: string
  cs_Subject :: string
  cs_Body :: string
  cs_CorrelationID :: string

definition customChannel :: "send_env \<Rightarrow> string \<Rightarrow> string \<Rightarrow> (channel \<times> settings \<times> provider) send_op" where
  "customChannel ev tenantID channelID =
     bindE (if channelID = ''''
        then bindE (mapErrE (\<lambda>e. if errors_Is e Store_ErrNotFound then Notify_ErrEmailNotConfigured else e)
               (with_sys (with_db (DefaultEmailChannel tenantID)))) (\<lambda>def. returnE (ch_ID def))
        else returnE channelID) (\<lambda>i.
     bindE (refuseE (\<not> uuidRE i) Store_ErrNotFound) (\<lambda>_.
     with_sys (Channels_Resolve (sn_Channels ev) tenantID i)))"

definition custom_text :: "send_env \<Rightarrow> time \<Rightarrow> custom_input \<Rightarrow> string" where
  "custom_text ev now inp = (if cs_Body inp \<noteq> '''' then cs_Body inp
     else ''This is a scheduled test email from the GoTangra notification service.'' @ [CHR 0x0A, CHR 0x0A] @
       ''Execution ID: '' @ cs_CorrelationID inp @ [CHR 0x0A] @
       ''Sent at:      '' @ sn_RFC3339 ev now @ [CHR 0x0A, CHR 0x0A] @
       ''If you received this message, your email channel is configured correctly.'')"

definition Sender_SendCustom :: "send_env \<Rightarrow> string \<Rightarrow> subjects \<Rightarrow> custom_input \<Rightarrow> log_view send_op" where
  "Sender_SendCustom ev newID subj inp =
     bindE (refuseE (\<not> uuidRE (sj_TenantID subj)) (in_field ''tenant_id must be a uuid'' ''tenant_id'')) (\<lambda>_.
     let subject = (if cs_Subject inp = '''' then DefaultCustomSubject else cs_Subject inp) in
     bindE (refuseE (RuneCount subject > MaxCustomSubject \<or> ContainsAny subject [CHR 0x0D, CHR 0x0A])
        (in_field ''subject must be one line of at most 200 characters'' ''subject'')) (\<lambda>_.
     bindE (refuseE (RuneCount (cs_Body inp) > MaxCustomBody) (in_field ''body exceeds 10000 characters'' ''body'')) (\<lambda>_.
     bindE (refuseE (\<not> ValidateRecipient (sn_Mail ev) TypeEmail (cs_Recipient inp)) bad_recipient) (\<lambda>_.
     bindE (customChannel ev (sj_TenantID subj) (cs_ChannelID inp)) (\<lambda>(ch, st, p).
     bindE (refuseE (ch_Type ch \<noteq> TypeEmail) Notify_ErrTypeMismatch) (\<lambda>_.
     bindE (refuseE (\<not> ch_Enabled ch) Notify_ErrChannelDisabled) (\<lambda>_.
     bindE (limit_send ev subj) (\<lambda>_.
     bindE (getE (\<lambda>s. clock (ss_sys s))) (\<lambda>now.
     deliver ev newID subj \<lparr> dl_Channel = ch, dl_Settings = st, dl_Provider = p, dl_TemplateID = None,
       dl_TemplateKey = None, dl_Recipient = cs_Recipient inp, dl_Test = False, dl_CorrelationID = cs_CorrelationID inp,
       dl_Secrets = [], dl_Render = fixed_render subject
         (''<div style='' @ [CHR 0x22] @ ''white-space: pre-wrap'' @ [CHR 0x22] @ ''>'' @ EscapeString (custom_text ev now inp) @ ''</div>'') \<rparr>)))))))))"

section \<open>Reading the log\<close>

definition logFilter :: "subjects \<Rightarrow> log_filter \<Rightarrow> bool \<Rightarrow> time \<Rightarrow> goerr + log_filter" where
  "logFilter subj f allSenders now =
     (let f = (if allSenders then f else f\<lparr>lf_SenderID := ActorID subj\<rparr>) in
      if lf_Status f \<noteq> '''' \<and> lf_Status f \<noteq> ''pending'' \<and> lf_Status f \<noteq> ''sent'' \<and> lf_Status f \<noteq> ''failed''
      then Inl (in_field ''unknown status'' ''status'')
      else if \<not> IsZero (lf_From f) \<and> \<not> IsZero (lf_To f) \<and> lf_To f < lf_From f
      then Inl (in_field ''to is before from'' ''to'')
      else case Window (lf_From f) (lf_To f) now of
          Inl e \<Rightarrow> Inl e
        | Inr (from, till) \<Rightarrow> Inr (f\<lparr> lf_From := from, lf_To := till \<rparr>))"

definition Sender_ListLog ::
  "(time \<Rightarrow> string) \<Rightarrow> subjects \<Rightarrow> log_filter \<Rightarrow> bool \<Rightarrow> (log_view list \<times> string) send_op" where
  "Sender_ListLog fmt subj f0 allSenders =
     bindE (getE (\<lambda>s. clock (ss_sys s))) (\<lambda>now.
     bindE (liftSum (logFilter subj f0 allSenders now)) (\<lambda>f1.
     if \<not> allSenders \<and> lf_SenderID f1 = '''' then returnE ([], '''')
     else
       let f = (if lf_Limit f1 \<le> 0 \<or> lf_Limit f1 > 100 then f1\<lparr>lf_Limit := 50\<rparr> else f1) in
       bindE (with_sys (with_db (LogPage (sj_TenantID subj) f))) (\<lambda>rs.
       returnE (map logView rs,
         if int (length rs) = lf_Limit f then EncodeCursor fmt (lg_CreatedAt (last rs)) (lg_ID (last rs)) else ''''))))"

definition Sender_GetLog :: "subjects \<Rightarrow> string \<Rightarrow> bool \<Rightarrow> log_view send_op" where
  "Sender_GetLog subj i allSenders =
     bindE (with_sys (with_db (GetLog (sj_TenantID subj) i))) (\<lambda>row.
     bindE (refuseE (\<not> allSenders \<and> lg_SenderID row \<noteq> ActorID subj) Store_ErrNotFound) (\<lambda>_.
     returnE (logView row)))"

definition ExpirePending :: "duration \<Rightarrow> int send_op" where
  "ExpirePending age =
     bindE (getE (\<lambda>s. clock (ss_sys s))) (\<lambda>now.
     with_sys (with_db (ExpirePendingLogs (now - age))))"

end
