(* ===== verification/SendLaws.thy ===== *)
theory SendLaws
  imports SendSvc
begin

text \<open>
  What the send pipeline guarantees: every accepted send leaves one settled log entry, nothing is
  handed to a provider without one, secrets stay out of the log, and sends need the permissions (or
  the key namespace) they are meant to need.
\<close>

section \<open>Steps before the delivery\<close>

text \<open>An operation that neither changes the store nor hands anything to a provider.\<close>

definition quiet :: "'a send_op \<Rightarrow> bool" where
  "quiet f \<longleftrightarrow> (\<forall>x. keeps (\<lambda>s. (db (ss_sys s), ss_sent s) = x) f)"

definition quiet_sys :: "'a sys_op \<Rightarrow> bool" where
  "quiet_sys f \<longleftrightarrow> (\<forall>x. keeps (\<lambda>y. db y = x) f)"

lemma quietD: "quiet f \<Longrightarrow> f s = (r, s') \<Longrightarrow> db (ss_sys s') = db (ss_sys s) \<and> ss_sent s' = ss_sent s"
  using keepsD [of "\<lambda>u. (db (ss_sys u), ss_sent u) = (db (ss_sys s), ss_sent s)" f s r s'] by (auto simp: quiet_def)

lemma quiet_sysD: "quiet_sys f \<Longrightarrow> f y = (r, y') \<Longrightarrow> db y' = db y"
  using keepsD [of "\<lambda>u. db u = db y" f y r y'] by (auto simp: quiet_sys_def)

lemma quiet_basic [intro]:
  "quiet (returnE x)" "quiet (failE e)" "quiet (refuseE c e)" "quiet (getE g)" "quiet (checkE co)" "quiet (liftSum r)"
  by (auto simp: quiet_def liftSum_def keeps_def returnE_def failE_def refuseE_def getE_def checkE_def split: option.splits)

lemma quiet_bindE [intro]: "quiet f \<Longrightarrow> (\<And>x. quiet (g x)) \<Longrightarrow> quiet (bindE f g)"
  unfolding quiet_def by (intro allI keeps_bindE) auto

lemma quiet_if [intro]: "quiet f \<Longrightarrow> quiet g \<Longrightarrow> quiet (if c then f else g)"
  by simp

lemma quiet_mapErrE [intro]: "quiet f \<Longrightarrow> quiet (mapErrE h f)"
  unfolding quiet_def by (intro allI keeps_mapErrE) auto

lemma quiet_with_sys [intro]:
  assumes "quiet_sys f"
  shows "quiet (with_sys f)"
  unfolding quiet_def
proof (intro allI keepsI)
  fix x and s :: send_state
  obtain r y where f: "f (ss_sys s) = (r, y)" by fastforce
  assume "(db (ss_sys s), ss_sent s) = x"
  then show "(db (ss_sys (snd (with_sys f s))), ss_sent (snd (with_sys f s))) = x"
    by (simp add: with_sys_def f quiet_sysD [OF assms f])
qed

lemma quiet_sys_read:
  assumes "\<And>m. snd (f m) = m"
  shows "quiet_sys (with_db f)"
  unfolding quiet_sys_def
proof (intro allI keepsI)
  fix x and y :: sys
  assume "db y = x"
  with assms [of "db y"] show "db (snd (with_db f y)) = x" by (cases "f (db y)") (simp add: with_db_def)
qed

lemma quiet_sys_basic [intro]:
  "quiet_sys (returnE x)" "quiet_sys (failE e)" "quiet_sys (refuseE c er)" "quiet_sys (getE g)"
  "quiet_sys (liftSum r)" "quiet_sys (emitE ev)"
  by (auto simp: quiet_sys_def liftSum_def keeps_def returnE_def failE_def refuseE_def getE_def emitE_def)

lemma quiet_sys_bindE [intro]: "quiet_sys f \<Longrightarrow> (\<And>x. quiet_sys (g x)) \<Longrightarrow> quiet_sys (bindE f g)"
  unfolding quiet_sys_def by (intro allI keeps_bindE) auto

lemma quiet_sys_mapErrE [intro]: "quiet_sys f \<Longrightarrow> quiet_sys (mapErrE h f)"
  unfolding quiet_sys_def by (intro allI keeps_mapErrE) auto

lemma found_or_absent_state: "snd (found_or_absent f y) = snd (f y)"
  by (auto simp: found_or_absent_def split: prod.splits sum.splits)

lemma quiet_sys_found [intro]: "quiet_sys f \<Longrightarrow> quiet_sys (found_or_absent f)"
  by (simp add: quiet_sys_def keeps_def found_or_absent_state)

lemma quiet_sys_reads [intro]:
  "quiet_sys (with_db (GetChannel t i))" "quiet_sys (with_db (GetTemplate t i))" "quiet_sys (with_db (TemplateByKey t k))"
  "quiet_sys (with_db (DefaultEmailChannel t))" "quiet_sys (with_db (ManagedChannel t))"
  "quiet_sys (with_db (GrantsOnResource t rt rid))"
  by (rule quiet_sys_read, simp add: frame_simps)+

lemma quiet_sys_Require [intro]: "quiet_sys (Require s rt i p)"
  unfolding Require_def Check_def locate_def evaluate_def Let_def
  by (intro quiet_sys_bindE quiet_sys_mapErrE quiet_sys_basic quiet_sys_reads) (auto split: if_splits)

lemma quiet_sys_Resolve [intro]: "quiet_sys (Channels_Resolve ce t i)"
  unfolding Channels_Resolve_def by (intro quiet_sys_bindE quiet_sys_reads quiet_sys_basic)

lemma quiet_limited_by [intro]: "quiet (limited_by k sub l)"
  by (auto simp: quiet_def keeps_def limited_by_def split: prod.splits)

lemma quiet_limit_send [intro]: "quiet (limit_send ev subj)"
  unfolding limit_send_def by (auto intro: quiet_bindE)

lemma quiet_systemChannel [intro]: "quiet (systemChannel ev t)"
  unfolding systemChannel_def by (intro quiet_bindE quiet_if quiet_with_sys quiet_sys_found quiet_sys_reads quiet_sys_Resolve quiet_basic)

lemma quiet_customChannel [intro]: "quiet (customChannel ev t i)"
  unfolding customChannel_def
  by (intro quiet_bindE quiet_if quiet_mapErrE quiet_with_sys quiet_sys_reads quiet_sys_Resolve quiet_basic)

section \<open>The delivery\<close>

definition delivered :: "string \<Rightarrow> send_env \<Rightarrow> subjects \<Rightarrow> delivery \<Rightarrow> time \<Rightarrow> log_row" where
  "delivered newID ev subj d now = (let row = log_row_of newID subj now d in
     case dl_Render d of
       Inl e \<Rightarrow> row\<lparr> lg_Status := ''failed'', lg_Error := failure_reason ev d (RenderFailed e) \<rparr>
     | Inr (sent, stored) \<Rightarrow>
         (let row' = row\<lparr> lg_RenderedSubject := op_Subject stored, lg_RenderedBody := op_Body stored \<rparr> in
          case pv_Send (dl_Provider d) (dl_Settings d) (message_of d sent) of
            Some e \<Rightarrow> row'\<lparr> lg_Status := ''failed'', lg_Error := failure_reason ev d (SendFailed e) \<rparr>
          | None \<Rightarrow> row'\<lparr> lg_Status := ''sent'', lg_SentAt := Some now \<rparr>))"

definition handed :: "delivery \<Rightarrow> (settings \<times> out_message) list" where
  "handed d = (case dl_Render d of Inl _ \<Rightarrow> [] | Inr (sent, _) \<Rightarrow> [(dl_Settings d, message_of d sent)])"

lemma update_twice: "AList.update k b (AList.update k a t) = AList.update k b t"
  by (induction t) auto

lemma InsertLog_run:
  "healthy m \<Longrightarrow> lg_CreatedAt l = Now m \<Longrightarrow> InsertLog l m = (Inr (), m\<lparr>Logs := AList.update (lg_ID l) l (Logs m)\<rparr>)"
  by (cases l) (simp add: InsertLog_def Let_def)

lemma SetLogOutcome_run:
  assumes "healthy m" and "map_of (Logs m) i = Some l" and "lg_TenantID l = tid" and "lg_Status l = ''pending''"
  shows "SetLogOutcome tid i st er sb bd at m = (Inr (), m\<lparr>Logs := AList.update i (l\<lparr> lg_Status := st, lg_Error := er,
    lg_RenderedSubject := sb, lg_RenderedBody := bd, lg_SentAt := at \<rparr>) (Logs m)\<rparr>)"
  using assms by (simp add: SetLogOutcome_def)

lemma bind_store:
  "bindE (with_sys (with_db f)) g s = (case f (db (ss_sys s)) of
      (Inl e, m) \<Rightarrow> (Inl e, s\<lparr>ss_sys := (ss_sys s)\<lparr>db := m\<rparr>\<rparr>)
    | (Inr x, m) \<Rightarrow> g x (s\<lparr>ss_sys := (ss_sys s)\<lparr>db := m\<rparr>\<rparr>))"
  by (simp add: bindE_def with_sys_def with_db_def split: prod.splits sum.splits)

lemma bind_pure: "bindE (\<lambda>s. case h s of (r, s') \<Rightarrow> (Inr r, s')) g s = (case h s of (r, s1) \<Rightarrow> g r s1)"
  by (simp add: bindE_def split: prod.splits)

lemma clock_logs: "clock (y\<lparr>db := (db y)\<lparr>Logs := t\<rparr>\<rparr>) = clock y"
  by (simp add: clock_def)

lemma emit_last: "bindE (with_sys (emitE e)) (\<lambda>_. returnE v) s = (Inr v, s\<lparr>ss_sys := emit e (ss_sys s)\<rparr>)"
  by (simp add: bindE_def with_sys_def emitE_def returnE_def)

lemma deliver_run:
  fixes s :: send_state
  assumes "healthy (db (ss_sys s))"
  shows "\<exists>v s'. deliver ev newID subj d s = (Inr v, s') \<and>
     db (ss_sys s') = (db (ss_sys s))\<lparr>Logs := AList.update newID (delivered newID ev subj d (clock (ss_sys s))) (Logs (db (ss_sys s)))\<rparr> \<and>
     ss_sent s' = ss_sent s @ handed d \<and> v\<lparr>lv_Retryable := False\<rparr> = logView (delivered newID ev subj d (clock (ss_sys s)))"
proof -
  let ?row = "log_row_of newID subj (clock (ss_sys s)) d"
  let ?m = "(db (ss_sys s))\<lparr>Logs := AList.update newID ?row (Logs (db (ss_sys s)))\<rparr>"
  have ins: "InsertLog ?row (db (ss_sys s)) = (Inr (), ?m)"
    using InsertLog_run [OF assms, of ?row] by (simp add: log_row_of_def clock_def)
  have h: "healthy ?m" using assms by (simp add: healthy_def)
  have out: "SetLogOutcome (sj_TenantID subj) newID st er sb bd at ?m = (Inr (), (db (ss_sys s))\<lparr>Logs := AList.update newID (?row\<lparr> lg_Status := st,
      lg_Error := er, lg_RenderedSubject := sb, lg_RenderedBody := bd, lg_SentAt := at \<rparr>) (Logs (db (ss_sys s)))\<rparr>)" for st er sb bd at
    using SetLogOutcome_run [OF h, of newID ?row "sj_TenantID subj"] by (simp add: log_row_of_def update_conv' update_twice)
  let ?s = "s\<lparr>ss_sys := (ss_sys s)\<lparr>db := ?m\<rparr>\<rparr>"
  note run = deliver_def Let_def bindE_getE bind_store ins bind_pure out emit_last clock_logs
  show ?thesis
  proof (cases "dl_Render d")
    case (Inl e)
    then have "attempt d ?s = ((Some (RenderFailed e), no_output), ?s)" by (simp add: attempt_def)
    with Inl show ?thesis
      by (simp add: run handed_def) (simp add: delivered_def logView_def log_row_of_def no_output_def)
  next
    case (Inr p)
    obtain sent stored where p: "p = (sent, stored)" by fastforce
    show ?thesis
    proof (cases "pv_Send (dl_Provider d) (dl_Settings d) (message_of d sent)")
      case None
      with Inr p have "attempt d ?s = ((None, stored), ?s\<lparr>ss_sent := ss_sent s @ [(dl_Settings d, message_of d sent)]\<rparr>)"
        by (simp add: attempt_def Let_def)
      with None Inr p show ?thesis
        by (simp add: run handed_def) (simp add: delivered_def logView_def log_row_of_def)
    next
      case (Some e)
      with Inr p have "attempt d ?s = ((Some (SendFailed e), stored), ?s\<lparr>ss_sent := ss_sent s @ [(dl_Settings d, message_of d sent)]\<rparr>)"
        by (simp add: attempt_def Let_def)
      with Some Inr p show ?thesis
        by (simp add: run handed_def) (simp add: delivered_def logView_def log_row_of_def)
    qed
  qed
qed

section \<open>Every send settles\<close>

text \<open>
  What a send may leave behind: nothing at all with an error, or one entry of the caller in the log
  whose status is final, with at most one message handed to a provider, and that one to the entry's
  recipient.
\<close>

definition settled :: "send_state \<Rightarrow> string \<Rightarrow> subjects \<Rightarrow> (goerr + log_view) \<times> send_state \<Rightarrow> bool" where
  "settled s newID subj out = (case out of
      (Inl e, s') \<Rightarrow> db (ss_sys s') = db (ss_sys s) \<and> ss_sent s' = ss_sent s
    | (Inr v, s') \<Rightarrow> (\<exists>l. db (ss_sys s') = (db (ss_sys s))\<lparr>Logs := AList.update newID l (Logs (db (ss_sys s)))\<rparr>
        \<and> v\<lparr>lv_Retryable := False\<rparr> = logView l \<and> lg_TenantID l = sj_TenantID subj \<and> lg_SenderID l = ActorID subj
        \<and> ((\<exists>st msg. ss_sent s' = ss_sent s @ [(st, msg)] \<and> om_To msg = lg_Recipient l \<and> lg_Status l \<in> {''sent'', ''failed''})
           \<or> (ss_sent s' = ss_sent s \<and> lg_Status l = ''failed''))))"

definition settles :: "string \<Rightarrow> subjects \<Rightarrow> log_view send_op \<Rightarrow> bool" where
  "settles newID subj f \<longleftrightarrow> (\<forall>s. healthy (db (ss_sys s)) \<longrightarrow> settled s newID subj (f s))"

lemma settlesD: "settles newID subj f \<Longrightarrow> healthy (db (ss_sys s)) \<Longrightarrow> settled s newID subj (f s)"
  by (simp add: settles_def)

lemma delivered_settled:
  "lg_TenantID (delivered newID ev subj d now) = sj_TenantID subj \<and> lg_SenderID (delivered newID ev subj d now) = ActorID subj \<and>
   ((\<exists>st msg. handed d = [(st, msg)] \<and> om_To msg = lg_Recipient (delivered newID ev subj d now)
       \<and> lg_Status (delivered newID ev subj d now) \<in> {''sent'', ''failed''})
    \<or> (handed d = [] \<and> lg_Status (delivered newID ev subj d now) = ''failed''))"
  by (simp add: delivered_def Let_def handed_def log_row_of_def message_of_def split: sum.splits option.splits prod.splits)

lemma settles_deliver: "settles newID subj (deliver ev newID subj d)"
  unfolding settles_def
proof (intro allI impI)
  fix s :: send_state
  assume h: "healthy (db (ss_sys s))"
  let ?l = "delivered newID ev subj d (clock (ss_sys s))"
  from deliver_run [OF h, of ev newID subj d] obtain v s' where
    "deliver ev newID subj d s = (Inr v, s')" "db (ss_sys s') = (db (ss_sys s))\<lparr>Logs := AList.update newID ?l (Logs (db (ss_sys s)))\<rparr>"
    "ss_sent s' = ss_sent s @ handed d" "v\<lparr>lv_Retryable := False\<rparr> = logView ?l" by blast
  with delivered_settled [of newID ev subj d "clock (ss_sys s)"] show "settled s newID subj (deliver ev newID subj d s)"
    unfolding settled_def by (auto intro!: exI [of _ ?l])
qed

lemma settles_bindE:
  assumes "quiet f" and "\<And>x. settles newID subj (g x)"
  shows "settles newID subj (bindE f g)"
  unfolding settles_def
proof (intro allI impI)
  fix s :: send_state
  assume h: "healthy (db (ss_sys s))"
  obtain r s1 where f: "f s = (r, s1)" by fastforce
  note q = quietD [OF assms(1) f, THEN conjunct1] quietD [OF assms(1) f, THEN conjunct2]
  show "settled s newID subj (bindE f g s)"
  proof (cases r)
    case (Inl e)
    then show ?thesis using f q by (simp add: bindE_def settled_def)
  next
    case (Inr x)
    then have "settled s1 newID subj (g x s1)" using assms(2) h q by (simp add: settles_def)
    then show ?thesis using f Inr unfolding settled_def q by (simp add: bindE_def)
  qed
qed

lemma settles_quiet: "quiet f \<Longrightarrow> settles newID subj (bindE f (\<lambda>_. failE e))"
  by (rule settles_bindE) (auto simp: settles_def settled_def failE_def)

lemma settles_if: "settles newID subj f \<Longrightarrow> settles newID subj g \<Longrightarrow> settles newID subj (if c then f else g)"
  by simp

lemma settles_case_prod: "(\<And>a b. settles newID subj (g a b)) \<Longrightarrow> settles newID subj (case_prod g x)"
  by (cases x) simp

lemmas settles_rules = settles_deliver settles_bindE settles_quiet settles_if settles_case_prod
lemmas quiet_rules = quiet_basic quiet_bindE quiet_if quiet_mapErrE quiet_with_sys quiet_sys_basic quiet_sys_reads
  quiet_sys_Require quiet_sys_Resolve quiet_limited_by quiet_limit_send quiet_systemChannel quiet_customChannel

lemma settles_Send: "settles newID subj (Sender_Send ev newID rr1 rr2 subj inp)"
  unfolding Sender_Send_def Let_def by (intro settles_rules quiet_rules)

lemma settles_SendKey: "settles newID subj (Sender_SendKey ev newID rr1 rr2 subj service inp)"
  unfolding Sender_SendKey_def Let_def by (rule settles_bindE, intro quiet_rules) (intro settles_rules quiet_rules)

lemma settles_SendTest: "settles newID subj (Sender_SendTest ev newID subj ch rcp cid)"
  unfolding Sender_SendTest_def by (intro settles_rules quiet_rules)

lemma settles_SendCustom: "settles newID subj (Sender_SendCustom ev newID subj inp)"
  unfolding Sender_SendCustom_def Let_def by (intro settles_rules quiet_rules)

text \<open>
  C6. Every send settles. By template, by key, as a test or as a custom mail, a send on a working
  store either refuses, without an entry in the log and without anything handed to a provider, or
  leaves exactly one entry of the caller's with a final status, no other row of the store changed,
  and at most one message handed to a provider, to the recipient of that entry.
\<close>

theorem sends_settle:
  assumes "healthy (db (ss_sys s))"
  shows "settled s newID subj (Sender_Send ev newID rr1 rr2 subj inp s)
    \<and> settled s newID subj (Sender_SendKey ev newID rr1 rr2 subj service kin s)
    \<and> settled s newID subj (Sender_SendTest ev newID subj channelID recipient cid s)
    \<and> settled s newID subj (Sender_SendCustom ev newID subj cin s)"
  by (intro conjI settlesD [OF _ assms] settles_Send settles_SendKey settles_SendTest settles_SendCustom)

section \<open>Secrets stay out of the log\<close>

lemma QueryEscape_nonempty: "v \<noteq> [] \<Longrightarrow> QueryEscape v \<noteq> []"
  by (cases v) (simp_all add: QueryEscape_def query_char_def)

lemma scrubSecrets_clean:
  assumes "w \<in> set secrets" and "apart ''redacted'' w" and "[] \<notin> set secrets"
  shows "\<not> sublist w (scrubSecrets reason secrets)"
proof -
  let ?vs = "concat (map (\<lambda>v. [v, EscapeString v, QueryEscape v]) secrets)"
  have "[] \<notin> set ?vs"
  proof
    assume "[] \<in> set ?vs"
    then obtain v where "v \<in> set secrets" "[] \<in> {v, EscapeString v, QueryEscape v}" by auto
    with assms(3) EscapeString_nonempty [of v] QueryEscape_nonempty [of v] show False by (cases "v = []") auto
  qed
  moreover have "w \<in> set ?vs" using assms(1) by auto
  ultimately show ?thesis
    unfolding scrubSecrets_def Redacted_bracketed' using replace_each_clean [OF assms(2)] by blast
qed

text \<open>What a row of the log shows beyond its identifiers, recipient and sender.\<close>

definition exposes :: "log_row \<Rightarrow> string \<Rightarrow> bool" where
  "exposes l w \<longleftrightarrow> Contains (lg_RenderedSubject l) w \<or> Contains (lg_RenderedBody l) w \<or> Contains (lg_Error l) w"

lemma secretValues_nonempty: "[] \<notin> set (secretValues names values)"
  by (auto simp: secretValues_def placed_def)

lemma delivered_clean:
  assumes "dl_Render d = Compiled_RenderRedacted en rr1 rr2 c values names" and "dl_Secrets d = secretValues names values"
    and "n \<in> set names" and "w = value_of values n" and "length w \<ge> minScrub" and "apart ''redacted'' w"
    and "\<not> Contains ''no_provider'' w"
  shows "\<not> exposes (delivered newID ev subj d now) w"
proof -
  have ne: "w \<noteq> []" using assms(5) by (auto simp: minScrub_def)
  have "w \<in> set (secretValues names values)"
    using assms(3,4) ne by (auto simp: secretValues_def placed_def)
  then have fr: "\<not> Contains (failure_reason ev d e) w" for e
    using scrubSecrets_clean [OF _ assms(6) secretValues_nonempty] assms(2,7)
    by (simp add: failure_reason_def Contains_sublist)
  have nil: "\<not> Contains [] w" using ne by simp
  show ?thesis
  proof (cases "dl_Render d")
    case (Inl e)
    then show ?thesis using fr nil by (simp add: exposes_def delivered_def Let_def log_row_of_def)
  next
    case (Inr p)
    obtain sent stored where p: "p = (sent, stored)" by fastforce
    have "\<not> Contains (op_Subject stored) w \<and> \<not> Contains (op_Body stored) w"
      using render_redacted_clean [of en rr1 rr2 c "values" names sent stored n w] Inr p assms by simp
    then show ?thesis using fr nil Inr p
      by (simp add: exposes_def delivered_def Let_def log_row_of_def split: option.splits)
  qed
qed

lemma quiet_Inr_iff:
  assumes "quiet f"
  shows "bindE f g s = (Inr y, s') \<longleftrightarrow> (\<exists>x s1. f s = (Inr x, s1) \<and> db (ss_sys s1) = db (ss_sys s) \<and> ss_sent s1 = ss_sent s
    \<and> g x s1 = (Inr y, s'))"
  using quietD [OF assms] by (auto simp: bindE_Inr_iff)

lemma with_sys_db_Inr: "with_sys (with_db f) s = (Inr x, s') \<Longrightarrow> fst (f (db (ss_sys s))) = Inr x"
  by (auto simp: with_sys_def with_db_def split: prod.splits)

lemma mapErrE_Inr: "mapErrE h f s = (Inr x, s') \<longleftrightarrow> f s = (Inr x, s')"
  by (auto simp: mapErrE_def split: prod.splits sum.splits)

lemma bind_checkE_Inr: "bindE (checkE c) g s = (Inr y, s') \<longleftrightarrow> c = None \<and> g () s = (Inr y, s')"
  by (simp add: bindE_checkE split: option.splits)

lemma bind_refuseE_Inr: "bindE (refuseE c e) g s = (Inr y, s') \<longleftrightarrow> \<not> c \<and> g () s = (Inr y, s')"
  by (simp add: bindE_refuseE)

lemma bind_liftSum_Inr: "bindE (liftSum r) g s = (Inr y, s') \<longleftrightarrow> (\<exists>x. r = Inr x \<and> g x s = (Inr y, s'))"
  by (auto simp: bindE_def liftSum_def split: sum.splits)

lemmas bind_Inr = bind_checkE_Inr bind_refuseE_Inr bind_liftSum_Inr

lemma SendKey_Inr:
  assumes "Sender_SendKey ev newID rr1 rr2 subj service inp s = (Inr v, s')"
  shows "service \<noteq> '''' \<and> KeyService (ki_Key inp) = service \<and> (\<exists>tpl c target t1 t2 u.
     with_sys (with_db (TemplateByKey (sn_PlatformTenant ev) (ki_Key inp))) s = (Inr tpl, t1) \<and>
     db (ss_sys t1) = db (ss_sys s) \<and> systemChannel ev (sj_TenantID subj) t1 = (Inr target, t2) \<and>
     db (ss_sys u) = db (ss_sys s) \<and> ss_sent u = ss_sent s \<and>
     deliver ev newID subj (key_delivery ev rr1 rr2 inp tpl c target) u = (Inr v, s'))"
proof -
  have ns: "\<not> (service = '''' \<or> KeyService (ki_Key inp) \<noteq> service)"
  proof
    assume "service = '''' \<or> KeyService (ki_Key inp) \<noteq> service"
    with assms show False by (auto simp: Sender_SendKey_def bind_Inr bindE_Inr_iff failE_def)
  qed
  have q: "quiet (mapErrE h (with_sys (with_db (TemplateByKey (sn_PlatformTenant ev) (ki_Key inp)))))"
    "quiet (if sn_Limiter ev then limited_by ''system'' service (sn_System ev) else returnE ())" for h
    by (intro quiet_rules)+
  show ?thesis
    using assms [unfolded Sender_SendKey_def bind_Inr if_not_P [OF ns] quiet_Inr_iff [OF q(1)] quiet_Inr_iff [OF q(2)]
        quiet_Inr_iff [OF quiet_systemChannel] mapErrE_Inr] ns
    by metis
qed

lemma Send_Inr:
  assumes "Sender_Send ev newID rr1 rr2 subj inp s = (Inr v, s')"
  shows "\<exists>tpl c cid ch st p d0 d1 t0 t1 t2 t3 u.
     with_sys (Require subj Template (si_TemplateID inp) Use) s = (Inr d0, t0) \<and> db (ss_sys t0) = db (ss_sys s) \<and>
     with_sys (with_db (GetTemplate (sj_TenantID subj) (si_TemplateID inp))) t0 = (Inr tpl, t1) \<and> db (ss_sys t1) = db (ss_sys s) \<and>
     cid = (if si_ChannelID inp = '''' then strp (tp_ChannelID tpl) else si_ChannelID inp) \<and>
     with_sys (Require subj Channel cid Use) t1 = (Inr d1, t2) \<and> db (ss_sys t2) = db (ss_sys s) \<and>
     with_sys (Channels_Resolve (sn_Channels ev) (sj_TenantID subj) cid) t2 = (Inr (ch, st, p), t3) \<and>
     ch_Enabled ch \<and> ch_Type ch = tp_ChannelType tpl \<and>
     db (ss_sys u) = db (ss_sys s) \<and> ss_sent u = ss_sent s \<and>
     deliver ev newID subj (template_delivery ev rr1 rr2 inp tpl c (ch, st, p)) u = (Inr v, s')"
proof -
  have q: "quiet (with_sys (Require subj rt i perm))" "quiet (with_sys (with_db (GetTemplate t i)))"
    "quiet (with_sys (Channels_Resolve ce t i))" for rt i perm t ce
    by (intro quiet_rules)+
  have pair: "(case x of (ch, st, p) \<Rightarrow> f ch st p) = (f (fst x) (fst (snd x)) (snd (snd x)))"
    for x :: "channel \<times> settings \<times> provider" and f :: "channel \<Rightarrow> settings \<Rightarrow> provider \<Rightarrow> log_view send_op"
    by (simp add: case_prod_beta)
  show ?thesis
    using assms [unfolded Sender_Send_def bind_Inr Let_def quiet_Inr_iff [OF q(1)] quiet_Inr_iff [OF q(2)]
        quiet_Inr_iff [OF q(3)] quiet_Inr_iff [OF quiet_limit_send] pair]
    by (elim exE conjE) (auto simp del: split_paired_Ex, blast)
qed

lemma deliver_logs:
  assumes "healthy (db (ss_sys s))" and "deliver ev newID subj d u = (Inr v, s')" and "db (ss_sys u) = db (ss_sys s)"
  shows "map_of (Logs (db (ss_sys s'))) newID = Some (delivered newID ev subj d (clock (ss_sys u)))"
  using deliver_run [of u ev newID subj d] assms by (auto simp: update_conv')

text \<open>
  The values a send renders with, the template it uses and what it leaves behind, for the two ways
  of sending a template.
\<close>

definition template_send ::
  "send_env \<Rightarrow> string \<Rightarrow> render_run \<Rightarrow> render_run \<Rightarrow> subjects \<Rightarrow> send_state \<Rightarrow> template \<Rightarrow> vars \<Rightarrow> (goerr + log_view) \<times> send_state \<Rightarrow> bool" where
  "template_send ev newID rr1 rr2 subj s tpl vs out \<longleftrightarrow>
     (\<exists>inp. out = Sender_Send ev newID rr1 rr2 subj inp s \<and> vs = si_Variables inp
        \<and> fst (GetTemplate (sj_TenantID subj) (si_TemplateID inp) (db (ss_sys s))) = Inr tpl)
   \<or> (\<exists>service inp. out = Sender_SendKey ev newID rr1 rr2 subj service inp s \<and> vs = key_values (tp_Variables tpl) (ki_Variables inp)
        \<and> fst (TemplateByKey (sn_PlatformTenant ev) (ki_Key inp) (db (ss_sys s))) = Inr tpl)"

lemma template_send_Inr:
  assumes "template_send ev newID rr1 rr2 subj s tpl vs (Inr v, s')"
  obtains d c u where "deliver ev newID subj d u = (Inr v, s')" and "db (ss_sys u) = db (ss_sys s)"
    and "dl_Render d = Compiled_RenderRedacted (sn_Engine ev) rr1 rr2 c vs (tp_SecretVariables tpl)"
    and "dl_Secrets d = secretValues (tp_SecretVariables tpl) vs"
  using assms unfolding template_send_def
proof (elim disjE exE conjE)
  fix inp
  assume a: "(Inr v, s') = Sender_Send ev newID rr1 rr2 subj inp s" "vs = si_Variables inp"
    "fst (GetTemplate (sj_TenantID subj) (si_TemplateID inp) (db (ss_sys s))) = Inr tpl"
  from Send_Inr [OF a(1) [symmetric]] obtain tpl' c ch st p t0 t1 u where
    t: "with_sys (with_db (GetTemplate (sj_TenantID subj) (si_TemplateID inp))) t0 = (Inr tpl', t1)"
    and b: "db (ss_sys t0) = db (ss_sys s)" "db (ss_sys u) = db (ss_sys s)"
    and dl: "deliver ev newID subj (template_delivery ev rr1 rr2 inp tpl' c (ch, st, p)) u = (Inr v, s')" by blast
  have "tpl' = tpl" using with_sys_db_Inr [OF t] a(3) b(1) by simp
  with dl b a(2) that [OF dl b(2)] show thesis by (simp add: template_delivery_def)
next
  fix service inp
  assume a: "(Inr v, s') = Sender_SendKey ev newID rr1 rr2 subj service inp s" "vs = key_values (tp_Variables tpl) (ki_Variables inp)"
    "fst (TemplateByKey (sn_PlatformTenant ev) (ki_Key inp) (db (ss_sys s))) = Inr tpl"
  from SendKey_Inr [OF a(1) [symmetric]] obtain tpl' c target t1 u where
    t: "with_sys (with_db (TemplateByKey (sn_PlatformTenant ev) (ki_Key inp))) s = (Inr tpl', t1)"
    and b: "db (ss_sys u) = db (ss_sys s)"
    and dl: "deliver ev newID subj (key_delivery ev rr1 rr2 inp tpl' c target) u = (Inr v, s')" by blast
  have "tpl' = tpl" using with_sys_db_Inr [OF t] a(3) by simp
  with dl b a(2) that [OF dl b] show thesis by (cases target) (simp add: key_delivery_def Let_def)
qed


section \<open>Who may send through which channel\<close>

lemma with_sys_Inr: "with_sys f s = (Inr x, s') \<Longrightarrow> f (ss_sys s) = (Inr x, ss_sys s')"
  by (auto simp: with_sys_def split: prod.splits)

lemma Require_Inr:
  assumes "Require s rt i perm y = (Inr d, y')"
  shows "holds (db y) s rt i perm \<and> located (db y) (sj_TenantID s) rt i"
proof -
  from assms obtain y1 where c: "Check s rt i perm y = (Inr d, y1)" and "dc_Allowed d"
    by (auto simp: Require_def bindE_Inr_iff refuseE_def returnE_def split: if_splits)
  with Check_Inr(3,4) [OF c] show ?thesis by simp
qed

lemma Resolve_Inr:
  assumes "Channels_Resolve ce tid i y = (Inr (ch, st, p), y')"
  shows "fst (GetChannel tid i (db y)) = Inr ch \<and> Channels_open ce ch = Inr st \<and> Channels_provider ce ch = Inr p"
  using assms by (auto simp: Channels_Resolve_def bindE_Inr_iff with_db_Inr liftSum_def returnE_def)

lemma GetChannel_fst:
  "fst (GetChannel tid i m) = Inr ch \<Longrightarrow> \<exists>r. map_of (Channels m) i = Some r \<and> ch_TenantID r = tid \<and>
     ch = r\<lparr>ch_TemplateCount := templateCount m i\<rparr>"
  using GetChannel_Inr [of tid i m ch "snd (GetChannel tid i m)"] by (cases "GetChannel tid i m") auto

text \<open>
  C8. A template sent by id needs the permission to use it and the permission to use the channel it
  goes through, which is the one asked for, of the caller's tenant, enabled and of the template's
  type: whatever is handed to a provider was allowed on both.
\<close>

theorem send_needs_use:
  assumes "healthy (db (ss_sys s))" and "Sender_Send ev newID rr1 rr2 subj inp s = (r, s')" and "ss_sent s' \<noteq> ss_sent s"
  shows "holds (db (ss_sys s)) subj Template (si_TemplateID inp) Use \<and>
    (\<exists>cid ch. holds (db (ss_sys s)) subj Channel cid Use \<and> map_of (Channels (db (ss_sys s))) cid = Some ch \<and>
       ch_TenantID ch = sj_TenantID subj \<and> ch_Enabled ch \<and> (si_ChannelID inp \<noteq> '''' \<longrightarrow> cid = si_ChannelID inp))"
proof -
  have "settled s newID subj (r, s')" using settlesD [OF settles_Send assms(1)] assms(2) by metis
  with assms(3) obtain v where r: "r = Inr v" by (cases r) (auto simp: settled_def)
  from Send_Inr [of ev newID rr1 rr2 subj inp s v s'] assms(2) r obtain cid ch st p d0 d1 t0 t1 t2 t3 where
    t: "with_sys (Require subj Template (si_TemplateID inp) Use) s = (Inr d0, t0)"
    and c: "with_sys (Require subj Channel cid Use) t1 = (Inr d1, t2)" "db (ss_sys t1) = db (ss_sys s)" "db (ss_sys t2) = db (ss_sys s)"
    and re: "with_sys (Channels_Resolve (sn_Channels ev) (sj_TenantID subj) cid) t2 = (Inr (ch, st, p), t3)"
    and e: "ch_Enabled ch" "si_ChannelID inp \<noteq> '''' \<longrightarrow> cid = si_ChannelID inp" by auto
  from Resolve_Inr [OF with_sys_Inr [OF re]] c(3) obtain row where "map_of (Channels (db (ss_sys s))) cid = Some row"
    "ch_TenantID row = sj_TenantID subj" "ch = row\<lparr>ch_TemplateCount := templateCount (db (ss_sys s)) cid\<rparr>"
    by (auto dest!: GetChannel_fst)
  with e Require_Inr [OF with_sys_Inr [OF t]] Require_Inr [OF with_sys_Inr [OF c(1)]] c(2) show ?thesis by auto
qed

lemma found_or_absent_Inr:
  "found_or_absent (with_db f) y = (Inr x, y') \<Longrightarrow>
     (case x of Some c \<Rightarrow> fst (f (db y)) = Inr c | None \<Rightarrow> isl (fst (f (db y))))"
  by (auto simp: found_or_absent_def with_db_def split: prod.splits sum.splits if_splits)

lemma systemChannel_Inr:
  assumes "systemChannel ev tid s = (Inr (ch, st, p), s')"
  shows "(\<exists>c. fst (DefaultEmailChannel tid (db (ss_sys s))) = Inr c \<and> ch_Enabled c \<and>
       fst (GetChannel tid (ch_ID c) (db (ss_sys s))) = Inr ch \<and> Channels_open (sn_Channels ev) ch = Inr st)
   \<or> (\<forall>c. fst (DefaultEmailChannel tid (db (ss_sys s))) = Inr c \<longrightarrow> \<not> ch_Enabled c) \<and>
     (\<exists>c. fst (ManagedChannel (sn_PlatformTenant ev) (db (ss_sys s))) = Inr c \<and> ch_Enabled c \<and>
       fst (GetChannel (sn_PlatformTenant ev) (ch_ID c) (db (ss_sys s))) = Inr ch \<and> Channels_open (sn_Channels ev) ch = Inr st)"
proof -
  have q: "quiet (with_sys (found_or_absent (with_db (DefaultEmailChannel tid))))"
    "quiet (with_sys (found_or_absent (with_db (ManagedChannel (sn_PlatformTenant ev)))))"
    by (intro quiet_rules quiet_sys_found)+
  from assms [unfolded systemChannel_def quiet_Inr_iff [OF q(1)]] obtain own s1 where
    o: "with_sys (found_or_absent (with_db (DefaultEmailChannel tid))) s = (Inr own, s1)" "db (ss_sys s1) = db (ss_sys s)"
    and rest: "(if case own of Some c \<Rightarrow> ch_Enabled c | None \<Rightarrow> False
       then with_sys (Channels_Resolve (sn_Channels ev) tid (ch_ID (the own)))
       else bindE (with_sys (found_or_absent (with_db (ManagedChannel (sn_PlatformTenant ev))))) (\<lambda>platform.
         if case platform of Some c \<Rightarrow> ch_Enabled c | None \<Rightarrow> False
         then with_sys (Channels_Resolve (sn_Channels ev) (sn_PlatformTenant ev) (ch_ID (the platform)))
         else failE Notify_ErrEmailNotConfigured)) s1 = (Inr (ch, st, p), s')" by blast
  note own = found_or_absent_Inr [OF with_sys_Inr [OF o(1)]]
  show ?thesis
  proof (cases "case own of Some c \<Rightarrow> ch_Enabled c | None \<Rightarrow> False")
    case True
    with rest have "with_sys (Channels_Resolve (sn_Channels ev) tid (ch_ID (the own))) s1 = (Inr (ch, st, p), s')" by simp
    from Resolve_Inr [OF with_sys_Inr [OF this]] True own o(2) show ?thesis by (auto split: option.splits)
  next
    case False
    from rest [unfolded if_not_P [OF False] quiet_Inr_iff [OF q(2)]] obtain pl s2 where
      pl: "with_sys (found_or_absent (with_db (ManagedChannel (sn_PlatformTenant ev)))) s1 = (Inr pl, s2)" "db (ss_sys s2) = db (ss_sys s1)"
      and r2: "(if case pl of Some c \<Rightarrow> ch_Enabled c | None \<Rightarrow> False
         then with_sys (Channels_Resolve (sn_Channels ev) (sn_PlatformTenant ev) (ch_ID (the pl)))
         else failE Notify_ErrEmailNotConfigured) s2 = (Inr (ch, st, p), s')" by blast
    note plat = found_or_absent_Inr [OF with_sys_Inr [OF pl(1)]]
    from r2 have en: "case pl of Some c \<Rightarrow> ch_Enabled c | None \<Rightarrow> False" by (auto simp: failE_def split: if_splits)
    with r2 have "with_sys (Channels_Resolve (sn_Channels ev) (sn_PlatformTenant ev) (ch_ID (the pl))) s2 = (Inr (ch, st, p), s')" by simp
    from Resolve_Inr [OF with_sys_Inr [OF this]] en plat False own o(2) pl(2) show ?thesis by (auto split: option.splits)
  qed
qed

lemma find_first: "find P xs = Some x \<Longrightarrow> x \<in> set xs \<and> P x"
  by (induction xs) (auto split: if_splits)

lemma find_none: "find P xs = None \<longleftrightarrow> (\<forall>x \<in> set xs. \<not> P x)"
  by (induction xs) auto

lemma DefaultEmailChannel_fst:
  "fst (DefaultEmailChannel tid m) = Inr c \<Longrightarrow> \<exists>r \<in> set (rows (Channels m)). ch_TenantID r = tid \<and> ch_Type r = ''email'' \<and>
     ch_IsDefault r \<and> c = r\<lparr>ch_TemplateCount := templateCount m (ch_ID r)\<rparr>"
  by (auto simp: DefaultEmailChannel_def with_fail_def dest!: find_first split: option.splits)

lemma ManagedChannel_fst:
  "fst (ManagedChannel tid m) = Inr c \<Longrightarrow> \<exists>r \<in> set (rows (Channels m)). ch_TenantID r = tid \<and> ch_Managed r \<and>
     c = r\<lparr>ch_TemplateCount := templateCount m (ch_ID r)\<rparr>"
  by (auto simp: ManagedChannel_def with_fail_def dest!: find_first split: option.splits)

lemma GetChannel_row:
  assumes "wf_table ch_ID (Channels m)" and "r \<in> set (rows (Channels m))" and "fst (GetChannel tid (ch_ID r) m) = Inr ch"
  shows "ch = r\<lparr>ch_TemplateCount := templateCount m (ch_ID r)\<rparr>"
  using GetChannel_fst [OF assms(3)] assms(1,2) by (auto simp: wf_table_mem)

text \<open>The channel a system mail of a tenant goes through.\<close>

definition system_target :: "memstore \<Rightarrow> string \<Rightarrow> string \<Rightarrow> channel \<Rightarrow> bool" where
  "system_target m platform tid ch \<longleftrightarrow> ch \<in> set (rows (Channels m)) \<and> ch_Enabled ch \<and>
     (ch_TenantID ch = tid \<and> ch_Type ch = ''email'' \<and> ch_IsDefault ch
      \<or> ch_TenantID ch = platform \<and> ch_Managed ch \<and>
        (\<forall>c. fst (DefaultEmailChannel tid m) = Inr c \<longrightarrow> \<not> ch_Enabled c))"

lemma systemChannel_target:
  assumes "wf_table ch_ID (Channels (db (ss_sys s)))" and "systemChannel ev tid s = (Inr (ch, st, p), s')"
  shows "\<exists>r. system_target (db (ss_sys s)) (sn_PlatformTenant ev) tid r \<and> Channels_open (sn_Channels ev) r = Inr st"
proof -
  have op: "Channels_open ce (r\<lparr>ch_TemplateCount := k\<rparr>) = Channels_open ce r" for ce r k by (simp add: Channels_open_def)
  from systemChannel_Inr [OF assms(2)] show ?thesis
  proof (elim disjE conjE exE)
    fix c assume c: "fst (DefaultEmailChannel tid (db (ss_sys s))) = Inr c" "ch_Enabled c"
      "fst (GetChannel tid (ch_ID c) (db (ss_sys s))) = Inr ch" "Channels_open (sn_Channels ev) ch = Inr st"
    from DefaultEmailChannel_fst [OF c(1)] obtain r where r: "r \<in> set (rows (Channels (db (ss_sys s))))" "ch_TenantID r = tid"
      "ch_Type r = ''email''" "ch_IsDefault r" "c = r\<lparr>ch_TemplateCount := templateCount (db (ss_sys s)) (ch_ID r)\<rparr>" by blast
    have "ch = r\<lparr>ch_TemplateCount := templateCount (db (ss_sys s)) (ch_ID r)\<rparr>"
      using GetChannel_row [OF assms(1) r(1), of tid ch] c(3) r(5) by simp
    then have "Channels_open (sn_Channels ev) r = Inr st" using c(4) op by simp
    with r c(2) show ?thesis by (intro exI [of _ r]) (simp add: system_target_def)
  next
    fix c assume n: "\<forall>c. fst (DefaultEmailChannel tid (db (ss_sys s))) = Inr c \<longrightarrow> \<not> ch_Enabled c"
      and c: "fst (ManagedChannel (sn_PlatformTenant ev) (db (ss_sys s))) = Inr c" "ch_Enabled c"
      "fst (GetChannel (sn_PlatformTenant ev) (ch_ID c) (db (ss_sys s))) = Inr ch" "Channels_open (sn_Channels ev) ch = Inr st"
    from ManagedChannel_fst [OF c(1)] obtain r where r: "r \<in> set (rows (Channels (db (ss_sys s))))" "ch_TenantID r = sn_PlatformTenant ev"
      "ch_Managed r" "c = r\<lparr>ch_TemplateCount := templateCount (db (ss_sys s)) (ch_ID r)\<rparr>" by blast
    have "ch = r\<lparr>ch_TemplateCount := templateCount (db (ss_sys s)) (ch_ID r)\<rparr>"
      using GetChannel_row [OF assms(1) r(1), of "sn_PlatformTenant ev" ch] c(3) r(4) by simp
    then have "Channels_open (sn_Channels ev) r = Inr st" using c(4) op by simp
    with r c(2) n show ?thesis by (intro exI [of _ r]) (simp add: system_target_def)
  qed
qed

text \<open>
  C9. A service sends system templates of its own namespace only, and through the tenant's enabled
  default mail channel, or through the enabled platform channel when the tenant has none enabled:
  whatever is handed to a provider comes with the settings sealed in that channel.
\<close>

theorem key_send_scope:
  assumes "healthy (db (ss_sys s))" and "wf_store (db (ss_sys s))"
    and "Sender_SendKey ev newID rr1 rr2 subj service inp s = (r, s')" and "ss_sent s' \<noteq> ss_sent s"
  shows "service \<noteq> '''' \<and> KeyService (ki_Key inp) = service \<and>
    (\<exists>ch st msg. system_target (db (ss_sys s)) (sn_PlatformTenant ev) (sj_TenantID subj) ch \<and>
       Channels_open (sn_Channels ev) ch = Inr st \<and> ss_sent s' = ss_sent s @ [(st, msg)])"
proof -
  have "settled s newID subj (r, s')" using settlesD [OF settles_SendKey assms(1)] assms(3) by metis
  with assms(4) obtain v where r: "r = Inr v" by (cases r) (auto simp: settled_def)
  from SendKey_Inr [of ev newID rr1 rr2 subj service inp s v s'] assms(3) r obtain tpl c target t1 t2 u where
    k: "service \<noteq> ''''" "KeyService (ki_Key inp) = service" and t1: "db (ss_sys t1) = db (ss_sys s)"
    and sc: "systemChannel ev (sj_TenantID subj) t1 = (Inr target, t2)"
    and u: "db (ss_sys u) = db (ss_sys s)" "ss_sent u = ss_sent s"
    and dl: "deliver ev newID subj (key_delivery ev rr1 rr2 inp tpl c target) u = (Inr v, s')" by blast
  obtain ch st p where tg: "target = (ch, st, p)" by (cases target) auto
  have wf: "wf_table ch_ID (Channels (db (ss_sys t1)))" using assms(2) t1 by (simp add: wf_store_def wf_channels_def)
  obtain row where row: "system_target (db (ss_sys t1)) (sn_PlatformTenant ev) (sj_TenantID subj) row"
    "Channels_open (sn_Channels ev) row = Inr st" using systemChannel_target [OF wf sc [unfolded tg]] by blast
  from deliver_run [of u ev newID subj "key_delivery ev rr1 rr2 inp tpl c target"] assms(1) u dl
  have "ss_sent s' = ss_sent s @ handed (key_delivery ev rr1 rr2 inp tpl c target)" by auto
  moreover from this assms(4) obtain msg where "handed (key_delivery ev rr1 rr2 inp tpl c target) = [(st, msg)]"
    unfolding tg by (auto simp: handed_def key_delivery_def Let_def split: sum.splits)
  ultimately show ?thesis using k row t1 by auto
qed

section \<open>Reading the log\<close>

lemma logFilter_sender:
  "logFilter subj f False now = Inr f' \<Longrightarrow> lf_SenderID f' = ActorID subj"
  by (auto simp: logFilter_def Let_def split: if_splits sum.splits)

text \<open>The rows of the log of a caller's tenant that the caller sent.\<close>

definition own_sends :: "memstore \<Rightarrow> subjects \<Rightarrow> log_row set" where
  "own_sends m subj = {l \<in> set (rows (Logs m)). lg_TenantID l = sj_TenantID subj \<and> lg_SenderID l = ActorID subj}"

lemma LogPage_own:
  assumes "fst (LogPage tid f m) = Inr rs" and "l \<in> set rs" and "lf_SenderID f = i" and "i \<noteq> ''''"
  shows "\<exists>r \<in> set (rows (Logs m)). lg_TenantID r = tid \<and> lg_SenderID r = i \<and> l = r\<lparr>lg_RenderedBody := ''''\<rparr>"
proof -
  from assms(1) have rs: "rs = newest_first (\<lambda>l. (lg_CreatedAt l, lg_ID l)) (lf_Limit f) (map (\<lambda>l. l\<lparr>lg_RenderedBody := ''''\<rparr>)
      (filter (\<lambda>l. log_matches tid f (if IsZero (lf_To f) then Now m + Minute else lf_To f) l
         \<and> before_cursor (lf_CursorTS f) (lf_CursorID f) (lg_CreatedAt l) (lg_ID l)) (rows (Logs m))))"
    by (auto simp: LogPage_def with_fail_def Let_def split: option.splits)
  have "set (newest_first k n xs) \<subseteq> set xs" for k :: "log_row \<Rightarrow> time \<times> string" and n xs
    by (auto simp: newest_first_def Let_def dest: in_set_takeD split: if_splits)
  with assms(2) obtain r where "r \<in> set (rows (Logs m))" "l = r\<lparr>lg_RenderedBody := ''''\<rparr>"
    "log_matches tid f (if IsZero (lf_To f) then Now m + Minute else lf_To f) r" unfolding rs by fastforce
  with assms(3,4) show ?thesis by (auto simp: log_matches_def)
qed

text \<open>
  C11. Without the permission to see all sends, a caller reads only the log entries of what the
  caller sent: in the listing (which never shows bodies) and one by one, and without an identity
  nothing at all.
\<close>

theorem log_own_sends:
  shows "(\<forall>vs next s'. Sender_ListLog fmt subj f False s = (Inr (vs, next), s') \<longrightarrow>
      set vs \<subseteq> (\<lambda>l. logView (l\<lparr>lg_RenderedBody := ''''\<rparr>)) ` own_sends (db (ss_sys s)) subj \<and> (ActorID subj = '''' \<longrightarrow> vs = [])) \<and>
    (\<forall>v s'. Sender_GetLog subj i False s = (Inr v, s') \<longrightarrow> v \<in> logView ` own_sends (db (ss_sys s)) subj)"
proof (intro conjI allI impI)
  fix vs nxt s' assume l: "Sender_ListLog fmt subj f False s = (Inr (vs, nxt), s')"
  from l obtain f1 where f1: "logFilter subj f False (clock (ss_sys s)) = Inr f1"
    and rest: "(if lf_SenderID f1 = '''' then returnE ([], '''') else
       let f = (if lf_Limit f1 \<le> 0 \<or> lf_Limit f1 > 100 then f1\<lparr>lf_Limit := 50\<rparr> else f1) in
       bindE (with_sys (with_db (LogPage (sj_TenantID subj) f))) (\<lambda>rs.
       returnE (map logView rs,
         if int (length rs) = lf_Limit f then EncodeCursor fmt (lg_CreatedAt (last rs)) (lg_ID (last rs)) else ''''))) s = (Inr (vs, nxt), s')"
    by (auto simp: Sender_ListLog_def bindE_getE bind_liftSum_Inr)
  note sid = logFilter_sender [OF f1]
  show "ActorID subj = '''' \<Longrightarrow> vs = []" using rest sid by (simp add: returnE_def)
  show "set vs \<subseteq> (\<lambda>l. logView (l\<lparr>lg_RenderedBody := ''''\<rparr>)) ` own_sends (db (ss_sys s)) subj"
  proof (cases "lf_SenderID f1 = ''''")
    case True
    with rest show ?thesis by (simp add: returnE_def)
  next
    case False
    let ?f = "if lf_Limit f1 \<le> 0 \<or> lf_Limit f1 > 100 then f1\<lparr>lf_Limit := 50\<rparr> else f1"
    from rest False obtain rs s1 where p: "with_sys (with_db (LogPage (sj_TenantID subj) ?f)) s = (Inr rs, s1)" and vs: "vs = map logView rs"
      by (auto simp: Let_def bindE_Inr_iff returnE_def)
    have "lf_SenderID ?f = ActorID subj" using sid by simp
    then have "\<exists>r \<in> own_sends (db (ss_sys s)) subj. l = r\<lparr>lg_RenderedBody := ''''\<rparr>" if "l \<in> set rs" for l
      using LogPage_own [OF with_sys_db_Inr [OF p] that] False sid by (fastforce simp: own_sends_def)
    then show ?thesis unfolding vs by fastforce
  qed
next
  fix v s' assume "Sender_GetLog subj i False s = (Inr v, s')"
  then obtain row s1 where "with_sys (with_db (GetLog (sj_TenantID subj) i)) s = (Inr row, s1)" and v: "v = logView row"
    and own: "lg_SenderID row = ActorID subj"
    by (auto simp: Sender_GetLog_def bindE_Inr_iff refuseE_def returnE_def split: if_splits)
  from with_sys_db_Inr [OF this(1)] have "map_of (Logs (db (ss_sys s))) i = Some row" "lg_TenantID row = sj_TenantID subj"
    by (auto simp: GetLog_def with_fail_def split: option.splits if_splits)
  with own v show "v \<in> logView ` own_sends (db (ss_sys s)) subj"
    by (auto simp: own_sends_def rows_def dest!: map_of_SomeD intro!: image_eqI)
qed

section \<open>A tenant and its platform\<close>

text \<open>
  A platform tenant with its managed channel and one system template, and a tenant with a channel
  and a template of its own; an engine that writes the source and the link after it.
\<close>

definition toy_engine :: engine where
  "toy_engine = \<lparr> en_Parse = (\<lambda>k n src. Inr (Some (FieldNode [''link'']))),
     en_Exec = (\<lambda>k n src now data. ([src, strp (data ''link'')], None)), en_Quote = (\<lambda>s. s) \<rparr>"

definition toy_channels :: channels_env where
  "toy_channels = \<lparr> ce_Cipher = \<lparr> ae_Seal = (\<lambda>k n p a. p @ replicate 16 CHR ''x''),
       ae_Open = (\<lambda>k n c a. Some (take (length c - 16) c)) \<rparr>,
     ce_KEK = ''k'', ce_Marshal = (\<lambda>_. Inr ''{}''), ce_Unmarshal = (\<lambda>_. Some sample_settings),
     ce_Registry = Builtin sample_env, ce_Platform = None \<rparr>"

definition toy_send_env :: send_env where
  "toy_send_env = \<lparr> sn_Channels = toy_channels, sn_Engine = toy_engine, sn_Mail = ee_Mail sample_env, sn_Limiter = False,
     sn_PerTenant = 0, sn_PerSender = 0, sn_System = 0, sn_PlatformTenant = ''p1'', sn_RFC3339 = (\<lambda>_. '''') \<rparr>"

definition toy_builtin :: system_template where
  "toy_builtin = \<lparr> sy_Key = ''auth.invite'', sy_Subject = ''Hi '', sy_Body = ''Go '', sy_Variables = [''link''],
     sy_Required = [''link''], sy_Secret = [''link''] \<rparr>"

definition toy_template :: template where
  "toy_template = (seed_row ''tt'' ''t1'' toy_builtin)\<lparr>tp_ChannelID := Some ''c1'', tp_SystemKey := None, tp_Name := ''Own''\<rparr>"

definition toy_send :: send_state where
  "toy_send = \<lparr> ss_sys = \<lparr> db = empty_store\<lparr>
       Channels := [(''pc'', platform_row ''pc'' ''p1'' (replicate 100 CHR ''x'') ''{}''),
         (''c1'', (platform_row ''c1'' ''t1'' (replicate 100 CHR ''x'') ''{}'')\<lparr>ch_Managed := False, ch_IsDefault := False\<rparr>)],
       Templates := [(''k1'', seed_row ''k1'' ''p1'' toy_builtin), (''tt'', toy_template)] \<rparr>, aud = None, live = [] \<rparr>,
     ss_kv = NewMemory 0, ss_sent = [] \<rparr>"

definition toy_boss :: subjects where
  "toy_boss = \<lparr> sj_TenantID = ''t1'', sj_UserID = ''boss'', sj_Roles = [''admin''], sj_Service = '''' \<rparr>"

definition toy_service :: subjects where
  "toy_service = ServiceSubjects ''t1'' ''spiffe://td/svc/auth''"

definition toy_link :: string where "toy_link = ''https://x.example/t/1''"

definition toy_run :: render_run where "toy_run = \<lparr> rr_Now = 0, rr_Late = False \<rparr>"

definition toy_key_input :: key_input where
  "toy_key_input = \<lparr> ki_Key = ''auth.invite'', ki_Recipient = ''x@y'', ki_Variables = [(''link'', toy_link)], ki_CorrelationID = '''' \<rparr>"

definition toy_send_input :: send_input where
  "toy_send_input = \<lparr> si_TemplateID = ''tt'', si_ChannelID = '''', si_Recipient = ''x@y'', si_Variables = [(''link'', toy_link)],
     si_CorrelationID = '''' \<rparr>"

definition toy_key_send :: "(goerr + log_view) \<times> send_state" where
  "toy_key_send = Sender_SendKey toy_send_env ''n1'' toy_run toy_run toy_service ''auth'' toy_key_input toy_send"

definition toy_id_send :: "(goerr + log_view) \<times> send_state" where
  "toy_id_send = Sender_Send toy_send_env ''n1'' toy_run toy_run toy_boss toy_send_input toy_send"

lemma toy_healthy: "healthy (db (ss_sys toy_send))"
  by (simp add: toy_send_def healthy_def empty_store_def)

lemmas toy_defs = toy_send_def toy_send_env_def toy_channels_def toy_engine_def toy_builtin_def toy_template_def
  platform_row_def seed_row_def empty_store_def NewMemory_def

lemmas eval_ops = bindE_def with_sys_def with_db_def with_fail_def found_or_absent_def returnE_def failE_def refuseE_def
  checkE_def liftSum_def mapErrE_def getE_def Let_def rows_def

lemma platform_row_sel [simp]:
  "ch_ID (platform_row i t b p) = i" "ch_TenantID (platform_row i t b p) = t" "ch_Type (platform_row i t b p) = TypeEmail"
  "ch_Enabled (platform_row i t b p)" "ch_IsDefault (platform_row i t b p)" "ch_Managed (platform_row i t b p)"
  "ch_SettingsSealed (platform_row i t b p) = b"
  by (simp_all add: platform_row_def)

lemma toy_open:
  "ch_SettingsSealed row = replicate 100 CHR ''x'' \<Longrightarrow> Channels_open toy_channels row = Inr sample_settings"
  by (simp add: Channels_open_def toy_channels_def Open_def Decode_def NonceSize_def Overhead_def MaxSettingsBytes_def)

lemma toy_provider: "ch_Type row = TypeEmail \<Longrightarrow> Channels_provider toy_channels row = Inr (email_provider sample_env)"
  by (simp add: Channels_provider_def toy_channels_def Registry_Get_def Builtin_def NewRegistry_def
      Nop_def email_provider_def TypeEmail_def TypeSMS_def TypeSlack_def TypeSSE_def)

lemma toy_target:
  "\<exists>ch st p. systemChannel toy_send_env ''t1'' toy_send = (Inr (ch, st, p), toy_send)"
  by (simp add: systemChannel_def eval_ops DefaultEmailChannel_def ManagedChannel_def Channels_Resolve_def GetChannel_def
      errors_Is_def toy_open toy_provider toy_send_def toy_send_env_def empty_store_def TypeEmail_def)

lemma toy_checks:
  "checkVariables [(''link'', toy_link)] = None" "ValidKey ''auth.invite''" "KeyService ''auth.invite'' = ''auth''"
  "ValidateRecipient (ee_Mail sample_env) ''email'' ''x@y''"
  by (simp_all add: checkVariables_def ValidName_def is_lower_def is_upper_def is_digit_def less_eq_char_def toy_link_def MaxVariablesBytes_def
      ValidKey_def KeyService_def serviceRE_def ValidateRecipient_def sample_env_def ContainsAny_def)

lemma toy_render:
  "\<exists>c. Render_Parse toy_engine ''Hi '' ''Go '' k = Inr c \<and> cp_Refs c = [''link''] \<and>
     (\<exists>out. Compiled_RenderRedacted toy_engine toy_run toy_run c [(''link'', toy_link)] [''link''] = Inr out)"
  by (simp add: Render_Parse_def toy_engine_def MaxSubject_def MaxBody_def collect_tree_def Compiled_RenderRedacted_def
      Compiled_Render_def execute_def toy_run_def lw_Write_def new_writer_def MaxOutput_def eval_ops placed_def value_of_def
      toy_link_def masked_values_def Render_Redacted_def)

lemma toy_key_run:
  "\<exists>d. toy_key_send = deliver toy_send_env ''n1'' toy_service d toy_send \<and> (\<exists>out. dl_Render d = Inr out)"
proof -
  obtain c out where c: "Render_Parse toy_engine ''Hi '' ''Go '' KindHTML = Inr c"
    "Compiled_RenderRedacted toy_engine toy_run toy_run c [(''link'', toy_link)] [''link''] = Inr out" using toy_render by blast
  obtain ch st p where t: "systemChannel toy_send_env ''t1'' toy_send = (Inr (ch, st, p), toy_send)" using toy_target by blast
  let ?tpl = "decorate (db (ss_sys toy_send)) (seed_row ''k1'' ''p1'' toy_builtin)"
  have tb: "with_sys (with_db (TemplateByKey ''p1'' ''auth.invite'')) toy_send = (Inr ?tpl, toy_send)"
    by (simp add: eval_ops TemplateByKey_def toy_defs)
  have tpl: "tp_RequiredVariables ?tpl = [''link'']" "tp_Variables ?tpl = [''link'']" "tp_SecretVariables ?tpl = [''link'']"
    "tp_Subject ?tpl = ''Hi ''" "tp_Body ?tpl = ''Go ''" "tp_ChannelType ?tpl = ''email''"
    by (simp_all add: decorate_def seed_row_def toy_builtin_def TypeEmail_def)
  have pt: "parse_template toy_send_env ?tpl ''email'' = Inr c"
    using c(1) by (simp add: parse_template_def tpl toy_send_env_def KindFor_def TypeEmail_def)
  have env: "sn_PlatformTenant toy_send_env = ''p1''" "sn_Mail toy_send_env = ee_Mail sample_env" "\<not> sn_Limiter toy_send_env"
    "sn_Engine toy_send_env = toy_engine" by (simp_all add: toy_send_env_def)
  have inp: "ki_Key toy_key_input = ''auth.invite''" "ki_Recipient toy_key_input = ''x@y''" "ki_Variables toy_key_input = [(''link'', toy_link)]"
    by (simp_all add: toy_key_input_def)
  have kv: "key_values [''link''] [(''link'', toy_link)] = [(''link'', toy_link)]" by (simp add: key_values_def)
  have sv: "sj_TenantID toy_service = ''t1''" by (simp add: toy_service_def ServiceSubjects_def)
  have m: "mapErrE h (with_sys (with_db (TemplateByKey ''p1'' ''auth.invite''))) toy_send = (Inr ?tpl, toy_send)" for h
    by (simp add: mapErrE_def tb)
  have "toy_key_send = deliver toy_send_env ''n1'' toy_service (key_delivery toy_send_env toy_run toy_run toy_key_input ?tpl c (ch, st, p)) toy_send"
    unfolding toy_key_send_def Sender_SendKey_def
    by (simp add: bindE_def m t refuseE_def checkE_def liftSum_def returnE_def inp toy_checks env sv tpl pt TypeEmail_def)
  moreover have "dl_Render (key_delivery toy_send_env toy_run toy_run toy_key_input ?tpl c (ch, st, p)) = Inr out"
    using c(2) by (simp add: key_delivery_def Let_def inp tpl kv env)
  ultimately show ?thesis by blast
qed

lemma toy_require: "located (db (ss_sys toy_send)) ''t1'' rt i \<Longrightarrow> rt \<in> {Channel, Template} \<Longrightarrow>
    \<exists>d. with_sys (Require toy_boss rt i Use) toy_send = (Inr d, toy_send)"
proof -
  assume l: "located (db (ss_sys toy_send)) ''t1'' rt i" and rt: "rt \<in> {Channel, Template}"
  have v: "ValidPermission Use" "ValidResourceType rt" using rt by (auto simp: ValidPermission_def ValidResourceType_def kind_defs)
  have h: "healthy (db (ss_sys toy_send))" by (rule toy_healthy)
  have t: "sj_TenantID toy_boss = ''t1''" "IsAdmin toy_boss" by (simp_all add: toy_boss_def IsAdmin_def AdminRoles_def)
  from Check_healthy [OF h v, of toy_boss i] l t obtain d y where c: "Check toy_boss rt i Use (ss_sys toy_send) = (Inr d, y)" by auto
  have ho: "holds (db (ss_sys toy_send)) toy_boss rt i Use" using t(2) v(1) by (simp add: holds_def)
  with Check_Inr(4,5) [OF c] have "dc_Allowed d" "y = ss_sys toy_send" by simp_all
  with c show ?thesis by (simp add: with_sys_def Require_def bindE_def refuseE_def returnE_def)
qed

lemma toy_id_run:
  "\<exists>d. toy_id_send = deliver toy_send_env ''n1'' toy_boss d toy_send \<and> (\<exists>out. dl_Render d = Inr out)"
proof -
  obtain c out where c: "Render_Parse toy_engine ''Hi '' ''Go '' KindHTML = Inr c" "cp_Refs c = [''link'']"
    "Compiled_RenderRedacted toy_engine toy_run toy_run c [(''link'', toy_link)] [''link''] = Inr out" using toy_render by blast
  let ?tpl = "decorate (db (ss_sys toy_send)) toy_template"
  let ?ch = "(platform_row ''c1'' ''t1'' (replicate 100 CHR ''x'') ''{}'')\<lparr>ch_Managed := False, ch_IsDefault := False,
     ch_TemplateCount := templateCount (db (ss_sys toy_send)) ''c1''\<rparr>"
  have gt: "with_sys (with_db (GetTemplate ''t1'' ''tt'')) toy_send = (Inr ?tpl, toy_send)"
    by (simp add: eval_ops GetTemplate_def toy_defs)
  have re: "with_sys (Channels_Resolve toy_channels ''t1'' ''c1'') toy_send = (Inr (?ch, sample_settings, email_provider sample_env), toy_send)"
    by (simp add: eval_ops Channels_Resolve_def GetChannel_def toy_open toy_provider toy_send_def empty_store_def)
  obtain d1 where r1: "with_sys (Require toy_boss Template ''tt'' Use) toy_send = (Inr d1, toy_send)"
    using toy_require [of Template "''tt''"] by (auto simp: located_def kind_defs toy_defs)
  obtain d2 where r2: "with_sys (Require toy_boss Channel ''c1'' Use) toy_send = (Inr d2, toy_send)"
    using toy_require [of Channel "''c1''"] by (auto simp: located_def kind_defs toy_defs)
  have tpl: "strp (tp_ChannelID ?tpl) = ''c1''" "tp_SecretVariables ?tpl = [''link'']" "tp_ChannelType ?tpl = ''email''"
    "tp_Subject ?tpl = ''Hi ''" "tp_Body ?tpl = ''Go ''"
    by (simp_all add: decorate_def toy_template_def seed_row_def toy_builtin_def TypeEmail_def split: option.splits)
  have pt: "parse_template toy_send_env ?tpl ''email'' = Inr c"
    using c(1) by (simp add: parse_template_def tpl toy_send_env_def KindFor_def TypeEmail_def)
  have env: "sn_Channels toy_send_env = toy_channels" "sn_Mail toy_send_env = ee_Mail sample_env" "\<not> sn_Limiter toy_send_env"
    "sn_Engine toy_send_env = toy_engine" by (simp_all add: toy_send_env_def)
  have sj: "sj_TenantID toy_boss = ''t1''" by (simp add: toy_boss_def)
  have "toy_id_send = deliver toy_send_env ''n1'' toy_boss
      (template_delivery toy_send_env toy_run toy_run toy_send_input ?tpl c (?ch, sample_settings, email_provider sample_env)) toy_send"
    unfolding toy_id_send_def Sender_Send_def
    by (simp add: bindE_def Let_def r1 r2 gt re refuseE_def checkE_def liftSum_def returnE_def toy_send_input_def toy_checks env
        sj tpl pt c(2) TypeEmail_def limit_send_def)
  moreover have "dl_Render (template_delivery toy_send_env toy_run toy_run toy_send_input ?tpl c (?ch, sample_settings, email_provider sample_env)) = Inr out"
    using c(3) by (simp add: template_delivery_def toy_send_input_def tpl env)
  ultimately show ?thesis by blast
qed

lemma toy_sends:
  assumes "x = toy_key_send \<or> x = toy_id_send"
  shows "\<exists>v. fst x = Inr v" and "ss_sent (snd x) \<noteq> ss_sent toy_send"
proof -
  have "\<exists>subj d. x = deliver toy_send_env ''n1'' subj d toy_send \<and> (\<exists>out. dl_Render d = Inr out)"
    using assms toy_key_run toy_id_run by blast
  then obtain subj d sent stored where x: "x = deliver toy_send_env ''n1'' subj d toy_send" "dl_Render d = Inr (sent, stored)" by auto
  with deliver_run [OF toy_healthy, of toy_send_env "''n1''" subj d] show "\<exists>v. fst x = Inr v" "ss_sent (snd x) \<noteq> ss_sent toy_send"
    by (auto simp: handed_def)
qed

theorem sends_settle_witness:
  "settled toy_send ''n1'' toy_service toy_key_send \<and> ss_sent (snd toy_key_send) \<noteq> []"
  using sends_settle [OF toy_healthy, of "''n1''" toy_service toy_send_env toy_run toy_run undefined "''auth''" toy_key_input
      undefined undefined undefined undefined] toy_sends(2) [of toy_key_send]
  by (simp add: toy_key_send_def toy_send_def)

lemma toy_template_send:
  "template_send toy_send_env ''n1'' toy_run toy_run toy_service toy_send (decorate (db (ss_sys toy_send)) (seed_row ''k1'' ''p1'' toy_builtin))
     [(''link'', toy_link)] toy_key_send"
  unfolding template_send_def
  by (intro disjI2 exI [of _ "''auth''"] exI [of _ toy_key_input])
    (simp add: toy_key_send_def TemplateByKey_def with_fail_def rows_def toy_defs toy_key_input_def key_values_def decorate_def)


theorem send_needs_use_witness:
  "holds (db (ss_sys toy_send)) toy_boss Template ''tt'' Use"
proof -
  obtain r s' where k: "toy_id_send = (r, s')" by fastforce
  with send_needs_use [OF toy_healthy, of toy_send_env "''n1''" toy_run toy_run toy_boss toy_send_input r s']
    toy_sends(2) [of toy_id_send] show ?thesis by (simp add: toy_id_send_def toy_send_input_def)
qed

lemma toy_wf: "wf_store (db (ss_sys toy_send))"
  by (simp add: toy_send_def wf_store_def wf_defs wf_table_def no_clash_def empty_store_def platform_row_def seed_row_def toy_template_def
      toy_builtin_def PlatformChannelName_def TypeEmail_def channel_clash_def template_clash_def categories_ok_def rows_def)

theorem key_send_scope_witness:
  "\<exists>ch. system_target (db (ss_sys toy_send)) ''p1'' ''t1'' ch"
proof -
  obtain r s' where k: "toy_key_send = (r, s')" by fastforce
  with key_send_scope [OF toy_healthy toy_wf, of toy_send_env "''n1''" toy_run toy_run toy_service "''auth''" toy_key_input r s']
    toy_sends(2) [of toy_key_send] show ?thesis
    by (auto simp: toy_key_send_def toy_send_env_def toy_service_def ServiceSubjects_def)
qed

definition toy_entry :: log_row where
  "toy_entry = \<lparr> lg_ID = ''n1'', lg_TenantID = ''t1'', lg_CreatedAt = 0, lg_ChannelID = ''c1'', lg_ChannelType = ''email'',
     lg_TemplateID = None, lg_TemplateKey = None, lg_Recipient = ''x@y'', lg_RenderedSubject = '''', lg_RenderedBody = '''',
     lg_Status = ''sent'', lg_Error = '''', lg_SenderKind = ''user'', lg_SenderID = ''boss'', lg_Test = False, lg_SentAt = Some 0 \<rparr>"

definition toy_logged :: send_state where
  "toy_logged = toy_send\<lparr>ss_sys := (ss_sys toy_send)\<lparr>db := (db (ss_sys toy_send))\<lparr>Logs := [(''n1'', toy_entry)]\<rparr>\<rparr>\<rparr>"

theorem log_own_sends_witness:
  "\<exists>v s'. Sender_GetLog toy_boss ''n1'' False toy_logged = (Inr v, s') \<and> v \<in> logView ` own_sends (db (ss_sys toy_logged)) toy_boss"
proof -
  have "\<exists>s'. Sender_GetLog toy_boss ''n1'' False toy_logged = (Inr (logView toy_entry), s')"
    by (simp add: Sender_GetLog_def eval_ops GetLog_def toy_logged_def toy_entry_def toy_boss_def toy_send_def empty_store_def ActorID_def)
  with log_own_sends [of undefined toy_boss undefined toy_logged "''n1''"] show ?thesis by blast
qed

end
