(* ===== verification/ChannelsLaws.thy ===== *)
theory ChannelsLaws
  imports Rotation SendLaws
begin

text \<open>
  What the channel service guarantees: settings come back as they went in while clients see the
  redacted form, the default of a type is one channel, and the channel managed by configuration is out
  of reach of the interface.
\<close>

section \<open>Transactions\<close>

lemma Atomic_Inr: "Atomic fn m = (Inr x, m') \<longleftrightarrow> Fail m ''Atomic'' = None \<and> fn m = (Inr x, m')"
  by (auto simp: Atomic_def with_fail_Inr split: prod.splits sum.splits)

lemma grants_only [frame_simps]:
  "Channels (snd (GrantOwner gid t rt i u m)) = Channels m" "Templates (snd (GrantOwner gid t rt i u m)) = Templates m"
  "Channels (snd (SetTenantUse uid t i on m)) = Channels m" "Templates (snd (SetTenantUse uid t i on m)) = Templates m"
  "Channels (snd (DropResource t rt i m)) = Channels m" "Templates (snd (DropResource t rt i m)) = Templates m"
  by (auto simp: GrantOwner_def SetTenantUse_def DropResource_def bindE_def returnE_def UpsertGrant_def DeleteGrantsOfSubject_def
      DeleteGrantsOfResource_def with_fail_def Let_def split: prod.splits sum.splits option.splits)

lemma InsertChannel_Inr:
  assumes "InsertChannel c m = (Inr (), m')"
  shows "m' = m\<lparr>Channels := AList.update (ch_ID c) (c\<lparr> ch_CreatedAt := Now m, ch_UpdatedAt := Now m,
     ch_SettingsPublic := Some (case ch_SettingsPublic c of None \<Rightarrow> ''{}'' | Some b \<Rightarrow> b) \<rparr>) (Channels m)\<rparr>"
  using assms by (auto simp: InsertChannel_def with_fail_Inr Let_def split: if_splits option.splits)

text \<open>The row a created channel has afterwards.\<close>

lemma create_tx_row:
  assumes "create_tx gid uid s row m = (Inr (), m')" and "ch_SettingsPublic row = Some p"
  shows "\<exists>t. map_of (Channels m') (ch_ID row) = Some (row\<lparr> ch_CreatedAt := t, ch_UpdatedAt := t \<rparr>)"
proof -
  from assms(1) obtain m1 m2 m3 where i: "InsertChannel row m1 = (Inr (), m2)"
    and g: "GrantOwner gid (sj_TenantID s) Channel (ch_ID row) (sj_UserID s) m2 = (Inr (), m3)"
    and u: "(if ch_IsDefault row then SetTenantUse uid (sj_TenantID s) (ch_ID row) True else returnE ()) m3 = (Inr (), m')"
    by (auto simp: create_tx_def Atomic_Inr bindE_Inr_iff)
  have "Channels m' = Channels m2"
    using grants_only(1) [of gid "sj_TenantID s" Channel "ch_ID row" "sj_UserID s" m2] g
      grants_only(3) [of uid "sj_TenantID s" "ch_ID row" True m3] u
    by (auto simp: returnE_def split: if_splits)
  with InsertChannel_Inr [OF i] assms(2) show ?thesis
    by (auto simp: table_simps intro: exI [of _ "Now m1"])
qed

section \<open>Settings round trip\<close>

text \<open>What the service relies on of the JSON package: these settings, marshalled, read back.\<close>

definition reads_back :: "channels_env \<Rightarrow> settings \<Rightarrow> bool" where
  "reads_back ce s \<longleftrightarrow> (case ce_Marshal ce s of Inl _ \<Rightarrow> True | Inr b \<Rightarrow> ce_Unmarshal ce b = Some s)"

abbreviation secrets :: "channels_env \<Rightarrow> string \<Rightarrow> string list" where
  "secrets ce typ \<equiv> Registry_SecretFields (ce_Registry ce) typ"

lemma Encode_Decode:
  assumes "reads_back ce s" and "Encode (ce_Marshal ce) s = Inr b"
  shows "Decode (ce_Unmarshal ce) b = Inr s" and "length b \<le> MaxSettingsBytes"
  using assms by (auto simp: reads_back_def Encode_def Decode_def split: sum.splits if_splits)

lemma sealed_opens:
  assumes "aead_correct (ce_Cipher ce)" and "reads_back ce st" and "good_draws dr"
    and "Channels_seal ce dr i ty st = Inr (blob, public)" and "ch_ID row = i" and "ch_SettingsSealed row = blob"
  shows "Channels_open ce row = Inr st"
proof -
  from assms(4) obtain clear where c: "Encode (ce_Marshal ce) st = Inr clear"
    and b: "Seal (ce_Cipher ce) (dr_DEK dr) (dr_N1 dr) (dr_N2 dr) (ce_KEK ce) clear (AD i) = Inr blob"
    by (auto simp: Channels_seal_def split: sum.splits)
  from reseal [OF assms(1,3) Encode_Decode(2) [OF assms(2) c], of "ce_KEK ce" "AD i"] b
  have "Open (ce_Cipher ce) (ce_KEK ce) blob (AD i) = Inr clear" by auto
  then show ?thesis using assms(5,6) Encode_Decode(1) [OF assms(2) c] by (simp add: Channels_open_def)
qed

lemma sealed_public:
  assumes "Channels_seal ce dr i ty st = Inr (blob, public)" and "reads_back ce (Redact st (secrets ce ty))"
  shows "Decode (ce_Unmarshal ce) public = Inr (Redact st (secrets ce ty))"
  using assms(1) Encode_Decode(1) [OF assms(2)] by (auto simp: Channels_seal_def split: sum.splits)

lemma redacted_sel: "redacted ce (row\<lparr>ch_TemplateCount := n\<rparr>) = redacted ce row"
  by (simp add: redacted_def)

lemma Channels_Get_Inr:
  assumes "Channels_Get ce s i y = (Inr v, y')"
  shows "db y' = db y" and "\<exists>row. map_of (Channels (db y)) i = Some row \<and> cw_Settings v = redacted ce row"
proof -
  have "quiet_sys (Channels_Get ce s i)"
    unfolding Channels_Get_def by (intro quiet_sys_bindE quiet_sys_Require quiet_sys_reads quiet_sys_basic)
  from quiet_sysD [OF this assms] show "db y' = db y" .
  from assms obtain d y1 row m where r: "Require s Channel i Read y = (Inr d, y1)" and g: "GetChannel (sj_TenantID s) i (db y1) = (Inr row, m)"
    and v: "v = channelView row (redacted ce row) (dc_Permissions d)"
    by (auto simp: Channels_Get_def bindE_Inr_iff with_db_Inr returnE_def)
  have "db y1 = db y" using quiet_sysD [OF quiet_sys_Require r] .
  with g have "fst (GetChannel (sj_TenantID s) i (db y)) = Inr row" by simp
  from GetChannel_fst [OF this] v show "\<exists>row. map_of (Channels (db y)) i = Some row \<and> cw_Settings v = redacted ce row"
    by (auto simp: channelView_def redacted_sel)
qed

lemma Channels_Create_Inr:
  assumes "Channels_Create ce dr newID gid uid s inp y = (Inr v, y')" and "cn_Settings inp = Some st"
  obtains blob public t p where
    "Channels_seal ce dr newID (cn_Type inp) st = Inr (blob, public)"
    "Registry_Get (ce_Registry ce) (cn_Type inp) = Inr p"
    "map_of (Channels (db y')) newID = Some ((new_channel newID s inp blob public)\<lparr> ch_CreatedAt := t, ch_UpdatedAt := t \<rparr>)"
    "cw_Settings v = redacted ce (new_channel newID s inp blob public)"
proof -
  let ?ev = "authz_event s ''channel_created'' ''channel'' newID ''ok'' ''''
        [(''name'', VStr (cn_Name inp)), (''type'', VStr (cn_Type inp)),
         (''enabled'', VBool (cn_Enabled inp)), (''is_default'', VBool (cn_IsDefault inp))]"
  from assms obtain blob public m where
    v: "Channels_validate ce inp = None" and seal: "Channels_seal ce dr newID (cn_Type inp) st = Inr (blob, public)"
    and tx: "create_tx gid uid s (new_channel newID s inp blob public) (db y) = (Inr (), m)"
    and get: "Channels_Get ce s newID (emit ?ev (y\<lparr>db := m\<rparr>)) = (Inr v, y')"
    by (auto simp: Channels_Create_def bindE_Inr_iff checkE_def liftSum_def with_db_Inr emitE_def returnE_def failE_def split: option.splits)
  note g = Channels_Get_Inr [OF get]
  obtain t where row: "map_of (Channels m) newID = Some ((new_channel newID s inp blob public)\<lparr> ch_CreatedAt := t, ch_UpdatedAt := t \<rparr>)"
    using create_tx_row [OF tx] by (auto simp: new_channel_def)
  obtain p where "Registry_Get (ce_Registry ce) (cn_Type inp) = Inr p"
    using v assms(2) by (auto simp: Channels_validate_def split: if_splits sum.splits)
  moreover have "cw_Settings v = redacted ce (new_channel newID s inp blob public)"
    using g(2) row by (auto simp: redacted_def)
  ultimately show ?thesis using seal that row g(1) by auto
qed

text \<open>
  A created channel resolves to exactly the settings it was created with, sealed under the
  service's key, with the provider of its type; the answer and every later view show these settings
  redacted.
\<close>

theorem channel_roundtrip:
  assumes "aead_correct (ce_Cipher ce)" and "good_draws dr" and "cn_Settings inp = Some st"
    and "reads_back ce st" and "reads_back ce (Redact st (secrets ce (cn_Type inp)))"
    and "Channels_Create ce dr newID gid uid s inp y = (Inr v, y')" and "healthy (db y')"
  shows "(\<exists>row p. Channels_Resolve ce (sj_TenantID s) newID y' = (Inr (row, st, p), y') \<and>
       ch_Name row = cn_Name inp \<and> ch_Type row = cn_Type inp \<and> ch_Enabled row = cn_Enabled inp \<and>
       Registry_Get (ce_Registry ce) (cn_Type inp) = Inr p) \<and>
    cw_Settings v = Redact st (secrets ce (cn_Type inp))"
proof -
  from Channels_Create_Inr [OF assms(6,3)] obtain blob public t p where
    seal: "Channels_seal ce dr newID (cn_Type inp) st = Inr (blob, public)"
    and p: "Registry_Get (ce_Registry ce) (cn_Type inp) = Inr p"
    and row: "map_of (Channels (db y')) newID = Some ((new_channel newID s inp blob public)\<lparr> ch_CreatedAt := t, ch_UpdatedAt := t \<rparr>)"
    and v: "cw_Settings v = redacted ce (new_channel newID s inp blob public)" .
  let ?row = "(new_channel newID s inp blob public)\<lparr> ch_CreatedAt := t, ch_UpdatedAt := t, ch_TemplateCount := templateCount (db y') newID \<rparr>"
  have o: "Channels_open ce ?row = Inr st" using sealed_opens [OF assms(1,4,2) seal, where row = ?row] by (simp add: new_channel_def)
  have r: "redacted ce (new_channel newID s inp blob public) = Redact st (secrets ce (cn_Type inp))"
    using sealed_public [OF seal assms(5)] by (simp add: new_channel_def redacted_def)
  have "with_db (GetChannel (sj_TenantID s) newID) y' = (Inr ?row, y')"
    using row assms(7) by (simp add: with_db_read GetChannel_def new_channel_def)
  moreover have "Channels_provider ce ?row = Inr p"
    using p by (simp add: Channels_provider_def new_channel_def split: option.splits)
  ultimately have "Channels_Resolve ce (sj_TenantID s) newID y' = (Inr (?row, st, p), y')"
    using o by (simp add: Channels_Resolve_def bindE_def liftSum_def returnE_def)
  with r v p show ?thesis by (auto simp: new_channel_def)
qed

section \<open>The managed channel\<close>

text \<open>Every managed channel of the one table is in the other, the default flag aside.\<close>

definition managed_kept :: "channel table \<Rightarrow> channel table \<Rightarrow> bool" where
  "managed_kept t0 t \<longleftrightarrow> (\<forall>i c. map_of t0 i = Some c \<longrightarrow> ch_Managed c \<longrightarrow> (\<exists>b. map_of t i = Some (c\<lparr>ch_IsDefault := b\<rparr>)))"

definition unmanaged :: "channel table \<Rightarrow> string \<Rightarrow> bool" where
  "unmanaged t i \<longleftrightarrow> (\<forall>c. map_of t i = Some c \<longrightarrow> \<not> ch_Managed c)"

lemma managed_kept_refl [simp]: "managed_kept t t"
  unfolding managed_kept_def
proof (intro allI impI)
  fix i c assume "map_of t i = Some c"
  moreover have "c\<lparr>ch_IsDefault := ch_IsDefault c\<rparr> = c" by simp
  ultimately show "\<exists>b. map_of t i = Some (c\<lparr>ch_IsDefault := b\<rparr>)" by metis
qed

lemma managed_kept_update: "managed_kept t0 t \<Longrightarrow> unmanaged t0 i \<Longrightarrow> managed_kept t0 (AList.update i c t)"
  by (auto simp: managed_kept_def unmanaged_def table_simps)

lemma managed_kept_delete: "managed_kept t0 t \<Longrightarrow> unmanaged t0 i \<Longrightarrow> managed_kept t0 (AList.delete i t)"
  by (auto simp: managed_kept_def unmanaged_def table_simps)

lemma managed_kept_clear:
  "managed_kept t0 t \<Longrightarrow> managed_kept t0 (map_rows (\<lambda>k c. if P k c then c\<lparr>ch_IsDefault := False\<rparr> else c) t)"
  unfolding managed_kept_def map_of_map_rows
proof (intro allI impI)
  fix i c
  assume "\<forall>i c. map_of t0 i = Some c \<longrightarrow> ch_Managed c \<longrightarrow> (\<exists>b. map_of t i = Some (c\<lparr>ch_IsDefault := b\<rparr>))"
    and "map_of t0 i = Some c" "ch_Managed c"
  then obtain b where "map_of t i = Some (c\<lparr>ch_IsDefault := b\<rparr>)" by blast
  then show "\<exists>b. map_option (\<lambda>c. if P i c then c\<lparr>ch_IsDefault := False\<rparr> else c) (map_of t i) = Some (c\<lparr>ch_IsDefault := b\<rparr>)"
    by (cases "P i (c\<lparr>ch_IsDefault := b\<rparr>)") auto
qed

lemma keeps_frame: "(\<And>m. Channels (snd (f m)) = Channels m) \<Longrightarrow> keeps (\<lambda>m. Q (Channels m)) f"
  by (simp add: keeps_def)

lemma keeps_tx:
  assumes "keeps (\<lambda>m. Q (Channels m)) f"
  shows "keeps (\<lambda>m. Q (Channels m)) (Atomic f)"
proof (rule keepsI)
  fix m :: memstore assume "Q (Channels m)"
  moreover obtain r m' where f: "f m = (r, m')" by fastforce
  ultimately show "Q (Channels (snd (Atomic f m)))"
    using keepsD [OF assms _ f] by (cases r) (auto simp: Atomic_def with_fail_def f restore_tables_def split: option.splits)
qed

lemma keeps_managed:
  "keeps (\<lambda>m. managed_kept t0 (Channels m)) (ClearDefaultChannel tid typ ex)"
  "unmanaged t0 (ch_ID c) \<Longrightarrow> keeps (\<lambda>m. managed_kept t0 (Channels m)) (InsertChannel c)"
  "unmanaged t0 (ch_ID c) \<Longrightarrow> keeps (\<lambda>m. managed_kept t0 (Channels m)) (UpdateChannel c)"
  "unmanaged t0 i \<Longrightarrow> keeps (\<lambda>m. managed_kept t0 (Channels m)) (DeleteChannel tid i)"
  unfolding keeps_def ClearDefaultChannel_def InsertChannel_def UpdateChannel_def DeleteChannel_def
  by (auto simp: with_fail_def Let_def managed_kept_clear managed_kept_update managed_kept_delete split: option.splits)

text \<open>Moving the default flag keeps of the channels whatever clearing the flag keeps.\<close>

lemma keeps_moved:
  assumes "\<And>tid ty ex. keeps (\<lambda>m. Q (Channels m)) (ClearDefaultChannel tid ty ex)"
  shows "keeps (\<lambda>m. Q (Channels m)) (moveDefault tid ty newID)"
proof -
  have uses: "keeps (\<lambda>m. Q (Channels m)) (clear_uses tid newID prev)" for prev
  proof (induction prev)
    case (Cons p prev)
    have "keeps (\<lambda>m. Q (Channels m)) (SetTenantUse '''' tid (ch_ID p) False)"
      by (rule keeps_frame) (simp add: frame_simps)
    with Cons show ?case by (auto intro: keeps_bindE)
  qed (simp add: keeps_returnE)
  show ?thesis
    unfolding moveDefault_def
    by (intro keeps_bindE uses assms) (rule keeps_frame, simp add: frame_simps)
qed

lemmas keeps_moveDefault = keeps_moved [where Q = "managed_kept t0" for t0, OF keeps_managed(1)]

lemma keeps_create_tx:
  "unmanaged t0 (ch_ID row) \<Longrightarrow> keeps (\<lambda>m. managed_kept t0 (Channels m)) (create_tx gid uid s row)"
  unfolding create_tx_def
  by (intro keeps_tx keeps_bindE keeps_if keeps_moveDefault keeps_managed keeps_returnE) (auto intro!: keeps_frame simp: frame_simps)

lemma keeps_update_tx:
  "unmanaged t0 (ch_ID row) \<Longrightarrow> keeps (\<lambda>m. managed_kept t0 (Channels m)) (update_tx uid tid was row)"
  unfolding update_tx_def
  by (intro keeps_tx keeps_bindE keeps_if keeps_moveDefault keeps_managed keeps_returnE) (auto intro!: keeps_frame simp: frame_simps)

lemma quiet_sys_checkE [intro]: "quiet_sys (checkE co)"
  by (auto simp: quiet_sys_def keeps_def checkE_def returnE_def failE_def split: option.splits)

lemma quiet_sys_Get [intro]: "quiet_sys (Channels_Get ce s i)"
  unfolding Channels_Get_def by (intro quiet_sys_bindE quiet_sys_Require quiet_sys_reads quiet_sys_basic)

text \<open>A step that leaves the store alone, and one that keeps a property of the channels.\<close>

lemma after_quiet:
  assumes "quiet_sys f" and "P (db y)" and "\<And>x y1. f y = (Inr x, y1) \<Longrightarrow> db y1 = db y \<Longrightarrow> P (db (snd (g x y1)))"
  shows "P (db (snd (bindE f g y)))"
proof -
  obtain r y1 where f: "f y = (r, y1)" by fastforce
  with quiet_sysD [OF assms(1) f] assms(2,3) show ?thesis by (cases r) (auto simp: bindE_def)
qed

lemma after_tx:
  assumes "keeps P f" and "P (db y)" and "\<And>x. quiet_sys (g x)"
  shows "P (db (snd (bindE (with_db f) g y)))"
proof -
  obtain r m where f: "f (db y) = (r, m)" by fastforce
  have P: "P m" using keepsD [OF assms(1,2) f] .
  show ?thesis
  proof (cases r)
    case (Inr x)
    obtain r2 y2 where g: "g x (y\<lparr>db := m\<rparr>) = (r2, y2)" by fastforce
    with quiet_sysD [OF assms(3) g] P f Inr show ?thesis by (simp add: bindE_def with_db_def)
  qed (simp add: bindE_def with_db_def f P)
qed

abbreviation kept_since :: "sys \<Rightarrow> memstore \<Rightarrow> bool" where
  "kept_since y m \<equiv> managed_kept (Channels (db y)) (Channels m)"

lemma got_row:
  assumes "wf_store (db y)" and "with_db (GetChannel tid k) y1 = (Inr row, y2)" and "db y1 = db y"
  shows "ch_ID row = k" and "\<not> ch_Managed row \<Longrightarrow> unmanaged (Channels (db y)) k"
    and "map_of (Channels (db y)) k = Some c \<Longrightarrow> ch_Managed row = ch_Managed c"
proof -
  from assms(2,3) have "fst (GetChannel tid k (db y)) = Inr row" by (auto simp: with_db_Inr)
  from GetChannel_fst [OF this] obtain r where
    r: "map_of (Channels (db y)) k = Some r" "row = r\<lparr>ch_TemplateCount := templateCount (db y) k\<rparr>" by blast
  moreover have "ch_ID r = k" using assms(1) r(1) by (auto simp: wf_store_def wf_defs intro: wf_table_lookup)
  ultimately show "ch_ID row = k" "\<not> ch_Managed row \<Longrightarrow> unmanaged (Channels (db y)) k"
    "map_of (Channels (db y)) k = Some c \<Longrightarrow> ch_Managed row = ch_Managed c"
    by (auto simp: unmanaged_def)
qed

lemma create_keeps_managed:
  assumes "map_of (Channels (db y)) newID = None"
  shows "kept_since y (db (snd (Channels_Create ce dr newID gid uid s inp y)))"
  unfolding Channels_Create_def
  apply (rule after_quiet [where P = "kept_since y", OF quiet_sys_checkE], simp)
  apply (rule after_quiet [where P = "kept_since y", OF quiet_sys_basic(5)], simp)
  apply (clarsimp split: prod.split)
  apply (rule after_tx [where P = "kept_since y", OF keeps_create_tx])
  apply (simp add: new_channel_def unmanaged_def assms, simp)
  apply (intro quiet_sys_bindE quiet_sys_basic quiet_sys_Get)
  done

lemma update_keeps_managed:
  assumes "wf_store (db y)"
  shows "kept_since y (db (snd (Channels_Update ce dr uid s i inp y)))"
  unfolding Channels_Update_def Let_def
  apply (rule after_quiet [where P = "kept_since y", OF quiet_sys_Require], simp)
  apply (rule after_quiet [where P = "kept_since y", OF quiet_sys_reads(1)], simp)
  apply (rule after_quiet [where P = "kept_since y", OF quiet_sys_basic(3)], simp)
  apply (rule after_quiet [where P = "kept_since y", OF quiet_sys_basic(3)], simp)
  apply (rule after_quiet [where P = "kept_since y", OF quiet_sys_basic(5)], simp)
  apply (rule after_quiet [where P = "kept_since y", OF quiet_sys_checkE], simp)
  apply (rule after_quiet [where P = "kept_since y", OF quiet_sys_basic(5)], simp)
  apply (clarsimp split: prod.split)
  apply (rule after_tx [where P = "kept_since y", OF keeps_update_tx])
  apply (use got_row [OF assms] in \<open>force simp: refuseE_def split: if_splits\<close>, simp)
  apply (intro quiet_sys_bindE quiet_sys_basic quiet_sys_Get)
  done

lemma keeps_delete_tx:
  assumes "unmanaged t0 k"
  shows "keeps (\<lambda>m. managed_kept t0 (Channels m))
    (Atomic (bindE (mapErrE h (DeleteChannel tid k)) (\<lambda>_. DropResource tid Channel k)))"
  by (intro keeps_tx keeps_bindE keeps_mapErrE keeps_managed(4) assms) (rule keeps_frame, simp add: frame_simps)

lemma delete_keeps_managed:
  assumes "wf_store (db y)"
  shows "kept_since y (db (snd (Channels_Delete s i y)))"
  unfolding Channels_Delete_def
  apply (rule after_quiet [where P = "kept_since y", OF quiet_sys_Require], simp)
  apply (rule after_quiet [where P = "kept_since y", OF quiet_sys_reads(1)], simp)
  apply (rule after_quiet [where P = "kept_since y", OF quiet_sys_basic(3)], simp)
  apply (rule after_quiet [where P = "kept_since y", OF quiet_sys_basic(3)], simp)
  apply (rule after_tx [where P = "kept_since y", OF keeps_delete_tx])
  apply (use got_row [OF assms] in \<open>force simp: refuseE_def split: if_splits\<close>, simp)
  apply (intro quiet_sys_basic)
  done

lemma managed_refused:
  assumes "wf_store (db y)" and "map_of (Channels (db y)) j = Some c" and "ch_Managed c"
  shows "db (snd (Channels_Update ce dr uid s j inp y)) = db y" and "db (snd (Channels_Delete s j y)) = db y"
  unfolding Channels_Update_def Channels_Delete_def
  apply (rule after_quiet [where P = "\<lambda>m. m = db y", OF quiet_sys_Require], simp)
  apply (rule after_quiet [where P = "\<lambda>m. m = db y", OF quiet_sys_reads(1)], simp)
  apply (use got_row(3) [OF assms(1) _ _ assms(2)] assms(3) in \<open>force simp: bindE_refuseE\<close>)
  apply (rule after_quiet [where P = "\<lambda>m. m = db y", OF quiet_sys_Require], simp)
  apply (rule after_quiet [where P = "\<lambda>m. m = db y", OF quiet_sys_reads(1)], simp)
  apply (use got_row(3) [OF assms(1) _ _ assms(2)] assms(3) in \<open>force simp: bindE_refuseE\<close>)
  done

text \<open>
  C13. No call of the channel interface changes a channel managed by configuration: creating, updating
  and deleting channels, whoever calls and whatever the outcome, leave every managed channel as it
  was, except that another channel of its type may take the default flag from it. Updating and
  deleting a managed channel itself is refused without any change.
\<close>

theorem managed_untouched:
  assumes "wf_store (db y)" and "map_of (Channels (db y)) newID = None"
    and "map_of (Channels (db y)) j = Some c" and "ch_Managed c"
  shows "(\<exists>b. map_of (Channels (db (snd (Channels_Create ce dr newID gid uid s inp y)))) j = Some (c\<lparr>ch_IsDefault := b\<rparr>)) \<and>
    (\<exists>b. map_of (Channels (db (snd (Channels_Update ce dr uid s i inp y)))) j = Some (c\<lparr>ch_IsDefault := b\<rparr>)) \<and>
    (\<exists>b. map_of (Channels (db (snd (Channels_Delete s i y)))) j = Some (c\<lparr>ch_IsDefault := b\<rparr>)) \<and>
    db (snd (Channels_Update ce dr uid s j inp y)) = db y \<and> db (snd (Channels_Delete s j y)) = db y"
proof (intro conjI)
  note kept = create_keeps_managed [OF assms(2), of ce dr gid uid s inp] update_keeps_managed [OF assms(1), of ce dr uid s i inp]
    delete_keeps_managed [OF assms(1), of s i]
  show "\<exists>b. map_of (Channels (db (snd (Channels_Create ce dr newID gid uid s inp y)))) j = Some (c\<lparr>ch_IsDefault := b\<rparr>)"
    "\<exists>b. map_of (Channels (db (snd (Channels_Update ce dr uid s i inp y)))) j = Some (c\<lparr>ch_IsDefault := b\<rparr>)"
    "\<exists>b. map_of (Channels (db (snd (Channels_Delete s i y)))) j = Some (c\<lparr>ch_IsDefault := b\<rparr>)"
    using kept assms(3,4) unfolding managed_kept_def by blast+
qed (rule managed_refused [OF assms(1,3,4)])+

section \<open>Examples\<close>

definition toy_json :: channels_env where
  "toy_json = toy_channels\<lparr> ce_Cipher := plain_aead,
     ce_Marshal := (\<lambda>s. Inr (if s ''password'' = Some (VStr Marker) then ''R'' else ''C'')),
     ce_Unmarshal := (\<lambda>b. Some (if b = ''R'' then Redact sample_settings [''password''] else sample_settings)) \<rparr>"

definition toy_channel_input :: channel_input where
  "toy_channel_input = \<lparr> cn_Name = ''Mail'', cn_Type = TypeEmail, cn_Settings = Some sample_settings, cn_Enabled = True, cn_IsDefault = False \<rparr>"

lemma admin_require:
  assumes "healthy (db y)" and "IsAdmin s" and "located (db y) (sj_TenantID s) rt i" and "ValidPermission p" and "ValidResourceType rt"
  shows "\<exists>d. Require s rt i p y = (Inr d, y)"
proof -
  from Check_healthy [OF assms(1,4,5), of s i] assms(3) obtain d y' where c: "Check s rt i p y = (Inr d, y')" by auto
  have "holds (db y) s rt i p" using assms(2,4) by (simp add: holds_def)
  with Check_Inr(4,5) [OF c] have "dc_Allowed d" "y' = y" by simp_all
  with c show ?thesis by (simp add: Require_def bindE_def refuseE_def returnE_def)
qed

lemma toy_json_ok:
  "aead_correct (ce_Cipher toy_json)" "secrets toy_json TypeEmail = [''password'']"
  "reads_back toy_json sample_settings" "reads_back toy_json (Redact sample_settings [''password''])"
  "Channels_validate toy_json toy_channel_input = None"
  subgoal by (simp add: toy_json_def plain_aead_ok)
  subgoal by code_simp
  subgoal by (simp add: reads_back_def toy_json_def sample_settings_def Marker_def)
  subgoal by (simp add: reads_back_def toy_json_def Redact_def redact_field_def sample_settings_def Marker_def as_string_def)
  subgoal by code_simp
  done

lemma toy_sealed: "\<exists>blob. Channels_seal toy_json some_draws ''c9'' TypeEmail sample_settings = Inr (blob, ''R'')"
proof -
  have "Encode (ce_Marshal toy_json) sample_settings = Inr ''C''"
    "Encode (ce_Marshal toy_json) (Redact sample_settings [''password'']) = Inr ''R''"
    by (simp_all add: Encode_def toy_json_def Redact_def redact_field_def sample_settings_def Marker_def MaxSettingsBytes_def as_string_def)
  moreover obtain blob where "Seal (ce_Cipher toy_json) (dr_DEK some_draws) (dr_N1 some_draws) (dr_N2 some_draws) (ce_KEK toy_json) ''C'' (AD ''c9'') = Inr blob"
  proof (rule reseal [OF toy_json_ok(1) some_draws_good])
    show "length ''C'' \<le> MaxSettingsBytes" by (simp add: MaxSettingsBytes_def)
  qed
  ultimately show ?thesis by (simp add: Channels_seal_def toy_json_ok)
qed

lemma toy_create:
  "\<exists>v y'. Channels_Create toy_json some_draws ''c9'' ''g9'' ''u9'' toy_boss toy_channel_input (ss_sys toy_send) = (Inr v, y') \<and> healthy (db y')"
proof -
  let ?y = "ss_sys toy_send"
  obtain blob where s: "Channels_seal toy_json some_draws ''c9'' TypeEmail sample_settings = Inr (blob, ''R'')" using toy_sealed by blast
  let ?row = "new_channel ''c9'' toy_boss toy_channel_input blob ''R''"
  have tx: "\<exists>m. create_tx ''g9'' ''u9'' toy_boss ?row (db ?y) = (Inr (), m) \<and> healthy m"
    by (simp add: create_tx_def Atomic_def eval_ops InsertChannel_def GrantOwner_def UpsertGrant_def new_channel_def toy_channel_input_def
        toy_boss_def toy_send_def empty_store_def platform_row_def PlatformChannelName_def ToLower_def healthy_def)
  then obtain m where m: "create_tx ''g9'' ''u9'' toy_boss ?row (db ?y) = (Inr (), m)" "healthy m" by blast
  obtain t where row: "map_of (Channels m) ''c9'' = Some (?row\<lparr> ch_CreatedAt := t, ch_UpdatedAt := t \<rparr>)"
    using create_tx_row [OF m(1)] by (auto simp: new_channel_def)
  have au: "emit e (?y\<lparr>db := m\<rparr>) = ?y\<lparr>db := m\<rparr>" for e by (simp add: emit_def toy_send_def)
  have "located m ''t1'' Channel ''c9''" using row by (simp add: located_def kind_defs new_channel_def toy_boss_def)
  then obtain d where r: "Require toy_boss Channel ''c9'' Read (?y\<lparr>db := m\<rparr>) = (Inr d, ?y\<lparr>db := m\<rparr>)"
    using admin_require [of "?y\<lparr>db := m\<rparr>" toy_boss Channel "''c9''" Read] m(2)
    by (auto simp: toy_boss_def IsAdmin_def AdminRoles_def ValidPermission_def ValidResourceType_def kind_defs)
  have g: "\<exists>c. with_db (GetChannel ''t1'' ''c9'') (?y\<lparr>db := m\<rparr>) = (Inr c, ?y\<lparr>db := m\<rparr>)"
    using row m(2) by (simp add: with_db_read GetChannel_def new_channel_def toy_boss_def)
  have sel: "cn_Type toy_channel_input = TypeEmail" "cn_Settings toy_channel_input = Some sample_settings" "sj_TenantID toy_boss = ''t1''"
    by (simp_all add: toy_channel_input_def toy_boss_def)
  have "with_db (create_tx ''g9'' ''u9'' toy_boss ?row) ?y = (Inr (), ?y\<lparr>db := m\<rparr>)" using m(1) by (simp add: with_db_def)
  then show ?thesis
    using g m(2) r by (auto simp: Channels_Create_def Channels_Get_def bindE_def checkE_def toy_json_ok liftSum_def returnE_def s sel emitE_def au)
qed

theorem channel_roundtrip_witness:
  "\<exists>v y' row p. Channels_Create toy_json some_draws ''c9'' ''g9'' ''u9'' toy_boss toy_channel_input (ss_sys toy_send) = (Inr v, y') \<and>
     Channels_Resolve toy_json ''t1'' ''c9'' y' = (Inr (row, sample_settings, p), y') \<and>
     cw_Settings v ''password'' = Some (VStr Marker) \<and> cw_Settings v ''host'' = Some (VStr ''mx.example'')"
proof -
  obtain v y' where c: "Channels_Create toy_json some_draws ''c9'' ''g9'' ''u9'' toy_boss toy_channel_input (ss_sys toy_send) = (Inr v, y')" "healthy (db y')"
    using toy_create by blast
  have sel: "cn_Settings toy_channel_input = Some sample_settings" "cn_Type toy_channel_input = TypeEmail" "sj_TenantID toy_boss = ''t1''"
    by (simp_all add: toy_channel_input_def toy_boss_def)
  from channel_roundtrip [OF toy_json_ok(1) some_draws_good sel(1) toy_json_ok(3) _ c] toy_json_ok(4) c(1) show ?thesis
    by (fastforce simp: sel toy_json_ok Redact_def redact_field_def sample_settings_def as_string_def Marker_def)
qed

lemma toy_send_wf: "wf_store (db (ss_sys toy_send))"
  by (simp add: toy_defs wf_store_def wf_defs wf_table_def no_clash_def channel_clash_def template_clash_def rows_def categories_ok_def
      ToLower_def PlatformChannelName_def)

theorem managed_untouched_witness:
  "ch_Managed (platform_row ''pc'' ''p1'' (replicate 100 CHR ''x'') ''{}'') \<and>
   (\<exists>b. map_of (Channels (db (snd (Channels_Create toy_json some_draws ''c9'' ''g9'' ''u9'' toy_boss toy_channel_input (ss_sys toy_send))))) ''pc'' =
      Some ((platform_row ''pc'' ''p1'' (replicate 100 CHR ''x'') ''{}'')\<lparr>ch_IsDefault := b\<rparr>))"
  using managed_untouched [OF toy_send_wf, of "''c9''" "''pc''" "platform_row ''pc'' ''p1'' (replicate 100 CHR ''x'') ''{}''"
      toy_json some_draws "''g9''" "''u9''" toy_boss toy_channel_input undefined]
  by (simp add: toy_send_def)

end
