(* ===== verification/NamePages.thy ===== *)
theory NamePages
  imports ChannelsLaws
begin

text \<open>
  The listings by name of channels and templates. Both read the store page by page and drop what the
  caller may not read; the locale \<open>name_pages\<close> shows once that the loop ends and returns the first
  readable rows behind the cursor, and is interpreted for both tables.
\<close>

section \<open>The loop\<close>

lemma page_rows_run:
  assumes "\<forall>r \<in> set rs. mk r y = (Inr (vw r), y)" and "length out < n"
  shows "\<exists>cur'. page_rows nm ok mk n rs cur out y = (Inr (cur', out @ map vw (take (n - length out) (filter ok rs))), y) \<and>
    (rs \<noteq> [] \<longrightarrow> length out + length (filter ok rs) < n \<longrightarrow> cur' = nm (last rs))"
  using assms
proof (induction rs arbitrary: cur out)
  case (Cons r rs)
  show ?case
  proof (cases "ok r \<and> Suc (length out) = n")
    case True
    then have "n - length out = Suc 0" by linarith
    with True Cons.prems(1) show ?thesis by (simp add: bindE_def returnE_def)
  next
    case False
    let ?out = "if ok r then out @ [vw r] else out"
    have l: "length ?out < n" using False Cons.prems(2) by auto
    have s: "page_rows nm ok mk n (r # rs) cur out y = page_rows nm ok mk n rs (nm r) ?out y"
      using False Cons.prems(1) by (simp add: bindE_def)
    have o: "?out @ map vw (take (n - length ?out) (filter ok rs)) = out @ map vw (take (n - length out) (filter ok (r # rs)))"
      using l by (cases "n - length out") (auto simp: diff_Suc)
    show ?thesis
    proof (cases "rs = []")
      case True
      with s o show ?thesis by (auto simp: returnE_def)
    next
      case False
      with Cons.IH [of ?out "nm r"] Cons.prems(1) l s o show ?thesis by (auto split: if_splits)
    qed
  qed
qed (simp add: returnE_def)

section \<open>The contract\<close>

text \<open>
  A read gives the first \<open>n\<close> rows behind a name, in the order of the names, which tell the rows apart.
\<close>

locale name_pages =
  fixes good :: "'a \<Rightarrow> bool"
    and st :: "'a \<Rightarrow> sys"
    and every :: "'a \<Rightarrow> 'r list"
    and nm :: "'r \<Rightarrow> string"
    and fetch :: "'a \<Rightarrow> nat \<Rightarrow> string \<Rightarrow> 'r list sys_op"
  assumes fetch_page: "good a \<Longrightarrow> fetch a n cur (st a) = (Inr (take n (filter (\<lambda>r. ToLower cur < ToLower (nm r)) (every a))), st a)"
    and name_order: "good a \<Longrightarrow> sorted_wrt (\<lambda>x y. ToLower (nm x) < ToLower (nm y)) (every a)"
begin

lemma behind_last:
  assumes "good a" and "rs = take n (filter (\<lambda>r. ToLower cur < ToLower (nm r)) (every a))" and "rs \<noteq> []"
  shows "filter (\<lambda>r. ToLower (nm (last rs)) < ToLower (nm r)) (every a) =
    drop n (filter (\<lambda>r. ToLower cur < ToLower (nm r)) (every a))"
proof -
  let ?R = "filter (\<lambda>r. ToLower cur < ToLower (nm r)) (every a)"
  have l: "last rs \<in> set ?R" using assms(2) last_in_set [OF assms(3)] by (metis in_set_takeD)
  then have "filter (\<lambda>r. ToLower (nm (last rs)) < ToLower (nm r)) (every a) = filter (\<lambda>r. ToLower (nm (last rs)) < ToLower (nm r)) ?R"
    by (auto intro!: filter_cong dest: less_trans)
  also have "\<dots> = drop n ?R"
  proof -
    have R: "?R = butlast rs @ last rs # drop n ?R" using assms(2,3) by (metis append_take_drop_id append_butlast_last_id append.assoc append_Cons append_Nil)
    have "sorted_wrt (\<lambda>x y. ToLower (nm x) < ToLower (nm y)) ?R" using name_order [OF assms(1)] by (rule sorted_wrt_filter)
    then have s: "sorted_wrt (\<lambda>x y. ToLower (nm x) < ToLower (nm y)) (butlast rs @ last rs # drop n ?R)" using R by simp
    have "filter (\<lambda>r. ToLower (nm (last rs)) < ToLower (nm r)) (butlast rs @ last rs # drop n ?R) = drop n ?R"
      using s by (auto simp: sorted_wrt_append filter_empty_conv intro: filter_True dest: less_asym)
    with R show ?thesis by simp
  qed
  finally show ?thesis .
qed

lemma loop_page:
  assumes "good a" and "\<forall>r \<in> set (every a). mk r (st a) = (Inr (vw r), st a)" and "length out \<le> n"
    and "length (filter (\<lambda>r. ToLower cur < ToLower (nm r)) (every a)) < fuel"
  shows "page_loop fuel (fetch a n) nm ok mk n cur out (st a) =
    (Inr (out @ map vw (take (n - length out) (filter ok (filter (\<lambda>r. ToLower cur < ToLower (nm r)) (every a))))), st a)"
  using assms(3,4)
proof (induction fuel arbitrary: cur out)
  case (Suc fuel)
  let ?R = "filter (\<lambda>r. ToLower cur < ToLower (nm r)) (every a)"
  let ?rs = "take n ?R"
  show ?case
  proof (cases "length out < n \<and> ?R \<noteq> []")
    case True
    then have n: "length out < n" "0 < n" "?rs \<noteq> []" by auto
    have mk: "\<forall>r \<in> set ?rs. mk r (st a) = (Inr (vw r), st a)" using assms(2) by (auto dest: in_set_takeD)
    obtain cur' where p: "page_rows nm ok mk n ?rs cur out (st a) =
        (Inr (cur', out @ map vw (take (n - length out) (filter ok ?rs))), st a)"
      and a': "length out + length (filter ok ?rs) < n \<Longrightarrow> cur' = nm (last ?rs)"
      using page_rows_run [where mk = mk and vw = vw and y = "st a" and nm = nm and ok = ok and cur = cur, OF mk n(1)] n(3) by auto
    let ?out = "out @ map vw (take (n - length out) (filter ok ?rs))"
    have split: "filter ok ?R = filter ok ?rs @ filter ok (drop n ?R)" by (metis append_take_drop_id filter_append)
    have step: "page_loop (Suc fuel) (fetch a n) nm ok mk n cur out (st a) =
      (if length ?rs < n then (Inr ?out, st a) else page_loop fuel (fetch a n) nm ok mk n cur' ?out (st a))"
      using n p by (simp add: fetch_page [OF assms(1)] bindE_def returnE_def)
    consider "length ?rs < n" | "\<not> length ?rs < n" "length out + length (filter ok ?rs) < n" | "\<not> length ?rs < n" "n \<le> length out + length (filter ok ?rs)"
      by linarith
    then show ?thesis
    proof cases
      case 1
      then have "?rs = ?R" by simp
      with step 1 show ?thesis by simp
    next
      case 2
      note rest = behind_last [OF assms(1) refl n(3), folded a' [OF 2(2)]]
      have "0 < length ?R" using True by blast
      then have "length (drop n ?R) < fuel" using Suc.prems(2) n(2) unfolding length_drop by linarith
      have all: "?out = out @ map vw (filter ok ?rs)" using 2(2) by simp
      have l: "length ?out \<le> n" using 2(2) by simp
      from Suc.IH [of ?out cur', unfolded rest, OF l \<open>length (drop n ?R) < fuel\<close>]
      have "page_loop (Suc fuel) (fetch a n) nm ok mk n cur out (st a) =
          (Inr (?out @ map vw (take (n - length ?out) (filter ok (drop n ?R)))), st a)" using step 2(1) by argo
      also have "?out @ map vw (take (n - length ?out) (filter ok (drop n ?R))) = out @ map vw (take (n - length out) (filter ok ?R))"
        unfolding all split by (use 2(2) in simp)
      finally show ?thesis .
    next
      case 3
      have full: "length ?out = n" using 3 n by simp
      have "page_loop fuel (fetch a n) nm ok mk n cur' ?out (st a) = (Inr ?out, st a)"
        using full by (cases fuel) (simp_all add: returnE_def)
      with step 3 split show ?thesis by simp
    qed
  next
    case False
    then show ?thesis using Suc.prems(1) by (auto simp: fetch_page [OF assms(1)] bindE_def returnE_def filter_empty_conv)
  qed
qed simp

end

section \<open>Both tables keep the contract\<close>

lemma no_clash_distinct:
  assumes "wf_table idf t" and "no_clash R t" and "\<And>x y. P x \<Longrightarrow> P y \<Longrightarrow> f x = f y \<Longrightarrow> R x y"
  shows "distinct (map f (filter P (rows t)))"
  using assms(1,2)
proof (induction t)
  case (Cons e t)
  obtain k r where e: "e = (k, r)" by fastforce
  from Cons.prems e have "wf_table idf t" "no_clash R t" by (auto simp: wf_table_def no_clash_def)
  with Cons.IH have d: "distinct (map f (filter P (rows t)))" .
  have "f r \<notin> f ` set (filter P (rows t))" if "P r"
  proof
    assume "f r \<in> f ` set (filter P (rows t))"
    then obtain l x where "(l, x) \<in> set t" "P x" "f r = f x" by (auto simp: rows_def)
    with that assms(3) [of r x] no_clashD [OF Cons.prems(2), of k r l x] Cons.prems(1) e show False
      by (force simp: wf_table_def)
  qed
  with d e show ?case by (auto simp: rows_def)
qed (simp add: rows_def)

lemma strict_by_name:
  fixes f :: "'r \<Rightarrow> string" and g :: "'r \<Rightarrow> string"
  assumes "distinct (map f xs)"
  shows "sorted_wrt (\<lambda>x y. f x < f y) (sort_key (\<lambda>c. (f c, g c)) xs)"
proof -
  let ?s = "sort_key (\<lambda>c. (f c, g c)) xs"
  have "sorted (map (\<lambda>c. (f c, g c)) ?s)" by simp
  then have "sorted (map f ?s)" unfolding sorted_map by (rule sorted_wrt_mono_rel [rotated]) (auto simp: less_eq_prod_def)
  moreover have "distinct (map f ?s)" using assms by (simp add: distinct_map)
  ultimately have "sorted_wrt (<) (map f ?s)" by (simp add: strict_sorted_iff)
  then show ?thesis by (simp add: sorted_wrt_map)
qed

text \<open>The channels of a tenant and type, and the templates of a tenant that match, by name.\<close>

definition channels_of :: "memstore \<Rightarrow> string \<Rightarrow> string \<Rightarrow> channel list" where
  "channels_of m tid ty = sort_key (\<lambda>c. (ToLower (ch_Name c), ch_ID c))
     (map (\<lambda>c. c\<lparr>ch_TemplateCount := templateCount m (ch_ID c)\<rparr>)
        (filter (\<lambda>c. ch_TenantID c = tid \<and> (ty = '''' \<or> ch_Type c = ty)) (rows (Channels m))))"

definition templates_of :: "memstore \<Rightarrow> string \<Rightarrow> string option \<Rightarrow> string \<Rightarrow> template list" where
  "templates_of m tid ch q = sortTemplates (map (decorate m) (filter (\<lambda>t. tp_TenantID t = tid
     \<and> (ch = None \<or> strp (tp_ChannelID t) = strp ch) \<and> (q = '''' \<or> Contains (ToLower (tp_Name t)) (ToLower q))) (rows (Templates m))))"

lemma channels_of_name: "wf_store m \<Longrightarrow> sorted_wrt (\<lambda>x y. ToLower (ch_Name x) < ToLower (ch_Name y)) (channels_of m tid ty)"
  unfolding channels_of_def
  by (rule strict_by_name, simp add: comp_def, rule no_clash_distinct [where idf = ch_ID and R = channel_clash])
    (auto simp: wf_store_def wf_defs channel_clash_def)

lemma decorate_sel [simp]: "tp_Name (decorate m t) = tp_Name t" "tp_ID (decorate m t) = tp_ID t"
  by (simp_all add: decorate_def split: option.split)

lemma templates_of_name: "wf_store m \<Longrightarrow> sorted_wrt (\<lambda>x y. ToLower (tp_Name x) < ToLower (tp_Name y)) (templates_of m tid ch q)"
  unfolding templates_of_def sortTemplates_def
  by (rule strict_by_name, simp add: comp_def decorate_sel, rule no_clash_distinct [where idf = tp_ID and R = template_clash])
    (auto simp: wf_store_def wf_defs template_clash_def)

interpretation chans: name_pages "\<lambda>(y, tid, ty). healthy (db y) \<and> wf_store (db y)" fst
  "\<lambda>(y, tid, ty). channels_of (db y) tid ty" ch_Name "\<lambda>(y, tid, ty) n cur. with_db (ListChannels tid ty cur n)"
proof
  fix a :: "sys \<times> string \<times> string" and n cur
  obtain y tid ty where a: "a = (y, tid, ty)" by (metis prod_cases3)
  assume "case a of (y, tid, ty) \<Rightarrow> healthy (db y) \<and> wf_store (db y)"
  then have g: "healthy (db y)" "wf_store (db y)" using a by simp_all
  show "(case a of (y, tid, ty) \<Rightarrow> \<lambda>n cur. with_db (ListChannels tid ty cur n)) n cur (fst a) =
     (Inr (take n (filter (\<lambda>r. ToLower cur < ToLower (ch_Name r)) (case a of (y, tid, ty) \<Rightarrow> channels_of (db y) tid ty))), fst a)"
    using g(1) a by (simp add: with_db_read ListChannels_def channels_of_def Let_def filter_sort filter_map comp_def conj_ac)
  show "sorted_wrt (\<lambda>x y. ToLower (ch_Name x) < ToLower (ch_Name y)) (case a of (y, tid, ty) \<Rightarrow> channels_of (db y) tid ty)"
    using channels_of_name [OF g(2)] a by simp
qed

interpretation temps: name_pages "\<lambda>(y, tid, ch, q). healthy (db y) \<and> wf_store (db y)" fst
  "\<lambda>(y, tid, ch, q). templates_of (db y) tid ch q" tp_Name "\<lambda>(y, tid, ch, q) n cur. with_db (ListTemplates tid ch q cur n)"
proof
  fix a :: "sys \<times> string \<times> string option \<times> string" and n cur
  obtain y tid ch q where a: "a = (y, tid, ch, q)" by (metis prod_cases4)
  assume "case a of (y, tid, ch, q) \<Rightarrow> healthy (db y) \<and> wf_store (db y)"
  then have g: "healthy (db y)" "wf_store (db y)" using a by simp_all
  have "filter (\<lambda>t. ToLower cur < ToLower (tp_Name t)) (templates_of (db y) tid ch q) =
    sortTemplates (map (decorate (db y)) (filter (\<lambda>t. \<not> (tp_TenantID t \<noteq> tid \<or> (ch \<noteq> None \<and> strp (tp_ChannelID t) \<noteq> strp ch)
       \<or> (q \<noteq> '''' \<and> \<not> Contains (ToLower (tp_Name t)) (ToLower q)) \<or> ToLower (tp_Name t) \<le> ToLower cur)) (rows (Templates (db y)))))"
    by (auto simp: templates_of_def sortTemplates_def filter_sort filter_map comp_def not_le intro!: arg_cong [where f = "map (decorate (db y))"]
        arg_cong [where f = "sort_key _"] filter_cong)
  then show "(case a of (y, tid, ch, q) \<Rightarrow> \<lambda>n cur. with_db (ListTemplates tid ch q cur n)) n cur (fst a) =
     (Inr (take n (filter (\<lambda>r. ToLower cur < ToLower (tp_Name r)) (case a of (y, tid, ch, q) \<Rightarrow> templates_of (db y) tid ch q))), fst a)"
    using g(1) a by (simp add: with_db_read ListTemplates_def Let_def)
  show "sorted_wrt (\<lambda>x y. ToLower (tp_Name x) < ToLower (tp_Name y)) (case a of (y, tid, ch, q) \<Rightarrow> templates_of (db y) tid ch q)"
    using templates_of_name [OF g(2)] a by simp
qed

section \<open>What a caller sees\<close>

lemma ReadableIDs_holds:
  assumes "healthy (db y)" and "\<forall>g \<in> set (rows (Grants (db y))). ValidSubjectType (gr_SubjectType g)"
  shows "\<exists>ids all. ReadableIDs s rt y = (Inr (ids, all), y) \<and> (\<forall>i. (all \<or> i \<in> set ids) \<longleftrightarrow> holds (db y) s rt i Read)"
proof (cases "IsAdmin s")
  case True
  then show ?thesis by (auto simp: ReadableIDs_def returnE_def holds_def ValidPermission_def)
next
  case False
  let ?gs = "fst (GrantsForSubjects (sj_TenantID s) (sj_UserID s) (sj_Roles s) (Now (db y)) (db y))"
  have "\<exists>gs. GrantsForSubjects (sj_TenantID s) (sj_UserID s) (sj_Roles s) (Now (db y)) (db y) = (Inr gs, db y) \<and>
      (\<forall>x. x \<in> set gs \<longleftrightarrow> x \<in> set (rows (Grants (db y))) \<and> gr_TenantID x = sj_TenantID s \<and> matches x s (Now (db y)))"
    using assms by (auto simp: GrantsForSubjects_def sortGrants_def matches_def ValidSubjectType_def kind_defs)
  then obtain gs where g: "GrantsForSubjects (sj_TenantID s) (sj_UserID s) (sj_Roles s) (Now (db y)) (db y) = (Inr gs, db y)"
    "\<And>x. x \<in> set gs \<longleftrightarrow> x \<in> set (rows (Grants (db y))) \<and> gr_TenantID x = sj_TenantID s \<and> matches x s (Now (db y))" by blast
  let ?ids = "remdups (map gr_ResourceID (filter (\<lambda>g. gr_ResourceType g = rt \<and> pm_Read (Of (gr_Relation g))) gs))"
  have "ReadableIDs s rt y = (Inr (?ids, False), y)"
    using False g(1) by (simp add: ReadableIDs_def bindE_def getE_def clock_def with_db_def returnE_def)
  moreover have "i \<in> set ?ids \<longleftrightarrow> holds (db y) s rt i Read" for i
    using False g(2) by (auto simp: holds_def applies_def pm_Read_Has)
  ultimately show ?thesis by blast
qed

lemma PermissionsOn_healthy:
  assumes "healthy (db y)"
  shows "\<exists>p. PermissionsOn s rt i y = (Inr p, y) \<and> (\<forall>a. Has p a \<longleftrightarrow> holds (db y) s rt i a)"
proof -
  obtain d where d: "evaluate s rt i y = (Inr d, y)"
    using assms by (simp add: evaluate_def bindE_def with_db_def GrantsOnResource_def getE_def returnE_def)
  with evaluate_Inr(2) [OF d] show ?thesis by (simp add: PermissionsOn_def bindE_def returnE_def)
qed

text \<open>The first rows behind a name that the caller may read.\<close>

definition readable_page :: "memstore \<Rightarrow> subjects \<Rightarrow> string \<Rightarrow> ('r \<Rightarrow> string) \<Rightarrow> ('r \<Rightarrow> string) \<Rightarrow> string \<Rightarrow> nat \<Rightarrow> 'r list \<Rightarrow> 'r list" where
  "readable_page m s rt idf nm cur n rs = take n (filter (\<lambda>r. ToLower cur < ToLower (nm r) \<and> holds m s rt (idf r) Read) rs)"

lemma length_of_le:
  "length (channels_of m tid ty) \<le> length (Channels m)" "length (templates_of m tid ch q) \<le> length (Templates m)"
  using length_filter_le [of _ "rows (Channels m)"] length_filter_le [of _ "rows (Templates m)"]
  by (simp_all add: channels_of_def templates_of_def sortTemplates_def rows_def)

text \<open>The views a listing builds, in the state it leaves alone.\<close>

lemma views_ready:
  assumes "healthy (db y)"
  shows "\<exists>vw. (\<forall>r. bindE (PermissionsOn s rt (idf r)) (\<lambda>p. returnE (mk r p)) y = (Inr (vw r), y)) \<and>
    (\<forall>r. \<exists>p. vw r = mk r p \<and> (\<forall>a. Has p a \<longleftrightarrow> holds (db y) s rt (idf r) a))"
proof -
  have "\<exists>v. bindE (PermissionsOn s rt (idf r)) (\<lambda>p. returnE (mk r p)) y = (Inr v, y) \<and>
      (\<exists>p. v = mk r p \<and> (\<forall>a. Has p a \<longleftrightarrow> holds (db y) s rt (idf r) a))" for r
    using PermissionsOn_healthy [OF assms, of s rt "idf r"] by (auto simp: bindE_def returnE_def)
  then show ?thesis by metis
qed

text \<open>
  C21. The listing of channels, a loop over pages of the store that skips what the caller may not read,
  returns exactly the first readable channels of the tenant and type behind the cursor in the order of
  their names, each with the caller's permissions; the next cursor is the name of the last one when
  the page is full.
\<close>

theorem channels_by_name:
  assumes "healthy (db y)" and "wf_store (db y)" and "\<forall>g \<in> set (rows (Grants (db y))). ValidSubjectType (gr_SubjectType g)"
    and "ty = '''' \<or> ValidType ty"
  shows "\<exists>vs. Channels_List ce s ty cursor limit y = (Inr (vs, page_next cw_Name (page_limit limit) vs), y) \<and>
    list_all2 (\<lambda>v c. \<exists>p. v = channelView c (redacted ce c) p \<and> (\<forall>a. Has p a \<longleftrightarrow> holds (db y) s Channel (ch_ID c) a)) vs
      (readable_page (db y) s Channel ch_ID ch_Name cursor (page_limit limit) (channels_of (db y) (sj_TenantID s) ty))"
proof -
  let ?n = "page_limit limit" and ?R = "filter (\<lambda>r. ToLower cursor < ToLower (ch_Name r)) (channels_of (db y) (sj_TenantID s) ty)"
  obtain ids all where ids: "ReadableIDs s Channel y = (Inr (ids, all), y)"
    and ok: "\<And>i. (all \<or> i \<in> set ids) \<longleftrightarrow> holds (db y) s Channel i Read" using ReadableIDs_holds [OF assms(1,3), of s Channel] by blast
  obtain vw where vw: "\<forall>r. bindE (PermissionsOn s Channel (ch_ID r)) (\<lambda>p. returnE (channelView r (redacted ce r) p)) y = (Inr (vw r), y)"
    and views: "\<And>r. \<exists>p. vw r = channelView r (redacted ce r) p \<and> (\<forall>a. Has p a \<longleftrightarrow> holds (db y) s Channel (ch_ID r) a)"
    using views_ready [OF assms(1), of s Channel ch_ID "\<lambda>r p. channelView r (redacted ce r) p"] by blast
  have l: "length ?R < Suc (length (Channels (db y)))"
    using length_of_le(1) [of "db y" "sj_TenantID s" ty] length_filter_le [of _ "channels_of (db y) (sj_TenantID s) ty"] by (meson le_imp_less_Suc le_trans)
  let ?page = "readable_page (db y) s Channel ch_ID ch_Name cursor ?n (channels_of (db y) (sj_TenantID s) ty)"
  have "page_loop (Suc (length (Channels (db y)))) (\<lambda>cur. with_db (ListChannels (sj_TenantID s) ty cur ?n)) ch_Name
      (\<lambda>r. all \<or> ch_ID r \<in> set ids) (\<lambda>r. bindE (PermissionsOn s Channel (ch_ID r)) (\<lambda>p. returnE (channelView r (redacted ce r) p)))
      ?n cursor [] y = (Inr (map vw ?page), y)"
    using chans.loop_page [of "(y, sj_TenantID s, ty)" "\<lambda>r. bindE (PermissionsOn s Channel (ch_ID r)) (\<lambda>p. returnE (channelView r (redacted ce r) p))"
        vw "[]" ?n cursor "Suc (length (Channels (db y)))" "\<lambda>r. all \<or> ch_ID r \<in> set ids"] assms(1,2) vw l
    by (simp add: readable_page_def ok)
  then have "Channels_List ce s ty cursor limit y = (Inr (map vw ?page, page_next cw_Name ?n (map vw ?page)), y)"
    using assms(4) ids by (auto simp: Channels_List_def bindE_def refuseE_def returnE_def getE_def failE_def)
  moreover have "list_all2 (\<lambda>v c. \<exists>p. v = channelView c (redacted ce c) p \<and> (\<forall>a. Has p a \<longleftrightarrow> holds (db y) s Channel (ch_ID c) a)) (map vw ?page) ?page"
    using views by (simp add: list_all2_map1 list.rel_refl)
  ultimately show ?thesis by blast
qed


section \<open>Examples\<close>

lemma toy_no_grants: "\<forall>g \<in> set (rows (Grants (db (ss_sys toy_send)))). ValidSubjectType (gr_SubjectType g)"
  by (simp add: toy_send_def empty_store_def rows_def)

lemma toy_reads: "holds (db (ss_sys toy_send)) toy_boss rt i Read"
  by (simp add: holds_def toy_boss_def IsAdmin_def AdminRoles_def ValidPermission_def)

theorem channels_by_name_witness:
  "\<exists>v. Channels_List toy_channels toy_boss '''' '''' 10 (ss_sys toy_send) = (Inr ([v], ''''), ss_sys toy_send) \<and> cw_ID v = ''c1''"
proof -
  have "map ch_ID (channels_of (db (ss_sys toy_send)) ''t1'' '''') = [''c1'']" "map ch_Name (channels_of (db (ss_sys toy_send)) ''t1'' '''') = [PlatformChannelName]"
    by (simp_all add: channels_of_def toy_send_def rows_def) (simp add: platform_row_def)
  then obtain c where c: "channels_of (db (ss_sys toy_send)) ''t1'' '''' = [c]" "ch_ID c = ''c1''" "ch_Name c = PlatformChannelName" by auto
  have p: "readable_page (db (ss_sys toy_send)) toy_boss Channel ch_ID ch_Name '''' 10 [c] = [c]"
    using c by (simp add: readable_page_def toy_reads ToLower_def PlatformChannelName_def)
  have t: "sj_TenantID toy_boss = ''t1''" "page_limit 10 = 10" by (simp_all add: toy_boss_def page_limit_def)
  from channels_by_name [OF toy_healthy toy_send_wf toy_no_grants, of "''''" toy_channels toy_boss "''''" 10] c(2)
  show ?thesis unfolding t c(1) p by (auto simp: list_all2_Cons2 page_next_def channelView_def Let_def)
qed


end
