(* ===== verification/TemplatesLaws.thy ===== *)
theory TemplatesLaws
  imports ChannelsLaws
begin

text \<open>
  What staff can do to a system template: change its wording, within the variables its owner relies
  on, and put the built-in wording back.
\<close>

lemma quiet_sys_TGet [intro]: "quiet_sys (Templates_Get s i)"
  unfolding Templates_Get_def by (intro quiet_sys_bindE quiet_sys_Require quiet_sys_reads quiet_sys_basic)

lemma GetTemplate_row:
  assumes "with_db (GetTemplate tid i) y1 = (Inr row, y2)" and "db y1 = db y"
  shows "db y2 = db y" and "\<exists>t. map_of (Templates (db y)) i = Some t \<and> row = decorate (db y) t"
  using assms by (auto simp: with_db_Inr GetTemplate_def with_fail_Inr split: option.splits if_splits)

lemma Validate_declared: "Compiled_Validate c declared = None \<Longrightarrow> set (cp_Refs c) \<subseteq> set declared"
  by (auto simp: Compiled_Validate_def find_None_iff split: option.splits)

lemma decorated [simp]:
  "tp_ID (decorate m t) = tp_ID t" "tp_SystemKey (decorate m t) = tp_SystemKey t" "tp_ChannelType (decorate m t) = tp_ChannelType t"
  "tp_Variables (decorate m t) = tp_Variables t" "tp_RequiredVariables (decorate m t) = tp_RequiredVariables t"
  "tp_Name (decorate m t) = tp_Name t" "tp_ChannelID (decorate m t) = tp_ChannelID t" "tp_IsDefault (decorate m t) = tp_IsDefault t"
  "tp_TenantID (decorate m t) = tp_TenantID t" "tp_BuiltinSubject (decorate m t) = tp_BuiltinSubject t" "tp_BuiltinBody (decorate m t) = tp_BuiltinBody t"
  by (simp_all add: decorate_def split: option.split)

text \<open>A template with another wording.\<close>

definition reworded :: "template \<Rightarrow> string \<Rightarrow> string \<Rightarrow> string option \<Rightarrow> time \<Rightarrow> template" where
  "reworded t subject body who at = t\<lparr> tp_Subject := subject, tp_Body := body, tp_UpdatedBy := who, tp_UpdatedAt := at \<rparr>"

lemma UpdateTemplate_reworded:
  assumes "UpdateTemplate ((decorate m0 t)\<lparr> tp_Subject := a, tp_Body := b, tp_UpdatedBy := w \<rparr>) m = (Inr (), m')" and "map_of (Templates m) (tp_ID t) = Some t"
  shows "m' = m\<lparr>Templates := AList.update (tp_ID t) (reworded t a b w (Now m)) (Templates m)\<rparr>"
  using assms by (auto simp: UpdateTemplate_def with_fail_Inr Let_def reworded_def split: if_splits)

lemma parse_checked_Inr:
  "parse_checked en a b k declared = Inr c \<Longrightarrow> Render_Parse en a b k = Inr c \<and> set (cp_Refs c) \<subseteq> set declared"
  using Validate_declared by (auto simp: parse_checked_def split: sum.splits option.splits)

lemma system_update:
  assumes "updateSystem en s (decorate (db y) t) inp y1 = (Inr v, y')" and "db y1 = db y" and "map_of (Templates (db y)) (tp_ID t) = Some t"
  shows "\<exists>c. Render_Parse en (tn_Subject inp) (tn_Body inp) (KindFor (tp_ChannelType t)) = Inr c \<and> set (cp_Refs c) \<subseteq> set (tp_Variables t) \<and>
      set (tp_RequiredVariables t) \<subseteq> set (cp_Refs c)"
    and "db y' = (db y)\<lparr>Templates := AList.update (tp_ID t) (reworded t (tn_Subject inp) (tn_Body inp) (userPtr s) (Now (db y))) (Templates (db y))\<rparr>"
proof -
  from assms(1) obtain c m ev where pc: "parse_checked en (tn_Subject inp) (tn_Body inp) (KindFor (tp_ChannelType t)) (tp_Variables t) = Inr c"
    and rq: "find (\<lambda>r. r \<notin> set (cp_Refs c)) (tp_RequiredVariables t) = None"
    and up: "UpdateTemplate ((decorate (db y) t)\<lparr> tp_Subject := tn_Subject inp, tp_Body := tn_Body inp, tp_UpdatedBy := userPtr s \<rparr>) (db y1) = (Inr (), m)"
    and get: "Templates_Get s (tp_ID t) (emit ev (y1\<lparr>db := m\<rparr>)) = (Inr v, y')"
    by (auto simp: updateSystem_def bindE_Inr_iff refuseE_def liftSum_def checkE_def failE_def returnE_def with_db_Inr emitE_def split: if_splits option.splits)
  show "\<exists>c. Render_Parse en (tn_Subject inp) (tn_Body inp) (KindFor (tp_ChannelType t)) = Inr c \<and> set (cp_Refs c) \<subseteq> set (tp_Variables t) \<and>
      set (tp_RequiredVariables t) \<subseteq> set (cp_Refs c)"
    using parse_checked_Inr [OF pc] rq by (auto simp: find_None_iff)
  have "db y' = m" using quiet_sysD [OF quiet_sys_TGet get] by simp
  then show "db y' = (db y)\<lparr>Templates := AList.update (tp_ID t) (reworded t (tn_Subject inp) (tn_Body inp) (userPtr s) (Now (db y))) (Templates (db y))\<rparr>"
    using UpdateTemplate_reworded [OF up] assms(2,3) by simp
qed

lemma system_restore:
  assumes "Templates_Restore s i y = (Inr v, y')" and "wf_store (db y)" and "map_of (Templates (db y)) i = Some t"
  shows "tp_SystemKey t \<noteq> None" and "db y' = (db y)\<lparr>Templates := AList.update i (reworded t (tp_BuiltinSubject t) (tp_BuiltinBody t) (userPtr s) (Now (db y))) (Templates (db y))\<rparr>"
proof -
  have i: "tp_ID t = i" using assms(2,3) by (auto simp: wf_store_def wf_defs intro: wf_table_lookup)
  from assms(1) obtain d y1 row y2 m ev where r: "Require s Template i Write y = (Inr d, y1)"
    and g: "with_db (GetTemplate (sj_TenantID s) i) y1 = (Inr row, y2)" and k: "tp_SystemKey row \<noteq> None"
    and up: "UpdateTemplate (row\<lparr> tp_Subject := tp_BuiltinSubject row, tp_Body := tp_BuiltinBody row, tp_UpdatedBy := userPtr s \<rparr>) (db y2) = (Inr (), m)"
    and get: "Templates_Get s i (emit ev (y2\<lparr>db := m\<rparr>)) = (Inr v, y')"
    unfolding Templates_Restore_def by (auto elim!: bindE_InrE simp: refuseE_def failE_def returnE_def with_db_Inr emitE_def split: if_splits)
  have y1: "db y1 = db y" using quiet_sysD [OF quiet_sys_Require r] .
  note row = GetTemplate_row [OF g y1]
  with assms(3) have t: "row = decorate (db y) t" by simp
  show "tp_SystemKey t \<noteq> None" using k t by simp
  have "db y' = m" using quiet_sysD [OF quiet_sys_TGet get] by simp
  with UpdateTemplate_reworded [where ?m0.0 = "db y" and m = "db y" and m' = m and t = t and a = "tp_BuiltinSubject t" and b = "tp_BuiltinBody t" and w = "userPtr s"] up row(1) t assms(3) i
  show "db y' = (db y)\<lparr>Templates := AList.update i (reworded t (tp_BuiltinSubject t) (tp_BuiltinBody t) (userPtr s) (Now (db y))) (Templates (db y))\<rparr>"
    by simp
qed

lemma system_delete:
  assumes "map_of (Templates (db y)) i = Some t" and "tp_SystemKey t \<noteq> None"
  shows "isl (fst (Templates_Delete s i y)) \<and> db (snd (Templates_Delete s i y)) = db y"
proof -
  obtain r y1 where r: "Require s Template i Delete y = (r, y1)" by fastforce
  have y1: "db y1 = db y" using quiet_sysD [OF quiet_sys_Require r] .
  obtain g y2 where g: "with_db (GetTemplate (sj_TenantID s) i) y1 = (g, y2)" by fastforce
  have y2: "db y2 = db y" using quiet_sysD [OF quiet_sys_reads(2) g] y1 by simp
  have "tp_SystemKey row \<noteq> None" if "g = Inr row" for row
    using GetTemplate_row(2) [OF g [unfolded that] y1] assms by auto
  then show ?thesis using r g y1 y2 by (cases r; cases g) (auto simp: Templates_Delete_def bindE_def refuseE_def)
qed

text \<open>
  C20. A system template cannot be deleted, and a successful update of one changes its subject and body
  only: the new wording parses, references every variable its owner requires and none it does not
  declare, and everything else, the built-in wording included, stays. Restoring puts exactly the
  built-in wording back.
\<close>

theorem system_wording:
  assumes "wf_store (db y)" and "map_of (Templates (db y)) i = Some t" and "tp_SystemKey t \<noteq> None"
  shows "isl (fst (Templates_Delete s i y)) \<and> db (snd (Templates_Delete s i y)) = db y \<and>
    (Templates_Update en s i inp y = (Inr v, y') \<longrightarrow>
      (\<exists>c. Render_Parse en (tn_Subject inp) (tn_Body inp) (KindFor (tp_ChannelType t)) = Inr c \<and>
         set (cp_Refs c) \<subseteq> set (tp_Variables t) \<and> set (tp_RequiredVariables t) \<subseteq> set (cp_Refs c)) \<and>
      db y' = (db y)\<lparr>Templates := AList.update i (reworded t (tn_Subject inp) (tn_Body inp) (userPtr s) (Now (db y))) (Templates (db y))\<rparr>) \<and>
    (Templates_Restore s i y = (Inr v, y') \<longrightarrow>
      db y' = (db y)\<lparr>Templates := AList.update i (reworded t (tp_BuiltinSubject t) (tp_BuiltinBody t) (userPtr s) (Now (db y))) (Templates (db y))\<rparr>)"
proof (intro conjI impI)
  show "isl (fst (Templates_Delete s i y))" "db (snd (Templates_Delete s i y)) = db y" using system_delete [OF assms(2,3)] by blast+
  show "db y' = (db y)\<lparr>Templates := AList.update i (reworded t (tp_BuiltinSubject t) (tp_BuiltinBody t) (userPtr s) (Now (db y))) (Templates (db y))\<rparr>"
    if "Templates_Restore s i y = (Inr v, y')" by (rule system_restore(2) [OF that assms(1,2)])
  assume u: "Templates_Update en s i inp y = (Inr v, y')"
  have i: "tp_ID t = i" using assms(1,2) by (auto simp: wf_store_def wf_defs intro: wf_table_lookup)
  from u obtain d y1 row y2 where r: "Require s Template i Write y = (Inr d, y1)"
    and g: "with_db (GetTemplate (sj_TenantID s) i) y1 = (Inr row, y2)"
    and b: "(if tp_SystemKey row \<noteq> None then updateSystem en s row inp y2 = (Inr v, y') else True)"
    unfolding Templates_Update_def by (auto elim!: bindE_InrE split: if_splits)
  have y1: "db y1 = db y" using quiet_sysD [OF quiet_sys_Require r] .
  note row = GetTemplate_row [OF g y1]
  have t: "row = decorate (db y) t" using row(2) assms(2) by simp
  from b t assms(3) have "updateSystem en s (decorate (db y) t) inp y2 = (Inr v, y')" by simp
  from system_update [OF this row(1)] assms(2) i
  show "\<exists>c. Render_Parse en (tn_Subject inp) (tn_Body inp) (KindFor (tp_ChannelType t)) = Inr c \<and>
         set (cp_Refs c) \<subseteq> set (tp_Variables t) \<and> set (tp_RequiredVariables t) \<subseteq> set (cp_Refs c)"
    "db y' = (db y)\<lparr>Templates := AList.update i (reworded t (tn_Subject inp) (tn_Body inp) (userPtr s) (Now (db y))) (Templates (db y))\<rparr>"
    by simp_all
qed

section \<open>Examples\<close>

definition toy_root :: subjects where
  "toy_root = \<lparr> sj_TenantID = ''p1'', sj_UserID = ''root'', sj_Roles = [''admin''], sj_Service = '''' \<rparr>"

definition toy_wording :: template_input where
  "toy_wording = \<lparr> tn_Name = '''', tn_ChannelID = '''', tn_Subject = ''Hi '', tn_Body = ''Go '', tn_Variables = None, tn_IsDefault = False \<rparr>"

lemma toy_admin:
  assumes "healthy (db y)" and "map_of (Templates (db y)) ''k1'' = Some t" and "tp_TenantID t = ''p1''" and "p \<in> {Read, Write}"
  shows "\<exists>d. Require toy_root Template ''k1'' p y = (Inr d, y)"
proof (rule admin_require [OF assms(1)])
  show "located (db y) (sj_TenantID toy_root) Template ''k1''" using assms(2,3) by (simp add: located_def kind_defs toy_root_def)
qed (use assms(4) in \<open>auto simp: toy_root_def IsAdmin_def AdminRoles_def ValidPermission_def ValidResourceType_def kind_defs\<close>)

lemma toy_reword:
  "\<exists>v y'. Templates_Update toy_engine toy_root ''k1'' toy_wording (ss_sys toy_send) = (Inr v, y')"
proof -
  let ?y = "ss_sys toy_send" and ?t = "seed_row ''k1'' ''p1'' toy_builtin"
  have t: "map_of (Templates (db ?y)) ''k1'' = Some ?t" "tp_TenantID ?t = ''p1''" by (simp_all add: toy_send_def seed_row_def)
  obtain c where c: "Render_Parse toy_engine ''Hi '' ''Go '' KindHTML = Inr c" "cp_Refs c = [''link'']" using toy_render by blast
  obtain d where r: "Require toy_root Template ''k1'' Write ?y = (Inr d, ?y)" using toy_admin [OF toy_healthy t] by blast
  have g: "with_db (GetTemplate ''p1'' ''k1'') ?y = (Inr ?t, ?y)"
    by (simp add: eval_ops GetTemplate_def decorate_def toy_defs)
  have pc: "parse_checked toy_engine ''Hi '' ''Go '' KindHTML [''link''] = Inr c"
    using c by (simp add: parse_checked_def Compiled_Validate_def ValidName_def is_lower_def is_upper_def is_digit_def less_eq_char_def)
  obtain m where up: "UpdateTemplate (?t\<lparr>tp_Subject := ''Hi '', tp_Body := ''Go '', tp_UpdatedBy := userPtr toy_root\<rparr>) (db ?y) = (Inr (), m)"
    by (simp add: UpdateTemplate_def toy_defs with_fail_def Let_def ToLower_def)
  have m: "m = (db ?y)\<lparr>Templates := AList.update ''k1'' (reworded ?t ''Hi '' ''Go '' (userPtr toy_root) (Now (db ?y))) (Templates (db ?y))\<rparr>"
    using UpdateTemplate_reworded [where ?m0.0 = "db ?y" and m = "db ?y" and m' = m and t = ?t and a = "''Hi ''" and b = "''Go ''" and w = "userPtr toy_root"] up t
    by (simp add: decorate_def seed_row_def)
  let ?y2 = "?y\<lparr>db := m\<rparr>"
  have h: "healthy (db ?y2)" "map_of (Templates (db ?y2)) ''k1'' = Some (reworded ?t ''Hi '' ''Go '' (userPtr toy_root) (Now (db ?y)))"
    using toy_healthy by (simp_all add: m healthy_def table_simps)
  obtain d2 where r2: "Require toy_root Template ''k1'' Read ?y2 = (Inr d2, ?y2)"
    using toy_admin [OF h] by (auto simp: reworded_def seed_row_def)
  have g2: "\<exists>row. with_db (GetTemplate ''p1'' ''k1'') ?y2 = (Inr row, ?y2)"
    using h by (simp add: with_db_read GetTemplate_def reworded_def seed_row_def)
  have au: "emit e ?y2 = ?y2" for e by (simp add: emit_def toy_send_def)
  have sel: "sj_TenantID toy_root = ''p1''" "tp_SystemKey ?t = Some ''auth.invite''" "tp_ChannelType ?t = TypeEmail" "tp_Variables ?t = [''link'']"
    "tp_RequiredVariables ?t = [''link'']" "tp_ID ?t = ''k1''" by (simp_all add: toy_root_def seed_row_def toy_builtin_def)
  have inp: "tn_Name toy_wording = ''''" "tn_ChannelID toy_wording = ''''" "tn_Subject toy_wording = ''Hi ''" "tn_Body toy_wording = ''Go ''"
    "tn_Variables toy_wording = None" "\<not> tn_IsDefault toy_wording" by (simp_all add: toy_wording_def)
  have w: "with_db (UpdateTemplate (?t\<lparr>tp_Subject := ''Hi '', tp_Body := ''Go '', tp_UpdatedBy := userPtr toy_root\<rparr>)) ?y = (Inr (), ?y2)"
    using up by (simp add: with_db_def)
  have k: "KindFor TypeEmail = KindHTML" by (simp add: KindFor_def)
  show ?thesis
    using g2 by (auto simp: Templates_Update_def updateSystem_def Templates_Get_def bindE_def r g r2 sel inp pc w k c(2) refuseE_def liftSum_def checkE_def
        returnE_def emitE_def au)
qed

theorem system_wording_witness:
  "\<exists>v y' c. Templates_Update toy_engine toy_root ''k1'' toy_wording (ss_sys toy_send) = (Inr v, y') \<and>
     Render_Parse toy_engine ''Hi '' ''Go '' KindHTML = Inr c \<and> ''link'' \<in> set (cp_Refs c)"
proof -
  obtain v y' where u: "Templates_Update toy_engine toy_root ''k1'' toy_wording (ss_sys toy_send) = (Inr v, y')" using toy_reword by blast
  have t: "map_of (Templates (db (ss_sys toy_send))) ''k1'' = Some (seed_row ''k1'' ''p1'' toy_builtin)"
    "tp_SystemKey (seed_row ''k1'' ''p1'' toy_builtin) \<noteq> None" by (simp_all add: toy_send_def seed_row_def)
  from system_wording [OF toy_send_wf t, of toy_root toy_engine toy_wording v y'] u show ?thesis
    by (auto simp: toy_wording_def seed_row_def toy_builtin_def KindFor_def)
qed

end
