(* ===== verification/ChannelsRefine.thy ===== *)
theory ChannelsRefine
  imports ChannelsLaws
begin

text \<open>
  The channel service against its contract: a vault that maps the id of a channel to its facts, the
  clear settings among them. The service keeps the settings sealed in the table of channels, moves
  default flags and works in transactions; seen through the vault, each call does its abstract step
  or nothing.
\<close>

section \<open>The vault\<close>

record facts =
  fc_TenantID :: string
  fc_Name :: string
  fc_Type :: string
  fc_Enabled :: bool
  fc_Settings :: settings

type_synonym vault = "string \<rightharpoonup> facts"

definition facts_of :: "channels_env \<Rightarrow> channel \<Rightarrow> facts option" where
  "facts_of ce row = (case Channels_open ce row of
      Inl _ \<Rightarrow> None
    | Inr st \<Rightarrow> Some \<lparr> fc_TenantID = ch_TenantID row, fc_Name = ch_Name row, fc_Type = ch_Type row,
        fc_Enabled = ch_Enabled row, fc_Settings = st \<rparr>)"

definition vault_of :: "channels_env \<Rightarrow> channel table \<Rightarrow> vault" where
  "vault_of ce t = (\<lambda>i. Option.bind (map_of t i) (facts_of ce))"

definition vault_create :: "string \<Rightarrow> string \<Rightarrow> channel_input \<Rightarrow> vault \<Rightarrow> vault" where
  "vault_create i tid inp v = v(i \<mapsto> \<lparr> fc_TenantID = tid, fc_Name = cn_Name inp, fc_Type = cn_Type inp,
     fc_Enabled = cn_Enabled inp, fc_Settings = the (cn_Settings inp) \<rparr>)"

definition merged :: "channels_env \<Rightarrow> channel_input \<Rightarrow> facts \<Rightarrow> settings" where
  "merged ce inp f = Merge (fc_Settings f) (case cn_Settings inp of None \<Rightarrow> Map.empty | Some x \<Rightarrow> x) (secrets ce (fc_Type f))"

definition vault_update :: "channels_env \<Rightarrow> string \<Rightarrow> channel_input \<Rightarrow> vault \<Rightarrow> vault" where
  "vault_update ce i inp v = v(i := map_option (\<lambda>f. f\<lparr> fc_Name := cn_Name inp, fc_Enabled := cn_Enabled inp,
     fc_Settings := merged ce inp f \<rparr>) (v i))"

section \<open>The store through the vault\<close>

lemma Channels_open_sel: "ch_ID r = ch_ID r' \<Longrightarrow> ch_SettingsSealed r = ch_SettingsSealed r' \<Longrightarrow> Channels_open ce r = Channels_open ce r'"
  by (simp add: Channels_open_def)

lemma facts_of_default [simp]: "facts_of ce (c\<lparr>ch_IsDefault := b\<rparr>) = facts_of ce c"
  using Channels_open_sel [of "c\<lparr>ch_IsDefault := b\<rparr>" c ce] by (simp add: facts_of_def split: sum.split)

lemma facts_of_stamped [simp]:
  "facts_of ce (c\<lparr>ch_CreatedAt := t, ch_UpdatedAt := t, ch_SettingsPublic := p\<rparr>) = facts_of ce c"
  using Channels_open_sel [of "c\<lparr>ch_CreatedAt := t, ch_UpdatedAt := t, ch_SettingsPublic := p\<rparr>" c ce] by (simp add: facts_of_def split: sum.split)

lemma vault_clear: "vault_of ce (map_rows (\<lambda>k c. if P k c then c\<lparr>ch_IsDefault := False\<rparr> else c) t) = vault_of ce t"
  by (auto simp: vault_of_def map_of_map_rows fun_eq_iff split: option.split bind_split)

lemma keeps_vault: "keeps (\<lambda>m. vault_of ce (Channels m) = v) (moveDefault tid ty newID)"
  by (rule keeps_moved) (auto simp: keeps_def ClearDefaultChannel_def with_fail_def vault_clear split: option.splits)

lemma keeps_moves:
  "keeps (\<lambda>m. vault_of ce (Channels m) = v) (if b then moveDefault tid ty newID else returnE ())"
  by (auto intro: keeps_vault keeps_returnE)

text \<open>The keys and ids a well-formed table has, kept by moving the default.\<close>

lemma Atomic_Inl: "Atomic f m = (Inl e, m') \<Longrightarrow> Channels m' = Channels m"
  by (auto simp: Atomic_def with_fail_def restore_tables_def split: option.splits prod.splits sum.splits)

lemma InsertChannel_vault:
  assumes "InsertChannel row m = (Inr (), m')"
  shows "vault_of ce (Channels m') = (vault_of ce (Channels m))(ch_ID row := facts_of ce row)"
proof -
  from InsertChannel_Inr [OF assms] obtain t p where
    "m' = m\<lparr>Channels := AList.update (ch_ID row) (row\<lparr>ch_CreatedAt := t, ch_UpdatedAt := t, ch_SettingsPublic := p\<rparr>) (Channels m)\<rparr>" by blast
  then show ?thesis by (simp add: vault_of_def fun_eq_iff table_simps)
qed

lemma create_tx_vault:
  assumes "create_tx gid uid s row m = (r, m')"
  shows "vault_of ce (Channels m') = (case r of Inl _ \<Rightarrow> vault_of ce (Channels m) | Inr _ \<Rightarrow> (vault_of ce (Channels m))(ch_ID row := facts_of ce row))"
proof (cases r)
  case (Inl e)
  with assms show ?thesis by (auto simp: create_tx_def dest: Atomic_Inl)
next
  case (Inr u)
  with assms obtain m1 m2 m3 where mv: "(if ch_IsDefault row then moveDefault (sj_TenantID s) (ch_Type row) (ch_ID row) else returnE ()) m = (Inr (), m1)"
    and i: "InsertChannel row m1 = (Inr (), m2)" and g: "GrantOwner gid (sj_TenantID s) Channel (ch_ID row) (sj_UserID s) m2 = (Inr (), m3)"
    and u: "(if ch_IsDefault row then SetTenantUse uid (sj_TenantID s) (ch_ID row) True else returnE ()) m3 = (Inr (), m')"
    by (auto simp: create_tx_def Atomic_Inr bindE_Inr_iff)
  have "Channels m' = Channels m2"
    using grants_only(1) [of gid "sj_TenantID s" Channel "ch_ID row" "sj_UserID s" m2] g
      grants_only(3) [of uid "sj_TenantID s" "ch_ID row" True m3] u
    by (auto simp: returnE_def split: if_splits)
  with keepsD [OF keeps_moves refl mv, of ce] InsertChannel_vault [OF i, of ce] Inr show ?thesis by simp
qed

lemma facts_of_cong:
  "ch_ID r = ch_ID r' \<Longrightarrow> ch_SettingsSealed r = ch_SettingsSealed r' \<Longrightarrow> ch_TenantID r = ch_TenantID r' \<Longrightarrow>
   ch_Name r = ch_Name r' \<Longrightarrow> ch_Type r = ch_Type r' \<Longrightarrow> ch_Enabled r = ch_Enabled r' \<Longrightarrow> facts_of ce r = facts_of ce r'"
  using Channels_open_sel [of r r' ce] by (simp add: facts_of_def split: sum.split)

text \<open>A row through a move of the default.\<close>

lemma row_clear:
  "map_of t k = Some (old\<lparr>ch_IsDefault := b\<rparr>) \<Longrightarrow>
     \<exists>b. map_of (map_rows (\<lambda>k c. if P k c then c\<lparr>ch_IsDefault := False\<rparr> else c) t) k = Some (old\<lparr>ch_IsDefault := b\<rparr>)"
  by (cases "P k (old\<lparr>ch_IsDefault := b\<rparr>)") (auto simp: map_of_map_rows)

lemma keeps_row:
  "keeps (\<lambda>m. \<exists>b. map_of (Channels m) k = Some (old\<lparr>ch_IsDefault := b\<rparr>)) (if q then moveDefault tid ty newID else returnE ())"
proof -
  have "keeps (\<lambda>m. \<exists>b. map_of (Channels m) k = Some (old\<lparr>ch_IsDefault := b\<rparr>)) (ClearDefaultChannel tid ty ex)" for tid ty ex
  proof (rule keepsI)
    fix m :: memstore assume "\<exists>b. map_of (Channels m) k = Some (old\<lparr>ch_IsDefault := b\<rparr>)"
    then obtain b where "map_of (Channels m) k = Some (old\<lparr>ch_IsDefault := b\<rparr>)" by blast
    then show "\<exists>b. map_of (Channels (snd (ClearDefaultChannel tid ty ex m))) k = Some (old\<lparr>ch_IsDefault := b\<rparr>)"
      using row_clear [where t = "Channels m"] by (cases "Fail m ''ClearDefaultChannel''") (auto simp: ClearDefaultChannel_def with_fail_def)
  qed
  from keeps_moved [where Q = "\<lambda>t. \<exists>b. map_of t k = Some (old\<lparr>ch_IsDefault := b\<rparr>)", OF this] show ?thesis
    by (auto intro: keeps_returnE)
qed

lemma UpdateChannel_vault:
  assumes "UpdateChannel row m = (Inr (), m')" and "map_of (Channels m) (ch_ID row) = Some (old\<lparr>ch_IsDefault := b\<rparr>)"
    and "ch_ID old = ch_ID row" and "ch_Type old = ch_Type row"
  shows "vault_of ce (Channels m') = (vault_of ce (Channels m))(ch_ID row := facts_of ce row)"
proof -
  from assms(1,2) have "ch_TenantID old = ch_TenantID row" and "m' = m\<lparr>Channels := AList.update (ch_ID row)
     (old\<lparr> ch_Name := ch_Name row, ch_SettingsSealed := ch_SettingsSealed row, ch_SettingsPublic := ch_SettingsPublic row,
        ch_Enabled := ch_Enabled row, ch_IsDefault := ch_IsDefault row, ch_UpdatedBy := ch_UpdatedBy row, ch_UpdatedAt := Now m \<rparr>) (Channels m)\<rparr>"
    by (auto simp: UpdateChannel_def with_fail_Inr Let_def split: if_splits)
  then show ?thesis
    using assms(3,4) by (auto simp: vault_of_def fun_eq_iff table_simps intro: facts_of_cong)
qed

lemma update_tx_vault:
  assumes "update_tx uid tid was row m = (r, m')" and "map_of (Channels m) (ch_ID row) = Some old"
    and "ch_ID old = ch_ID row" and "ch_Type old = ch_Type row"
  shows "vault_of ce (Channels m') = (case r of Inl _ \<Rightarrow> vault_of ce (Channels m) | Inr _ \<Rightarrow> (vault_of ce (Channels m))(ch_ID row := facts_of ce row))"
proof (cases r)
  case (Inl e)
  with assms(1) show ?thesis by (auto simp: update_tx_def dest: Atomic_Inl)
next
  case (Inr u)
  with assms(1) obtain m1 m2 where mv: "(if ch_IsDefault row \<and> \<not> was then moveDefault tid (ch_Type row) (ch_ID row) else returnE ()) m = (Inr (), m1)"
    and i: "UpdateChannel row m1 = (Inr (), m2)"
    and u: "(if ch_IsDefault row \<noteq> was then SetTenantUse uid tid (ch_ID row) (ch_IsDefault row) else returnE ()) m2 = (Inr (), m')"
    by (auto simp: update_tx_def Atomic_Inr bindE_Inr_iff)
  have ch: "Channels m' = Channels m2"
    using grants_only(3) [of uid tid "ch_ID row" "ch_IsDefault row" m2] u by (auto simp: returnE_def split: if_splits)
  have "\<exists>b. map_of (Channels m) (ch_ID row) = Some (old\<lparr>ch_IsDefault := b\<rparr>)" using assms(2) by (intro exI [of _ "ch_IsDefault old"]) simp
  from keepsD [OF keeps_row this mv] obtain b where "map_of (Channels m1) (ch_ID row) = Some (old\<lparr>ch_IsDefault := b\<rparr>)" by blast
  from UpdateChannel_vault [OF i this assms(3,4), of ce] keepsD [OF keeps_moves refl mv, of ce] ch Inr show ?thesis by simp
qed

lemma delete_tx_vault:
  assumes "Atomic (bindE (mapErrE h (DeleteChannel tid k)) (\<lambda>_. DropResource tid Channel k)) m = (r, m')"
  shows "vault_of ce (Channels m') = (case r of Inl _ \<Rightarrow> vault_of ce (Channels m) | Inr _ \<Rightarrow> (vault_of ce (Channels m))(k := None))"
proof (cases r)
  case (Inl e)
  with assms show ?thesis by (auto dest: Atomic_Inl)
next
  case (Inr u)
  with assms obtain m1 where d: "DeleteChannel tid k m = (Inr (), m1)" and g: "DropResource tid Channel k m1 = (Inr (), m')"
    by (auto simp: Atomic_Inr bindE_Inr_iff mapErrE_def split: prod.splits sum.splits)
  have "Channels m' = Channels m1" using grants_only(5) [of tid Channel k m1] g by simp
  moreover have "Channels m1 = AList.delete k (Channels m)" using d by (auto simp: DeleteChannel_def with_fail_Inr split: if_splits option.splits)
  ultimately show ?thesis using Inr by (auto simp: vault_of_def fun_eq_iff table_simps)
qed

section \<open>The calls\<close>

text \<open>The vault behind the result of a call, against the vault before it and the one its step leads to.\<close>

definition refined :: "channels_env \<Rightarrow> vault \<Rightarrow> vault \<Rightarrow> (goerr + 'a) \<times> sys \<Rightarrow> bool" where
  "refined ce v v' out \<longleftrightarrow> (case fst out of
      Inl _ \<Rightarrow> vault_of ce (Channels (db (snd out))) \<in> {v, v'}
    | Inr _ \<Rightarrow> vault_of ce (Channels (db (snd out))) = v')"

lemma created_facts:
  assumes "aead_correct (ce_Cipher ce)" and "good_draws dr" and "reads_back ce st" and "cn_Settings inp = Some st"
    and "Channels_seal ce dr i (cn_Type inp) st = Inr (blob, public)"
  shows "facts_of ce (new_channel i s inp blob public) = Some \<lparr> fc_TenantID = sj_TenantID s, fc_Name = cn_Name inp, fc_Type = cn_Type inp,
     fc_Enabled = cn_Enabled inp, fc_Settings = st \<rparr>"
  using sealed_opens [OF assms(1,3,2,5), of "new_channel i s inp blob public"] by (simp add: facts_of_def new_channel_def)

lemma create_tx_steps:
  assumes "aead_correct (ce_Cipher ce)" and "good_draws dr" and "\<forall>st. cn_Settings inp = Some st \<longrightarrow> reads_back ce st"
    and "checkE (Channels_validate ce inp) y = (Inr u, y1)"
    and "liftSum (Channels_seal ce dr newID (cn_Type inp) (the (cn_Settings inp))) y1 = (Inr (blob, public), y2)" and "db y2 = db y"
    and "create_tx gid uid s (new_channel newID s inp blob public) (db y2) = (r, m)"
  shows "vault_of ce (Channels m) = (case r of Inl _ \<Rightarrow> vault_of ce (Channels (db y))
    | Inr _ \<Rightarrow> vault_create newID (sj_TenantID s) inp (vault_of ce (Channels (db y))))"
proof -
  from assms(4) obtain st where st: "cn_Settings inp = Some st"
    by (auto simp: checkE_def failE_def Channels_validate_def split: option.splits if_splits)
  with assms(5) have "Channels_seal ce dr newID (cn_Type inp) st = Inr (blob, public)" by (auto simp: liftSum_def)
  from created_facts [OF assms(1,2) _ st this] assms(3) st
  have "facts_of ce (new_channel newID s inp blob public) = Some \<lparr> fc_TenantID = sj_TenantID s, fc_Name = cn_Name inp, fc_Type = cn_Type inp,
     fc_Enabled = cn_Enabled inp, fc_Settings = st \<rparr>" by blast
  moreover have "ch_ID (new_channel newID s inp blob public) = newID" by (simp add: new_channel_def)
  ultimately show ?thesis using create_tx_vault [OF assms(7), of ce] st assms(6) by (simp add: vault_create_def split: sum.splits)
qed

text \<open>A whole call: the vault is as it was or one step on, and one step on when the call succeeds.\<close>

lemma around_step:
  assumes "\<And>r m. f (db y) = (r, m) \<Longrightarrow> vault_of ce (Channels m) = (case r of Inl _ \<Rightarrow> v | Inr _ \<Rightarrow> v')" and "\<And>x. quiet_sys (g x)"
  shows "refined ce v v' (bindE (with_db f) g y)"
proof -
  obtain r m where f: "f (db y) = (r, m)" by fastforce
  note v = assms(1) [OF f]
  show ?thesis
  proof (cases r)
    case (Inr x)
    obtain r2 y2 where g: "g x (y\<lparr>db := m\<rparr>) = (r2, y2)" by fastforce
    with quiet_sysD [OF assms(2) g] v f Inr show ?thesis by (simp add: refined_def bindE_def with_db_def split: sum.split)
  qed (use v in \<open>simp add: refined_def bindE_def with_db_def f\<close>)
qed

lemma after_read:
  assumes "quiet_sys f" and "v = vault_of ce (Channels (db y))"
    and "\<And>x y1. f y = (Inr x, y1) \<Longrightarrow> db y1 = db y \<Longrightarrow> refined ce v v' (g x y1)"
  shows "refined ce v v' (bindE f g y)"
proof -
  obtain r y1 where f: "f y = (r, y1)" by fastforce
  with quiet_sysD [OF assms(1) f] assms(2,3) show ?thesis by (cases r) (auto simp: bindE_def refined_def)
qed

lemma create_steps:
  assumes "aead_correct (ce_Cipher ce)" and "good_draws dr" and "\<forall>st. cn_Settings inp = Some st \<longrightarrow> reads_back ce st"
  shows "refined ce (vault_of ce (Channels (db y))) (vault_create newID (sj_TenantID s) inp (vault_of ce (Channels (db y))))
    (Channels_Create ce dr newID gid uid s inp y)"
  unfolding Channels_Create_def
  apply (rule after_read [OF quiet_sys_checkE refl])
  apply (rule after_read [OF quiet_sys_basic(5)], simp)
  apply (clarsimp split: prod.split)
  apply (rule around_step, rule create_tx_steps [OF assms], assumption+)
  apply (intro quiet_sys_bindE quiet_sys_basic quiet_sys_Get)
  done

lemma updated_facts:
  assumes "aead_correct (ce_Cipher ce)" and "good_draws dr" and "facts_of ce c = Some f" and "reads_back ce (merged ce inp f)"
    and "Channels_seal ce dr (ch_ID c) (ch_Type c) (merged ce inp f) = Inr (blob, public)"
  shows "facts_of ce (c\<lparr> ch_TemplateCount := n, ch_Name := cn_Name inp, ch_SettingsSealed := blob, ch_SettingsPublic := Some public,
           ch_Enabled := cn_Enabled inp, ch_IsDefault := b, ch_UpdatedBy := u \<rparr>) =
    Some (f\<lparr> fc_Name := cn_Name inp, fc_Enabled := cn_Enabled inp, fc_Settings := merged ce inp f \<rparr>)"
  using assms(3) sealed_opens [OF assms(1,4,2,5), of "c\<lparr> ch_TemplateCount := n, ch_Name := cn_Name inp, ch_SettingsSealed := blob,
     ch_SettingsPublic := Some public, ch_Enabled := cn_Enabled inp, ch_IsDefault := b, ch_UpdatedBy := u \<rparr>"]
  by (auto simp: facts_of_def split: sum.splits)

lemma update_tx_steps:
  assumes "aead_correct (ce_Cipher ce)" and "good_draws dr" and "wf_store (db y)"
    and "\<forall>f. vault_of ce (Channels (db y)) i = Some f \<longrightarrow> reads_back ce (merged ce inp f)"
    and "with_db (GetChannel tid i) y1 = (Inr row, y2)" and "db y1 = db y"
    and "liftSum (Channels_open ce row) y3 = (Inr stored, y4)"
    and "liftSum (Channels_seal ce dr i (ch_Type row) (Merge stored (case cn_Settings inp of None \<Rightarrow> Map.empty | Some x \<Rightarrow> x)
           (secrets ce (ch_Type row)))) y5 = (Inr (blob, public), y6)" and "db y6 = db y"
    and "update_tx uid tid was (row\<lparr> ch_Name := cn_Name inp, ch_SettingsSealed := blob, ch_SettingsPublic := Some public,
           ch_Enabled := cn_Enabled inp, ch_IsDefault := cn_IsDefault inp, ch_UpdatedBy := userPtr s \<rparr>) (db y6) = (r, m)"
  shows "vault_of ce (Channels m) = (case r of Inl _ \<Rightarrow> vault_of ce (Channels (db y)) | Inr _ \<Rightarrow> vault_update ce i inp (vault_of ce (Channels (db y))))"
proof -
  from assms(5,6) have "fst (GetChannel tid i (db y)) = Inr row" by (auto simp: with_db_Inr)
  from GetChannel_fst [OF this] obtain c where c: "map_of (Channels (db y)) i = Some c"
    and row: "row = c\<lparr>ch_TemplateCount := templateCount (db y) i\<rparr>" by blast
  have i: "ch_ID c = i" using assms(3) c by (auto simp: wf_store_def wf_defs intro: wf_table_lookup)
  have "Channels_open ce row = Channels_open ce c" by (rule Channels_open_sel) (simp_all add: row)
  with assms(7) obtain f where f: "facts_of ce c = Some f" "fc_Settings f = stored" "fc_Type f = ch_Type c"
    by (auto simp: liftSum_def facts_of_def)
  have v: "vault_of ce (Channels (db y)) i = Some f" using c f(1) by (simp add: vault_of_def)
  have seal: "Channels_seal ce dr (ch_ID c) (ch_Type c) (merged ce inp f) = Inr (blob, public)"
    using assms(8) by (simp add: liftSum_def merged_def f row i)
  show ?thesis
    using update_tx_vault [OF assms(10), of c ce] c i assms(4,9) v
      updated_facts [OF assms(1,2) f(1) _ seal, where n = "templateCount (db y) i" and b = "cn_IsDefault inp" and u = "userPtr s"]
    by (simp add: row vault_update_def split: sum.splits)
qed

lemma update_steps:
  assumes "aead_correct (ce_Cipher ce)" and "good_draws dr" and "wf_store (db y)"
    and "\<forall>f. vault_of ce (Channels (db y)) i = Some f \<longrightarrow> reads_back ce (merged ce inp f)"
  shows "refined ce (vault_of ce (Channels (db y))) (vault_update ce i inp (vault_of ce (Channels (db y)))) (Channels_Update ce dr uid s i inp y)"
  unfolding Channels_Update_def Let_def
  apply (rule after_read [OF quiet_sys_Require refl])
  apply (rule after_read [OF quiet_sys_reads(1)], simp)
  apply (rule after_read [OF quiet_sys_basic(3)], simp)
  apply (rule after_read [OF quiet_sys_basic(3)], simp)
  apply (rule after_read [OF quiet_sys_basic(5)], simp)
  apply (rule after_read [OF quiet_sys_checkE], simp)
  apply (rule after_read [OF quiet_sys_basic(5)], simp)
  apply (clarsimp split: prod.split)
  apply (rule around_step, rule update_tx_steps [OF assms], assumption+)
  apply (intro quiet_sys_bindE quiet_sys_basic quiet_sys_Get)
  done

lemma delete_steps:
  "refined ce (vault_of ce (Channels (db y))) ((vault_of ce (Channels (db y)))(i := None)) (Channels_Delete s i y)"
  unfolding Channels_Delete_def
  apply (rule after_read [OF quiet_sys_Require refl])
  apply (rule after_read [OF quiet_sys_reads(1)], simp)
  apply (rule after_read [OF quiet_sys_basic(3)], simp)
  apply (rule after_read [OF quiet_sys_basic(3)], simp)
  apply (rule around_step, drule delete_tx_vault [where ce = ce], simp split: sum.split)
  apply (intro quiet_sys_basic)
  done

text \<open>
  C12. The channel service refines the vault. Whatever is called and whatever happens inside, the vault
  the table stands for is afterwards as it was or one abstract step on, and exactly one step on when
  the call succeeds: a created channel is entered with its clear settings, an update changes name,
  state and merged settings of its channel, a deletion takes its channel out, and no other channel is
  touched.
\<close>

theorem channels_refine:
  assumes "aead_correct (ce_Cipher ce)" and "good_draws dr" and "wf_store (db y)"
    and "\<forall>st. cn_Settings inp = Some st \<longrightarrow> reads_back ce st"
    and "\<forall>f. vault_of ce (Channels (db y)) i = Some f \<longrightarrow> reads_back ce (merged ce inp f)"
  shows "let v = vault_of ce (Channels (db y)) in
    refined ce v (vault_create newID (sj_TenantID s) inp v) (Channels_Create ce dr newID gid uid s inp y) \<and>
    refined ce v (vault_update ce i inp v) (Channels_Update ce dr uid s i inp y) \<and>
    refined ce v (v(i := None)) (Channels_Delete s i y)"
  using create_steps [OF assms(1,2,4)] update_steps [OF assms(1,2,3,5)] delete_steps by (simp add: Let_def)

section \<open>Examples\<close>

lemma replicate_eq_R: "replicate 12 c \<noteq> ''R''"
  by (simp add: numeral_eq_Suc)

lemma toy_vault: "\<exists>f. vault_of toy_json (Channels (db (ss_sys toy_send))) ''c1'' = Some f \<and> fc_Settings f = sample_settings \<and> fc_Type f = TypeEmail"
  by (simp add: vault_of_def toy_send_def facts_of_def Channels_open_def toy_json_def toy_channels_def Open_def Decode_def plain_aead_def
      NonceSize_def Overhead_def MaxSettingsBytes_def replicate_eq_R)

lemma toy_merged: "fc_Settings f = sample_settings \<Longrightarrow> fc_Type f = TypeEmail \<Longrightarrow> merged toy_json toy_channel_input f = sample_settings"
  by (simp add: merged_def toy_json_ok toy_channel_input_def Merge_def merge_field_def) (simp add: sample_settings_def as_string_def Marker_def)

theorem channels_refine_witness:
  "\<exists>v y' f. Channels_Create toy_json some_draws ''c9'' ''g9'' ''u9'' toy_boss toy_channel_input (ss_sys toy_send) = (Inr v, y') \<and>
     vault_of toy_json (Channels (db y')) ''c9'' = Some f \<and> fc_Settings f = sample_settings \<and>
     vault_of toy_json (Channels (db y')) ''c1'' = vault_of toy_json (Channels (db (ss_sys toy_send))) ''c1''"
proof -
  obtain v y' where c: "Channels_Create toy_json some_draws ''c9'' ''g9'' ''u9'' toy_boss toy_channel_input (ss_sys toy_send) = (Inr v, y')"
    using toy_create by blast
  have st: "\<forall>st. cn_Settings toy_channel_input = Some st \<longrightarrow> reads_back toy_json st" using toy_json_ok(3) by (simp add: toy_channel_input_def)
  have mg: "\<forall>f. vault_of toy_json (Channels (db (ss_sys toy_send))) ''c1'' = Some f \<longrightarrow> reads_back toy_json (merged toy_json toy_channel_input f)"
    using toy_vault toy_merged toy_json_ok(3) by fastforce
  from channels_refine [OF toy_json_ok(1) some_draws_good toy_send_wf st mg, of "''c9''" toy_boss "''g9''" "''u9''"] c show ?thesis
    by (simp add: Let_def refined_def vault_create_def toy_channel_input_def)
qed

end
