(* ===== verification/Startup.thy ===== *)
theory Startup
  imports ChannelsRefine
begin

text \<open>
  The managed channel across starts: running the preparation again with the same configuration finds
  everything in place.
\<close>

lemma find_Some_in: "find P xs = Some x \<Longrightarrow> x \<in> set xs \<and> P x"
  by (induction xs) (auto split: if_splits)

lemma ManagedChannel_find:
  assumes "wf_store m" and "ManagedChannel tid m = (Inr row, m')"
  obtains c where "map_of (Channels m) (ch_ID c) = Some c" "ch_TenantID c = tid" "ch_Managed c"
    "row = c\<lparr>ch_TemplateCount := templateCount m (ch_ID c)\<rparr>" "m' = m"
proof -
  let ?f = "find (\<lambda>c. ch_TenantID c = tid \<and> ch_Managed c) (rows (Channels m))"
  have e: "(case ?f of None \<Rightarrow> (Inl Store_ErrNotFound, m) | Some c \<Rightarrow> (Inr (c\<lparr>ch_TemplateCount := templateCount m (ch_ID c)\<rparr>), m)) = (Inr row, m')"
    using assms(2) unfolding ManagedChannel_def with_fail_Inr by blast
  then have "?f \<noteq> None" by (metis Inl_Inr_False option.case(1) prod.inject)
  then obtain c where f: "?f = Some c" by blast
  have r: "row = c\<lparr>ch_TemplateCount := templateCount m (ch_ID c)\<rparr>" "m' = m" using e [unfolded f option.case prod.inject sum.inject] by metis+
  from find_Some_in [OF f] have c: "c \<in> set (rows (Channels m))" "ch_TenantID c = tid" "ch_Managed c" by simp_all
  then obtain k where k: "(k, c) \<in> set (Channels m)" by (auto simp: rows_def)
  have t: "wf_table ch_ID (Channels m)" using assms(1) by (simp add: wf_store_def wf_defs)
  then have "ch_ID c = k" using k by (auto simp: wf_table_def list_all_iff)
  then have "map_of (Channels m) (ch_ID c) = Some c" using k t by (simp add: wf_table_def)
  with c r show thesis using that by blast
qed

text \<open>The managed channel of a tenant is the only one, so finding it finds this one.\<close>

lemma ManagedChannel_is:
  assumes "wf_store m" and "healthy m" and "map_of (Channels m) k = Some c" and "ch_TenantID c = tid" and "ch_Managed c"
  shows "ManagedChannel tid m = (Inr (c\<lparr>ch_TemplateCount := templateCount m k\<rparr>), m)"
proof -
  have t: "wf_table ch_ID (Channels m)" "no_clash channel_clash (Channels m)" using assms(1) by (simp_all add: wf_store_def wf_defs)
  have k: "(k, c) \<in> set (Channels m)" "ch_ID c = k" using assms(3) t(1) by (auto dest: map_of_SomeD wf_table_lookup)
  have "find (\<lambda>c. ch_TenantID c = tid \<and> ch_Managed c) (rows (Channels m)) \<noteq> None"
  proof
    assume "find (\<lambda>c. ch_TenantID c = tid \<and> ch_Managed c) (rows (Channels m)) = None"
    moreover have "c \<in> set (rows (Channels m))" using k(1) by (force simp: rows_def)
    ultimately show False using assms(4,5) unfolding find_None_iff by blast
  qed
  then obtain d where d: "find (\<lambda>c. ch_TenantID c = tid \<and> ch_Managed c) (rows (Channels m)) = Some d" by blast
  from find_Some_in [OF d] have "d \<in> set (rows (Channels m))" "ch_TenantID d = tid" "ch_Managed d" by simp_all
  then obtain l where l: "(l, d) \<in> set (Channels m)" by (auto simp: rows_def)
  then have "l = k" using no_clashD [OF t(2) l k(1)] assms(4,5) \<open>ch_TenantID d = tid\<close> \<open>ch_Managed d\<close> by (simp add: channel_clash_def)
  then have "d = c" using l k(1) t(1) by (auto simp: wf_table_def dest: eq_key_imp_eq_value)
  with d k(2) assms(2) show ?thesis by (simp add: ManagedChannel_def)
qed

text \<open>The managed channel is in place for the settings.\<close>

definition in_place :: "channels_env \<Rightarrow> string \<Rightarrow> settings \<Rightarrow> memstore \<Rightarrow> bool" where
  "in_place ce tid want m \<longleftrightarrow> (\<exists>k c. map_of (Channels m) k = Some c \<and> ch_TenantID c = tid \<and> ch_Managed c \<and> ch_Enabled c \<and>
     ch_IsDefault c \<and> ch_Name c = PlatformChannelName \<and> Channels_open ce c = Inr want)"

lemma sealed_encodes: "Channels_seal ce dr i ty st = Inr (blob, public) \<Longrightarrow> \<exists>b. Encode (ce_Marshal ce) st = Inr b"
  by (auto simp: Channels_seal_def split: sum.splits)

lemma platform_create_in_place:
  assumes "aead_correct (ce_Cipher ce)" and "good_draws dr" and "reads_back ce want"
    and "platform_create ce dr newID uid tid want y = (Inr r, y')"
  shows "in_place ce tid want (db y') \<and> (\<exists>b. Encode (ce_Marshal ce) want = Inr b)"
proof -
  from assms(4) obtain blob public m1 m2 m3 where seal: "Channels_seal ce dr newID TypeEmail want = Inr (blob, public)"
    and i: "InsertChannel (platform_row newID tid blob public) m1 = (Inr (), m2)"
    and u: "SetTenantUse uid tid newID True m2 = (Inr (), m3)" and y': "db y' = m3"
    by (auto simp: platform_create_def bindE_Inr_iff liftSum_def with_db_Inr Atomic_Inr emitE_def returnE_def)
  have "Channels m3 = Channels m2" using grants_only(3) [of uid tid newID True m2] u by simp
  then have row: "map_of (Channels m3) newID = Some ((platform_row newID tid blob public)\<lparr> ch_CreatedAt := Now m1, ch_UpdatedAt := Now m1 \<rparr>)"
    using InsertChannel_Inr [OF i] by (simp add: table_simps platform_row_def)
  have "Channels_open ce ((platform_row newID tid blob public)\<lparr> ch_CreatedAt := Now m1, ch_UpdatedAt := Now m1 \<rparr>) = Inr want"
    by (rule sealed_opens [OF assms(1,3,2) seal]) (simp_all add: platform_row_def)
  with row y' sealed_encodes [OF seal] show ?thesis
    by (auto simp: in_place_def platform_row_def intro!: exI [of _ newID])
qed

lemma UpdateChannel_row:
  assumes "UpdateChannel row m = (Inr (), m')" and "map_of (Channels m) (ch_ID row) = Some old"
  shows "map_of (Channels m') (ch_ID row) = Some (old\<lparr> ch_Name := ch_Name row, ch_SettingsSealed := ch_SettingsSealed row,
     ch_SettingsPublic := ch_SettingsPublic row, ch_Enabled := ch_Enabled row, ch_IsDefault := ch_IsDefault row,
     ch_UpdatedBy := ch_UpdatedBy row, ch_UpdatedAt := Now m \<rparr>)"
  using assms by (auto simp: UpdateChannel_def with_fail_Inr Let_def table_simps split: if_splits)

lemma platform_update_in_place:
  assumes "aead_correct (ce_Cipher ce)" and "good_draws dr" and "reads_back ce want" and "wf_store (db y)"
    and "map_of (Channels (db y)) (ch_ID c) = Some c" and "ch_TenantID c = tid" and "ch_Managed c"
    and "\<not> (sameSettings ce (c\<lparr>ch_TemplateCount := n\<rparr>) want \<and> ch_Enabled c \<and> ch_IsDefault c \<and> ch_Name c = PlatformChannelName)"
    and "platform_update ce dr uid tid (c\<lparr>ch_TemplateCount := n\<rparr>) want y = (Inr r, y')"
  shows "in_place ce tid want (db y') \<and> (\<exists>b. Encode (ce_Marshal ce) want = Inr b)"
proof -
  let ?i = "ch_ID c"
  from assms(8,9) obtain blob public m1 m2 m3 where seal: "Channels_seal ce dr ?i TypeEmail want = Inr (blob, public)"
    and mv: "(if \<not> ch_IsDefault c then moveDefault tid TypeEmail ?i else returnE ()) (db y) = (Inr (), m1)"
    and i: "UpdateChannel (c\<lparr> ch_TemplateCount := n, ch_Name := PlatformChannelName, ch_SettingsSealed := blob,
       ch_SettingsPublic := Some public, ch_Enabled := True, ch_IsDefault := True, ch_UpdatedBy := None \<rparr>) m1 = (Inr (), m2)"
    and u: "(if \<not> ch_IsDefault c then SetTenantUse uid tid ?i True else returnE ()) m2 = (Inr (), m3)" and y': "db y' = m3"
    by (auto simp: platform_update_def bindE_Inr_iff liftSum_def with_db_Inr Atomic_Inr emitE_def returnE_def split: if_splits)
  have "Channels m3 = Channels m2" using grants_only(3) [of uid tid ?i True m2] u by (auto simp: returnE_def split: if_splits)
  have "\<exists>b. map_of (Channels (db y)) ?i = Some (c\<lparr>ch_IsDefault := b\<rparr>)" using assms(5) by (intro exI [of _ "ch_IsDefault c"]) simp
  from keepsD [OF keeps_row this mv] obtain b where "map_of (Channels m1) ?i = Some (c\<lparr>ch_IsDefault := b\<rparr>)" by blast
  from UpdateChannel_row [OF i] this \<open>Channels m3 = Channels m2\<close>
  have row: "map_of (Channels m3) ?i = Some (c\<lparr> ch_Name := PlatformChannelName, ch_SettingsSealed := blob, ch_SettingsPublic := Some public,
     ch_Enabled := True, ch_IsDefault := True, ch_UpdatedBy := None, ch_UpdatedAt := Now m1 \<rparr>)" (is "_ = Some ?row") by simp
  have "Channels_open ce ?row = Inr want" by (rule sealed_opens [OF assms(1,3,2) seal]) simp_all
  with row y' sealed_encodes [OF seal] assms(6,7) show ?thesis by (auto simp: in_place_def intro!: exI [of _ ?i])
qed

lemma in_place_unchanged:
  assumes "in_place ce tid (platform_settings p) (db y)" and "Encode (ce_Marshal ce) (platform_settings p) = Inr b"
    and "wf_store (db y)" and "healthy (db y)"
    and "Channels_provider ce (platform_row '''' '''' '''' '''') = Inr prov" and "pv_Validate prov (platform_settings p) = None"
  shows "EnsurePlatformChannel ce dr newID uid tid (Some p) y = (Inr PlatformUnchanged, y)"
proof -
  from assms(1) obtain k c where c: "map_of (Channels (db y)) k = Some c" "ch_TenantID c = tid" "ch_Managed c" "ch_Enabled c" "ch_IsDefault c"
    "ch_Name c = PlatformChannelName" "Channels_open ce c = Inr (platform_settings p)" by (auto simp: in_place_def)
  let ?c = "c\<lparr>ch_TemplateCount := templateCount (db y) k\<rparr>"
  have "with_db (ManagedChannel tid) y = (Inr ?c, y)" using ManagedChannel_is [OF assms(3,4) c(1,2,3)] by (simp add: with_db_def)
  moreover have "Channels_open ce ?c = Inr (platform_settings p)" using c(7) Channels_open_sel [of ?c c ce] by simp
  ultimately show ?thesis
    using c assms(2,5,6)
    by (simp add: EnsurePlatformChannel_def found_or_absent_def bindE_def liftSum_def checkE_def returnE_def Let_def platform_update_def sameSettings_def)
qed

text \<open>Without a relay in the configuration the managed channel, if there is one, is switched off.\<close>

lemma ManagedChannel_read: "snd (ManagedChannel tid m) = m"
  by (simp add: ManagedChannel_def with_fail_def split: option.split)

lemma found_frame: "found_or_absent (with_db (ManagedChannel tid)) y = (Inr found, y1) \<Longrightarrow> y1 = y"
  using with_db_read [of "ManagedChannel tid" y, OF ManagedChannel_read]
  by (auto simp: found_or_absent_def split: sum.splits if_splits)

lemma found_row:
  "found_or_absent (with_db (ManagedChannel tid)) y = (Inr (Some row), y1) \<Longrightarrow> ManagedChannel tid (db y) = (Inr row, db y)"
  using with_db_read [of "ManagedChannel tid" y, OF ManagedChannel_read] ManagedChannel_read [of tid "db y"]
  by (cases "ManagedChannel tid (db y)") (auto simp: found_or_absent_def split: sum.splits if_splits)

lemma switched_off:
  assumes "wf_store (db y)" and "wf_store (db y')" and "healthy (db y')" and "EnsurePlatformChannel ce dr newID uid tid None y = (Inr r, y')"
  shows "EnsurePlatformChannel ce' dr' newID' uid' tid None y' = (Inr PlatformAbsent, y')"
proof -
  from assms(4) obtain found where f: "found_or_absent (with_db (ManagedChannel tid)) y = (Inr found, y)"
    and d: "platform_disable tid found y = (Inr r, y')" by (auto simp: EnsurePlatformChannel_def bindE_Inr_iff dest: found_frame)
  show ?thesis
  proof (cases "\<exists>row. found = Some row \<and> ch_Enabled row")
    case False
    then have "platform_disable tid found y = (Inr PlatformAbsent, y)" by (auto simp: platform_disable_def returnE_def split: option.split)
    with d f show ?thesis by (simp add: EnsurePlatformChannel_def bindE_def)
  next
    case True
    then obtain row where row: "found = Some row" "ch_Enabled row" by blast
    obtain c where c: "map_of (Channels (db y)) (ch_ID c) = Some c" "ch_TenantID c = tid" "ch_Managed c"
      "row = c\<lparr>ch_TemplateCount := templateCount (db y) (ch_ID c)\<rparr>"
      using ManagedChannel_find [OF assms(1) found_row [OF f [unfolded row(1)]]] by blast
    from d row obtain m where up: "UpdateChannel (row\<lparr>ch_Enabled := False\<rparr>) (db y) = (Inr (), m)" and y': "db y' = m"
      by (auto simp: platform_disable_def bindE_Inr_iff with_db_Inr emitE_def returnE_def)
    from UpdateChannel_row [OF up, of c] c(1,4) obtain c' where c': "map_of (Channels (db y')) (ch_ID c) = Some c'"
      "ch_TenantID c' = tid" "ch_Managed c'" "\<not> ch_Enabled c'" using c(2,3) y' by simp
    have "with_db (ManagedChannel tid) y' = (Inr (c'\<lparr>ch_TemplateCount := templateCount (db y') (ch_ID c)\<rparr>), y')"
      using ManagedChannel_is [OF assms(2,3) c'(1-3)] by (simp add: with_db_def)
    with c'(4) show ?thesis by (simp add: EnsurePlatformChannel_def bindE_def found_or_absent_def platform_disable_def returnE_def)
  qed
qed

text \<open>
  C23. Starting again with the same configuration changes nothing: after a successful run, a second one
  finds the managed channel in place with the configured settings (or switched off, without a
  relay), whatever it draws, and leaves the whole service as it is.
\<close>

theorem platform_settles:
  assumes "aead_correct (ce_Cipher ce)" and "good_draws dr" and "\<forall>p. pe = Some p \<longrightarrow> reads_back ce (platform_settings p)"
    and "wf_store (db y)" and "EnsurePlatformChannel ce dr newID uid tid pe y = (Inr r, y')" and "wf_store (db y')" and "healthy (db y')"
  shows "EnsurePlatformChannel ce dr' newID' uid' tid pe y' = (Inr (if pe = None then PlatformAbsent else PlatformUnchanged), y')"
proof (cases pe)
  case None
  with switched_off [OF assms(4,6,7)] assms(5) show ?thesis by simp
next
  case (Some p)
  let ?want = "platform_settings p"
  from assms(5) Some obtain found where f: "found_or_absent (with_db (ManagedChannel tid)) y = (Inr found, y)"
    by (auto simp: EnsurePlatformChannel_def bindE_Inr_iff dest: found_frame)
  obtain prov where prov: "Channels_provider ce (platform_row '''' '''' '''' '''') = Inr prov" "pv_Validate prov ?want = None"
    and run: "(case found of None \<Rightarrow> platform_create ce dr newID uid tid ?want | Some row \<Rightarrow> platform_update ce dr uid tid row ?want) y = (Inr r, y')"
    using assms(5) Some f
    by (cases "Channels_provider ce (platform_row '''' '''' '''' '''')"; cases "pv_Validate (projr (Channels_provider ce (platform_row '''' '''' '''' ''''))) ?want")
      (auto simp: EnsurePlatformChannel_def bindE_def liftSum_def checkE_def failE_def returnE_def Let_def)
  have rb: "reads_back ce ?want" using assms(3) Some by blast
  show ?thesis
  proof (cases "found = None")
    case True
    with run have "platform_create ce dr newID uid tid ?want y = (Inr r, y')" by simp
    from platform_create_in_place [OF assms(1,2) rb this] obtain b where "in_place ce tid ?want (db y')" "Encode (ce_Marshal ce) ?want = Inr b" by blast
    from in_place_unchanged [OF this assms(6,7) prov] Some show ?thesis by simp
  next
    case False
    then obtain row where row: "found = Some row" by blast
    obtain c where c: "map_of (Channels (db y)) (ch_ID c) = Some c" "ch_TenantID c = tid" "ch_Managed c"
      "row = c\<lparr>ch_TemplateCount := templateCount (db y) (ch_ID c)\<rparr>"
      using ManagedChannel_find [OF assms(4) found_row [OF f [unfolded row]]] by blast
    show ?thesis
    proof (cases "sameSettings ce row ?want \<and> ch_Enabled c \<and> ch_IsDefault c \<and> ch_Name c = PlatformChannelName")
      case True
      with run row c(4) have "y' = y" "platform_update ce dr' uid' tid row ?want y = (Inr PlatformUnchanged, y)"
        by (simp_all add: platform_update_def returnE_def)
      with f row prov Some show ?thesis by (simp add: EnsurePlatformChannel_def bindE_def liftSum_def checkE_def returnE_def Let_def)
    next
      case False
      from platform_update_in_place [OF assms(1,2) rb assms(4) c(1-3), of "templateCount (db y) (ch_ID c)" uid r y'] False run row c(4)
      obtain b where "in_place ce tid ?want (db y')" "Encode (ce_Marshal ce) ?want = Inr b" by auto
      from in_place_unchanged [OF this assms(6,7) prov] Some show ?thesis by simp
    qed
  qed
qed

section \<open>Examples\<close>

definition toy_relay :: platform_email where
  "toy_relay = \<lparr> pe_Host = ''mx'', pe_Port = 587, pe_TLS = '''', pe_Username = '''', pe_Password = '''', pe_From = ''a@b'', pe_ReplyTo = '''' \<rparr>"

definition toy_start :: channels_env where
  "toy_start = toy_json\<lparr> ce_Marshal := (\<lambda>_. Inr ''S''), ce_Unmarshal := (\<lambda>_. Some (platform_settings toy_relay)) \<rparr>"

definition toy_empty :: sys where "toy_empty = \<lparr> db = empty_store, aud = None, live = [] \<rparr>"

lemma toy_start_ok:
  "aead_correct (ce_Cipher toy_start)" "reads_back toy_start (platform_settings toy_relay)" "wf_store (db toy_empty)"
  "\<exists>prov. Channels_provider toy_start (platform_row '''' '''' '''' '''') = Inr prov \<and> pv_Validate prov (platform_settings toy_relay) = None"
  subgoal by (simp add: toy_start_def toy_json_def plain_aead_ok)
  subgoal by (simp add: reads_back_def toy_start_def)
  subgoal by (simp add: toy_empty_def wf_empty_store)
  subgoal
  proof -
    have "Channels_provider toy_start (platform_row '''' '''' '''' '''') = Inr (email_provider sample_env)"
      using toy_provider [of "platform_row '''' '''' '''' ''''"] by (simp add: Channels_provider_def toy_start_def toy_json_def toy_channels_def)
    moreover have "pv_Validate (email_provider sample_env) (platform_settings toy_relay) = None" by code_simp
    ultimately show ?thesis by blast
  qed
  done

lemma toy_platform_run:
  "\<exists>r y'. EnsurePlatformChannel toy_start some_draws ''c1'' ''u1'' ''p1'' (Some toy_relay) toy_empty = (Inr r, y') \<and> wf_store (db y') \<and> healthy (db y')"
proof -
  obtain prov where prov: "Channels_provider toy_start (platform_row '''' '''' '''' '''') = Inr prov" "pv_Validate prov (platform_settings toy_relay) = None"
    using toy_start_ok(4) by blast
  obtain blob public where seal: "Channels_seal toy_start some_draws ''c1'' TypeEmail (platform_settings toy_relay) = Inr (blob, public)"
  proof -
    have e: "Encode (ce_Marshal toy_start) st = Inr ''S''" for st by (simp add: Encode_def toy_start_def MaxSettingsBytes_def)
    obtain blob where "Seal (ce_Cipher toy_start) (dr_DEK some_draws) (dr_N1 some_draws) (dr_N2 some_draws) (ce_KEK toy_start) ''S'' (AD ''c1'') = Inr blob"
    proof (rule reseal [OF toy_start_ok(1) some_draws_good])
      show "length ''S'' \<le> MaxSettingsBytes" by (simp add: MaxSettingsBytes_def)
    qed
    with e that show thesis by (simp add: Channels_seal_def)
  qed
  have "\<exists>m. Atomic (bindE (moveDefault ''p1'' TypeEmail ''c1'') (\<lambda>_. bindE (InsertChannel (platform_row ''c1'' ''p1'' blob public)) (\<lambda>_.
      SetTenantUse ''u1'' ''p1'' ''c1'' True))) empty_store = (Inr (), m) \<and> wf_store m \<and> healthy m"
    by (simp add: eval_ops Atomic_def empty_store_def moveDefault_def ListChannels_def ClearDefaultChannel_def map_rows_def InsertChannel_def
        SetTenantUse_def UpsertGrant_def platform_row_def healthy_def wf_store_def wf_defs wf_table_def no_clash_def categories_ok_def)
  then obtain m where tx: "Atomic (bindE (moveDefault ''p1'' TypeEmail ''c1'') (\<lambda>_. bindE (InsertChannel (platform_row ''c1'' ''p1'' blob public)) (\<lambda>_.
      SetTenantUse ''u1'' ''p1'' ''c1'' True))) (db toy_empty) = (Inr (), m)" "wf_store m" "healthy m" by (auto simp: toy_empty_def)
  have found: "found_or_absent (with_db (ManagedChannel ''p1'')) toy_empty = (Inr None, toy_empty)"
    by (simp add: found_or_absent_def with_db_def ManagedChannel_def with_fail_def errors_Is_def toy_empty_def empty_store_def rows_def)
  have au: "emit e (toy_empty\<lparr>db := m\<rparr>) = toy_empty\<lparr>db := m\<rparr>" for e by (simp add: emit_def toy_empty_def)
  show ?thesis
    using tx by (simp add: EnsurePlatformChannel_def platform_create_def bindE_def found prov seal liftSum_def checkE_def returnE_def Let_def
        with_db_def emitE_def au)
qed

theorem platform_settles_witness:
  "\<exists>r y'. EnsurePlatformChannel toy_start some_draws ''c1'' ''u1'' ''p1'' (Some toy_relay) toy_empty = (Inr r, y') \<and>
     EnsurePlatformChannel toy_start some_draws ''c2'' ''u2'' ''p1'' (Some toy_relay) y' = (Inr PlatformUnchanged, y')"
proof -
  obtain r y' where e: "EnsurePlatformChannel toy_start some_draws ''c1'' ''u1'' ''p1'' (Some toy_relay) toy_empty = (Inr r, y')"
    and w: "wf_store (db y')" "healthy (db y')" using toy_platform_run by blast
  have rb: "\<forall>p. Some toy_relay = Some p \<longrightarrow> reads_back toy_start (platform_settings p)" using toy_start_ok(2) by simp
  from platform_settles [OF toy_start_ok(1) some_draws_good rb toy_start_ok(3) e w, of some_draws "''c2''" "''u2''"] e show ?thesis by simp
qed

end
