(* ===== verification/Config.thy ===== *)
theory Config
  imports SendSvc "HOL-Library.Word"
begin

unbundle bit_operations_syntax

text \<open>
  The configuration (\<open>internal/config/config.go\<close>) and the preparation of central email at start
  (\<open>internal/app/systememail.go\<close>). The framework's own configuration is the record \<open>freya\<close> of what is
  read of it; the file system, the YAML decoder, the address parser, the URL parser and the check of
  service names are arguments.
\<close>

section \<open>The sections\<close>

record freya =
  fw_Validate :: "goerr option"
  fw_Production :: bool
  fw_MaxRequestBytes :: int
  fw_Warnings :: "string list"

record platform_conf =
  pc_Host :: string
  pc_Port :: int
  pc_TLS :: string
  pc_Username :: string
  pc_Password :: string
  pc_PasswordFile :: string
  pc_From :: string
  pc_ReplyTo :: string
  pc_AllowPlaintext :: bool

record db_conf =
  dc_DSN :: string
  dc_MigrateDSN :: string
  dc_MaxConns :: int

record valkey_conf =
  vk_Addresses :: "string list"
  vk_Username :: string
  vk_Password :: string
  vk_AllowPlaintext :: bool
  vk_CAFile :: string

record kek_conf =
  kk_Source :: string
  kk_Path :: string
  kk_Env :: string

record smtp_conf =
  sm_AllowPlaintext :: bool
  sm_DialTimeoutSeconds :: int

record scheduler_conf =
  sh_IntervalSeconds :: int
  sh_LeaseSeconds :: int

record task_conf =
  tk_Enabled :: bool
  tk_Service :: string

record gateway_conf =
  gw_Service :: string
  gw_Issuer :: string

record enroll_conf =
  en_Enabled :: bool
  en_EnrollURL :: string
  en_LCMGRPCTarget :: string
  en_TenantID :: string
  en_TokenFile :: string
  en_StateFile :: string
  en_Insecure :: bool

record limits_conf =
  lm_BackupMaxBytes :: int
  lm_SendPerTenantPerMinute :: int
  lm_SendPerSenderPerMinute :: int
  lm_StreamsPerUser :: int
  lm_StreamsPerTenant :: int
  lm_ReplayWindowSeconds :: int
  lm_SystemSendPerMinute :: int

record config =
  cg_Freya :: freya
  cg_DB :: db_conf
  cg_Valkey :: valkey_conf
  cg_KEK :: kek_conf
  cg_SMTP :: smtp_conf
  cg_Scheduler :: scheduler_conf
  cg_TaskScheduler :: task_conf
  cg_Gateway :: gateway_conf
  cg_Enroll :: enroll_conf
  cg_Limits :: limits_conf
  cg_PlatformEmail :: "platform_conf option"
  cg_PlatformTenantID :: string

definition DefaultPlatformTenantID :: string where
  "DefaultPlatformTenantID = ''00000000-0000-0000-0000-000000000001''"

section \<open>The platform relay\<close>

definition Mode :: "platform_conf \<Rightarrow> string" where
  "Mode p = (if pc_TLS p = '''' then ''starttls'' else pc_TLS p)"

text \<open>What the file system says of a path: nothing, or whether it is a regular file, its permission bits
  and its content when it can be read.\<close>

record file_info =
  fi_Regular :: bool
  fi_Perm :: "32 word"
  fi_Content :: "string option"

type_synonym files = "string \<Rightarrow> file_info option"

fun octal :: "nat \<Rightarrow> string" where
  "octal n = (if n < 8 then [char_of (48 + n)] else octal (n div 8) @ [char_of (48 + n mod 8)])"

definition octal4 :: "nat \<Rightarrow> string" where
  "octal4 n = (let d = octal n in replicate (4 - length d) (CHR ''0'') @ d)"

definition TrimSuffix :: "string \<Rightarrow> string \<Rightarrow> string" where
  "TrimSuffix s p = (if suffix p s then take (length s - length p) s else s)"

definition ReadPassword :: "files \<Rightarrow> platform_conf \<Rightarrow> goerr + string" where
  "ReadPassword fs p =
     (if pc_PasswordFile p = '''' then Inr ''''
      else case fs (pc_PasswordFile p) of
        None \<Rightarrow> Inl (Config_Err ''config: platform_email.password_file is not a readable file'')
      | Some fi \<Rightarrow>
          if \<not> fi_Regular fi then Inl (Config_Err ''config: platform_email.password_file is not a readable file'')
          else if fi_Perm fi AND NOT 416 \<noteq> 0
          then Inl (Config_Err (''config: platform_email.password_file must have mode 0640 or stricter (has '' @ octal4 (unat (fi_Perm fi)) @ '')''))
          else case fi_Content fi of
            None \<Rightarrow> Inl (Config_Err ''config: platform_email.password_file is not a readable file'')
          | Some raw \<Rightarrow>
              let pw = TrimSuffix (TrimSuffix raw [CHR 0x0A]) [CHR 0x0D] in
              if pw = '''' then Inl (Config_Err ''config: platform_email.password_file is empty'') else Inr pw)"

definition check_mode :: "platform_conf \<Rightarrow> goerr option" where
  "check_mode p =
     (if Mode p \<in> {''implicit'', ''starttls''} then None
      else if Mode p = ''none'' then
        (if \<not> pc_AllowPlaintext p
         then Some (Config_Err ''config: platform_email.tls none requires platform_email.allow_plaintext: true (mail would travel unencrypted)'')
         else if pc_Username p \<noteq> ''''
         then Some (Config_Err ''config: platform_email.username is refused with tls none (credentials are never sent unencrypted)'')
         else None)
      else Some (Config_Err ''config: platform_email.tls must be implicit, starttls or none''))"

definition PlatformEmail_validate :: "mail_parser \<Rightarrow> files \<Rightarrow> platform_conf \<Rightarrow> goerr option" where
  "PlatformEmail_validate parse_mail fs p =
     (if pc_Password p \<noteq> ''''
      then Some (Config_Err ''config: platform_email.password is not accepted: use password_file (a mounted secret file)'')
      else if pc_Host p = '''' \<or> length (pc_Host p) > 253 \<or> ContainsAny (pc_Host p) ('' /'' @ [CHR 0x5C, CHR 0x0D, CHR 0x0A, CHR 0x09])
      then Some (Config_Err ''config: platform_email.host is required (the relay host name its certificate carries)'')
      else if pc_Port p < 1 \<or> pc_Port p > 65535
      then Some (Config_Err ''config: platform_email.port must be within [1, 65535]'')
      else case check_mode p of
        Some e \<Rightarrow> Some e
      | None \<Rightarrow>
          if pc_Username p \<noteq> '''' \<and> pc_PasswordFile p = ''''
          then Some (Config_Err ''config: platform_email.password_file is required with platform_email.username'')
          else if pc_Username p = '''' \<and> pc_PasswordFile p \<noteq> ''''
          then Some (Config_Err ''config: platform_email.username is required with platform_email.password_file'')
          else if (case parse_mail (pc_From p) of Inl _ \<Rightarrow> True | Inr a \<Rightarrow> a = '''') \<or> length (pc_From p) > 320
          then Some (Config_Err ''config: platform_email.from must be one address'')
          else if pc_ReplyTo p \<noteq> '''' \<and> (isl (parse_mail (pc_ReplyTo p)) \<or> length (pc_ReplyTo p) > 320)
          then Some (Config_Err ''config: platform_email.reply_to must be one address'')
          else case ReadPassword fs p of Inl e \<Rightarrow> Some e | Inr _ \<Rightarrow> None)"

section \<open>Defaults, loading and validation\<close>

definition Default :: "freya \<Rightarrow> config" where
  "Default fw = \<lparr> cg_Freya = fw, cg_DB = \<lparr> dc_DSN = '''', dc_MigrateDSN = '''', dc_MaxConns = 16 \<rparr>,
     cg_Valkey = \<lparr> vk_Addresses = [], vk_Username = '''', vk_Password = '''', vk_AllowPlaintext = False, vk_CAFile = '''' \<rparr>,
     cg_KEK = \<lparr> kk_Source = ''file'', kk_Path = '''', kk_Env = '''' \<rparr>,
     cg_SMTP = \<lparr> sm_AllowPlaintext = False, sm_DialTimeoutSeconds = 30 \<rparr>,
     cg_Scheduler = \<lparr> sh_IntervalSeconds = 15, sh_LeaseSeconds = 60 \<rparr>,
     cg_TaskScheduler = \<lparr> tk_Enabled = False, tk_Service = ''scheduler'' \<rparr>,
     cg_Gateway = \<lparr> gw_Service = ''gateway'', gw_Issuer = '''' \<rparr>,
     cg_Enroll = \<lparr> en_Enabled = False, en_EnrollURL = '''', en_LCMGRPCTarget = '''', en_TenantID = '''', en_TokenFile = '''',
        en_StateFile = '''', en_Insecure = False \<rparr>,
     cg_Limits = \<lparr> lm_BackupMaxBytes = 16 * 2 ^ 20, lm_SendPerTenantPerMinute = 600, lm_SendPerSenderPerMinute = 60,
        lm_StreamsPerUser = 5, lm_StreamsPerTenant = 2000, lm_ReplayWindowSeconds = 300, lm_SystemSendPerMinute = 300 \<rparr>,
     cg_PlatformEmail = None, cg_PlatformTenantID = DefaultPlatformTenantID \<rparr>"

text \<open>\<open>read\<close> reads the file, \<open>decode\<close> lays the YAML document over a configuration; both fail with a text.\<close>

definition Load :: "freya \<Rightarrow> (string \<Rightarrow> string + string) \<Rightarrow> (string \<Rightarrow> config \<Rightarrow> string + config) \<Rightarrow> string \<Rightarrow> goerr + config" where
  "Load fw read decode path = (case read path of
      Inl e \<Rightarrow> Inl (Config_Err (''config: '' @ e))
    | Inr raw \<Rightarrow> (case decode raw (Default fw) of
          Inl e \<Rightarrow> Inl (Config_Err (''config: '' @ path @ '': '' @ e))
        | Inr cfg \<Rightarrow> Inr cfg))"

text \<open>The checks in their order; the first that does not hold gives the error.\<close>

definition first_broken :: "(bool \<times> string) list \<Rightarrow> goerr option" where
  "first_broken cs = (case find fst cs of None \<Rightarrow> None | Some (_, t) \<Rightarrow> Some (Config_Err t))"

definition section_checks :: "(string \<Rightarrow> bool) \<Rightarrow> (string \<Rightarrow> (string \<times> string) option) \<Rightarrow> config \<Rightarrow> (bool \<times> string) list" where
  "section_checks service_name parse_url c =
     (let prod = fw_Production (cg_Freya c); db = cg_DB c; vk = cg_Valkey c; kk = cg_KEK c; sm = cg_SMTP c;
          sh = cg_Scheduler c; lm = cg_Limits c in
      [(dc_DSN db = '''', ''config: db.dsn is required''),
       (prod \<and> \<not> Contains (dc_DSN db) ''sslmode=verify-full'' \<and> \<not> Contains (dc_DSN db) ''sslmode=verify-ca'',
          ''config: db.dsn must use sslmode=verify-full (or verify-ca) in production''),
       (vk_Addresses vk = [], ''config: valkey.addresses is required''),
       (prod \<and> vk_AllowPlaintext vk, ''config: valkey.allow_plaintext is not permitted in production''),
       (kk_Source kk = ''file'' \<and> kk_Path kk = '''', ''config: kek.path is required for kek.source file''),
       (kk_Source kk = ''env'' \<and> kk_Env kk = '''', ''config: kek.env is required for kek.source env''),
       (kk_Source kk \<notin> {''file'', ''env''}, ''config: kek.source must be file or env''),
       (prod \<and> sm_AllowPlaintext sm, ''config: smtp.allow_plaintext is not permitted in production''),
       (sm_DialTimeoutSeconds sm < 1 \<or> sm_DialTimeoutSeconds sm > 120, ''config: smtp.dial_timeout_seconds must be within [1, 120]''),
       (sh_IntervalSeconds sh < 1 \<or> sh_IntervalSeconds sh > 60, ''config: scheduler.interval_seconds must be within [1, 60]''),
       (sh_LeaseSeconds sh < sh_IntervalSeconds sh \<or> sh_LeaseSeconds sh > 600, ''config: scheduler.lease_seconds must be within [interval, 600]''),
       (gw_Service (cg_Gateway c) = '''', ''config: gateway.service is required''),
       (\<not> service_name (tk_Service (cg_TaskScheduler c)),
          ''config: task_scheduler.service must be a service name (the scheduler'' @ [CHR 0x27] @ ''s discovery name)''),
       ((case parse_url (gw_Issuer (cg_Gateway c)) of None \<Rightarrow> True | Some (scheme, host) \<Rightarrow> scheme \<noteq> ''https'' \<or> host = ''''),
          ''config: gateway.issuer must be an https origin''),
       (lm_BackupMaxBytes lm < 4 * 2 ^ 20 \<or> lm_BackupMaxBytes lm > 64 * 2 ^ 20,
          ''config: limits_notification.backup_max_bytes must be within [4 MiB, 64 MiB]''),
       (fw_MaxRequestBytes (cg_Freya c) < lm_BackupMaxBytes lm,
          ''config: limits.max_request_bytes must be at least limits_notification.backup_max_bytes (backup uploads)''),
       (lm_SendPerTenantPerMinute lm \<le> 0 \<or> lm_SendPerSenderPerMinute lm \<le> 0,
          ''config: limits_notification.send_per_*_per_minute must be positive''),
       (lm_StreamsPerUser lm \<le> 0 \<or> lm_StreamsPerTenant lm < lm_StreamsPerUser lm,
          ''config: limits_notification.streams_per_user must be positive and streams_per_tenant at least as large''),
       (lm_ReplayWindowSeconds lm < 60 \<or> lm_ReplayWindowSeconds lm > 3600,
          ''config: limits_notification.replay_window_seconds must be within [60, 3600]''),
       (lm_SystemSendPerMinute lm < 1 \<or> lm_SystemSendPerMinute lm > 10000,
          ''config: limits_notification.system_send_per_minute must be within [1, 10000]''),
       (\<not> uuidRE (cg_PlatformTenantID c), ''config: platform_tenant_id must be a uuid'')])"

definition Config_Validate ::
  "(string \<Rightarrow> bool) \<Rightarrow> (string \<Rightarrow> (string \<times> string) option) \<Rightarrow> mail_parser \<Rightarrow> files \<Rightarrow> config \<Rightarrow> goerr option" where
  "Config_Validate service_name parse_url parse_mail fs c = (case fw_Validate (cg_Freya c) of
      Some e \<Rightarrow> Some e
    | None \<Rightarrow> (case first_broken (section_checks service_name parse_url c) of
          Some e \<Rightarrow> Some e
        | None \<Rightarrow> (case cg_PlatformEmail c of
              None \<Rightarrow> None
            | Some p \<Rightarrow> PlatformEmail_validate parse_mail fs p)))"

definition Config_Warnings :: "config \<Rightarrow> string list" where
  "Config_Warnings c =
     (let w = fw_Warnings (cg_Freya c);
          w = (if vk_AllowPlaintext (cg_Valkey c) then w @ [''valkey.allow_plaintext: stream traffic without TLS (development only)''] else w);
          w = (if sm_AllowPlaintext (cg_SMTP c) then w @ [''smtp.allow_plaintext: channels may deliver mail without TLS (development only)''] else w)
      in case cg_PlatformEmail c of
           None \<Rightarrow> w
         | Some p \<Rightarrow> if pc_AllowPlaintext p
             then w @ [''platform_email.allow_plaintext: the platform relay may be reached without TLS (tls: '' @ Mode p @ '')''] else w)"

text \<open>\<open>time.Duration(n) * time.Second\<close> on 64 bits.\<close>

definition seconds :: "int \<Rightarrow> int" where
  "seconds n = sint (word_of_int n * word_of_int (10 ^ 9) :: 64 word)"

definition ReplayWindow :: "config \<Rightarrow> int" where "ReplayWindow c = seconds (lm_ReplayWindowSeconds (cg_Limits c))"
definition DialTimeout :: "config \<Rightarrow> int" where "DialTimeout c = seconds (sm_DialTimeoutSeconds (cg_SMTP c))"
definition SchedulerInterval :: "config \<Rightarrow> int" where "SchedulerInterval c = seconds (sh_IntervalSeconds (cg_Scheduler c))"
definition LeaseDuration :: "config \<Rightarrow> int" where "LeaseDuration c = seconds (sh_LeaseSeconds (cg_Scheduler c))"

section \<open>Central email at start (\<open>systememail.go\<close>)\<close>

definition relay_of :: "platform_conf \<Rightarrow> string \<Rightarrow> platform_email" where
  "relay_of p pw = \<lparr> pe_Host = pc_Host p, pe_Port = pc_Port p, pe_TLS = Mode p, pe_Username = pc_Username p, pe_Password = pw,
     pe_From = pc_From p, pe_ReplyTo = pc_ReplyTo p \<rparr>"

text \<open>
  The templates first, then the channel; no failure stops the start. The result is what is logged: the
  outcome of the seeding, and of the channel unless the password file cannot be used. The draws of the
  two steps are arguments.
\<close>

definition SeedSystemEmail ::
  "channels_env \<Rightarrow> draws \<Rightarrow> string \<Rightarrow> string \<Rightarrow> (string \<Rightarrow> string) \<Rightarrow> system_template list \<Rightarrow> files \<Rightarrow> config \<Rightarrow> sys \<Rightarrow>
     (seed_result \<times> goerr + platform_result) \<times> sys" where
  "SeedSystemEmail ce dr newID uid fresh builtins fs c y =
     (case EnsureSystemTemplates fresh builtins (cg_PlatformTenantID c) y of (res, y1) \<Rightarrow>
      case (case cg_PlatformEmail c of
              None \<Rightarrow> Inr None
            | Some p \<Rightarrow> (case ReadPassword fs p of Inl e \<Rightarrow> Inl e | Inr pw \<Rightarrow> Inr (Some (relay_of p pw)))) of
        Inl e \<Rightarrow> (Inl (res, e), y1)
      | Inr pe \<Rightarrow> (case EnsurePlatformChannel ce dr newID uid (cg_PlatformTenantID c) pe y1 of
            (Inl e, y2) \<Rightarrow> (Inl (res, e), y2)
          | (Inr r, y2) \<Rightarrow> (Inr r, y2)))"

section \<open>A validated configuration\<close>

lemma first_broken_None: "first_broken cs = None \<longleftrightarrow> (\<forall>x \<in> set cs. \<not> fst x)"
proof -
  have "first_broken cs = None \<longleftrightarrow> find fst cs = None" by (auto simp: first_broken_def split: option.split)
  then show ?thesis by (auto simp: find_None_iff)
qed

lemma seconds_exact: "0 \<le> n \<Longrightarrow> n \<le> 3600 \<Longrightarrow> seconds n = n * 10 ^ 9"
  unfolding seconds_def wi_hom_mult sint_sbintrunc' by (rule signed_take_bit_int_eq_self) simp_all

text \<open>
  The durations of a validated configuration are exact in 64 bits and within their bounds: the
  lease of a claimed message covers the interval between two rounds, the replay window is one minute
  to one hour, and connecting to a relay is bounded by two minutes.
\<close>

theorem durations_bounded:
  assumes "Config_Validate service_name parse_url parse_mail fs c = None"
  shows "10 ^ 9 \<le> SchedulerInterval c \<and> SchedulerInterval c \<le> LeaseDuration c \<and> LeaseDuration c \<le> 600 * 10 ^ 9 \<and>
    60 * 10 ^ 9 \<le> ReplayWindow c \<and> ReplayWindow c \<le> 3600 * 10 ^ 9 \<and> 10 ^ 9 \<le> DialTimeout c \<and> DialTimeout c \<le> 120 * 10 ^ 9"
proof -
  from assms have "\<forall>x \<in> set (section_checks service_name parse_url c). \<not> fst x"
    by (auto simp: Config_Validate_def first_broken_None split: option.splits)
  then have "1 \<le> sm_DialTimeoutSeconds (cg_SMTP c)" "sm_DialTimeoutSeconds (cg_SMTP c) \<le> 120"
    "1 \<le> sh_IntervalSeconds (cg_Scheduler c)" "sh_IntervalSeconds (cg_Scheduler c) \<le> sh_LeaseSeconds (cg_Scheduler c)"
    "sh_LeaseSeconds (cg_Scheduler c) \<le> 600" "60 \<le> lm_ReplayWindowSeconds (cg_Limits c)" "lm_ReplayWindowSeconds (cg_Limits c) \<le> 3600"
    by (simp_all add: section_checks_def Let_def not_less)
  then show ?thesis
    by (simp add: SchedulerInterval_def LeaseDuration_def ReplayWindow_def DialTimeout_def seconds_exact)
qed

text \<open>What the validation of a relay has established.\<close>

lemma validated_relay:
  assumes "PlatformEmail_validate parse_mail fs p = None" and "ReadPassword fs p = Inr pw"
  shows "pc_Host p \<noteq> ''''" "length (pc_Host p) \<le> 253" "\<not> ContainsAny (pc_Host p) ('' /'' @ [CHR 0x5C, CHR 0x0D, CHR 0x0A])"
    "1 \<le> pc_Port p" "pc_Port p \<le> 65535" "check_tls (pc_AllowPlaintext p) (Mode p) = Inr ()" "Mode p = ''none'' \<Longrightarrow> pc_Username p = ''''"
    "(pc_Username p = '''') = (pw = '''')" "Mode p \<noteq> ''''"
    "\<exists>a. one_address parse_mail ''from'' (pc_From p) = Inr a" "pc_ReplyTo p \<noteq> '''' \<Longrightarrow> \<exists>a. one_address parse_mail ''reply_to'' (pc_ReplyTo p) = Inr a"
proof -
  note v = assms(1) [unfolded PlatformEmail_validate_def]
  show "pc_Host p \<noteq> ''''" "length (pc_Host p) \<le> 253" "1 \<le> pc_Port p" "pc_Port p \<le> 65535"
    using v by (auto split: if_splits)
  have "\<not> ContainsAny (pc_Host p) ('' /'' @ [CHR 0x5C, CHR 0x0D, CHR 0x0A, CHR 0x09])" using v by (auto split: if_splits)
  then show "\<not> ContainsAny (pc_Host p) ('' /'' @ [CHR 0x5C, CHR 0x0D, CHR 0x0A])" by (auto simp: ContainsAny_def list_ex_iff)
  have m: "check_mode p = None" using v by (auto split: if_splits option.splits)
  then show "check_tls (pc_AllowPlaintext p) (Mode p) = Inr ()" "Mode p = ''none'' \<Longrightarrow> pc_Username p = ''''"
    by (auto simp: check_mode_def check_tls_def check_err_def split: if_splits)
  show "Mode p \<noteq> ''''" by (simp add: Mode_def)
  have "(pc_Username p = '''') = (pc_PasswordFile p = '''')" using v m by (auto split: if_splits)
  moreover have "(pc_PasswordFile p = '''') = (pw = '''')" using assms(2) by (auto simp: ReadPassword_def Let_def split: if_splits option.splits)
  ultimately show "(pc_Username p = '''') = (pw = '''')" by simp
  show "\<exists>a. one_address parse_mail ''from'' (pc_From p) = Inr a" "pc_ReplyTo p \<noteq> '''' \<Longrightarrow> \<exists>a. one_address parse_mail ''reply_to'' (pc_ReplyTo p) = Inr a"
    using v m by (auto simp: one_address_def split: if_splits sum.splits)
qed

lemma relay_settings:
  assumes "Mode p \<noteq> ''''"
  shows "str_setting (platform_settings (relay_of p pw)) ''host'' = Inr (pc_Host p, True)"
    "parse_port (platform_settings (relay_of p pw)) = Inr (pc_Port p)"
    "str_setting (platform_settings (relay_of p pw)) ''tls'' = Inr (Mode p, True)"
    "str_setting (platform_settings (relay_of p pw)) ''username'' = Inr (pc_Username p, pc_Username p \<noteq> '''')"
    "str_setting (platform_settings (relay_of p pw)) ''password'' = Inr (if pc_Username p = '''' then '''' else pw, pc_Username p \<noteq> '''')"
    "str_setting (platform_settings (relay_of p pw)) ''from'' = Inr (pc_From p, True)"
    "str_setting (platform_settings (relay_of p pw)) ''reply_to'' = Inr (pc_ReplyTo p, pc_ReplyTo p \<noteq> '''')"
  using assms by (auto simp: str_setting_def parse_port_def platform_settings_def relay_of_def Let_def)

text \<open>
  C24. A platform relay that passes the validation of the configuration is accepted by the email
  provider of the platform channel with the settings made of it, credentials and transport security
  unchanged, unless the user name or an address carries a control character: the configuration does
  not look for these, and the provider refuses them. Credentials never go with plaintext.
\<close>

theorem platform_conf_accepted:
  assumes "PlatformEmail_validate parse_mail fs p = None" and "ReadPassword fs p = Inr pw"
  shows "(case email_Parse parse_mail (pc_AllowPlaintext p) (platform_settings (relay_of p pw)) of
      Inr es \<Rightarrow> es_Host es = pc_Host p \<and> es_Port es = pc_Port p \<and> es_TLS es = Mode p \<and> es_Username es = pc_Username p \<and>
        es_Password es = pw \<and> (es_TLS es = ''none'' \<longrightarrow> es_Username es = '''')
    | Inl e \<Rightarrow> e = Email_ErrHeader \<and> \<not> list_all HeaderSafe [pc_Host p, pc_Username p, pc_From p, pc_ReplyTo p])"
proof -
  note v = validated_relay [OF assms]
  obtain a where a: "one_address parse_mail ''from'' (pc_From p) = Inr a" using v(10) by blast
  have r: "(if pc_ReplyTo p \<noteq> '''' then bind_err (one_address parse_mail ''reply_to'' (pc_ReplyTo p)) (\<lambda>_. Inr ()) else Inr ()) = Inr ()"
    using v(11) by (auto simp: bind_err_def)
  have pw: "(if pc_Username p = '''' then '''' else pw) = pw" using v(8) by auto
  have ok: "email_Parse parse_mail (pc_AllowPlaintext p) (platform_settings (relay_of p pw)) =
     bind_err (check_err (\<not> list_all HeaderSafe [pc_Host p, pc_Username p, pc_From p, pc_ReplyTo p]) Email_ErrHeader) (\<lambda>_.
     Inr \<lparr> es_Host = pc_Host p, es_Port = pc_Port p, es_TLS = Mode p, es_Username = pc_Username p, es_Password = pw,
       es_From = pc_From p, es_FromAddr = a, es_ReplyTo = pc_ReplyTo p \<rparr>)"
    unfolding email_Parse_def relay_settings [OF v(9)] pw
    using v(1-9) a r by (auto simp: bind_err_def check_err_def Let_def)
  show ?thesis unfolding ok using v(7) by (auto simp: bind_err_def check_err_def)
qed

section \<open>Examples\<close>

definition sample_conf :: config where
  "sample_conf = (Default \<lparr> fw_Validate = None, fw_Production = True, fw_MaxRequestBytes = 2 ^ 25, fw_Warnings = [] \<rparr>)\<lparr>
     cg_DB := \<lparr> dc_DSN = ''sslmode=verify-full'', dc_MigrateDSN = '''', dc_MaxConns = 16 \<rparr>,
     cg_Valkey := \<lparr> vk_Addresses = [''v''], vk_Username = '''', vk_Password = '''', vk_AllowPlaintext = False, vk_CAFile = '''' \<rparr>,
     cg_KEK := \<lparr> kk_Source = ''file'', kk_Path = ''/k'', kk_Env = '''' \<rparr> \<rparr>"

theorem durations_bounded_witness:
  "Config_Validate (\<lambda>_. True) (\<lambda>_. Some (''https'', ''h'')) (\<lambda>v. Inr v) (\<lambda>_. None) sample_conf = None \<and> ReplayWindow sample_conf \<le> 3600 * 10 ^ 9"
proof -
  have u: "uuidRE DefaultPlatformTenantID" by code_simp
  have "Config_Validate (\<lambda>_. True) (\<lambda>_. Some (''https'', ''h'')) (\<lambda>v. Inr v) (\<lambda>_. None) sample_conf = None"
    unfolding Config_Validate_def first_broken_def section_checks_def sample_conf_def Default_def Let_def using u by simp
  with durations_bounded [OF this] show ?thesis by blast
qed

definition sample_relay :: platform_conf where
  "sample_relay = \<lparr> pc_Host = ''mx'', pc_Port = 587, pc_TLS = '''', pc_Username = ''u'', pc_Password = '''', pc_PasswordFile = ''/p'',
     pc_From = ''a@b'', pc_ReplyTo = '''', pc_AllowPlaintext = False \<rparr>"

definition sample_files :: files where
  "sample_files = [''/p'' \<mapsto> \<lparr> fi_Regular = True, fi_Perm = 0x180, fi_Content = Some (''pw'' @ [CHR 0x0A]) \<rparr>]"

theorem platform_conf_accepted_witness:
  "\<exists>es. email_Parse (\<lambda>v. Inr v) False (platform_settings (relay_of sample_relay ''pw'')) = Inr es \<and> es_TLS es = ''starttls'' \<and> es_Password es = ''pw''"
proof -
  have r: "ReadPassword sample_files sample_relay = Inr ''pw''"
    by (simp add: ReadPassword_def sample_files_def sample_relay_def TrimSuffix_def Let_def suffix_to_prefix)
  then have v: "PlatformEmail_validate (\<lambda>v. Inr v) sample_files sample_relay = None"
    by (simp add: PlatformEmail_validate_def sample_relay_def check_mode_def Mode_def ContainsAny_def)
  have "list_all HeaderSafe [pc_Host sample_relay, pc_Username sample_relay, pc_From sample_relay, pc_ReplyTo sample_relay]"
    by code_simp
  with platform_conf_accepted [OF v r] show ?thesis
    by (auto simp: sample_relay_def Mode_def split: sum.splits)
qed

end
