(* ===== verification/ErrTexts.thy ===== *)
theory ErrTexts
  imports StreamClient
begin

text \<open>
  The texts of the errors (\<open>Error()\<close>), one function per package that declares them. Errors that come
  from outside the service carry their text; \<open>lq\<close> is the text of the list package's error for a
  parameter name.
\<close>

definition store_Error :: "goerr \<Rightarrow> string option" where
  "store_Error e = (case e of
      Store_ErrNotFound \<Rightarrow> Some ''store: not found''
    | Store_ErrConflict \<Rightarrow> Some ''store: conflict''
    | _ \<Rightarrow> None)"

definition authz_Error :: "goerr \<Rightarrow> string option" where
  "authz_Error e = (case e of
      Authz_ErrForbidden \<Rightarrow> Some ''authz: forbidden''
    | Authz_ErrNotFound \<Rightarrow> Some ''authz: resource not found''
    | Authz_ErrInput \<Rightarrow> Some ''authz: invalid input''
    | Authz_ErrAboveGranter \<Rightarrow> Some ''authz: forbidden: relation_above_granter''
    | _ \<Rightarrow> None)"

definition messages_Error :: "goerr \<Rightarrow> string option" where
  "messages_Error e = (case e of
      Messages_ErrState \<Rightarrow> Some ''messages: not allowed in this status''
    | Messages_ErrInUse \<Rightarrow> Some ''messages: category in use''
    | Messages_Validation msg _ \<Rightarrow> Some (''messages: '' @ msg)
    | _ \<Rightarrow> None)"

definition sealed_Error :: "goerr \<Rightarrow> string option" where
  "sealed_Error e = (case e of
      Sealed_ErrKEK \<Rightarrow> Some ''sealed: KEK must be 32 bytes''
    | Sealed_ErrTampered \<Rightarrow> Some ''sealed: ciphertext rejected''
    | Sealed_ErrTooLarge \<Rightarrow> Some ''sealed: settings exceed 8 KiB''
    | _ \<Rightarrow> None)"

definition stream_Error :: "goerr \<Rightarrow> string option" where
  "stream_Error e = (case e of
      Stream_ErrTooMany \<Rightarrow> Some ''stream: too many open streams''
    | Stream_ErrType \<Rightarrow> Some ''stream: invalid event type''
    | Stream_ErrPayload \<Rightarrow> Some ''stream: payload too large or not JSON-safe''
    | Stream_ErrTargets \<Rightarrow> Some ''stream: 1..1000 user ids or all=true''
    | Stream_ErrReserved \<Rightarrow> Some ''stream: reserved event type''
    | Stream_HubClosed \<Rightarrow> Some ''stream: hub closed''
    | _ \<Rightarrow> None)"

definition channel_Error :: "goerr \<Rightarrow> string option" where
  "channel_Error e = (case e of
      Channel_ErrNoProvider \<Rightarrow> Some ''channel: no provider for this type''
    | Channel_ErrRecipient \<Rightarrow> Some ''channel: invalid recipient''
    | Channel_ErrType \<Rightarrow> Some ''channel: unknown type''
    | _ \<Rightarrow> None)"

definition notify_Error :: "goerr \<Rightarrow> string option" where
  "notify_Error e = (case e of
      Notify_ErrChannelDisabled \<Rightarrow> Some ''notify: channel disabled''
    | Notify_ErrRateLimited \<Rightarrow> Some ''notify: rate limited''
    | Notify_ErrTypeMismatch \<Rightarrow> Some ''notify: channel type does not match the template''
    | Notify_ErrKeyNamespace \<Rightarrow> Some (''notify: template key outside the caller'' @ [CHR 0x27] @ ''s namespace'')
    | Notify_ErrUnknownKey \<Rightarrow> Some ''notify: unknown template key''
    | Notify_ErrEmailNotConfigured \<Rightarrow> Some ''notify: email not configured''
    | Notify_Validation msg _ \<Rightarrow> Some (''notify: '' @ msg)
    | Notify_InUse what n \<Rightarrow> Some (''notify: '' @ FormatInt (int n) @ '' '' @ what @ '' reference it'')
    | _ \<Rightarrow> None)"

definition templates_Error :: "goerr \<Rightarrow> string option" where
  "templates_Error e = (case e of
      Notify_ErrSystemTemplate \<Rightarrow> Some ''notify: system templates cannot be deleted''
    | Notify_ErrNotSystemTemplate \<Rightarrow> Some ''notify: not a system template''
    | Notify_ErrSystemTemplateField \<Rightarrow> Some ''notify: only subject and body of a system template can change''
    | Notify_MissingRequired v \<Rightarrow> Some (''notify: the template must reference '' @ v)
    | _ \<Rightarrow> None)"

definition platform_Error :: "goerr \<Rightarrow> string option" where
  "platform_Error e = (if e = Notify_ErrManagedChannel then Some ''notify: the channel is managed by configuration'' else None)"

definition transfer_Error :: "goerr \<Rightarrow> string option" where
  "transfer_Error e = (case e of
      Transfer_ErrTooLarge \<Rightarrow> Some ''transfer: document too large''
    | Transfer_ErrInvalid t \<Rightarrow> Some (''transfer: invalid document: '' @ t)
    | Transfer_ErrMode \<Rightarrow> Some ''transfer: mode must be skip or overwrite''
    | _ \<Rightarrow> None)"

text \<open>The text of any error: that of the package that declares it.\<close>

definition package_Error :: "goerr \<Rightarrow> string option" where
  "package_Error e = List.find (\<lambda>_. True) (List.map_filter (\<lambda>f. f e) [store_Error, authz_Error, messages_Error, sealed_Error,
     stream_Error, channel_Error, notify_Error, templates_Error, platform_Error, transfer_Error])"

definition Error_text :: "(string \<Rightarrow> string) \<Rightarrow> goerr \<Rightarrow> string" where
  "Error_text lq e = (case package_Error e of
      Some t \<Rightarrow> t
    | None \<Rightarrow> (case e of
          Outside_Err t \<Rightarrow> t
        | Audit_Err t \<Rightarrow> t
        | Config_Err t \<Rightarrow> t
        | Audit_ErrFilter \<Rightarrow> ''audit: invalid filter''
        | Inbox_ErrInput \<Rightarrow> ''inbox: invalid input''
        | List_Error p \<Rightarrow> lq p
        | _ \<Rightarrow> lq ''from''))"

end
