(* ===== verification/Backup.thy ===== *)
theory Backup
  imports TemplatesSvc ErrTexts
begin

text \<open>
  \<open>internal/transfer/backup.go\<close>: the export of a tenant's channels, templates and categories as one
  document, its bounded decoding, and the import with skip or overwrite. The JSON package, the schema
  validator and the ids and random draws of the services are arguments.
\<close>

section \<open>The document\<close>

record backup_channel =
  bc_Name :: string
  bc_Type :: string
  bc_Settings :: "settings option"
  bc_Enabled :: bool
  bc_IsDefault :: bool

record backup_template =
  bt_Name :: string
  bt_Channel :: string
  bt_ChannelType :: string
  bt_Subject :: string
  bt_Body :: string
  bt_Variables :: "string list option"
  bt_IsDefault :: bool

record backup_category =
  bg_Name :: string
  bg_Description :: string
  bg_Sort :: int

record document =
  bd_Version :: int
  bd_ExportedAt :: time
  bd_Tenant :: string
  bd_IncludesCredentials :: bool
  bd_Channels :: "backup_channel list"
  bd_Templates :: "backup_template list"
  bd_Categories :: "backup_category list"

record entity_report =
  er_Created :: nat
  er_Skipped :: nat
  er_Overwritten :: nat
  er_Failed :: nat

record report =
  rp_Channels :: entity_report
  rp_Templates :: entity_report
  rp_Categories :: entity_report
  rp_Warnings :: "string list"

definition MaxBytes :: nat where "MaxBytes = 16 * 1024 * 1024"
definition MaxItems :: nat where "MaxItems = 10000"
definition MaxDepth :: nat where "MaxDepth = 8"

section \<open>Export\<close>

definition SecretFields_of :: "channels_env \<Rightarrow> string \<Rightarrow> string list" where
  "SecretFields_of ce typ = Registry_SecretFields (ce_Registry ce) typ"

text \<open>The loop over the channels: the names by id and the exported channels.\<close>

fun export_channels ::
  "channels_env \<Rightarrow> string \<Rightarrow> bool \<Rightarrow> channel list \<Rightarrow> (string \<rightharpoonup> string) \<Rightarrow> backup_channel list \<Rightarrow>
     ((string \<rightharpoonup> string) \<times> backup_channel list) sys_op" where
  "export_channels ce tid creds [] names out = returnE (names, out)"
| "export_channels ce tid creds (c # cs) names out =
     (if ch_Managed c then export_channels ce tid creds cs names out
      else bindE (Channels_Resolve ce tid (ch_ID c)) (\<lambda>(_, clear, _).
        let st = (if creds then clear else Public clear (SecretFields_of ce (ch_Type c))) in
        export_channels ce tid creds cs (names(ch_ID c \<mapsto> ch_Name c))
          (out @ [\<lparr> bc_Name = ch_Name c, bc_Type = ch_Type c, bc_Settings = Some st,
             bc_Enabled = ch_Enabled c, bc_IsDefault = ch_IsDefault c \<rparr>])))"

definition export_template :: "(string \<rightharpoonup> string) \<Rightarrow> template \<Rightarrow> backup_template" where
  "export_template names t = \<lparr> bt_Name = tp_Name t,
     bt_Channel = (case tp_ChannelID t of None \<Rightarrow> '''' | Some i \<Rightarrow> strp (names i)),
     bt_ChannelType = tp_ChannelType t, bt_Subject = tp_Subject t, bt_Body = tp_Body t,
     bt_Variables = Some (tp_Variables t), bt_IsDefault = tp_IsDefault t \<rparr>"

definition export_category :: "category \<Rightarrow> backup_category" where
  "export_category c = \<lparr> bg_Name = ca_Name c, bg_Description = ca_Description c, bg_Sort = ca_Sort c \<rparr>"

definition backup_event :: "subjects \<Rightarrow> string \<Rightarrow> (string \<times> any) list \<Rightarrow> event" where
  "backup_event subj typ details = authz_event subj typ ''backup'' ''tenant'' ''ok'' '''' details"

definition Export :: "channels_env \<Rightarrow> subjects \<Rightarrow> bool \<Rightarrow> document sys_op" where
  "Export ce subj creds =
     bindE (getE clock) (\<lambda>now.
     bindE (with_db (ListChannels (sj_TenantID subj) '''' '''' 1000)) (\<lambda>channels.
     bindE (export_channels ce (sj_TenantID subj) creds channels Map.empty []) (\<lambda>(names, chs).
     bindE (with_db (AllTemplates (sj_TenantID subj) 5000)) (\<lambda>templates.
     let tps = map (export_template names) templates in
     bindE (with_db (ListCategories (sj_TenantID subj))) (\<lambda>cats.
     let cgs = map export_category cats in
     bindE (emitE (backup_event subj (if creds then ''backup_exported_with_credentials'' else ''backup_exported'')
        [(''channels'', VInt (int (length chs))), (''templates'', VInt (int (length tps))),
         (''categories'', VInt (int (length cgs))), (''credentials'', VBool creds)])) (\<lambda>_.
     returnE \<lparr> bd_Version = 1, bd_ExportedAt = now, bd_Tenant = sj_TenantID subj, bd_IncludesCredentials = creds,
       bd_Channels = chs, bd_Templates = tps, bd_Categories = cgs \<rparr>))))))"

section \<open>Decoding\<close>

definition firstLine :: "string \<Rightarrow> string" where
  "firstLine s = takeWhile (\<lambda>c. c \<noteq> CHR 0x0A) s"

text \<open>The state of the scan: depth, greatest depth, inside a string, after a backslash.\<close>

record scan =
  sc_d :: int
  sc_max :: int
  sc_inStr :: bool
  sc_esc :: bool

definition scan_byte :: "char \<Rightarrow> scan \<Rightarrow> scan" where
  "scan_byte b s =
     (if sc_esc s then s\<lparr>sc_esc := False\<rparr>
      else if sc_inStr s \<and> b = CHR 0x5C then s\<lparr>sc_esc := True\<rparr>
      else if b = CHR 0x22 then s\<lparr>sc_inStr := \<not> sc_inStr s\<rparr>
      else if sc_inStr s then s
      else if b = CHR ''{'' \<or> b = CHR ''['' then s\<lparr> sc_d := sc_d s + 1, sc_max := max (sc_max s) (sc_d s + 1) \<rparr>
      else if b = CHR ''}'' \<or> b = CHR '']'' then s\<lparr>sc_d := sc_d s - 1\<rparr>
      else s)"

definition depth :: "string \<Rightarrow> int" where
  "depth raw = sc_max (fold scan_byte raw \<lparr> sc_d = 0, sc_max = 0, sc_inStr = False, sc_esc = False \<rparr>)"

record json_env =
  js_Unmarshal :: "string \<Rightarrow> any option"
  js_Schema :: "any \<Rightarrow> string option"          \<comment> \<open>the validator's error\<close>
  js_Decode :: "string \<Rightarrow> string + document"    \<comment> \<open>unknown fields refused\<close>

definition DecodeBounded :: "json_env \<Rightarrow> string \<Rightarrow> goerr + document" where
  "DecodeBounded js raw =
     (if length raw > MaxBytes then Inl Transfer_ErrTooLarge
      else if depth raw > int MaxDepth then Inl (Transfer_ErrInvalid ''nesting too deep'')
      else case js_Unmarshal js raw of
          None \<Rightarrow> Inl (Transfer_ErrInvalid ''not JSON'')
        | Some generic \<Rightarrow> (case js_Schema js generic of
              Some e \<Rightarrow> Inl (Transfer_ErrInvalid (firstLine e))
            | None \<Rightarrow> (case js_Decode js raw of
                  Inl e \<Rightarrow> Inl (Transfer_ErrInvalid e)
                | Inr doc \<Rightarrow>
                    if length (bd_Channels doc) + length (bd_Templates doc) + length (bd_Categories doc) > MaxItems
                    then Inl (Transfer_ErrInvalid (''more than '' @ FormatInt (int MaxItems) @ '' items''))
                    else Inr doc)))"

section \<open>Import\<close>

text \<open>What the services draw for the item at a position of the document.\<close>

record import_draws =
  id_category :: "nat \<Rightarrow> string"
  id_channel :: "nat \<Rightarrow> draws \<times> string \<times> string \<times> string"
  id_template :: "nat \<Rightarrow> string \<times> string"

record import_env =
  ie_Channels :: channels_env
  ie_Engine :: engine
  ie_ListErr :: "string \<Rightarrow> string"

abbreviation created :: "entity_report \<Rightarrow> entity_report" where "created r \<equiv> r\<lparr>er_Created := er_Created r + 1\<rparr>"
abbreviation skipped :: "entity_report \<Rightarrow> entity_report" where "skipped r \<equiv> r\<lparr>er_Skipped := er_Skipped r + 1\<rparr>"
abbreviation overwritten :: "entity_report \<Rightarrow> entity_report" where "overwritten r \<equiv> r\<lparr>er_Overwritten := er_Overwritten r + 1\<rparr>"
abbreviation failed :: "entity_report \<Rightarrow> entity_report" where "failed r \<equiv> r\<lparr>er_Failed := er_Failed r + 1\<rparr>"

definition warn :: "string \<Rightarrow> report \<Rightarrow> report" where
  "warn w rep = rep\<lparr>rp_Warnings := rp_Warnings rep @ [w]\<rparr>"

text \<open>The outcome of a call on the counts: \<open>ok\<close> when it succeeded, a failure and a warning otherwise.\<close>

definition on_categories :: "(entity_report \<Rightarrow> entity_report) \<Rightarrow> report \<Rightarrow> report" where
  "on_categories f rep = rep\<lparr>rp_Categories := f (rp_Categories rep)\<rparr>"
definition on_channels :: "(entity_report \<Rightarrow> entity_report) \<Rightarrow> report \<Rightarrow> report" where
  "on_channels f rep = rep\<lparr>rp_Channels := f (rp_Channels rep)\<rparr>"
definition on_templates :: "(entity_report \<Rightarrow> entity_report) \<Rightarrow> report \<Rightarrow> report" where
  "on_templates f rep = rep\<lparr>rp_Templates := f (rp_Templates rep)\<rparr>"

definition category_input_of :: "backup_category \<Rightarrow> category_input" where
  "category_input_of c = \<lparr> ci_Name = bg_Name c, ci_Description = bg_Description c, ci_Sort = bg_Sort c \<rparr>"

definition import_category ::
  "import_env \<Rightarrow> string \<Rightarrow> string \<Rightarrow> subjects \<Rightarrow> (string \<rightharpoonup> category) \<Rightarrow> backup_category \<Rightarrow> report \<Rightarrow> sys \<Rightarrow> report \<times> sys" where
  "import_category ie mode newID subj byName c rep y =
     (let failing = (\<lambda>e. warn (''category '' @ bg_Name c @ '': '' @ Error_text (ie_ListErr ie) e) (on_categories failed rep)) in
      case byName (ToLower (bg_Name c)) of
        Some cur \<Rightarrow>
          if mode = ''skip'' then (on_categories skipped rep, y)
          else (case Messages_UpdateCategory subj (ca_ID cur) (category_input_of c) y of
             (Inl e, y') \<Rightarrow> (failing e, y')
           | (Inr _, y') \<Rightarrow> (on_categories overwritten rep, y'))
      | None \<Rightarrow> (case Messages_CreateCategory newID subj (category_input_of c) y of
             (Inl e, y') \<Rightarrow> (failing e, y')
           | (Inr _, y') \<Rightarrow> (on_categories created rep, y')))"

fun import_categories ::
  "import_env \<Rightarrow> string \<Rightarrow> (nat \<Rightarrow> string) \<Rightarrow> subjects \<Rightarrow> (string \<rightharpoonup> category) \<Rightarrow> nat \<Rightarrow> backup_category list \<Rightarrow> report \<Rightarrow> sys \<Rightarrow> report \<times> sys" where
  "import_categories ie mode ids subj byName i [] rep y = (rep, y)"
| "import_categories ie mode ids subj byName i (c # cs) rep y =
     (case import_category ie mode (ids i) subj byName c rep y of
        (rep', y') \<Rightarrow> import_categories ie mode ids subj byName (Suc i) cs rep' y')"

text \<open>An overwritten channel of a document without credentials keeps the stored ones.\<close>

definition channel_input_of :: "channels_env \<Rightarrow> bool \<Rightarrow> backup_channel \<Rightarrow> channel_input" where
  "channel_input_of ce keep c = (let st = (case bc_Settings c of None \<Rightarrow> Map.empty | Some x \<Rightarrow> x) in
     \<lparr> cn_Name = bc_Name c, cn_Type = bc_Type c,
       cn_Settings = Some (if keep then fold (\<lambda>f s. s(f \<mapsto> VStr Marker)) (SecretFields_of ce (bc_Type c)) st else st),
       cn_Enabled = bc_Enabled c, cn_IsDefault = bc_IsDefault c \<rparr>)"

definition listed_channel :: "channel_view \<Rightarrow> channel" where
  "listed_channel v = \<lparr> ch_ID = cw_ID v, ch_TenantID = '''', ch_Name = cw_Name v, ch_Type = cw_Type v,
     ch_SettingsSealed = '''', ch_SettingsPublic = None, ch_Enabled = False, ch_IsDefault = False, ch_Managed = False,
     ch_CreatedBy = None, ch_UpdatedBy = None, ch_CreatedAt = 0, ch_UpdatedAt = 0, ch_TemplateCount = 0 \<rparr>"

definition import_channel ::
  "import_env \<Rightarrow> string \<Rightarrow> bool \<Rightarrow> draws \<times> string \<times> string \<times> string \<Rightarrow> subjects \<Rightarrow> backup_channel \<Rightarrow>
     (string \<rightharpoonup> channel) \<Rightarrow> report \<Rightarrow> sys \<Rightarrow> ((string \<rightharpoonup> channel) \<times> report) \<times> sys" where
  "import_channel ie mode creds drawn subj c byName rep y =
     (case drawn of (dr, newID, gid, uid) \<Rightarrow>
      let failing = (\<lambda>e. warn (''channel '' @ bc_Name c @ '': '' @ Error_text (ie_ListErr ie) e) (on_channels failed rep)) in
      case byName (ToLower (bc_Name c)) of
        Some cur \<Rightarrow>
          if mode = ''skip'' \<or> ch_Type cur \<noteq> bc_Type c
          then ((byName, if ch_Type cur \<noteq> bc_Type c
             then warn (''channel '' @ bc_Name c @ '': existing channel has another type'') (on_channels skipped rep)
             else on_channels skipped rep), y)
          else (case Channels_Update (ie_Channels ie) dr uid subj (ch_ID cur) (channel_input_of (ie_Channels ie) (\<not> creds) c) y of
             (Inl e, y') \<Rightarrow> ((byName, failing e), y')
           | (Inr _, y') \<Rightarrow> ((byName, on_channels overwritten rep), y'))
      | None \<Rightarrow> (case Channels_Create (ie_Channels ie) dr newID gid uid subj (channel_input_of (ie_Channels ie) False c) y of
             (Inl e, y') \<Rightarrow> ((byName, failing e), y')
           | (Inr v, y') \<Rightarrow> ((byName(ToLower (bc_Name c) \<mapsto> listed_channel v), on_channels created rep), y')))"

fun import_channels ::
  "import_env \<Rightarrow> string \<Rightarrow> bool \<Rightarrow> (nat \<Rightarrow> draws \<times> string \<times> string \<times> string) \<Rightarrow> subjects \<Rightarrow> nat \<Rightarrow> backup_channel list \<Rightarrow>
     (string \<rightharpoonup> channel) \<Rightarrow> report \<Rightarrow> sys \<Rightarrow> ((string \<rightharpoonup> channel) \<times> report) \<times> sys" where
  "import_channels ie mode creds ids subj i [] byName rep y = ((byName, rep), y)"
| "import_channels ie mode creds ids subj i (c # cs) byName rep y =
     (case import_channel ie mode creds (ids i) subj c byName rep y of
        ((byName', rep'), y') \<Rightarrow> import_channels ie mode creds ids subj (Suc i) cs byName' rep' y')"

definition template_input_of :: "backup_template \<Rightarrow> string \<Rightarrow> template_input" where
  "template_input_of t channelID = \<lparr> tn_Name = bt_Name t, tn_ChannelID = channelID, tn_Subject = bt_Subject t,
     tn_Body = bt_Body t, tn_Variables = bt_Variables t, tn_IsDefault = bt_IsDefault t \<rparr>"

definition import_template ::
  "import_env \<Rightarrow> string \<Rightarrow> string \<times> string \<Rightarrow> subjects \<Rightarrow> (string \<rightharpoonup> channel) \<Rightarrow> (string \<rightharpoonup> template) \<Rightarrow>
     backup_template \<Rightarrow> report \<Rightarrow> sys \<Rightarrow> report \<times> sys" where
  "import_template ie mode drawn subj chanByName tplByName t rep y =
     (let failing = (\<lambda>e. warn (''template '' @ bt_Name t @ '': '' @ Error_text (ie_ListErr ie) e) (on_templates failed rep)) in
      case (if bt_Channel t = '''' then None else chanByName (ToLower (bt_Channel t))) of
        None \<Rightarrow> (warn (''template '' @ bt_Name t @ '': needs a channel ('' @ bt_Channel t @ '' unknown)'') (on_templates failed rep), y)
      | Some ch \<Rightarrow>
          (case tplByName (ToLower (bt_Name t)) of
             Some cur \<Rightarrow>
               if mode = ''skip'' then (on_templates skipped rep, y)
               else (case Templates_Update (ie_Engine ie) subj (tp_ID cur) (template_input_of t (ch_ID ch)) y of
                  (Inl e, y') \<Rightarrow> (failing e, y')
                | (Inr _, y') \<Rightarrow> (on_templates overwritten rep, y'))
           | None \<Rightarrow> (case Templates_Create (ie_Engine ie) (fst drawn) (snd drawn) subj (template_input_of t (ch_ID ch)) y of
                  (Inl e, y') \<Rightarrow> (failing e, y')
                | (Inr _, y') \<Rightarrow> (on_templates created rep, y'))))"

fun import_templates ::
  "import_env \<Rightarrow> string \<Rightarrow> (nat \<Rightarrow> string \<times> string) \<Rightarrow> subjects \<Rightarrow> (string \<rightharpoonup> channel) \<Rightarrow> (string \<rightharpoonup> template) \<Rightarrow>
     nat \<Rightarrow> backup_template list \<Rightarrow> report \<Rightarrow> sys \<Rightarrow> report \<times> sys" where
  "import_templates ie mode ids subj chanByName tplByName i [] rep y = (rep, y)"
| "import_templates ie mode ids subj chanByName tplByName i (t # ts) rep y =
     (case import_template ie mode (ids i) subj chanByName tplByName t rep y of
        (rep', y') \<Rightarrow> import_templates ie mode ids subj chanByName tplByName (Suc i) ts rep' y')"

text \<open>\<open>byName[strings.ToLower(r.Name)] = r\<close> for each row read.\<close>

definition by_name :: "('r \<Rightarrow> string) \<Rightarrow> 'r list \<Rightarrow> (string \<rightharpoonup> 'r)" where
  "by_name nm rs = fold (\<lambda>r m. m(ToLower (nm r) \<mapsto> r)) rs Map.empty"

definition no_counts :: entity_report where
  "no_counts = \<lparr> er_Created = 0, er_Skipped = 0, er_Overwritten = 0, er_Failed = 0 \<rparr>"

definition report_value :: "entity_report \<Rightarrow> any" where
  "report_value r = VMap [(''created'', VInt (int (er_Created r))), (''skipped'', VInt (int (er_Skipped r))),
     (''overwritten'', VInt (int (er_Overwritten r))), (''failed'', VInt (int (er_Failed r)))]"

definition stepE :: "('s \<Rightarrow> 'a \<times> 's) \<Rightarrow> ('s, 'e, 'a) op" where
  "stepE f s = (case f s of (x, s') \<Rightarrow> (Inr x, s'))"

definition Import :: "import_env \<Rightarrow> import_draws \<Rightarrow> subjects \<Rightarrow> document \<Rightarrow> string \<Rightarrow> report sys_op" where
  "Import ie ids subj doc mode =
     bindE (refuseE (mode \<noteq> ''skip'' \<and> mode \<noteq> ''overwrite'') Transfer_ErrMode) (\<lambda>_.
     let rep0 = \<lparr> rp_Channels = no_counts, rp_Templates = no_counts, rp_Categories = no_counts, rp_Warnings = [] \<rparr> in
     bindE (with_db (ListCategories (sj_TenantID subj))) (\<lambda>cats.
     bindE (stepE (import_categories ie mode (id_category ids) subj (by_name ca_Name cats) 0 (bd_Categories doc) rep0)) (\<lambda>rep1.
     bindE (with_db (ListChannels (sj_TenantID subj) '''' '''' 1000)) (\<lambda>chans.
     bindE (stepE (import_channels ie mode (bd_IncludesCredentials doc) (id_channel ids) subj 0 (bd_Channels doc)
        (by_name ch_Name chans) rep1)) (\<lambda>(chanByName, rep2).
     bindE (with_db (AllTemplates (sj_TenantID subj) 5000)) (\<lambda>tpls.
     bindE (stepE (import_templates ie mode (id_template ids) subj chanByName (by_name tp_Name tpls) 0 (bd_Templates doc) rep2)) (\<lambda>rep3.
     bindE (emitE (backup_event subj ''backup_imported'' [(''mode'', VStr mode), (''channels'', report_value (rp_Channels rep3)),
        (''templates'', report_value (rp_Templates rep3)), (''categories'', report_value (rp_Categories rep3))])) (\<lambda>_.
     returnE rep3))))))))"

end
