(* ===== verification/BackupLaws.thy ===== *)
theory BackupLaws
  imports Backup SendLaws
begin

text \<open>
  What a backup guarantees: a document without credentials carries none, the managed channel never
  leaves, and importing one's own export with \<open>skip\<close> changes nothing.
\<close>

section \<open>Export\<close>

lemma ListCategories_read: "snd (ListCategories tid m) = m"
  by (simp add: ListCategories_def with_fail_def split: option.splits)

lemma Channels_Resolve_state: "Channels_Resolve ce tid i y = (r, y') \<Longrightarrow> y' = y"
proof -
  have "with_db (GetChannel tid i) y = (fst (GetChannel tid i (db y)), y)"
    by (rule with_db_read) (simp add: frame_simps)
  then show "Channels_Resolve ce tid i y = (r, y') \<Longrightarrow> y' = y"
    by (auto simp: Channels_Resolve_def bindE_def liftSum_def returnE_def split: sum.splits)
qed

text \<open>The settings a channel resolves to.\<close>

definition resolved :: "channels_env \<Rightarrow> string \<Rightarrow> sys \<Rightarrow> string \<Rightarrow> settings" where
  "resolved ce tid y i = (case fst (Channels_Resolve ce tid i y) of Inl _ \<Rightarrow> Map.empty | Inr (_, st, _) \<Rightarrow> st)"

definition exported :: "channels_env \<Rightarrow> string \<Rightarrow> bool \<Rightarrow> sys \<Rightarrow> channel \<Rightarrow> backup_channel" where
  "exported ce tid creds y c = \<lparr> bc_Name = ch_Name c, bc_Type = ch_Type c,
     bc_Settings = Some (if creds then resolved ce tid y (ch_ID c)
       else Public (resolved ce tid y (ch_ID c)) (SecretFields_of ce (ch_Type c))),
     bc_Enabled = ch_Enabled c, bc_IsDefault = ch_IsDefault c \<rparr>"

abbreviation own :: "channel list \<Rightarrow> channel list" where
  "own cs \<equiv> filter (\<lambda>c. \<not> ch_Managed c) cs"

lemma export_channels_Inr:
  "export_channels ce tid creds cs names out y = (Inr (names', out'), y') \<Longrightarrow>
     y' = y \<and> out' = out @ map (exported ce tid creds y) (own cs) \<and>
     ran names' \<subseteq> ran names \<union> ch_Name ` set (own cs)"
proof (induction cs arbitrary: names out)
  case (Cons c cs)
  show ?case
  proof (cases "ch_Managed c")
    case True
    with Cons show ?thesis by simp
  next
    case False
    with Cons.prems obtain row st p y1 where r: "Channels_Resolve ce tid (ch_ID c) y = (Inr (row, st, p), y1)"
      and k: "export_channels ce tid creds cs (names(ch_ID c \<mapsto> ch_Name c))
          (out @ [\<lparr> bc_Name = ch_Name c, bc_Type = ch_Type c,
             bc_Settings = Some (if creds then st else Public st (SecretFields_of ce (ch_Type c))),
             bc_Enabled = ch_Enabled c, bc_IsDefault = ch_IsDefault c \<rparr>]) y1 = (Inr (names', out'), y')"
      by (auto simp: bindE_Inr_iff Let_def)
    have "y1 = y" "resolved ce tid y (ch_ID c) = st"
      using Channels_Resolve_state [OF r] r by (simp_all add: resolved_def)
    with Cons.IH [OF k [unfolded \<open>y1 = y\<close>]] False show ?thesis
      by (auto simp: exported_def ran_def split: if_splits)
  qed
qed (simp add: returnE_def)

text \<open>What an export read and returned.\<close>

lemma Export_Inr:
  assumes "Export ce subj creds y = (Inr doc, y')"
  obtains chs tps cats names where
    "fst (ListChannels (sj_TenantID subj) '''' '''' 1000 (db y)) = Inr chs"
    "fst (AllTemplates (sj_TenantID subj) 5000 (db y)) = Inr tps"
    "fst (ListCategories (sj_TenantID subj) (db y)) = Inr cats"
    "ran names \<subseteq> ch_Name ` set (own chs)"
    "bd_Channels doc = map (exported ce (sj_TenantID subj) creds y) (own chs)"
    "bd_Templates doc = map (export_template names) tps"
    "bd_Categories doc = map export_category cats"
    "bd_IncludesCredentials doc = creds" "db y' = db y"
proof -
  let ?t = "sj_TenantID subj"
  have reads: "with_db (ListChannels ?t '''' '''' 1000) y = (fst (ListChannels ?t '''' '''' 1000 (db y)), y)"
    "with_db (AllTemplates ?t 5000) y = (fst (AllTemplates ?t 5000 (db y)), y)"
    "with_db (ListCategories ?t) y = (fst (ListCategories ?t (db y)), y)"
    by (rule with_db_read, simp add: frame_simps ListCategories_read)+
  from assms obtain chs names out y1 where
    l: "fst (ListChannels ?t '''' '''' 1000 (db y)) = Inr chs"
    and x: "export_channels ce ?t creds chs Map.empty [] y = (Inr (names, out), y1)"
    and k: "bindE (with_db (AllTemplates ?t 5000)) (\<lambda>templates.
       let tps = map (export_template names) templates in
       bindE (with_db (ListCategories ?t)) (\<lambda>cats.
       let cgs = map export_category cats in
       bindE (emitE (backup_event subj (if creds then ''backup_exported_with_credentials'' else ''backup_exported'')
          [(''channels'', VInt (int (length out))), (''templates'', VInt (int (length tps))),
           (''categories'', VInt (int (length cgs))), (''credentials'', VBool creds)])) (\<lambda>_.
       returnE \<lparr> bd_Version = 1, bd_ExportedAt = clock y, bd_Tenant = ?t, bd_IncludesCredentials = creds,
         bd_Channels = out, bd_Templates = tps, bd_Categories = cgs \<rparr>))) y1 = (Inr doc, y')"
    unfolding Export_def bindE_getE bindE_Inr_iff [where f = "with_db (ListChannels ?t '''' '''' 1000)"]
      bindE_Inr_iff [where f = "export_channels _ _ _ _ _ _"] reads by fastforce
  note e = export_channels_Inr [OF x]
  from k obtain tps cats where "fst (AllTemplates ?t 5000 (db y)) = Inr tps" "fst (ListCategories ?t (db y)) = Inr cats"
    "bd_Channels doc = out" "bd_Templates doc = map (export_template names) tps" "bd_Categories doc = map export_category cats"
    "bd_IncludesCredentials doc = creds" "db y' = db y"
    using e reads by (auto simp: bindE_Inr_iff Let_def returnE_def emitE_def)
  with l e show ?thesis by (intro that [of chs tps cats names]) simp_all
qed

lemma Public_field: "Public s fs f = (if f \<in> set fs then None else s f)"
  unfolding Public_def by (induction fs arbitrary: s) auto

text \<open>
  C16. An export without credentials contains no credential: no exported channel has a value under a
  secret field of its type, every other setting is the stored one, the channel managed by
  configuration is not exported at all, with credentials or without, and the store is left as it was.
\<close>

theorem export_hides:
  assumes "Export ce subj creds y = (Inr doc, y')"
  shows "db y' = db y \<and> (\<exists>chs. fst (ListChannels (sj_TenantID subj) '''' '''' 1000 (db y)) = Inr chs \<and>
    list_all2 (\<lambda>c b. bc_Name b = ch_Name c \<and> bc_Type b = ch_Type c \<and>
        (\<exists>st. bc_Settings b = Some st \<and> (\<forall>f. st f =
          (if \<not> creds \<and> f \<in> set (SecretFields_of ce (ch_Type c)) then None
           else resolved ce (sj_TenantID subj) y (ch_ID c) f))))
      (filter (\<lambda>c. \<not> ch_Managed c) chs) (bd_Channels doc))"
proof -
  from Export_Inr [OF assms] obtain chs where l: "fst (ListChannels (sj_TenantID subj) '''' '''' 1000 (db y)) = Inr chs"
    and d: "bd_Channels doc = map (exported ce (sj_TenantID subj) creds y) (own chs)" "db y' = db y" .
  show ?thesis
    unfolding d(1) list_all2_map2 using l d(2) by (auto simp: exported_def Public_field list_all2_same)
qed

section \<open>Importing one's own export\<close>

lemma by_name_hit: "r \<in> set rs \<Longrightarrow> by_name nm rs (ToLower (nm r)) \<noteq> None"
  unfolding by_name_def
proof (induction rs rule: rev_induct)
  case (snoc x xs)
  then show ?case by (cases "r = x") (auto split: if_splits)
qed simp

lemma import_categories_skip:
  assumes "\<And>c. c \<in> set cs \<Longrightarrow> byName (ToLower (bg_Name c)) \<noteq> None"
  shows "import_categories ie ''skip'' ids subj byName i cs rep y =
    (on_categories (\<lambda>r. r\<lparr>er_Skipped := er_Skipped r + length cs\<rparr>) rep, y)"
  using assms
proof (induction cs arbitrary: i rep)
  case (Cons c cs)
  from Cons.prems [of c] obtain cur where "byName (ToLower (bg_Name c)) = Some cur" by auto
  then have "import_category ie ''skip'' (ids i) subj byName c rep y = (on_categories skipped rep, y)"
    by (simp add: import_category_def Let_def)
  with Cons.IH [of "Suc i" "on_categories skipped rep"] Cons.prems show ?case
    by (simp add: on_categories_def)
qed (simp add: on_categories_def)

definition only_skips :: "report \<Rightarrow> bool" where
  "only_skips rep \<longleftrightarrow> (\<forall>e \<in> {rp_Channels rep, rp_Templates rep, rp_Categories rep}. er_Created e = 0 \<and> er_Overwritten e = 0)"

text \<open>Counting something else keeps it so.\<close>

lemma only_skips_simps [simp]:
  "only_skips (warn w rep) = only_skips rep"
  "(\<And>r. er_Created (f r) = er_Created r \<and> er_Overwritten (f r) = er_Overwritten r) \<Longrightarrow> only_skips (on_channels f rep) = only_skips rep"
  "(\<And>r. er_Created (f r) = er_Created r \<and> er_Overwritten (f r) = er_Overwritten r) \<Longrightarrow> only_skips (on_templates f rep) = only_skips rep"
  by (auto simp: only_skips_def warn_def on_channels_def on_templates_def)

lemma rp_Categories_simps [simp]:
  "rp_Categories (warn w rep) = rp_Categories rep" "rp_Categories (on_channels f rep) = rp_Categories rep"
  "rp_Categories (on_templates f rep) = rp_Categories rep"
  by (simp_all add: warn_def on_channels_def on_templates_def)

lemma import_channels_skip:
  assumes "\<And>c. c \<in> set cs \<Longrightarrow> byName (ToLower (bc_Name c)) \<noteq> None" and "only_skips rep"
  shows "\<exists>rep'. import_channels ie ''skip'' creds ids subj i cs byName rep y = ((byName, rep'), y) \<and>
    only_skips rep' \<and> rp_Categories rep' = rp_Categories rep"
  using assms
proof (induction cs arbitrary: i rep)
  case (Cons c cs)
  from Cons.prems(1) [of c] obtain cur where "byName (ToLower (bc_Name c)) = Some cur" by auto
  then have "import_channel ie ''skip'' creds (ids i) subj c byName rep y = ((byName, if ch_Type cur \<noteq> bc_Type c
      then warn (''channel '' @ bc_Name c @ '': existing channel has another type'') (on_channels skipped rep)
      else on_channels skipped rep), y)" (is "_ = ((byName, ?rep1), y)")
    by (cases "ids i") (simp add: import_channel_def Let_def)
  moreover have "only_skips ?rep1" "rp_Categories ?rep1 = rp_Categories rep" using Cons.prems(2) by simp_all
  ultimately obtain rep1 where r: "import_channel ie ''skip'' creds (ids i) subj c byName rep y = ((byName, rep1), y)"
    "only_skips rep1" "rp_Categories rep1 = rp_Categories rep" by blast
  with Cons.IH [of rep1 "Suc i"] Cons.prems(1) show ?case by simp
qed simp

lemma import_templates_skip:
  assumes "\<And>t. t \<in> set ts \<Longrightarrow> tplByName (ToLower (bt_Name t)) \<noteq> None" and "only_skips rep"
  shows "\<exists>rep'. import_templates ie ''skip'' ids subj chanByName tplByName i ts rep y = (rep', y) \<and>
    only_skips rep' \<and> rp_Categories rep' = rp_Categories rep"
  using assms
proof (induction ts arbitrary: i rep)
  case (Cons t ts)
  from Cons.prems(1) [of t] obtain cur where "tplByName (ToLower (bt_Name t)) = Some cur" by auto
  then have "import_template ie ''skip'' (ids i) subj chanByName tplByName t rep y = (
      case (if bt_Channel t = '''' then None else chanByName (ToLower (bt_Channel t))) of
        None \<Rightarrow> warn (''template '' @ bt_Name t @ '': needs a channel ('' @ bt_Channel t @ '' unknown)'') (on_templates failed rep)
      | Some _ \<Rightarrow> on_templates skipped rep, y)" (is "_ = (?rep1, y)")
    by (simp add: import_template_def Let_def split: option.splits)
  moreover have "only_skips ?rep1" "rp_Categories ?rep1 = rp_Categories rep" using Cons.prems(2) by (auto split: option.splits)
  ultimately obtain rep1 where r: "import_template ie ''skip'' (ids i) subj chanByName tplByName t rep y = (rep1, y)"
    "only_skips rep1" "rp_Categories rep1 = rp_Categories rep" by blast
  with Cons.IH [of rep1 "Suc i"] Cons.prems(1) show ?case by simp
qed simp

text \<open>
  C17. Importing a tenant's own export again with \<open>skip\<close> changes nothing: the import succeeds,
  nothing is created or overwritten and the tables are as before.
\<close>

theorem reimport_skips:
  assumes "Export ce subj creds y = (Inr doc, y')"
  shows "\<exists>rep y''. Import ie ids subj doc ''skip'' y' = (Inr rep, y'') \<and> db y'' = db y \<and>
    er_Created (rp_Channels rep) = 0 \<and> er_Overwritten (rp_Channels rep) = 0 \<and>
    er_Created (rp_Templates rep) = 0 \<and> er_Overwritten (rp_Templates rep) = 0 \<and>
    rp_Categories rep = no_counts\<lparr>er_Skipped := length (bd_Categories doc)\<rparr>"
proof -
  let ?t = "sj_TenantID subj"
  from Export_Inr [OF assms] obtain chs tps cats names where
    l: "fst (ListChannels ?t '''' '''' 1000 (db y)) = Inr chs" "fst (AllTemplates ?t 5000 (db y)) = Inr tps"
       "fst (ListCategories ?t (db y)) = Inr cats"
    and d: "bd_Channels doc = map (exported ce ?t creds y) (own chs)" "bd_Templates doc = map (export_template names) tps"
       "bd_Categories doc = map export_category cats" and db: "db y' = db y" .
  have reads: "with_db (ListChannels ?t '''' '''' 1000) y' = (Inr chs, y')" "with_db (AllTemplates ?t 5000) y' = (Inr tps, y')"
    "with_db (ListCategories ?t) y' = (Inr cats, y')"
    using l db by (simp_all add: with_db_read frame_simps ListCategories_read)
  let ?rep0 = "\<lparr> rp_Channels = no_counts, rp_Templates = no_counts, rp_Categories = no_counts, rp_Warnings = [] \<rparr>"
  let ?rep1 = "on_categories (\<lambda>r. r\<lparr>er_Skipped := er_Skipped r + length (bd_Categories doc)\<rparr>) ?rep0"
  have cat: "import_categories ie ''skip'' (id_category ids) subj (by_name ca_Name cats) 0 (bd_Categories doc) ?rep0 y' = (?rep1, y')"
    by (rule import_categories_skip) (auto simp: d(3) export_category_def dest: by_name_hit [where nm = ca_Name])
  have o1: "only_skips ?rep1" by (simp add: only_skips_def on_categories_def no_counts_def)
  have hc: "by_name ch_Name chs (ToLower (bc_Name c)) \<noteq> None" if "c \<in> set (bd_Channels doc)" for c
    using that by_name_hit [where nm = ch_Name] by (fastforce simp: d(1) exported_def)
  obtain rep2 where ch: "import_channels ie ''skip'' (bd_IncludesCredentials doc) (id_channel ids) subj 0 (bd_Channels doc)
      (by_name ch_Name chs) ?rep1 y' = ((by_name ch_Name chs, rep2), y')" "only_skips rep2" "rp_Categories rep2 = rp_Categories ?rep1"
    using import_channels_skip [where byName = "by_name ch_Name chs", OF hc o1] by blast
  have ht: "by_name tp_Name tps (ToLower (bt_Name t)) \<noteq> None" if "t \<in> set (bd_Templates doc)" for t
    using that by_name_hit [where nm = tp_Name] by (fastforce simp: d(2) export_template_def)
  obtain rep3 where tp: "import_templates ie ''skip'' (id_template ids) subj (by_name ch_Name chs) (by_name tp_Name tps) 0
      (bd_Templates doc) rep2 y' = (rep3, y')" "only_skips rep3" "rp_Categories rep3 = rp_Categories rep2"
    using import_templates_skip [where tplByName = "by_name tp_Name tps", OF ht ch(2)] by blast
  have "rp_Categories rep3 = no_counts\<lparr>er_Skipped := length (bd_Categories doc)\<rparr>"
    using tp(3) ch(3) by (simp add: on_categories_def no_counts_def)
  with tp(2) db show ?thesis
    by (simp add: Import_def bindE_def refuseE_def stepE_def reads cat ch(1) tp(1) Let_def emitE_def returnE_def only_skips_def)
qed

section \<open>Examples\<close>

abbreviation toy_row :: channel where
  "toy_row \<equiv> (platform_row ''c1'' ''t1'' (replicate 100 CHR ''x'') ''{}'')\<lparr>ch_Managed := False, ch_IsDefault := False\<rparr>"

lemma toy_lists:
  "\<exists>n. fst (ListChannels ''t1'' '''' '''' 1000 (db (ss_sys toy_send))) = Inr [toy_row\<lparr>ch_TemplateCount := n\<rparr>]"
  "\<exists>tps. fst (AllTemplates ''t1'' 5000 (db (ss_sys toy_send))) = Inr tps"
  "fst (ListCategories ''t1'' (db (ss_sys toy_send))) = Inr []"
  by (simp_all add: ListChannels_def AllTemplates_def ListCategories_def toy_send_def empty_store_def rows_def with_fail_def Let_def
      ToLower_def PlatformChannelName_def platform_row_def)

lemma toy_resolve:
  "\<exists>row p. Channels_Resolve toy_channels ''t1'' ''c1'' (ss_sys toy_send) = (Inr (row, sample_settings, p), ss_sys toy_send)"
  by (simp add: Channels_Resolve_def eval_ops GetChannel_def toy_open toy_provider toy_send_def empty_store_def)

lemma toy_export:
  "\<exists>doc y'. Export toy_channels toy_boss False (ss_sys toy_send) = (Inr doc, y') \<and> map bc_Name (bd_Channels doc) = [PlatformChannelName]"
proof -
  let ?y = "ss_sys toy_send"
  obtain n tps where l: "fst (ListChannels ''t1'' '''' '''' 1000 (db ?y)) = Inr [toy_row\<lparr>ch_TemplateCount := n\<rparr>]"
    "fst (AllTemplates ''t1'' 5000 (db ?y)) = Inr tps" using toy_lists(1,2) by blast
  have reads: "with_db (ListChannels ''t1'' '''' '''' 1000) ?y = (Inr [toy_row\<lparr>ch_TemplateCount := n\<rparr>], ?y)"
    "with_db (AllTemplates ''t1'' 5000) ?y = (Inr tps, ?y)" "with_db (ListCategories ''t1'') ?y = (Inr [], ?y)"
    using l toy_lists(3) by (simp_all add: with_db_read frame_simps ListCategories_read)
  obtain row p where r: "Channels_Resolve toy_channels ''t1'' ''c1'' ?y = (Inr (row, sample_settings, p), ?y)" using toy_resolve by blast
  have n: "ch_Name (platform_row i t b q) = PlatformChannelName" for i t b q by (simp add: platform_row_def)
  show ?thesis
    by (simp add: Export_def bindE_def getE_def reads r toy_boss_def emitE_def returnE_def Let_def n)
qed

theorem export_hides_witness:
  "\<exists>doc y' b st. Export toy_channels toy_boss False (ss_sys toy_send) = (Inr doc, y') \<and> bd_Channels doc = [b] \<and>
     bc_Settings b = Some st \<and> st ''password'' = None \<and> st ''host'' = Some (VStr ''mx.example'')"
proof -
  obtain doc y' where e: "Export toy_channels toy_boss False (ss_sys toy_send) = (Inr doc, y')" using toy_export by blast
  obtain n where l: "fst (ListChannels ''t1'' '''' '''' 1000 (db (ss_sys toy_send))) = Inr [toy_row\<lparr>ch_TemplateCount := n\<rparr>]"
    using toy_lists(1) by blast
  obtain row p where r: "Channels_Resolve toy_channels ''t1'' ''c1'' (ss_sys toy_send) = (Inr (row, sample_settings, p), ss_sys toy_send)"
    using toy_resolve by blast
  have f: "SecretFields_of toy_channels TypeEmail = [''password'']" by code_simp
  from export_hides [OF e] obtain b st where "bd_Channels doc = [b]" "bc_Settings b = Some st"
    "\<forall>f. st f = (if f \<in> set (SecretFields_of toy_channels TypeEmail) then None
       else resolved toy_channels ''t1'' (ss_sys toy_send) ''c1'' f)"
    using l by (auto simp: toy_boss_def list_all2_Cons1)
  with e f r show ?thesis by (auto simp: resolved_def sample_settings_def)
qed

definition toy_import :: import_env where
  "toy_import = \<lparr> ie_Channels = toy_channels, ie_Engine = toy_engine, ie_ListErr = (\<lambda>_. '''') \<rparr>"

definition toy_import_draws :: import_draws where
  "toy_import_draws = \<lparr> id_category = (\<lambda>_. ''g''), id_channel = (\<lambda>_. (\<lparr>dr_DEK = Inr '''', dr_N1 = Inr '''', dr_N2 = Inr ''''\<rparr>, ''n'', ''g'', ''u'')),
     id_template = (\<lambda>_. (''n'', ''g'')) \<rparr>"

theorem reimport_skips_witness:
  "\<exists>doc y' rep y''. Export toy_channels toy_boss False (ss_sys toy_send) = (Inr doc, y') \<and> bd_Channels doc \<noteq> [] \<and>
     Import toy_import toy_import_draws toy_boss doc ''skip'' y' = (Inr rep, y'') \<and> db y'' = db (ss_sys toy_send) \<and>
     er_Created (rp_Channels rep) = 0"
proof -
  obtain doc y' where e: "Export toy_channels toy_boss False (ss_sys toy_send) = (Inr doc, y')"
    "map bc_Name (bd_Channels doc) = [PlatformChannelName]" using toy_export by auto
  from reimport_skips [OF e(1), of toy_import toy_import_draws] e show ?thesis by auto
qed

end
