(* ===== verification/Serving.thy ===== *)
theory Serving
  imports SendSvc StreamHub ErrTexts
begin

text \<open>
  \<open>internal/grpcapi/notifier.go\<close>, \<open>events.go\<close> and \<open>internal/taskexec/taskexec.go\<close>: the calls other
  services make. The verified identity of the peer is an argument (\<open>None\<close> when there is none); the
  scheduler's checks of ids and payloads are arguments too.
\<close>

section \<open>Status and responses\<close>

datatype code = Unauthenticated | InvalidArgument | PermissionDenied | NotFound | FailedPrecondition
  | ResourceExhausted | Unavailable

record status =
  gs_Code :: code
  gs_Msg :: string

definition status_Error :: "code \<Rightarrow> string \<Rightarrow> status" where
  "status_Error c m = \<lparr> gs_Code = c, gs_Msg = m \<rparr>"

datatype delivery_status = STATUS_PENDING | STATUS_SENT | STATUS_FAILED

record send_response =
  rs_LogId :: string
  rs_Status :: delivery_status
  rs_Error :: string
  rs_Retryable :: bool
  rs_SentAt :: "time option"

definition grpcError :: "goerr \<Rightarrow> status" where
  "grpcError e = (case e of
      Notify_Validation msg _ \<Rightarrow> status_Error InvalidArgument msg
    | _ \<Rightarrow>
        if errors_Is e Authz_ErrForbidden then status_Error PermissionDenied ''forbidden''
        else if errors_Is e Authz_ErrNotFound \<or> errors_Is e Store_ErrNotFound then status_Error NotFound ''not_found''
        else if errors_Is e Notify_ErrChannelDisabled then status_Error FailedPrecondition ''channel_disabled''
        else if errors_Is e Notify_ErrTypeMismatch then status_Error InvalidArgument ''channel type differs from the template''
        else if errors_Is e Channel_ErrNoProvider then status_Error InvalidArgument ''no_provider''
        else if errors_Is e Notify_ErrRateLimited then status_Error ResourceExhausted ''rate_limited''
        else status_Error Unavailable ''temporarily_unavailable'')"

definition toResponse :: "log_view \<Rightarrow> send_response" where
  "toResponse v = \<lparr> rs_LogId = lv_ID v,
     rs_Status = (if lv_Status v = ''sent'' then STATUS_SENT else if lv_Status v = ''failed'' then STATUS_FAILED else STATUS_PENDING),
     rs_Error = lv_Error v, rs_Retryable = (lv_Status v = ''failed'' \<and> lv_Retryable v), rs_SentAt = lv_SentAt v \<rparr>"

definition caller :: "string option \<Rightarrow> string \<Rightarrow> status + subjects" where
  "caller peer tenantID = (case peer of
      None \<Rightarrow> Inl (status_Error Unauthenticated ''service identity required'')
    | Some i \<Rightarrow> if \<not> uuidRE tenantID then Inl (status_Error InvalidArgument ''tenant_id must be a uuid'')
               else Inr (ServiceSubjects tenantID i))"

text \<open>A call of the service with its error mapped to a status.\<close>

definition callS :: "(goerr \<Rightarrow> 'f) \<Rightarrow> ('s, goerr, 'a) op \<Rightarrow> ('s, 'f, 'a) op" where
  "callS f g s = (case g s of (Inl e, s') \<Rightarrow> (Inl (f e), s') | (Inr x, s') \<Rightarrow> (Inr x, s'))"

definition sumE :: "'e + 'a \<Rightarrow> ('s, 'e, 'a) op" where
  "sumE r s = (r, s)"

section \<open>The notifier\<close>

record send_request =
  rq_TenantId :: string
  rq_TemplateId :: string
  rq_TemplateKey :: string
  rq_ChannelId :: string
  rq_Recipient :: string
  rq_Variables :: vars
  rq_CorrelationId :: string

definition bad_to :: "string \<Rightarrow> bool" where
  "bad_to recipient \<longleftrightarrow> recipient = '''' \<or> length recipient > 512"

abbreviation malformed :: status where "malformed \<equiv> status_Error InvalidArgument ''malformed request''"

text \<open>\<open>if v.Status == "failed" && v.Error == "no_provider"\<close>\<close>

definition no_provider :: "log_view \<Rightarrow> bool" where
  "no_provider v \<longleftrightarrow> lv_Status v = ''failed'' \<and> lv_Error v = ''no_provider''"

definition answer :: "log_view \<Rightarrow> (send_state, status, send_response) op" where
  "answer v = (if no_provider v then failE (status_Error InvalidArgument ''no_provider'') else returnE (toResponse v))"

definition keyError :: "goerr \<Rightarrow> status" where
  "keyError e =
     (if errors_Is e Notify_ErrKeyNamespace then status_Error PermissionDenied ''key_namespace''
      else if errors_Is e Notify_ErrUnknownKey then status_Error NotFound ''template_key''
      else if errors_Is e Notify_ErrEmailNotConfigured then status_Error FailedPrecondition ''email_not_configured''
      else if errors_Is e Notify_ErrRateLimited then status_Error ResourceExhausted ''throttled''
      else grpcError e)"

definition Notifier_sendKey ::
  "send_env \<Rightarrow> string \<Rightarrow> render_run \<Rightarrow> render_run \<Rightarrow> string option \<Rightarrow> send_request \<Rightarrow> (send_state, status, send_response) op" where
  "Notifier_sendKey ev newID rr1 rr2 peer req =
     bindE (refuseE (rq_ChannelId req \<noteq> '''') (status_Error InvalidArgument ''channel_override'')) (\<lambda>_.
     bindE (refuseE (\<not> ValidKey (rq_TemplateKey req)) (status_Error InvalidArgument ''template_key'')) (\<lambda>_.
     bindE (sumE (caller peer (rq_TenantId req))) (\<lambda>subj.
     bindE (refuseE (bad_to (rq_Recipient req)) malformed) (\<lambda>_.
     bindE (callS keyError (Sender_SendKey ev newID rr1 rr2 subj (fst (ServiceFromSPIFFE (sj_Service subj)))
        \<lparr> ki_Key = rq_TemplateKey req, ki_Recipient = rq_Recipient req, ki_Variables = rq_Variables req,
          ki_CorrelationID = rq_CorrelationId req \<rparr>)) (\<lambda>v.
     returnE (toResponse v))))))"

definition Notifier_Send ::
  "send_env \<Rightarrow> string \<Rightarrow> render_run \<Rightarrow> render_run \<Rightarrow> string option \<Rightarrow> send_request \<Rightarrow> (send_state, status, send_response) op" where
  "Notifier_Send ev newID rr1 rr2 peer req =
     bindE (refuseE ((rq_TemplateId req = '''') = (rq_TemplateKey req = '''')) (status_Error InvalidArgument ''template_ref'')) (\<lambda>_.
     if rq_TemplateKey req \<noteq> '''' then Notifier_sendKey ev newID rr1 rr2 peer req
     else
       bindE (sumE (caller peer (rq_TenantId req))) (\<lambda>subj.
       bindE (refuseE (\<not> uuidRE (rq_TemplateId req) \<or> (rq_ChannelId req \<noteq> '''' \<and> \<not> uuidRE (rq_ChannelId req))
          \<or> bad_to (rq_Recipient req)) malformed) (\<lambda>_.
       bindE (callS grpcError (Sender_Send ev newID rr1 rr2 subj
          \<lparr> si_TemplateID = rq_TemplateId req, si_ChannelID = rq_ChannelId req, si_Recipient = rq_Recipient req,
            si_Variables = rq_Variables req, si_CorrelationID = rq_CorrelationId req \<rparr>)) answer)))"

record test_request =
  tq_TenantId :: string
  tq_ChannelId :: string
  tq_Recipient :: string

definition Notifier_SendTest ::
  "send_env \<Rightarrow> string \<Rightarrow> string option \<Rightarrow> test_request \<Rightarrow> (send_state, status, send_response) op" where
  "Notifier_SendTest ev newID peer req =
     bindE (sumE (caller peer (tq_TenantId req))) (\<lambda>subj.
     bindE (refuseE (\<not> uuidRE (tq_ChannelId req) \<or> bad_to (tq_Recipient req)) malformed) (\<lambda>_.
     bindE (callS grpcError (Sender_SendTest ev newID subj (tq_ChannelId req) (tq_Recipient req) '''')) answer))"

section \<open>Events\<close>

record publish_request =
  pq_TenantId :: string
  pq_UserIds :: "string list"
  pq_All :: bool
  pq_Type :: string
  pq_Data :: string

record events_state =
  es_Hub :: hub
  es_sys :: sys

definition with_hub :: "'a hub_op \<Rightarrow> (events_state, goerr, 'a) op" where
  "with_hub f s = (case f (es_Hub s) of (r, h) \<Rightarrow> (r, s\<lparr>es_Hub := h\<rparr>))"

definition publishError :: "goerr \<Rightarrow> status" where
  "publishError e =
     (if e \<in> {Stream_ErrType, Stream_ErrReserved, Stream_ErrTargets, Stream_ErrPayload}
      then status_Error InvalidArgument (Error_text (\<lambda>_. '''') e)
      else status_Error Unavailable ''temporarily_unavailable'')"

definition published_event :: "subjects \<Rightarrow> string \<Rightarrow> publish_request \<Rightarrow> nat \<Rightarrow> event" where
  "published_event subj i req n = \<lparr> ev_Type = ''event_published'', ev_TenantID = sj_TenantID subj, ev_ActorKind = ''service'',
     ev_ActorID = sj_Service subj, ev_SubjectKind = ''system'', ev_SubjectID = i, ev_Outcome = ''ok'', ev_Reason = '''',
     ev_CorrelationID = '''', ev_Details = [(''type'', VStr (pq_Type req)), (''all'', VBool (pq_All req)), (''users'', VInt (int n))] \<rparr>"

definition Events_Publish ::
  "(string \<Rightarrow> bool) \<Rightarrow> (any \<Rightarrow> string option) \<Rightarrow> string option \<Rightarrow> publish_request \<Rightarrow> (events_state, status, string) op" where
  "Events_Publish valid marshal peer req =
     bindE (sumE (caller peer (pq_TenantId req))) (\<lambda>subj.
     bindE (refuseE (\<not> pq_All req \<and> list_ex (\<lambda>u. \<not> uuidRE u) (pq_UserIds req))
        (status_Error InvalidArgument ''user ids must be uuids'')) (\<lambda>_.
     let ids = (if pq_All req then [] else pq_UserIds req);
         data = (if length (pq_Data req) > 0 then RawData (pq_Data req) else NoData) in
     bindE (callS publishError (with_hub (PublishID valid marshal (sj_TenantID subj) ids (pq_All req) (pq_Type req) data True))) (\<lambda>i.
     bindE (modifyE (\<lambda>s. s\<lparr>es_sys := emit (published_event subj i req (length ids)) (es_sys s)\<rparr>)) (\<lambda>_.
     returnE i))))"

section \<open>Scheduled tasks\<close>

text \<open>The results of the scheduler's package, one constructor per function that makes them.\<close>

datatype task_result =
    Task_OK string "(string \<times> string) list"
  | Task_Retry string
  | Task_Permanent string

record test_email =
  te_Recipient :: string
  te_Subject :: string
  te_Body :: string
  te_ChannelID :: string

record task_request =
  tr_TenantID :: string
  tr_ExecutionID :: string
  tr_Payload :: string

record sched_env =
  sh_ValidTenant :: "string \<Rightarrow> bool"
  sh_DecodeStrict :: "string \<Rightarrow> string + test_email"
  sh_ParseAddress :: "string \<Rightarrow> string option"     \<comment> \<open>the bare address\<close>

text \<open>The bare recipient, or the problem.\<close>

definition validate_task :: "sched_env \<Rightarrow> test_email \<Rightarrow> string + string" where
  "validate_task sh p =
     (if te_Recipient p = '''' then Inl ''recipient is required''
      else case sh_ParseAddress sh (te_Recipient p) of
          None \<Rightarrow> Inl ''recipient must be one email address''
        | Some a \<Rightarrow>
            if length (te_Recipient p) > 320 then Inl ''recipient must be one email address''
            else if te_ChannelID p \<noteq> '''' \<and> \<not> sh_ValidTenant sh (te_ChannelID p) then Inl ''channelId must be a UUID''
            else if RuneCount (te_Subject p) > MaxCustomSubject \<or> ContainsAny (te_Subject p) [CHR 0x0D, CHR 0x0A]
            then Inl ''subject must be one line of at most 200 characters''
            else if RuneCount (te_Body p) > MaxCustomBody then Inl ''body must be at most 10000 characters''
            else Inr a)"

definition task_outcome :: "goerr \<Rightarrow> task_result" where
  "task_outcome e = (case e of
      Notify_Validation msg _ \<Rightarrow> Task_Permanent (''invalid request: '' @ msg)
    | _ \<Rightarrow>
        if errors_Is e Store_ErrNotFound then Task_Permanent ''channel not found in the tenant''
        else if errors_Is e Notify_ErrTypeMismatch then Task_Permanent ''the channel is not an email channel''
        else if errors_Is e Notify_ErrChannelDisabled then Task_Permanent ''the email channel is disabled''
        else if errors_Is e Notify_ErrEmailNotConfigured
        then Task_Permanent ''the tenant has no default email channel; create one in the notification module first''
        else if errors_Is e Notify_ErrRateLimited then Task_Retry ''send rate limit reached; retrying later''
        else Task_Retry ''notification is temporarily unavailable'')"

definition sendTestEmail ::
  "send_env \<Rightarrow> sched_env \<Rightarrow> string \<Rightarrow> string \<Rightarrow> task_request \<Rightarrow> send_state \<Rightarrow> task_result \<times> send_state" where
  "sendTestEmail ev sh actor newID req s =
     (if \<not> sh_ValidTenant sh (tr_TenantID req) then (Task_Permanent ''tenant is required'', s)
      else case sh_DecodeStrict sh (tr_Payload req) of
          Inl m \<Rightarrow> (Task_Permanent m, s)
        | Inr p \<Rightarrow> (case validate_task sh p of
              Inl m \<Rightarrow> (Task_Permanent (''invalid payload: '' @ m), s)
            | Inr recipient \<Rightarrow>
                (case Sender_SendCustom ev newID (ServiceSubjects (tr_TenantID req) actor)
                    \<lparr> cs_ChannelID = te_ChannelID p, cs_Recipient = recipient, cs_Subject = te_Subject p,
                      cs_Body = te_Body p, cs_CorrelationID = tr_ExecutionID req \<rparr> s of
                   (Inl e, s') \<Rightarrow> (task_outcome e, s')
                 | (Inr v, s') \<Rightarrow>
                     if lv_Status v \<noteq> ''sent'' then
                       (let m = ''delivery via channel '' @ lv_ChannelID v @ '' failed: '' @ lv_Error v in
                        (if lv_Retryable v then Task_Retry m else Task_Permanent m, s'))
                     else (Task_OK (''Test email sent to '' @ recipient @ '' via channel '' @ lv_ChannelID v)
                        [(''log_id'', lv_ID v), (''channel_id'', lv_ChannelID v)], s'))))"

end
