(* ===== verification/HttpApi.thy ===== *)
theory HttpApi
  imports Serving Backup AuditQuery
begin

text \<open>
  \<open>internal/httpapi/\<close>: the caller of a request, the mapping of errors to refusals, and the routes as
  functions from a request to a response. What the router, the JSON decoder and the list package give
  is an argument of the route that uses it: the verified identity, the decoded body, the page.
\<close>

section \<open>Refusals (\<open>errors.go\<close>)\<close>

record refusal =
  rf_Status :: int
  rf_Reason :: string

definition ErrUnauthenticated :: refusal where "ErrUnauthenticated = \<lparr> rf_Status = 401, rf_Reason = ''unauthenticated'' \<rparr>"
definition ErrForbidden :: refusal where "ErrForbidden = \<lparr> rf_Status = 403, rf_Reason = ''forbidden'' \<rparr>"
definition ErrNotFound :: refusal where "ErrNotFound = \<lparr> rf_Status = 404, rf_Reason = ''not_found'' \<rparr>"
definition ErrMalformed :: refusal where "ErrMalformed = \<lparr> rf_Status = 400, rf_Reason = ''malformed_body'' \<rparr>"
definition ErrValidation :: refusal where "ErrValidation = \<lparr> rf_Status = 422, rf_Reason = ''validation_failed'' \<rparr>"
definition ErrConflict :: refusal where "ErrConflict = \<lparr> rf_Status = 409, rf_Reason = ''conflict'' \<rparr>"
definition ErrBodyTooLarge :: refusal where "ErrBodyTooLarge = \<lparr> rf_Status = 413, rf_Reason = ''body_too_large'' \<rparr>"
definition ErrRateLimited :: refusal where "ErrRateLimited = \<lparr> rf_Status = 429, rf_Reason = ''rate_limited'' \<rparr>"
definition ErrUnavailable :: refusal where "ErrUnavailable = \<lparr> rf_Status = 503, rf_Reason = ''temporarily_unavailable'' \<rparr>"
definition ErrChannelDisabled :: refusal where "ErrChannelDisabled = \<lparr> rf_Status = 422, rf_Reason = ''channel_disabled'' \<rparr>"
definition ErrNoProvider :: refusal where "ErrNoProvider = \<lparr> rf_Status = 422, rf_Reason = ''no_provider'' \<rparr>"
definition ErrNotImplemented :: refusal where "ErrNotImplemented = \<lparr> rf_Status = 501, rf_Reason = ''not_implemented'' \<rparr>"
definition ErrManagedChannel :: refusal where "ErrManagedChannel = \<lparr> rf_Status = 409, rf_Reason = ''managed_channel'' \<rparr>"
definition ErrSystemTemplate :: refusal where "ErrSystemTemplate = \<lparr> rf_Status = 409, rf_Reason = ''system_template'' \<rparr>"
definition ErrNotSystemTemplate :: refusal where "ErrNotSystemTemplate = \<lparr> rf_Status = 409, rf_Reason = ''not_system_template'' \<rparr>"
definition ErrSystemTemplateField :: refusal where
  "ErrSystemTemplateField = \<lparr> rf_Status = 422, rf_Reason = ''system_template_field'' \<rparr>"
definition ErrMissingRequiredField :: refusal where
  "ErrMissingRequiredField = \<lparr> rf_Status = 422, rf_Reason = ''missing_required_variable'' \<rparr>"

text \<open>An error on its way to a response: a refusal, one with a detail object, or an error of a service.\<close>

datatype failure =
    Refusal refusal
  | DetailError refusal "(string \<times> any) list"
  | Service goerr
  | MaxBytesError

datatype 'v response =
    Reply int 'v
  | NoContent
  | Refused int string
  | RefusedWith int string "(string \<times> any) list"

definition Status :: "failure \<Rightarrow> int \<times> string" where
  "Status err = (case err of
      Refusal e \<Rightarrow> (rf_Status e, rf_Reason e)
    | DetailError e _ \<Rightarrow> (rf_Status e, rf_Reason e)
    | MaxBytesError \<Rightarrow> (rf_Status ErrBodyTooLarge, rf_Reason ErrBodyTooLarge)
    | Service g \<Rightarrow>
        if errors_Is g Store_ErrNotFound then (rf_Status ErrNotFound, rf_Reason ErrNotFound)
        else if errors_Is g Store_ErrConflict then (rf_Status ErrConflict, rf_Reason ErrConflict)
        else (rf_Status ErrUnavailable, rf_Reason ErrUnavailable))"

definition WriteDetail :: "refusal \<Rightarrow> (string \<times> any) list \<Rightarrow> 'v response" where
  "WriteDetail e detail = RefusedWith (rf_Status e) (rf_Reason e) detail"

definition Fail :: "failure \<Rightarrow> 'v response" where
  "Fail err = (case Status err of (status, reason) \<Rightarrow> Refused status reason)"

text \<open>What decoding a body met: a body over the limit, a value that is none, or a value, with more after it or not.\<close>

datatype 'b body = TooLarge | NotDecoded | Decoded 'b bool

definition DecodeJSON :: "'b body \<Rightarrow> failure + 'b" where
  "DecodeJSON b = (case b of
      TooLarge \<Rightarrow> Inl (Refusal ErrBodyTooLarge)
    | NotDecoded \<Rightarrow> Inl (Refusal ErrMalformed)
    | Decoded v trailing \<Rightarrow> if trailing then Inl (Refusal ErrMalformed) else Inr v)"

section \<open>The caller and the errors of the services (\<open>deps.go\<close>, \<open>middleware.go\<close>)\<close>

record identity =
  hi_TenantID :: string
  hi_UserID :: string
  hi_Roles :: "string list"

definition Caller :: "identity option \<Rightarrow> failure + identity" where
  "Caller who = (case who of
      None \<Rightarrow> Inl (Refusal ErrUnauthenticated)
    | Some i \<Rightarrow> if hi_UserID i = '''' \<or> hi_TenantID i = '''' then Inl (Refusal ErrUnauthenticated) else Inr i)"

definition SubjectsOf :: "identity \<Rightarrow> subjects" where
  "SubjectsOf i = \<lparr> sj_TenantID = hi_TenantID i, sj_UserID = hi_UserID i, sj_Roles = hi_Roles i, sj_Service = '''' \<rparr>"

definition subjects_of :: "identity option \<Rightarrow> failure + subjects" where
  "subjects_of who = map_sum id SubjectsOf (Caller who)"

definition hasPermission :: "(string \<Rightarrow> string \<Rightarrow> string \<Rightarrow> bool) option \<Rightarrow> identity option \<Rightarrow> string \<Rightarrow> bool" where
  "hasPermission pc who perm = (case (Caller who, pc) of
      (Inr i, Some has) \<Rightarrow> has (hi_TenantID i) (hi_UserID i) perm
    | _ \<Rightarrow> False)"

definition domainError :: "goerr \<Rightarrow> failure" where
  "domainError e = (case e of
      List_Error p \<Rightarrow> DetailError ErrValidation [(''param'', VStr p)]
    | List_ErrSpan \<Rightarrow> DetailError ErrValidation [(''param'', VStr ''from'')]
    | Notify_MissingRequired v \<Rightarrow> DetailError ErrMissingRequiredField [(''variable'', VStr v)]
    | Notify_ErrSystemTemplate \<Rightarrow> Refusal ErrSystemTemplate
    | Notify_ErrNotSystemTemplate \<Rightarrow> Refusal ErrNotSystemTemplate
    | Notify_ErrSystemTemplateField \<Rightarrow> Refusal ErrSystemTemplateField
    | Notify_Validation _ detail \<Rightarrow> DetailError ErrValidation detail
    | Notify_InUse what n \<Rightarrow> DetailError ErrConflict [(what, VInt (int n))]
    | _ \<Rightarrow>
        if errors_Is e Authz_ErrAboveGranter then DetailError ErrForbidden [(''reason'', VStr ''relation_above_granter'')]
        else if errors_Is e Authz_ErrForbidden then Refusal ErrForbidden
        else if errors_Is e Authz_ErrNotFound \<or> errors_Is e Store_ErrNotFound then Refusal ErrNotFound
        else if errors_Is e Authz_ErrInput then Refusal ErrValidation
        else if errors_Is e Notify_ErrTypeMismatch
        then DetailError ErrValidation [(''field'', VStr ''channel_id''), (''message'', VStr ''channel type differs from the template'')]
        else if errors_Is e Notify_ErrChannelDisabled then Refusal ErrChannelDisabled
        else if errors_Is e Notify_ErrManagedChannel then Refusal ErrManagedChannel
        else if errors_Is e Channel_ErrNoProvider then Refusal ErrNoProvider
        else if errors_Is e Channel_ErrRecipient then DetailError ErrValidation [(''field'', VStr ''recipient'')]
        else if errors_Is e Notify_ErrRateLimited then Refusal ErrRateLimited
        else if errors_Is e Store_ErrConflict then Refusal ErrConflict
        else Service e)"

definition readError :: "goerr \<Rightarrow> failure" where
  "readError e = (if errors_Is e Authz_ErrForbidden then Refusal ErrNotFound else domainError e)"

definition fail :: "failure \<Rightarrow> 'v response" where
  "fail err = (case err of DetailError e detail \<Rightarrow> WriteDetail e detail | _ \<Rightarrow> Fail err)"

definition messageError :: "goerr \<Rightarrow> failure" where
  "messageError e = (case e of
      Messages_Validation _ f \<Rightarrow> DetailError ErrValidation [(''field'', VStr f)]
    | Messages_ErrState \<Rightarrow> DetailError ErrConflict [(''message'', VStr ''not allowed in this status'')]
    | Messages_ErrInUse \<Rightarrow> DetailError ErrConflict [(''messages'', VStr (Error_text (\<lambda>_. '''') e))]
    | Inbox_ErrInput \<Rightarrow> Refusal ErrValidation
    | _ \<Rightarrow> domainError e)"

text \<open>\<open>authenticate\<close>: a protected route is reached with a verified identity only; \<open>verify\<close> is the verifier.\<close>

definition authenticate ::
  "bool \<Rightarrow> (string \<Rightarrow> identity option) option \<Rightarrow> string \<Rightarrow> (identity option \<Rightarrow> 's \<Rightarrow> 'v response \<times> 's) \<Rightarrow> 's \<Rightarrow> 'v response \<times> 's" where
  "authenticate protected verify token route s =
     (if \<not> protected then route None s
      else case verify of
          None \<Rightarrow> (Refused (rf_Status ErrUnauthenticated) (rf_Reason ErrUnauthenticated), s)
        | Some vf \<Rightarrow> (case vf token of
              None \<Rightarrow> (Refused (rf_Status ErrUnauthenticated) (rf_Reason ErrUnauthenticated), s)
            | Some i \<Rightarrow> if hi_UserID i = '''' \<or> hi_TenantID i = ''''
                then (Refused (rf_Status ErrUnauthenticated) (rf_Reason ErrUnauthenticated), s)
                else route (Some i) s))"

section \<open>The shape of a route\<close>

text \<open>
  Every route first asks for the caller, then decodes the body if it has one, then calls the service
  and writes the outcome.
\<close>

definition route ::
  "identity option \<Rightarrow> (goerr \<Rightarrow> failure) \<Rightarrow> (subjects \<Rightarrow> ('s, goerr, 'a) op) \<Rightarrow> ('a \<Rightarrow> 'v response) \<Rightarrow> 's \<Rightarrow> 'v response \<times> 's" where
  "route who mapErr call wr s = (case subjects_of who of
      Inl e \<Rightarrow> (Fail e, s)
    | Inr subj \<Rightarrow> (case call subj s of
          (Inl e, s') \<Rightarrow> (fail (mapErr e), s')
        | (Inr x, s') \<Rightarrow> (wr x, s')))"

definition route_body ::
  "identity option \<Rightarrow> 'b body \<Rightarrow> (goerr \<Rightarrow> failure) \<Rightarrow> (subjects \<Rightarrow> 'b \<Rightarrow> ('s, goerr, 'a) op) \<Rightarrow> ('a \<Rightarrow> 'v response) \<Rightarrow>
     's \<Rightarrow> 'v response \<times> 's" where
  "route_body who b mapErr call wr s = (case subjects_of who of
      Inl e \<Rightarrow> (Fail e, s)
    | Inr _ \<Rightarrow> (case DecodeJSON b of
          Inl e \<Rightarrow> (Fail e, s)
        | Inr v \<Rightarrow> route who mapErr (\<lambda>subj. call subj v) wr s))"

section \<open>Grants and access (\<open>grants.go\<close>)\<close>

definition http_ListGrants :: "identity option \<Rightarrow> string \<Rightarrow> string \<Rightarrow> sys \<Rightarrow> grant_view list response \<times> sys" where
  "http_ListGrants who rt rid = route who domainError (\<lambda>subj. ListGrants subj rt rid) (Reply 200)"

definition http_Grant :: "identity option \<Rightarrow> string \<Rightarrow> grant_input body \<Rightarrow> sys \<Rightarrow> grant_view response \<times> sys" where
  "http_Grant who newID b = route_body who b domainError (Grant newID) (Reply 201)"

definition http_Revoke :: "identity option \<Rightarrow> string \<Rightarrow> sys \<Rightarrow> unit response \<times> sys" where
  "http_Revoke who i = route who domainError (\<lambda>subj. Revoke subj i) (\<lambda>_. NoContent)"

definition http_AccessCheck ::
  "identity option \<Rightarrow> string \<Rightarrow> string \<Rightarrow> string \<Rightarrow> sys \<Rightarrow> (bool \<times> string \<times> permissions) response \<times> sys" where
  "http_AccessCheck who rt rid action = route who domainError (\<lambda>subj. Check subj rt rid action)
     (\<lambda>d. Reply 200 (dc_Allowed d, dc_Relation d, dc_Permissions d))"

definition http_AccessEffective ::
  "identity option \<Rightarrow> string \<Rightarrow> string \<Rightarrow> string \<Rightarrow> string \<Rightarrow> sys \<Rightarrow> (string \<times> permissions \<times> source list) response \<times> sys" where
  "http_AccessEffective who rt rid st si = route who domainError
     (\<lambda>subj. if st \<noteq> '''' \<or> si \<noteq> '''' then EffectiveFor subj rt rid st si else Effective subj rt rid)
     (\<lambda>d. Reply 200 (dc_Relation d, dc_Permissions d, dc_Sources d))"

section \<open>Channels (\<open>channels.go\<close>)\<close>

definition http_CreateChannel ::
  "channels_env \<Rightarrow> draws \<Rightarrow> string \<Rightarrow> string \<Rightarrow> string \<Rightarrow> identity option \<Rightarrow> channel_input body \<Rightarrow> sys \<Rightarrow> channel_view response \<times> sys" where
  "http_CreateChannel ce dr newID gid uid who b =
     route_body who b domainError (Channels_Create ce dr newID gid uid) (Reply 201)"

definition http_GetChannel :: "channels_env \<Rightarrow> identity option \<Rightarrow> string \<Rightarrow> sys \<Rightarrow> channel_view response \<times> sys" where
  "http_GetChannel ce who i = route who readError (\<lambda>subj. Channels_Get ce subj i) (Reply 200)"

definition http_UpdateChannel ::
  "channels_env \<Rightarrow> draws \<Rightarrow> string \<Rightarrow> identity option \<Rightarrow> string \<Rightarrow> channel_input body \<Rightarrow> sys \<Rightarrow> channel_view response \<times> sys" where
  "http_UpdateChannel ce dr uid who i b =
     route_body who b domainError (\<lambda>subj inp. Channels_Update ce dr uid subj i inp) (Reply 200)"

definition http_RemoveChannel :: "identity option \<Rightarrow> string \<Rightarrow> sys \<Rightarrow> unit response \<times> sys" where
  "http_RemoveChannel who i = route who domainError (\<lambda>subj. Channels_Delete subj i) (\<lambda>_. NoContent)"

text \<open>A send whose channel has no provider is a refusal, anything else the log entry.\<close>

definition write_send :: "log_view \<Rightarrow> log_view response" where
  "write_send v = (if no_provider v then fail (Refusal ErrNoProvider) else Reply 200 v)"

definition http_TestChannel ::
  "send_env \<Rightarrow> string \<Rightarrow> identity option \<Rightarrow> string \<Rightarrow> string \<Rightarrow> string body \<Rightarrow> send_state \<Rightarrow> log_view response \<times> send_state" where
  "http_TestChannel ev newID who requestID i b =
     route_body who b domainError (\<lambda>subj recipient. Sender_SendTest ev newID subj i recipient requestID) write_send"

section \<open>Templates (\<open>templates.go\<close>)\<close>

definition http_CreateTemplate ::
  "engine \<Rightarrow> string \<Rightarrow> string \<Rightarrow> identity option \<Rightarrow> template_input body \<Rightarrow> sys \<Rightarrow> template_view response \<times> sys" where
  "http_CreateTemplate en newID gid who b = route_body who b domainError (Templates_Create en newID gid) (Reply 201)"

definition http_GetTemplate :: "identity option \<Rightarrow> string \<Rightarrow> sys \<Rightarrow> template_view response \<times> sys" where
  "http_GetTemplate who i = route who readError (\<lambda>subj. Templates_Get subj i) (Reply 200)"

definition http_UpdateTemplate ::
  "engine \<Rightarrow> identity option \<Rightarrow> string \<Rightarrow> template_input body \<Rightarrow> sys \<Rightarrow> template_view response \<times> sys" where
  "http_UpdateTemplate en who i b = route_body who b domainError (\<lambda>subj inp. Templates_Update en subj i inp) (Reply 200)"

definition http_RemoveTemplate :: "identity option \<Rightarrow> string \<Rightarrow> sys \<Rightarrow> unit response \<times> sys" where
  "http_RemoveTemplate who i = route who domainError (\<lambda>subj. Templates_Delete subj i) (\<lambda>_. NoContent)"

definition http_RestoreTemplate :: "identity option \<Rightarrow> string \<Rightarrow> sys \<Rightarrow> template_view response \<times> sys" where
  "http_RestoreTemplate who i = route who domainError (\<lambda>subj. Templates_Restore subj i) (Reply 200)"

definition http_PreviewTemplate ::
  "engine \<Rightarrow> render_run \<Rightarrow> identity option \<Rightarrow> preview_input body \<Rightarrow> sys \<Rightarrow> (string \<times> string) response \<times> sys" where
  "http_PreviewTemplate en rr who b = route_body who b readError (Templates_Preview en rr) (Reply 200)"

section \<open>Notifications (\<open>notifications.go\<close>)\<close>

definition http_Send ::
  "send_env \<Rightarrow> string \<Rightarrow> render_run \<Rightarrow> render_run \<Rightarrow> identity option \<Rightarrow> string \<Rightarrow> send_input body \<Rightarrow> send_state \<Rightarrow>
     log_view response \<times> send_state" where
  "http_Send ev newID rr1 rr2 who requestID b = route_body who b domainError
     (\<lambda>subj inp. Sender_Send ev newID rr1 rr2 subj (inp\<lparr>si_CorrelationID := requestID\<rparr>)) write_send"

definition http_GetLog ::
  "(string \<Rightarrow> string \<Rightarrow> string \<Rightarrow> bool) option \<Rightarrow> identity option \<Rightarrow> string \<Rightarrow> send_state \<Rightarrow> log_view response \<times> send_state" where
  "http_GetLog pc who i =
     route who domainError (\<lambda>subj. Sender_GetLog subj i (hasPermission pc who ''stats:read'')) (Reply 200)"

section \<open>Categories, messages and the inbox (\<open>messages.go\<close>)\<close>

definition http_CreateCategory :: "string \<Rightarrow> identity option \<Rightarrow> category_input body \<Rightarrow> sys \<Rightarrow> category_view response \<times> sys" where
  "http_CreateCategory newID who b = route_body who b messageError (Messages_CreateCategory newID) (Reply 201)"

definition http_UpdateCategory :: "identity option \<Rightarrow> string \<Rightarrow> category_input body \<Rightarrow> sys \<Rightarrow> category_view response \<times> sys" where
  "http_UpdateCategory who i b = route_body who b messageError (\<lambda>subj inp. Messages_UpdateCategory subj i inp) (Reply 200)"

definition http_RemoveCategory :: "identity option \<Rightarrow> string \<Rightarrow> sys \<Rightarrow> unit response \<times> sys" where
  "http_RemoveCategory who i = route who messageError (\<lambda>subj. Messages_DeleteCategory subj i) (\<lambda>_. NoContent)"

type_synonym checker = "(string \<Rightarrow> string \<Rightarrow> string \<Rightarrow> bool) option"

definition manage :: "checker \<Rightarrow> identity option \<Rightarrow> bool" where
  "manage pc who = hasPermission pc who ''messages:manage''"

definition http_CreateMessage :: "string \<Rightarrow> identity option \<Rightarrow> message_input body \<Rightarrow> sys \<Rightarrow> message_view response \<times> sys" where
  "http_CreateMessage newID who b = route_body who b messageError (Messages_Create newID) (Reply 201)"

definition http_GetMessage :: "checker \<Rightarrow> identity option \<Rightarrow> string \<Rightarrow> sys \<Rightarrow> message_view response \<times> sys" where
  "http_GetMessage pc who i = route who messageError (\<lambda>subj. Messages_Get subj i (manage pc who)) (Reply 200)"

definition http_UpdateMessage :: "checker \<Rightarrow> identity option \<Rightarrow> string \<Rightarrow> message_input body \<Rightarrow> sys \<Rightarrow> message_view response \<times> sys" where
  "http_UpdateMessage pc who i b =
     route_body who b messageError (\<lambda>subj inp. Messages_Update subj i inp (manage pc who)) (Reply 200)"

definition http_SendMessage ::
  "directory \<Rightarrow> (nat \<Rightarrow> string) \<Rightarrow> checker \<Rightarrow> identity option \<Rightarrow> string \<Rightarrow> sys \<Rightarrow> send_result response \<times> sys" where
  "http_SendMessage dir nid pc who i = route who messageError (\<lambda>subj. Messages_Send dir nid subj i (manage pc who)) (Reply 200)"

datatype message_transition = Cancel_it | Revoke_it | Archive_it | Remove_it

definition http_Transition ::
  "message_transition \<Rightarrow> checker \<Rightarrow> identity option \<Rightarrow> string \<Rightarrow> sys \<Rightarrow> message_view response \<times> sys" where
  "http_Transition tr pc who i = (case tr of
      Cancel_it \<Rightarrow> route who messageError (\<lambda>subj. Messages_Cancel subj i (manage pc who)) (Reply 200)
    | Revoke_it \<Rightarrow> route who messageError (\<lambda>subj. Messages_Revoke subj i (manage pc who)) (Reply 200)
    | Archive_it \<Rightarrow> route who messageError (\<lambda>subj. Messages_Archive subj i (manage pc who)) (Reply 200)
    | Remove_it \<Rightarrow> route who messageError (\<lambda>subj. Messages_Delete subj i (manage pc who)) (\<lambda>_. NoContent))"

definition http_Recipients ::
  "checker \<Rightarrow> identity option \<Rightarrow> string \<Rightarrow> string \<Rightarrow> string \<Rightarrow> int \<Rightarrow> sys \<Rightarrow> (recipient_view list \<times> string) response \<times> sys" where
  "http_Recipients pc who i status cursor limit =
     route who messageError (\<lambda>subj. Messages_Recipients subj i status cursor limit (manage pc who)) (Reply 200)"

definition http_Inbox ::
  "(time \<Rightarrow> string) \<Rightarrow> (string \<Rightarrow> time option) \<Rightarrow> identity option \<Rightarrow> string \<Rightarrow> string \<Rightarrow> int \<Rightarrow> sys \<Rightarrow> inbox_page response \<times> sys" where
  "http_Inbox fmt prs who status cursor limit =
     route who messageError (\<lambda>subj. Inbox_List fmt prs subj status cursor limit) (Reply 200)"

definition http_Unread :: "identity option \<Rightarrow> sys \<Rightarrow> int response \<times> sys" where
  "http_Unread who = route who messageError Inbox_Unread (Reply 200)"

definition http_ReadEntry :: "identity option \<Rightarrow> string \<Rightarrow> sys \<Rightarrow> entry_view response \<times> sys" where
  "http_ReadEntry who i = route who messageError (\<lambda>subj. Inbox_Read subj i) (Reply 200)"

definition http_InboxStatus :: "identity option \<Rightarrow> (string list \<times> string) body \<Rightarrow> sys \<Rightarrow> (int \<times> int) response \<times> sys" where
  "http_InboxStatus who b = route_body who b messageError (\<lambda>subj (ids, status). Inbox_SetStatus subj ids status) (Reply 200)"

definition http_InboxRemove :: "identity option \<Rightarrow> string list body \<Rightarrow> sys \<Rightarrow> (int \<times> int) response \<times> sys" where
  "http_InboxRemove who b = route_body who b messageError Inbox_Remove (Reply 200)"

section \<open>Operations (\<open>ops.go\<close>) and the stream (\<open>stream.go\<close>)\<close>

text \<open>An export without a body asks for no credentials.\<close>

definition http_Export :: "channels_env \<Rightarrow> identity option \<Rightarrow> bool body option \<Rightarrow> sys \<Rightarrow> document response \<times> sys" where
  "http_Export ce who b = (case b of
      None \<Rightarrow> route who domainError (\<lambda>subj. Export ce subj False) (Reply 200)
    | Some v \<Rightarrow> route_body who v domainError (Export ce) (Reply 200))"

text \<open>\<open>raw\<close> is the body as read, \<open>None\<close> when reading failed other than by its size.\<close>

definition http_Import ::
  "import_env \<Rightarrow> json_env \<Rightarrow> import_draws \<Rightarrow> int \<Rightarrow> identity option \<Rightarrow> string option \<Rightarrow> string \<Rightarrow> sys \<Rightarrow> report response \<times> sys" where
  "http_Import ie js ids maxBytes who raw mode s = (case subjects_of who of
      Inl e \<Rightarrow> (Fail e, s)
    | Inr subj \<Rightarrow>
        let limit = (if maxBytes \<le> 0 then int MaxBytes else maxBytes) in
        case raw of
          None \<Rightarrow> (Fail (Refusal ErrMalformed), s)
        | Some b \<Rightarrow>
            if int (length b) > limit then (Fail (Refusal ErrBodyTooLarge), s)
            else (case DecodeBounded js b of
                Inl e \<Rightarrow> if e = Transfer_ErrTooLarge then (Fail (Refusal ErrBodyTooLarge), s)
                  else (WriteDetail ErrValidation [(''message'', VStr (Error_text (\<lambda>_. '''') e))], s)
              | Inr doc \<Rightarrow>
                  (case Import ie ids subj doc (if mode = '''' then ''skip'' else mode) s of
                     (Inl e, s') \<Rightarrow> if errors_Is e Transfer_ErrMode then (Fail (Refusal ErrValidation), s')
                       else (fail (domainError e), s')
                   | (Inr rep, s') \<Rightarrow> (Reply 200 rep, s'))))"

definition http_Stats :: "int option \<Rightarrow> identity option \<Rightarrow> sys \<Rightarrow> stats_view response \<times> sys" where
  "http_Stats streams who = route who domainError (\<lambda>subj. Stats_Counts streams (sj_TenantID subj)) (Reply 200)"

definition auditErr :: "goerr \<Rightarrow> failure" where
  "auditErr e = (if errors_Is e Audit_ErrFilter then Refusal ErrValidation else domainError e)"

text \<open>The stream is opened by its owner; the answer is the number of the subscription the events come from.\<close>

definition stream_event_of :: "string \<Rightarrow> identity \<Rightarrow> string \<Rightarrow> string \<Rightarrow> string \<Rightarrow> event" where
  "stream_event_of typ i outcome reason corr = \<lparr> ev_Type = typ, ev_TenantID = hi_TenantID i, ev_ActorKind = ''user'',
     ev_ActorID = hi_UserID i, ev_SubjectKind = ''system'', ev_SubjectID = '''', ev_Outcome = outcome, ev_Reason = reason,
     ev_CorrelationID = corr, ev_Details = [] \<rparr>"

definition http_Stream :: "identity option \<Rightarrow> string \<Rightarrow> string \<Rightarrow> events_state \<Rightarrow> nat response \<times> events_state" where
  "http_Stream who lastID requestID s = (case Caller who of
      Inl e \<Rightarrow> (Fail e, s)
    | Inr i \<Rightarrow> (case with_hub (Subscribe (hi_TenantID i) (hi_UserID i) lastID) s of
          (Inl e, s') \<Rightarrow>
            if errors_Is e Stream_ErrTooMany
            then (Fail (Refusal ErrRateLimited),
              s'\<lparr>es_sys := emit (stream_event_of ''stream_refused'' i ''refused'' ''too_many_streams'' '''') (es_sys s')\<rparr>)
            else (Fail (Service e), s')
        | (Inr sub, s') \<Rightarrow>
            (Reply 200 sub, s'\<lparr>es_sys := emit (stream_event_of ''stream_opened'' i ''ok'' '''' requestID) (es_sys s')\<rparr>)))"

section \<open>Lists (\<open>lists.go\<close>)\<close>

text \<open>
  One list request: the old cursor style when there is one and the query uses it, with the total from
  a page of one row, or a page on the list contract. \<open>old_style\<close> and \<open>req\<close> are what the list package
  makes of the query, \<open>one_row\<close> its request for one row.
\<close>

datatype ('v, 'p) list_body = Legacy_Page "'v list" string int | Contract_Page 'p

definition failParam :: "goerr \<Rightarrow> 'v response" where
  "failParam e = WriteDetail ErrValidation [(''param'', VStr (case e of List_Error p \<Rightarrow> p | List_ErrSpan \<Rightarrow> ''from'' | _ \<Rightarrow> ''page''))]"

definition serveList ::
  "bool \<Rightarrow> 'q \<Rightarrow> goerr + 'q \<Rightarrow> ('p \<Rightarrow> int) \<Rightarrow> (goerr \<Rightarrow> failure) \<Rightarrow> ('s, goerr, 'v list \<times> string) op option \<Rightarrow>
     ('q \<Rightarrow> ('s, goerr, 'p) op) \<Rightarrow> 's \<Rightarrow> ('v, 'p) list_body response \<times> 's" where
  "serveList old_style one_row req count_of mapErr legacy paged s = (case (if old_style then legacy else None) of
      Some old \<Rightarrow> (case old s of
          (Inl e, s1) \<Rightarrow> (fail (mapErr e), s1)
        | (Inr (items, nxt), s1) \<Rightarrow> (case paged one_row s1 of
              (Inl e, s2) \<Rightarrow> (fail (mapErr e), s2)
            | (Inr one, s2) \<Rightarrow> (Reply 200 (Legacy_Page items nxt (count_of one)), s2)))
    | None \<Rightarrow> (case req of
          Inl e \<Rightarrow> (failParam e, s)
        | Inr r \<Rightarrow> (case paged r s of
              (Inl e, s1) \<Rightarrow> (fail (mapErr e), s1)
            | (Inr pg, s1) \<Rightarrow> (Reply 200 (Contract_Page pg), s1))))"

definition timeParam :: "(string \<Rightarrow> time option) \<Rightarrow> string \<Rightarrow> string \<Rightarrow> goerr + time" where
  "timeParam prs name v = (if v = '''' then Inr 0 else case prs v of None \<Rightarrow> Inl (List_Error name) | Some t \<Rightarrow> Inr t)"

definition window_params :: "(string \<Rightarrow> time option) \<Rightarrow> string \<Rightarrow> string \<Rightarrow> goerr + (time \<times> time)" where
  "window_params prs vfrom vto = (case timeParam prs ''from'' vfrom of
      Inl e \<Rightarrow> Inl e
    | Inr f \<Rightarrow> (case timeParam prs ''to'' vto of Inl e \<Rightarrow> Inl e | Inr t \<Rightarrow> Inr (f, t)))"

end
