(* ===== verification/HttpLaws.thy ===== *)
theory HttpLaws
  imports HttpApi SendLaws
begin

text \<open>
  What the HTTP interface adds to the services: nothing without a caller, no id whose existence leaks,
  and no text of an inner error in a response.
\<close>

section \<open>The caller\<close>

lemma subjects_of_Some:
  "hi_UserID i \<noteq> '''' \<Longrightarrow> hi_TenantID i \<noteq> '''' \<Longrightarrow> subjects_of (Some i) = Inr (SubjectsOf i)"
  by (simp add: subjects_of_def Caller_def)

lemma no_caller: "subjects_of None = Inl (Refusal ErrUnauthenticated)"
  by (simp add: subjects_of_def Caller_def)

lemma route_no_caller:
  "route None mapErr call wr s = (Refused 401 ''unauthenticated'', s)"
  "route_body None b mapErr call' wr s = (Refused 401 ''unauthenticated'', s)"
  by (simp_all add: route_def route_body_def no_caller Fail_def Status_def ErrUnauthenticated_def)

section \<open>Reads hide what the caller may not see\<close>

lemma Require_cases:
  assumes "healthy (db y)" and "ValidPermission perm" and "ValidResourceType rt"
  shows "if located (db y) (sj_TenantID s) rt i
    then if holds (db y) s rt i perm then \<exists>d. Require s rt i perm y = (Inr d, y)
      else Require s rt i perm y = (Inl Authz_ErrForbidden, emit (refusal s rt i perm) y)
    else Require s rt i perm y = (Inl Authz_ErrNotFound, y)"
proof (cases "located (db y) (sj_TenantID s) rt i")
  case True
  from Check_healthy [OF assms True] obtain d y' where c: "Check s rt i perm y = (Inr d, y')" by blast
  with Check_Inr(4,5) [OF c] True show ?thesis
    by (auto simp: Require_def bindE_def refuseE_def returnE_def)
next
  case False
  then show ?thesis
    using assms by (simp add: Require_def Check_def refuseE_def bindE_def locate_healthy)
qed

lemma reading_valid: "ValidPermission Read" "ValidResourceType Channel" "ValidResourceType Template"
  by (simp_all add: ValidPermission_def ValidResourceType_def action_defs kind_defs)

lemma readError_hides:
  "fail (readError Authz_ErrForbidden) = Refused 404 ''not_found''" "fail (readError Authz_ErrNotFound) = Refused 404 ''not_found''"
  by (simp_all add: readError_def domainError_def fail_def Fail_def Status_def ErrNotFound_def errors_Is_def)

text \<open>
  C14. Reading one channel or one template over HTTP answers with it exactly when it belongs to the
  caller's tenant and the caller may read it. In every other case, whether it does not exist, belongs
  to another tenant or may not be read, the answer is the same refusal, so that ids reveal nothing.
  Neither route changes the store.
\<close>

theorem http_read_hides:
  assumes "healthy (db y)" and "hi_UserID i \<noteq> ''''" and "hi_TenantID i \<noteq> ''''"
  shows "(if located (db y) (hi_TenantID i) Channel cid \<and> holds (db y) (SubjectsOf i) Channel cid Read
      then \<exists>v. http_GetChannel ce (Some i) cid y = (Reply 200 v, y) \<and> cw_Settings v = redacted ce (the (map_of (Channels (db y)) cid))
      else fst (http_GetChannel ce (Some i) cid y) = Refused 404 ''not_found'') \<and>
    (if located (db y) (hi_TenantID i) Template tid \<and> holds (db y) (SubjectsOf i) Template tid Read
      then \<exists>v. http_GetTemplate (Some i) tid y = (Reply 200 v, y) \<and> tw_Body v = tp_Body (the (map_of (Templates (db y)) tid))
      else fst (http_GetTemplate (Some i) tid y) = Refused 404 ''not_found'') \<and>
    db (snd (http_GetChannel ce (Some i) cid y)) = db y \<and> db (snd (http_GetTemplate (Some i) tid y)) = db y"
proof -
  let ?s = "SubjectsOf i"
  have t: "sj_TenantID ?s = hi_TenantID i" by (simp add: SubjectsOf_def)
  note run = route_def subjects_of_Some [OF assms(2,3)] bindE_def with_db_def returnE_def t
  note rc = Require_cases [OF assms(1) reading_valid(1) reading_valid(2), of ?s cid]
  note rt = Require_cases [OF assms(1) reading_valid(1) reading_valid(3), of ?s tid]
  have ch: "(if located (db y) (hi_TenantID i) Channel cid \<and> holds (db y) ?s Channel cid Read
      then \<exists>v. http_GetChannel ce (Some i) cid y = (Reply 200 v, y) \<and> cw_Settings v = redacted ce (the (map_of (Channels (db y)) cid))
      else fst (http_GetChannel ce (Some i) cid y) = Refused 404 ''not_found'') \<and> db (snd (http_GetChannel ce (Some i) cid y)) = db y"
  proof (cases "located (db y) (hi_TenantID i) Channel cid \<and> holds (db y) ?s Channel cid Read")
    case True
    then obtain d c where "Require ?s Channel cid Read y = (Inr d, y)" "map_of (Channels (db y)) cid = Some c" "ch_TenantID c = hi_TenantID i"
      using rc by (auto simp: t located_def split: option.splits)
    with True assms(1) show ?thesis
      by (simp add: http_GetChannel_def Channels_Get_def run GetChannel_def channelView_def redacted_def Let_def)
  next
    case False
    with rc show ?thesis
      by (auto simp: http_GetChannel_def Channels_Get_def run readError_hides split: if_splits)
  qed
  have "(if located (db y) (hi_TenantID i) Template tid \<and> holds (db y) ?s Template tid Read
      then \<exists>v. http_GetTemplate (Some i) tid y = (Reply 200 v, y) \<and> tw_Body v = tp_Body (the (map_of (Templates (db y)) tid))
      else fst (http_GetTemplate (Some i) tid y) = Refused 404 ''not_found'') \<and> db (snd (http_GetTemplate (Some i) tid y)) = db y"
  proof (cases "located (db y) (hi_TenantID i) Template tid \<and> holds (db y) ?s Template tid Read")
    case True
    then obtain d c where "Require ?s Template tid Read y = (Inr d, y)" "map_of (Templates (db y)) tid = Some c" "tp_TenantID c = hi_TenantID i"
      using rt by (auto simp: t located_def kind_defs split: option.splits)
    with True assms(1) show ?thesis
      by (simp add: http_GetTemplate_def Templates_Get_def run GetTemplate_def templateView_def decorate_def Let_def split: option.splits)
  next
    case False
    with rt show ?thesis
      by (auto simp: http_GetTemplate_def Templates_Get_def run readError_hides split: if_splits)
  qed
  with ch show ?thesis by blast
qed

definition person :: "string \<Rightarrow> identity" where
  "person u = \<lparr> hi_TenantID = ''t1'', hi_UserID = u, hi_Roles = [] \<rparr>"

lemma person_holds:
  "holds (db sample_sys) (SubjectsOf (person ''ada'')) Channel ''c1'' Read"
  "\<not> holds (db sample_sys) (SubjectsOf (person ''bob'')) Channel ''c1'' Read"
proof -
  have "SubjectsOf (person ''ada'') = ada\<lparr>sj_Roles := []\<rparr>" "SubjectsOf (person ''bob'') = bob"
    by (simp_all add: SubjectsOf_def person_def ada_def bob_def)
  moreover have "holds (db sample_sys) (ada\<lparr>sj_Roles := []\<rparr>) Channel ''c1'' Read"
    by (auto simp: holds_def applies_def matches_def expired_at_def IsAdmin_def AdminRoles_def
      ada_def sample_sys_def sample_store_eval rows_def sample_defs kind_defs relation_defs Has_def Of_def action_defs)
  ultimately show "holds (db sample_sys) (SubjectsOf (person ''ada'')) Channel ''c1'' Read"
    "\<not> holds (db sample_sys) (SubjectsOf (person ''bob'')) Channel ''c1'' Read"
    using sample_holds(3) by (simp_all add: kind_defs)
qed

theorem http_read_hides_witness:
  "(\<exists>v. fst (http_GetChannel toy_channels (Some (person ''ada'')) ''c1'' sample_sys) = Reply 200 v) \<and>
   fst (http_GetChannel toy_channels (Some (person ''bob'')) ''c1'' sample_sys) = Refused 404 ''not_found'' \<and>
   fst (http_GetChannel toy_channels (Some (person ''ada'')) ''none'' sample_sys) = Refused 404 ''not_found''"
proof -
  have p: "hi_UserID (person u) = u" "hi_TenantID (person u) = ''t1''" for u by (simp_all add: person_def)
  have l: "located (db sample_sys) ''t1'' Channel ''c1''" "\<not> located (db sample_sys) ''t1'' Channel ''none''"
    using sample_holds(1) by (simp_all add: kind_defs located_def sample_sys_def sample_store_eval)
  note h = http_read_hides [where ce = toy_channels and tid = "''x''", OF sample_healthy]
  show ?thesis
    using h [of "person ''ada''" "''c1''"] h [of "person ''bob''" "''c1''"] h [of "person ''ada''" "''none''"] person_holds l
    by (auto simp: p)
qed

section \<open>Errors\<close>

text \<open>The statuses and reasons of the contract.\<close>

definition vocabulary :: "(int \<times> string) list" where
  "vocabulary = map (\<lambda>e. (rf_Status e, rf_Reason e)) [ErrUnauthenticated, ErrForbidden, ErrNotFound, ErrMalformed, ErrValidation,
     ErrConflict, ErrBodyTooLarge, ErrRateLimited, ErrUnavailable, ErrChannelDisabled, ErrNoProvider, ErrNotImplemented,
     ErrManagedChannel, ErrSystemTemplate, ErrNotSystemTemplate, ErrSystemTemplateField, ErrMissingRequiredField]"

definition refused_with :: "'v response \<Rightarrow> (int \<times> string) option" where
  "refused_with r = (case r of Refused s t \<Rightarrow> Some (s, t) | RefusedWith s t _ \<Rightarrow> Some (s, t) | _ \<Rightarrow> None)"

text \<open>Errors made outside the service, whose text could say anything, and errors of the sealing and of configuration.\<close>

definition inner :: "goerr \<Rightarrow> bool" where
  "inner e \<longleftrightarrow> (case e of Outside_Err _ \<Rightarrow> True | Audit_Err _ \<Rightarrow> True | Config_Err _ \<Rightarrow> True | Transfer_ErrInvalid _ \<Rightarrow> True
     | Sealed_ErrKEK \<Rightarrow> True | Sealed_ErrTampered \<Rightarrow> True | Sealed_ErrTooLarge \<Rightarrow> True | _ \<Rightarrow> False)"



end
