(* ===== verification/Spec2Isabelle.thy ===== *)
theory Spec2Isabelle
  imports MessageRuns AuditQuery StreamHub NamePages TemplatesLaws Startup Config BackupLaws HttpLaws
begin

text \<open>
  \<^bold>\<open>The notification service.\<close>

  The program is a multi-tenant notification service in Go. A tenant's staff keep channels and
  templates, send notifications through them, and write internal messages; people read the
  messages in their inbox and are told of new ones over a server-sent event stream. Other services
  send system templates and publish events over gRPC, a scheduler runs a test task. All calls go
  through a permission check, all rows live in a store keyed by tenant, and every change leaves
  an audit event. File names below are under \<open>src/\<close>.

  \<^bold>\<open>Foundations.\<close>

  \<^item> \<open>Prelude\<close>: list, option and string lemmas, the operations on tables of rows, the monad of
    fallible state operations (\<open>bindE\<close>, \<open>keeps\<close>), the named collections of simplification rules.
  \<^item> \<open>Models\<close> (\<open>internal/store/models.go\<close>, \<open>lists.go\<close>): one record per table, the errors of the
    service as the datatype \<open>goerr\<close>, results as \<open>goerr + 'a\<close>, the time windows and the listing
    restriction. Times are nanoseconds since Go's zero time as \<open>int\<close>; the zero time is 0.
  \<^item> \<open>Sys\<close>: the state of the running service as one record: store, audit writer and live events.
  \<^item> \<open>ErrTexts\<close>: the texts of the errors, one function per declaring package.
  \<^item> \<open>AuditTrail\<close>, \<open>AuditQuery\<close> (\<open>internal/audit/\<close>, \<open>internal/stats/stats.go\<close>): the vocabulary of
    events, the guard that refuses credentials and content in details at any depth, the batch writer
    as a step relation between callers and goroutine, the cursor listing and the statistics.
  \<^item> \<open>Memstore\<close>, \<open>MemMessages\<close> (\<open>internal/memstore/memstore.go\<close>): the in-memory implementation of
    the store interface, every operation on every table with its failure injection; \<open>Atomic\<close>
    restores the tables on an error. \<open>StoreLaws\<close> has the invariant of the tables (unique indexes,
    references, statuses), its preservation by every call, and what a call may touch.

  \<^bold>\<open>Access.\<close> \<open>Authz\<close> (\<open>internal/authz/\<close>): permissions, relations, the decision, the listing
  restriction and the management of grants, against the specification \<open>holds\<close> of who may do what.

  \<^bold>\<open>Channels, templates and sending.\<close>

  \<^item> \<open>Sealed\<close> (\<open>internal/sealed/sealed.go\<close>): sealed settings, redaction, merge, scrubbing.
  \<^item> \<open>Rendering\<close> (\<open>internal/render/\<close>), with \<open>Marking\<close> for the lemmas on marked secrets: parsing,
    validation, bounded rendering and the redacted second render.
  \<^item> \<open>Providers\<close> (\<open>internal/channel/\<close>): the registry, the email settings, the conversation with the
    relay as a sequence of actions, and the classification of failures.
  \<^item> \<open>ChannelsSvc\<close>, \<open>TemplatesSvc\<close>, \<open>SendSvc\<close> (\<open>internal/notify/\<close>): all operations on channels and
    templates, the managed channel, the seeding of system templates, and the send pipeline.
  \<^item> \<open>SendLaws\<close>: what sends leave behind, who may send what, what the log shows. \<open>ChannelsLaws\<close>: settings
    come back as they went in, the managed channel is out of reach. \<open>ChannelsRefine\<close>: the service
    refines an abstract vault of clear settings. \<open>TemplatesLaws\<close>: system templates. \<open>NamePages\<close>: the
    listings by name, through the locale \<open>name_pages\<close>. \<open>Rotation\<close> (\<open>internal/app/rotate.go\<close>): changing
    the key. \<open>Config\<close> (\<open>internal/config/config.go\<close>, \<open>internal/app/systememail.go\<close>): the configuration
    and the preparation of central email; \<open>Startup\<close>: the managed channel across starts.

  \<^bold>\<open>Messages and inbox.\<close> \<open>MessagesSvc\<close>, \<open>MessagesLaws\<close> (\<open>internal/messages/\<close>): categories, messages,
  publication, the directory of recipients and the scheduler. \<open>InboxSvc\<close> (\<open>internal/inbox/inbox.go\<close>): the
  reader's side. \<open>Lifecycle\<close>, \<open>MessageRuns\<close>: runs of all operations in any order, with reachability of
  statuses. \<open>Paging\<close>: cursors and pages; the locale \<open>cursor_pages\<close> proves once that following the
  cursors lists everything once, and is interpreted for the inbox, the messages and the audit trail.

  \<^bold>\<open>Live events.\<close> \<open>StreamClient\<close>, \<open>StreamHub\<close> (\<open>internal/stream/\<close>): stream ids, the in-process client, the
  rate limiter, the hub with its goroutines as turns of a step relation, and the frames of the event
  stream.

  \<^bold>\<open>Backup.\<close> \<open>Backup\<close>, \<open>BackupLaws\<close> (\<open>internal/transfer/backup.go\<close>): export, bounded decoding, import item by
  item.

  \<^bold>\<open>Interfaces.\<close> \<open>Serving\<close> (\<open>internal/grpcapi/\<close>, \<open>internal/taskexec/taskexec.go\<close>): the gRPC services and the
  scheduled task. \<open>HttpApi\<close>, \<open>HttpLaws\<close> (\<open>internal/httpapi/\<close>): the routes as functions from caller,
  parameters and decoded body to a response, the mapping of errors to refusals.

  \<^bold>\<open>Parameters.\<close> Code outside the repository, and what a run draws from outside, is an argument of the
  definitions that use it: the authenticated cipher (laws \<open>aead_correct\<close>, \<open>aead_authentic\<close>), JSON
  marshalling (\<open>reads_back\<close>) and the schema check, the template engines, the parser of mail addresses,
  the relay's answers and the assembly of the MIME message, the formatting and parsing of times, the
  user directory's client, the scheduler SDK's checks, the verifier of tokens and the peer identity, the
  file system and the YAML decoder, the framework's configuration, the clock inside a render, random
  identifiers, keys and nonces, the listing of all channels across tenants, and the built-in wording of
  the system templates.

  \<^bold>\<open>Termination and fuel.\<close> Every function is total. The listings by name run a loop over pages of the
  store with the number of rows plus one as fuel; \<open>NamePages\<close> shows that from there on more fuel makes
  no difference and that the loop has returned the whole page. The walks of \<open>Paging\<close> take the number of
  rounds a client makes, and their properties hold for every number above that of the rows. The
  goroutines' endless loops are turns of step relations.

  \<^bold>\<open>Integers.\<close> Go's integers are \<open>int\<close> or \<open>nat\<close> where only comparisons and small counts are made; the
  durations of the configuration and the permission bits of files are words.

  \<^bold>\<open>Not modelled.\<close> The SQL store and the database adapters (statements executed elsewhere; the in-memory
  store is the executable model of the same interface), the list contract of the third-party package and
  the list routes that run it, the check of requests against the OpenAPI document, the mounting of
  routes and the wiring of the process, logging, the functions templates may call, the MIME assembly,
  the client library and generated code. The manifest of components gives the reason for each.
\<close>

end
